(* ===== verification/Prelude.thy ===== *)
theory Prelude
  imports Main "HOL-Library.Word"
begin

text \<open>
  Vocabulary shared by every component: Go strings and byte slices, errors, durations, the
  wrap-around of \<open>int64\<close>, panics, and the interface that several components share, an
  encoder with its decoder.

  A Go string is a sequence of bytes, and so is an Isabelle \<^typ>\<open>string\<close> (a list of
  8-bit characters); a \<open>[]byte\<close> is modelled by the same type, so that the conversions
  \<open>[]byte(s)\<close> and \<open>string(b)\<close> are the identity. A nil slice and an empty one are not
  distinguished, because the code only looks at their length.
\<close>

named_theorems go_lib \<open>facts on the Go standard library that automation may use\<close>
named_theorems frame \<open>which fields an operation leaves alone\<close>

type_synonym gostring = string
type_synonym bytes = string
type_synonym duration = int

section \<open>Errors and panics\<close>

text \<open>
  Go errors as values. \<open>Sentinel pkg text\<close> is a package-level \<open>errors.New\<close> variable,
  compared by identity (hence the package); \<open>Msg\<close> an error created on the spot;
  \<open>Wrap\<close> the result of \<open>fmt.Errorf("text: %w", e)\<close>; \<open>Canceled\<close> and
  \<open>DeadlineExceeded\<close> the two context errors; \<open>DNSError\<close> a \<open>*net.DNSError\<close> with its
  \<open>IsNotFound\<close> flag; \<open>Foreign\<close> an error made by a library outside the repository.
\<close>

datatype goerr =
    Sentinel string string
  | Msg string
  | Wrap string goerr
  | Canceled
  | DeadlineExceeded
  | DNSError bool string
  | Foreign string

fun error_text :: "goerr \<Rightarrow> string" where
  "error_text (Sentinel p t) = t"
| "error_text (Msg t) = t"
| "error_text (Wrap t e) = t @ '': '' @ error_text e"
| "error_text Canceled = ''context canceled''"
| "error_text DeadlineExceeded = ''context deadline exceeded''"
| "error_text (DNSError b t) = t"
| "error_text (Foreign t) = t"

text \<open>The chain that \<open>errors.As\<close> walks: the error and what it wraps.\<close>

fun as_dns_error :: "goerr \<Rightarrow> (bool \<times> string) option" where
  "as_dns_error (DNSError b t) = Some (b, t)"
| "as_dns_error (Wrap t e) = as_dns_error e"
| "as_dns_error _ = None"

datatype panic = CloseOfClosedChannel | CloseOfNilChannel | NilDereference | SliceOutOfRange

section \<open>Durations\<close>

text \<open>\<open>time.Duration\<close> is an \<open>int64\<close> count of nanoseconds; products wrap around.\<close>

definition int64 :: "int \<Rightarrow> int" where
  "int64 x = (x + 2 ^ 63) mod 2 ^ 64 - 2 ^ 63"

definition in_int64 :: "int \<Rightarrow> bool" where
  "in_int64 x \<longleftrightarrow> - (2 ^ 63) \<le> x \<and> x < 2 ^ 63"

lemma int64_id [simp]: "in_int64 x \<Longrightarrow> int64 x = x"
  by (simp add: int64_def in_int64_def)

lemma int64_in_range [simp]: "in_int64 (int64 x)"
  by (simp add: int64_def in_int64_def)

definition nanosecond :: duration where "nanosecond = 1"
definition millisecond :: duration where "millisecond = 1000000"
definition second :: duration where "second = 1000000000"

lemmas duration_units = nanosecond_def millisecond_def second_def

text \<open>Integer division of Go truncates towards zero.\<close>

definition go_div :: "int \<Rightarrow> int \<Rightarrow> int" where
  "go_div a b = sgn a * sgn b * (\<bar>a\<bar> div \<bar>b\<bar>)"

section \<open>Lists\<close>

lemma fold_invariant:
  assumes "P a" and "\<And>x b. x \<in> set xs \<Longrightarrow> P b \<Longrightarrow> P (f x b)"
  shows "P (fold f xs a)"
  using assms by (induction xs arbitrary: a) auto

lemma find_SomeD: "List.find P xs = Some x \<Longrightarrow> x \<in> set xs \<and> P x"
  by (induction xs) (auto split: if_splits)

lemma find_NoneD: "List.find P xs = None \<Longrightarrow> x \<in> set xs \<Longrightarrow> \<not> P x"
  by (induction xs) (auto split: if_splits)

lemma find_distinct_key:
  assumes "distinct (map k xs)" and "x \<in> set xs"
  shows "List.find (\<lambda>y. k y = k x) xs = Some x"
  using assms by (induction xs) (force simp: rev_image_eqI)+

section \<open>Interface: an encoder and its decoder\<close>

text \<open>
  What two ends of a wire agree on. \<open>enc\<close> is the sender's side, \<open>dec\<close> the receiver's;
  \<open>view\<close> is the part of the sender's value that the message is meant to carry, and
  \<open>valid\<close> the values for which the format can carry it.
\<close>

locale codec =
  fixes enc :: "'a \<Rightarrow> 'b"
    and dec :: "'b \<Rightarrow> 'v"
    and view :: "'a \<Rightarrow> 'v"
    and valid :: "'a \<Rightarrow> bool"
  assumes dec_enc: "valid x \<Longrightarrow> dec (enc x) = view x"
begin

lemma enc_determines_view:
  assumes "valid x" and "valid y" and "enc x = enc y"
  shows "view x = view y"
proof -
  have "view x = dec (enc x)" using assms(1) by (simp add: dec_enc)
  also have "\<dots> = dec (enc y)" using assms(3) by simp
  also have "\<dots> = view y" using assms(2) by (rule dec_enc)
  finally show ?thesis .
qed

lemma dec_enc_all: "list_all valid xs \<Longrightarrow> map dec (map enc xs) = map view xs"
  by (induction xs) (simp_all add: dec_enc)

end

locale lossless_codec = codec +
  assumes view_inj: "valid x \<Longrightarrow> valid y \<Longrightarrow> view x = view y \<Longrightarrow> x = y"
begin

lemma enc_inj: "inj_on enc {x. valid x}"
  by (rule inj_onI) (auto intro: view_inj enc_determines_view)

lemma enc_eq_iff: "valid x \<Longrightarrow> valid y \<Longrightarrow> enc x = enc y \<longleftrightarrow> x = y"
  using enc_inj by (auto dest: inj_onD)

end

end
