(* ===== verification/GoStrings.thy ===== *)
theory GoStrings
  imports Prelude
begin

text \<open>
  The functions of Go's packages \<open>strings\<close>, \<open>strconv\<close>, \<open>fmt\<close> and \<open>net\<close> that the
  program calls on strings, as functions on byte lists: prefixes and suffixes, splitting at a
  one-byte separator, trimming white space (with the UTF-8 encodings of the Unicode spaces),
  decimal printing and parsing, and the host/port functions. Each follows the documented
  behaviour of the library, errors included.
\<close>

section \<open>Prefixes and suffixes\<close>

definition hasPrefix :: "string \<Rightarrow> string \<Rightarrow> bool" where
  "hasPrefix s p \<longleftrightarrow> take (length p) s = p"

definition trimPrefix :: "string \<Rightarrow> string \<Rightarrow> string" where
  "trimPrefix s p = (if hasPrefix s p then drop (length p) s else s)"

definition hasSuffix :: "string \<Rightarrow> string \<Rightarrow> bool" where
  "hasSuffix s p \<longleftrightarrow> length p \<le> length s \<and> drop (length s - length p) s = p"

definition trimSuffix :: "string \<Rightarrow> string \<Rightarrow> string" where
  "trimSuffix s p = (if hasSuffix s p then take (length s - length p) s else s)"

lemma hasPrefix_append [simp, go_lib]: "hasPrefix (p @ s) p"
  by (simp add: hasPrefix_def)

lemma trimPrefix_append [simp, go_lib]: "trimPrefix (p @ s) p = s"
  by (simp add: trimPrefix_def)

lemma hasPrefixE: "hasPrefix s p \<Longrightarrow> \<exists>r. s = p @ r"
  by (metis append_take_drop_id hasPrefix_def)

lemma trimSuffix_append [simp, go_lib]: "trimSuffix (s @ p) p = s"
  by (simp add: trimSuffix_def hasSuffix_def)

section \<open>Splitting at a one-byte separator\<close>

text \<open>\<open>strings.Split(s, "c")\<close>: always at least one part.\<close>

fun split_on :: "char \<Rightarrow> string \<Rightarrow> string list" where
  "split_on c [] = [[]]"
| "split_on c (x # xs) =
     (if x = c then [] # split_on c xs
      else (case split_on c xs of [] \<Rightarrow> [[x]] | p # ps \<Rightarrow> (x # p) # ps))"

lemma split_on_not_Nil [simp]: "split_on c s \<noteq> []"
  by (induction s) (auto split: list.splits)

lemma split_on_nosep [simp, go_lib]: "c \<notin> set s \<Longrightarrow> split_on c s = [s]"
  by (induction s) auto

lemma split_on_append [simp, go_lib]:
  "c \<notin> set a \<Longrightarrow> split_on c (a @ c # b) = a # split_on c b"
  by (induction a) auto

lemma split_on_parts: "p \<in> set (split_on c s) \<Longrightarrow> c \<notin> set p"
  by (induction s arbitrary: p) (fastforce split: if_splits list.splits)+

text \<open>\<open>strings.SplitN(s, "c", 2)\<close>: one part, or what stands before and after the first separator.\<close>

definition split_first :: "char \<Rightarrow> string \<Rightarrow> string list" where
  "split_first c s =
     (if c \<in> set s then [takeWhile (\<lambda>x. x \<noteq> c) s, tl (dropWhile (\<lambda>x. x \<noteq> c) s)] else [s])"

lemma split_first_append [simp, go_lib]:
  "c \<notin> set a \<Longrightarrow> split_first c (a @ c # b) = [a, b]"
proof -
  assume a: "c \<notin> set a"
  have "takeWhile (\<lambda>x. x \<noteq> c) (a @ c # b) = a"
    using a by (subst takeWhile_append2) auto
  moreover have "dropWhile (\<lambda>x. x \<noteq> c) (a @ c # b) = c # b"
    using a by (subst dropWhile_append2) auto
  ultimately show ?thesis by (simp add: split_first_def)
qed

lemma split_first_nosep: "c \<notin> set s \<Longrightarrow> split_first c s = [s]"
  by (simp add: split_first_def)

text \<open>\<open>strings.Index(s, "c")\<close>, with \<^const>\<open>None\<close> for \<open>-1\<close>.\<close>

fun index_of :: "char \<Rightarrow> string \<Rightarrow> nat option" where
  "index_of c [] = None"
| "index_of c (x # xs) = (if x = c then Some 0 else map_option Suc (index_of c xs))"

lemma index_of_SomeD: "index_of c s = Some i \<Longrightarrow> i < length s \<and> s ! i = c \<and> c \<notin> set (take i s)"
  by (induction s arbitrary: i) (auto split: if_splits)

lemma index_of_append [simp, go_lib]: "c \<notin> set a \<Longrightarrow> index_of c (a @ c # b) = Some (length a)"
  by (induction a) auto

lemma index_of_None_iff: "index_of c s = None \<longleftrightarrow> c \<notin> set s"
  by (induction s) auto

text \<open>\<open>LastIndexByte\<close>, as the part before and the part after the last separator.\<close>

fun cut_last :: "char \<Rightarrow> string \<Rightarrow> (string \<times> string) option" where
  "cut_last c [] = None"
| "cut_last c (x # xs) =
     (case cut_last c xs of
        Some (a, b) \<Rightarrow> Some (x # a, b)
      | None \<Rightarrow> if x = c then Some ([], xs) else None)"

lemma cut_last_None_iff: "cut_last c s = None \<longleftrightarrow> c \<notin> set s"
  by (induction s) (auto split: option.splits)

lemma cut_last_append [simp, go_lib]: "c \<notin> set b \<Longrightarrow> cut_last c (a @ c # b) = Some (a, b)"
  by (induction a) (auto simp: cut_last_None_iff [THEN iffD2])

lemma cut_last_SomeD: "cut_last c s = Some (a, b) \<Longrightarrow> s = a @ c # b \<and> c \<notin> set b"
  by (induction s arbitrary: a) (auto split: option.splits if_splits simp: cut_last_None_iff)

section \<open>White space\<close>

text \<open>
  The UTF-8 encodings of the code points for which \<open>unicode.IsSpace\<close> holds: the ASCII
  spaces, U+0085, U+00A0, U+1680, U+2000 to U+200A, U+2028, U+2029, U+202F, U+205F and U+3000.
\<close>

definition byte :: "nat \<Rightarrow> char" where
  "byte n = char_of n"

definition space_encodings :: "string list" where
  "space_encodings =
     map (\<lambda>n. [byte n]) [9, 10, 11, 12, 13, 32] @
     [map byte [194, 133], map byte [194, 160], map byte [225, 154, 128]] @
     map (\<lambda>n. map byte [226, 128, n]) [128, 129, 130, 131, 132, 133, 134, 135, 136, 137, 138] @
     [map byte [226, 128, 168], map byte [226, 128, 169], map byte [226, 128, 175],
      map byte [226, 129, 159], map byte [227, 128, 128]]"

lemma space_encodings_nonempty: "p \<in> set space_encodings \<Longrightarrow> p \<noteq> []"
  by (auto simp: space_encodings_def)

function trim_left :: "string \<Rightarrow> string" where
  "trim_left s =
     (case List.find (\<lambda>p. hasPrefix s p) space_encodings of
        None \<Rightarrow> s | Some p \<Rightarrow> trim_left (drop (length p) s))"
  by pat_completeness auto
termination
proof (relation "measure length")
  fix s p
  assume "List.find (\<lambda>p. hasPrefix s p) space_encodings = Some p"
  then have "p \<in> set space_encodings" and "hasPrefix s p"
    by (auto dest: find_SomeD)
  then have "p \<noteq> []" and "s \<noteq> []"
    by (auto simp: hasPrefix_def dest: space_encodings_nonempty)
  then show "(drop (length p) s, s) \<in> measure length" by simp
qed simp

declare trim_left.simps [simp del]

function trim_right :: "string \<Rightarrow> string" where
  "trim_right s =
     (case List.find (\<lambda>p. hasSuffix s p) space_encodings of
        None \<Rightarrow> s | Some p \<Rightarrow> trim_right (take (length s - length p) s))"
  by pat_completeness auto
termination
proof (relation "measure length")
  fix s p
  assume "List.find (\<lambda>p. hasSuffix s p) space_encodings = Some p"
  then have "p \<in> set space_encodings" and "hasSuffix s p"
    by (auto dest: find_SomeD)
  then have "p \<noteq> []" and "length p \<le> length s"
    by (auto simp: space_encodings_nonempty hasSuffix_def)
  then show "(take (length s - length p) s, s) \<in> measure length"
    by (cases p) auto
qed simp

declare trim_right.simps [simp del]

definition trimSpace :: "string \<Rightarrow> string" where
  "trimSpace s = trim_right (trim_left s)"

section \<open>Decimal numbers\<close>

definition digit :: "nat \<Rightarrow> char" where
  "digit d = byte (48 + d)"

fun decimal :: "nat \<Rightarrow> string" where
  "decimal n = (if n < 10 then [digit n] else decimal (n div 10) @ [digit (n mod 10)])"

declare decimal.simps [simp del]

text \<open>\<open>fmt.Sprintf("%d", i)\<close>.\<close>

definition sprintf_d :: "int \<Rightarrow> string" where
  "sprintf_d i = (if i < 0 then CHR ''-'' # decimal (nat (- i)) else decimal (nat i))"

definition digit_val :: "char \<Rightarrow> nat option" where
  "digit_val c = (let n = of_char c in if 48 \<le> n \<and> n \<le> 57 then Some (n - 48) else None)"

fun digits_val :: "nat \<Rightarrow> string \<Rightarrow> nat option" where
  "digits_val acc [] = Some acc"
| "digits_val acc (c # cs) =
     (case digit_val c of None \<Rightarrow> None | Some d \<Rightarrow> digits_val (10 * acc + d) cs)"

lemma of_char_byte [simp]: "n < 256 \<Longrightarrow> (of_char (byte n) :: nat) = n"
  by (simp add: byte_def)

lemma digit_val_digit [simp]: "d < 10 \<Longrightarrow> digit_val (digit d) = Some d"
  by (simp add: digit_val_def digit_def Let_def)

lemma digits_val_append:
  "digits_val acc (xs @ ys) = (case digits_val acc xs of None \<Rightarrow> None | Some a \<Rightarrow> digits_val a ys)"
  by (induction xs arbitrary: acc) (auto split: option.splits)

lemma digits_val_decimal [simp, go_lib]: "digits_val 0 (decimal n) = Some n"
proof (induction n rule: decimal.induct)
  case (1 n)
  show ?case
  proof (cases "n < 10")
    case True
    then show ?thesis by (simp add: decimal.simps [of n])
  next
    case False
    with 1 show ?thesis by (simp add: decimal.simps [of n] digits_val_append)
  qed
qed

lemma decimal_not_Nil [simp]: "decimal n \<noteq> []"
  by (subst decimal.simps) simp

lemma decimal_chars: "c \<in> set (decimal n) \<Longrightarrow> digit_val c \<noteq> None"
proof (induction n rule: decimal.induct)
  case (1 n)
  then show ?case
    by (cases "n < 10") (auto simp: decimal.simps [of n])
qed

lemma decimal_no_char [simp]: "digit_val c = None \<Longrightarrow> c \<notin> set (decimal n)"
  using decimal_chars by blast

text \<open>
  \<open>strconv.Atoi\<close> on a 64-bit platform: an optional sign and decimal digits. A syntax error
  gives 0; a value out of range gives the nearest \<open>int64\<close>, as the library documents. The
  flag says whether the error is nil.
\<close>

definition atoi_nat :: "string \<Rightarrow> nat option" where
  "atoi_nat s = (if s = [] then None else digits_val 0 s)"

definition clamp64 :: "int \<Rightarrow> int \<times> bool" where
  "clamp64 i = (if i < - (2 ^ 63) then (- (2 ^ 63), False)
                else if 2 ^ 63 - 1 < i then (2 ^ 63 - 1, False) else (i, True))"

definition atoi :: "string \<Rightarrow> int \<times> bool" where
  "atoi s =
     (case s of
        [] \<Rightarrow> (0, False)
      | c # cs \<Rightarrow>
          (case atoi_nat (if c = CHR ''-'' \<or> c = CHR ''+'' then cs else s) of
             None \<Rightarrow> (0, False)
           | Some n \<Rightarrow> clamp64 (if c = CHR ''-'' then - int n else int n)))"

lemma digit_val_signs [simp]:
  "digit_val CHR ''-'' = None" "digit_val CHR ''+'' = None" "digit_val CHR '':'' = None"
  "digit_val CHR ''['' = None" "digit_val CHR '']'' = None" "digit_val CHR ''|'' = None"
  by (simp_all add: digit_val_def)

lemma atoi_sprintf_d [go_lib]:
  assumes "in_int64 i"
  shows "atoi (sprintf_d i) = (i, True)"
proof (cases "i < 0")
  case True
  with assms show ?thesis
    by (simp add: sprintf_d_def atoi_def atoi_nat_def clamp64_def in_int64_def)
next
  case False
  obtain c cs where d: "decimal (nat i) = c # cs"
    by (cases "decimal (nat i)") auto
  then have "digit_val c \<noteq> None"
    using decimal_chars [of c "nat i"] by simp
  then have "c \<noteq> CHR ''-''" and "c \<noteq> CHR ''+''" by auto
  moreover have "digits_val 0 (c # cs) = Some (nat i)"
    using digits_val_decimal [of "nat i"] d by simp
  ultimately show ?thesis using False d assms
    by (simp add: sprintf_d_def atoi_def atoi_nat_def clamp64_def in_int64_def
        del: digits_val.simps)
qed

section \<open>Host and port\<close>

datatype addr_error = MissingPort | TooManyColons | MissingBracket | UnexpectedOpen | UnexpectedClose

text \<open>
  \<open>net.SplitHostPort\<close>. The four cases of the library: no colon; a bracketed host, whose
  closing bracket must stand just before the last colon; a plain host, which may not contain a
  colon; and no stray bracket in what follows.
\<close>

definition splitHostPort :: "string \<Rightarrow> addr_error + (string \<times> string)" where
  "splitHostPort hp =
     (case cut_last (CHR '':'') hp of
        None \<Rightarrow> Inl MissingPort
      | Some (host, port) \<Rightarrow>
          if hasPrefix hp ''['' then
            (case index_of (CHR '']'') hp of
               None \<Rightarrow> Inl MissingBracket
             | Some e \<Rightarrow>
                 if e + 1 = length hp then Inl MissingPort
                 else if e + 1 \<noteq> length host then
                   Inl (if hp ! (e + 1) = CHR '':'' then TooManyColons else MissingPort)
                 else if CHR ''['' \<in> set (drop 1 hp) then Inl UnexpectedOpen
                 else if CHR '']'' \<in> set (drop (e + 1) hp) then Inl UnexpectedClose
                 else Inr (take (e - 1) (drop 1 hp), port))
          else if CHR '':'' \<in> set host then Inl TooManyColons
          else if CHR ''['' \<in> set hp then Inl UnexpectedOpen
          else if CHR '']'' \<in> set hp then Inl UnexpectedClose
          else Inr (host, port))"

definition host_of :: "string \<Rightarrow> string" where
  "host_of hp = (case splitHostPort hp of Inl _ \<Rightarrow> [] | Inr (h, _) \<Rightarrow> h)"

definition port_of :: "string \<Rightarrow> string" where
  "port_of hp = (case splitHostPort hp of Inl _ \<Rightarrow> [] | Inr (_, p) \<Rightarrow> p)"

definition joinHostPort :: "string \<Rightarrow> string \<Rightarrow> string" where
  "joinHostPort h p =
     (if CHR '':'' \<in> set h then ''['' @ h @ '']:'' @ p else h @ '':'' @ p)"

definition plain_part :: "string \<Rightarrow> bool" where
  "plain_part s \<longleftrightarrow> CHR ''['' \<notin> set s \<and> CHR '']'' \<notin> set s"

definition valid_hostport :: "string \<times> string \<Rightarrow> bool" where
  "valid_hostport = (\<lambda>(h, p). plain_part h \<and> plain_part p \<and> CHR '':'' \<notin> set p)"

lemma hasPrefix_bracket: "hasPrefix s ''['' \<longleftrightarrow> (\<exists>r. s = CHR ''['' # r)"
  by (cases s) (auto simp: hasPrefix_def)

lemma split_join_plain:
  assumes "valid_hostport (h, p)" and "CHR '':'' \<notin> set h"
  shows "splitHostPort (h @ '':'' @ p) = Inr (h, p)"
proof -
  have "\<not> hasPrefix (h @ '':'' @ p) ''[''"
    using assms by (cases h) (auto simp: hasPrefix_def valid_hostport_def plain_part_def)
  moreover have "cut_last CHR '':'' (h @ '':'' @ p) = Some (h, p)"
    using assms by (simp add: valid_hostport_def)
  ultimately show ?thesis
    using assms by (simp add: splitHostPort_def valid_hostport_def plain_part_def)
qed

lemma split_join_bracketed:
  assumes "valid_hostport (h, p)"
  shows "splitHostPort (''['' @ h @ '']:'' @ p) = Inr (h, p)"
proof -
  let ?hp = "''['' @ h @ '']:'' @ p"
  have cut: "cut_last CHR '':'' ?hp = Some (''['' @ h @ '']'', p)"
    using cut_last_append [of "CHR '':''" p "''['' @ h @ '']''"] assms
    by (simp add: valid_hostport_def)
  have ind: "index_of CHR '']'' ?hp = Some (Suc (length h))"
    using index_of_append [of "CHR '']''" "''['' @ h" "'':'' @ p"] assms
    by (simp add: valid_hostport_def plain_part_def)
  show ?thesis
    using assms by (simp add: splitHostPort_def cut [simplified] ind [simplified] hasPrefix_def
        valid_hostport_def plain_part_def)
qed

lemma split_joinHostPort [go_lib]:
  "valid_hostport (h, p) \<Longrightarrow> splitHostPort (joinHostPort h p) = Inr (h, p)"
  by (simp add: joinHostPort_def split_join_plain [simplified] split_join_bracketed [simplified])

interpretation hostport: lossless_codec
  "\<lambda>(h, p). joinHostPort h p" splitHostPort Inr valid_hostport
  by unfold_locales (auto simp: split_joinHostPort)

lemma splitHostPort_decimal_port:
  "plain_part h \<Longrightarrow> splitHostPort (joinHostPort h (decimal n)) = Inr (h, decimal n)"
  by (rule split_joinHostPort) (simp add: valid_hostport_def plain_part_def)

end
