(* ===== verification/GoBase64.thy ===== *)
theory GoBase64
  imports GoStrings
begin

text \<open>
  The standard base64 encoding of Go's \<open>encoding/base64\<close> (\<open>StdEncoding\<close>, with padding), which
  carries application metadata inside a gossip announcement. The decoder skips carriage returns
  and line feeds, insists on padding and does not check the unused low bits, as the library's
  non-strict decoder.
\<close>

definition b64_char :: "nat \<Rightarrow> char" where
  "b64_char n =
     byte (if n < 26 then 65 + n else if n < 52 then 71 + n else if n < 62 then n - 4
           else if n = 62 then 43 else 47)"

definition b64_val :: "char \<Rightarrow> nat option" where
  "b64_val c =
     (let n = of_char c
      in if 65 \<le> n \<and> n \<le> 90 then Some (n - 65)
         else if 97 \<le> n \<and> n \<le> 122 then Some (n - 71)
         else if 48 \<le> n \<and> n \<le> 57 then Some (n + 4)
         else if n = 43 then Some 62 else if n = 47 then Some 63 else None)"

fun b64_encode :: "bytes \<Rightarrow> string" where
  "b64_encode [] = []"
| "b64_encode [a] =
     (let x = of_char a in [b64_char (x div 4), b64_char (x mod 4 * 16), CHR ''='', CHR ''=''])"
| "b64_encode [a, b] =
     (let x = of_char a; y = of_char b
      in [b64_char (x div 4), b64_char (x mod 4 * 16 + y div 16), b64_char (y mod 16 * 4), CHR ''=''])"
| "b64_encode (a # b # c # rest) =
     (let x = of_char a; y = of_char b; z = of_char c
      in b64_char (x div 4) # b64_char (x mod 4 * 16 + y div 16)
         # b64_char (y mod 16 * 4 + z div 64) # b64_char (z mod 64) # b64_encode rest)"

definition quantum1 :: "nat \<Rightarrow> nat \<Rightarrow> char" where
  "quantum1 p q = byte (p * 4 + q div 16)"

definition quantum2 :: "nat \<Rightarrow> nat \<Rightarrow> char" where
  "quantum2 q r = byte (q mod 16 * 16 + r div 4)"

definition quantum3 :: "nat \<Rightarrow> nat \<Rightarrow> char" where
  "quantum3 r s = byte (r mod 4 * 64 + s)"

fun b64_quanta :: "string \<Rightarrow> bytes option" where
  "b64_quanta [] = Some []"
| "b64_quanta (a # b # c # d # rest) =
     (case (b64_val a, b64_val b) of
        (Some p, Some q) \<Rightarrow>
          (case b64_val c of
             Some r \<Rightarrow>
               (case b64_val d of
                  Some s \<Rightarrow>
                    map_option (\<lambda>t. quantum1 p q # quantum2 q r # quantum3 r s # t) (b64_quanta rest)
                | None \<Rightarrow>
                    if d = CHR ''='' \<and> rest = [] then Some [quantum1 p q, quantum2 q r] else None)
           | None \<Rightarrow>
               if c = CHR ''='' \<and> d = CHR ''='' \<and> rest = [] then Some [quantum1 p q] else None)
      | _ \<Rightarrow> None)"
| "b64_quanta _ = None"

definition is_newline :: "char \<Rightarrow> bool" where
  "is_newline c \<longleftrightarrow> of_char c = (10 :: nat) \<or> of_char c = (13 :: nat)"

definition b64_decode :: "string \<Rightarrow> bytes option" where
  "b64_decode s = b64_quanta (filter (\<lambda>c. \<not> is_newline c) s)"

section \<open>The alphabet\<close>

lemma of_char_less_256 [simp]: "(of_char c :: nat) < 256"
  by (rule of_char_mod_256 [symmetric, THEN ord_eq_less_trans]) simp

lemma byte_of_char [simp]: "byte (of_char c) = c"
  by (simp add: byte_def)

lemma b64_val_char [simp]: "n < 64 \<Longrightarrow> b64_val (b64_char n) = Some n"
  by (auto simp: b64_val_def b64_char_def Let_def)

lemma b64_val_eq_pad [simp]: "b64_val CHR ''='' = None"
  by (simp add: b64_val_def)

text \<open>The four sextets of three bytes.\<close>

lemma div4_bound [simp]: "(x::nat) < 256 \<Longrightarrow> x div 4 < 64"
  by (simp add: less_mult_imp_div_less)

lemma div16_bound: "(x::nat) < 256 \<Longrightarrow> x div 16 < 16"
  by (simp add: less_mult_imp_div_less)

lemma div64_bound: "(x::nat) < 256 \<Longrightarrow> x div 64 < 4"
  by (simp add: less_mult_imp_div_less)

lemma sextet_bound2 [simp]: "(y::nat) < 256 \<Longrightarrow> x mod 4 * 16 + y div 16 < 64"
  using div16_bound [of y] mod_less_divisor [of 4 x] by linarith

lemma sextet_bound3 [simp]: "(y::nat) < 256 \<Longrightarrow> x mod 16 * 4 + y div 64 < 64"
  using div64_bound [of y] mod_less_divisor [of 16 x] by linarith

lemma sextet_bounds_last [simp]: "(x::nat) mod 4 * 16 < 64" "(x::nat) mod 16 * 4 < 64"
  using mod_less_divisor [of 4 x] mod_less_divisor [of 16 x] by linarith+

text \<open>Encoded text never holds a line break, nor the separator of a gossip announcement.\<close>

lemma b64_alphabet: "c \<in> set (b64_encode xs) \<Longrightarrow> b64_val c \<noteq> None \<or> c = CHR ''=''"
proof (induction xs rule: b64_encode.induct)
  case (2 a)
  then show ?case by (fastforce simp: Let_def)
next
  case (3 a b)
  then show ?case by (fastforce simp: Let_def)
next
  case (4 a b c' rest)
  then show ?case by (fastforce simp: Let_def)
qed simp

lemma b64_no_newline: "c \<in> set (b64_encode xs) \<Longrightarrow> \<not> is_newline c"
  by (drule b64_alphabet) (auto simp: b64_val_def Let_def is_newline_def)

lemma b64_no_bar [simp, go_lib]: "CHR ''|'' \<notin> set (b64_encode xs)"
  using b64_alphabet [of "CHR ''|''" xs] by (auto simp: b64_val_def Let_def)

section \<open>Round trip\<close>

lemma quantum1_join [simp]: "(y::nat) < 256 \<Longrightarrow> quantum1 (x div 4) (x mod 4 * 16 + y div 16) = byte x"
proof -
  assume "y < 256"
  then have "(x mod 4 * 16 + y div 16) div 16 = x mod 4"
    using div16_bound [of y] by simp
  then show ?thesis by (simp add: quantum1_def)
qed

lemma quantum2_join [simp]:
  assumes "(y::nat) < 256" and "(z::nat) < 256"
  shows "quantum2 (x mod 4 * 16 + y div 16) (y mod 16 * 4 + z div 64) = byte y"
proof -
  have "(x mod 4 * 16 + y div 16) mod 16 = y div 16"
    using div16_bound [OF assms(1)] by (simp add: mod_mult_self3)
  moreover have "(y mod 16 * 4 + z div 64) div 4 = y mod 16"
    using div64_bound [OF assms(2)] by simp
  ultimately show ?thesis by (simp add: quantum2_def)
qed

lemma quantum3_join [simp]:
  assumes "(z::nat) < 256"
  shows "quantum3 (y mod 16 * 4 + z div 64) (z mod 64) = byte z"
proof -
  have "(y mod 16 * 4 + z div 64) mod 4 = z div 64"
    using div64_bound [OF assms] by (simp add: mod_mult_self3)
  then show ?thesis by (simp add: quantum3_def)
qed

lemma quantum_join_last [simp]:
  "quantum1 (x div 4) (x mod 4 * 16) = byte x"
  "y < 256 \<Longrightarrow> quantum2 (x mod 4 * 16 + y div 16) (y mod 16 * 4) = byte y"
  using quantum1_join [of 0 x] quantum2_join [of y 0 x] by simp_all

lemma b64_quanta_encode: "b64_quanta (b64_encode xs) = Some xs"
proof (induction xs rule: b64_encode.induct)
  case (4 a b c rest)
  then show ?case by (simp add: Let_def)
qed (simp_all add: Let_def)

lemma b64_decode_encode [simp, go_lib]: "b64_decode (b64_encode xs) = Some xs"
proof -
  have "filter (\<lambda>c. \<not> is_newline c) (b64_encode xs) = b64_encode xs"
    by (rule filter_True) (auto dest: b64_no_newline)
  then show ?thesis by (simp add: b64_decode_def b64_quanta_encode)
qed

lemma b64_encode_eq_Nil_iff [simp]: "b64_encode xs = [] \<longleftrightarrow> xs = []"
  by (induction xs rule: b64_encode.induct) (auto simp: Let_def)

text \<open>A cut encoding is refused by the decoder or stands for a prefix of the data.\<close>

lemma nat_upto3_cases:
  obtains "k = 0" | "k = Suc 0" | "k = Suc (Suc 0)" | "k = Suc (Suc (Suc 0))"
    | m where "k = Suc (Suc (Suc (Suc m)))"
  by (metis not0_implies_Suc)

lemma b64_quanta_take:
  "b64_quanta (take k (b64_encode xs)) = Some ys \<Longrightarrow> \<exists>n. ys = take n xs"
proof (induction xs arbitrary: k ys rule: b64_encode.induct)
  case 1
  then show ?case by simp
next
  case (2 a)
  then show ?case
    by (cases k rule: nat_upto3_cases) (auto simp: Let_def intro: exI [of _ 1] exI [of _ 0])
next
  case (3 a b)
  then show ?case
    by (cases k rule: nat_upto3_cases) (auto simp: Let_def intro: exI [of _ 2] exI [of _ 0])
next
  case (4 a b c rest)
  show ?case
  proof (cases k rule: nat_upto3_cases)
    case (5 m)
    with "4.prems" obtain t where t: "b64_quanta (take m (b64_encode rest)) = Some t"
      and ys: "ys = a # b # c # t"
      by (auto simp: Let_def)
    from "4.IH" [OF refl refl refl t] obtain n where "t = take n rest" by blast
    then have "ys = take (Suc (Suc (Suc n))) (a # b # c # rest)" using ys by simp
    then show ?thesis by blast
  qed (use "4.prems" in \<open>auto simp: Let_def intro: exI [of _ 0]\<close>)
qed

lemma b64_decode_take: "b64_decode (take k (b64_encode xs)) = Some ys \<Longrightarrow> \<exists>n. ys = take n xs"
proof -
  assume dec: "b64_decode (take k (b64_encode xs)) = Some ys"
  have "filter (\<lambda>c. \<not> is_newline c) (take k (b64_encode xs)) = take k (b64_encode xs)"
    by (rule filter_True) (auto dest: in_set_takeD b64_no_newline)
  then show ?thesis using dec b64_quanta_take by (simp add: b64_decode_def)
qed

interpretation base64: lossless_codec b64_encode b64_decode Some "\<lambda>_. True"
  by unfold_locales simp_all

end
