(* ===== verification/GossipDelegate.thy ===== *)
theory GossipDelegate
  imports GoBase64
begin

text \<open>
  Package \<open>internal/gossip\<close>, files \<open>delegate.go\<close>, \<open>events.go\<close> and \<open>config.go\<close>: what a node
  announces about itself (\<open>NodeMeta\<close>), how a peer reads it back (\<open>nodeToInfo\<close>), application
  broadcasts (\<open>QueueBroadcast\<close>, \<open>NotifyMsg\<close>) and the delivery of membership events.

  The world \<open>'w\<close> is whatever lies outside the modelled code; a callback is a function on it.
  The broadcast queue is memberlist's, so a pointer to one is a number and its operations are
  the fields of \<open>queue_api\<close>.
\<close>

section \<open>Configuration and data\<close>

datatype NetworkMode = LAN | WAN

definition gossip_ErrMissingNodeID :: goerr where
  "gossip_ErrMissingNodeID = Sentinel ''gossip'' ''node ID is required''"
definition gossip_ErrMissingBindAddr :: goerr where
  "gossip_ErrMissingBindAddr = Sentinel ''gossip'' ''bind address is required''"
definition gossip_ErrNotStarted :: goerr where
  "gossip_ErrNotStarted = Sentinel ''gossip'' ''gossip not started''"
definition gossip_ErrAlreadyStarted :: goerr where
  "gossip_ErrAlreadyStarted = Sentinel ''gossip'' ''gossip already started''"

record gossip_config =
  gc_NodeID :: string
  gc_BindAddr :: string
  gc_AdvertiseAddr :: string
  gc_RaftAddr :: string
  gc_SecretKey :: bytes
  gc_Mode :: NetworkMode

definition gossip_validate :: "gossip_config \<Rightarrow> goerr + gossip_config" where
  "gossip_validate c =
     (if gc_NodeID c = '''' then Inl gossip_ErrMissingNodeID
      else if gc_BindAddr c = '''' then Inl gossip_ErrMissingBindAddr
      else Inr (if gc_AdvertiseAddr c = '''' then c\<lparr>gc_AdvertiseAddr := gc_BindAddr c\<rparr> else c))"

datatype NodeState = NodeStateAlive | NodeStateSuspect | NodeStateDead | NodeStateLeft

record gossip_info =
  gi_ID :: string
  gi_Address :: string
  gi_RaftAddr :: string
  gi_GRPCAddr :: string
  gi_Bootstrapped :: bool
  gi_State :: NodeState
  gi_AppMeta :: bytes

text \<open>The zero value \<open>NodeInfo{}\<close>.\<close>

definition zero_info :: gossip_info where
  "zero_info = \<lparr>gi_ID = [], gi_Address = [], gi_RaftAddr = [], gi_GRPCAddr = [],
     gi_Bootstrapped = False, gi_State = NodeStateAlive, gi_AppMeta = []\<rparr>"

text \<open>A node as memberlist reports it; \<open>ml_State\<close> is its integer \<open>NodeStateType\<close>.\<close>

record mlnode =
  ml_Name :: string
  ml_Meta :: bytes
  ml_State :: int

section \<open>The delegate\<close>

record 'w delegate =
  d_advertiseAddr :: string
  d_raftAddr :: string
  d_grpcAddr :: string
  d_bootstrapped :: bool
  d_appMeta :: bytes
  d_broadcasts :: "nat option"
  d_onAppMessage :: "(string \<Rightarrow> bytes \<Rightarrow> 'w \<Rightarrow> 'w) option"

definition newDelegate :: "string \<Rightarrow> string \<Rightarrow> 'w delegate" where
  "newDelegate advertiseAddr raftAddr =
     \<lparr>d_advertiseAddr = advertiseAddr, d_raftAddr = raftAddr, d_grpcAddr = [],
      d_bootstrapped = False, d_appMeta = [], d_broadcasts = None, d_onAppMessage = None\<rparr>"

definition delegate_SetBootstrapped :: "bool \<Rightarrow> 'w delegate \<Rightarrow> 'w delegate" where
  "delegate_SetBootstrapped b d = d\<lparr>d_bootstrapped := b\<rparr>"

definition delegate_SetGRPCAddr :: "string \<Rightarrow> 'w delegate \<Rightarrow> 'w delegate" where
  "delegate_SetGRPCAddr a d = d\<lparr>d_grpcAddr := a\<rparr>"

definition delegate_SetRaftAddr :: "string \<Rightarrow> 'w delegate \<Rightarrow> 'w delegate" where
  "delegate_SetRaftAddr a d = d\<lparr>d_raftAddr := a\<rparr>"

definition delegate_SetAppMeta :: "bytes \<Rightarrow> 'w delegate \<Rightarrow> 'w delegate" where
  "delegate_SetAppMeta m d = d\<lparr>d_appMeta := m\<rparr>"

definition delegate_SetOnAppMessage ::
    "(string \<Rightarrow> bytes \<Rightarrow> 'w \<Rightarrow> 'w) option \<Rightarrow> 'w delegate \<Rightarrow> 'w delegate" where
  "delegate_SetOnAppMessage f d = d\<lparr>d_onAppMessage := f\<rparr>"

definition delegate_SetBroadcastQueue :: "nat option \<Rightarrow> 'w delegate \<Rightarrow> 'w delegate" where
  "delegate_SetBroadcastQueue q d = d\<lparr>d_broadcasts := q\<rparr>"

lemmas delegate_setters = delegate_SetBootstrapped_def delegate_SetGRPCAddr_def
  delegate_SetRaftAddr_def delegate_SetAppMeta_def delegate_SetOnAppMessage_def
  delegate_SetBroadcastQueue_def

subsection \<open>Announcing\<close>

definition full_meta :: "'w delegate \<Rightarrow> string" where
  "full_meta d =
     d_advertiseAddr d
     @ (if d_raftAddr d \<noteq> '''' then ''|raft='' @ d_raftAddr d else '''')
     @ (if d_grpcAddr d \<noteq> '''' then ''|grpc='' @ d_grpcAddr d else '''')
     @ (if d_bootstrapped d then ''|bootstrapped'' else '''')
     @ (if d_appMeta d \<noteq> [] then ''|app='' @ b64_encode (d_appMeta d) else '''')"

definition NodeMeta :: "'w delegate \<Rightarrow> int \<Rightarrow> panic + bytes" where
  "NodeMeta d limit =
     (let meta = full_meta d
      in if int (length meta) > limit
         then (if limit < 0 then Inl SliceOutOfRange else Inr (take (nat limit) meta))
         else Inr meta)"

subsection \<open>Reading an announcement\<close>

text \<open>The variables of the loop of \<open>nodeToInfo\<close>, and one iteration.\<close>

record meta_vars =
  mv_address :: string
  mv_raftAddr :: string
  mv_grpcAddr :: string
  mv_bootstrapped :: bool
  mv_appMeta :: bytes

definition meta_vars0 :: meta_vars where
  "meta_vars0 = \<lparr>mv_address = [], mv_raftAddr = [], mv_grpcAddr = [],
     mv_bootstrapped = False, mv_appMeta = []\<rparr>"

definition meta_part :: "nat \<Rightarrow> string \<Rightarrow> meta_vars \<Rightarrow> meta_vars" where
  "meta_part i part v =
     (if i = 0 then v\<lparr>mv_address := part\<rparr>
      else if hasPrefix part ''raft='' then v\<lparr>mv_raftAddr := trimPrefix part ''raft=''\<rparr>
      else if hasPrefix part ''grpc='' then v\<lparr>mv_grpcAddr := trimPrefix part ''grpc=''\<rparr>
      else if hasPrefix part ''app='' then
        (case b64_decode (trimPrefix part ''app='') of
           Some decoded \<Rightarrow> v\<lparr>mv_appMeta := decoded\<rparr>
         | None \<Rightarrow> v)
      else if part = ''bootstrapped'' then v\<lparr>mv_bootstrapped := True\<rparr>
      else v)"

fun meta_loop :: "nat \<Rightarrow> string list \<Rightarrow> meta_vars \<Rightarrow> meta_vars" where
  "meta_loop i [] v = v"
| "meta_loop i (p # ps) v = meta_loop (Suc i) ps (meta_part i p v)"

definition node_state :: "int \<Rightarrow> NodeState" where
  "node_state s =
     (if s = 0 then NodeStateAlive else if s = 1 then NodeStateSuspect
      else if s = 2 then NodeStateDead else if s = 3 then NodeStateLeft else NodeStateAlive)"

definition nodeToInfo :: "mlnode \<Rightarrow> gossip_info" where
  "nodeToInfo n =
     (let v = meta_loop 0 (split_on (CHR ''|'') (ml_Meta n)) meta_vars0
      in \<lparr>gi_ID = ml_Name n, gi_Address = mv_address v, gi_RaftAddr = mv_raftAddr v,
          gi_GRPCAddr = mv_grpcAddr v, gi_Bootstrapped = mv_bootstrapped v,
          gi_State = node_state (ml_State n), gi_AppMeta = mv_appMeta v\<rparr>)"

subsection \<open>Application broadcasts\<close>

record 'w queue_api =
  q_QueueBroadcast :: "nat \<Rightarrow> bytes \<Rightarrow> 'w \<Rightarrow> 'w"
  q_GetBroadcasts :: "nat \<Rightarrow> int \<Rightarrow> int \<Rightarrow> 'w \<Rightarrow> bytes list \<times> 'w"

definition app_payload :: "string \<Rightarrow> bytes \<Rightarrow> bytes" where
  "app_payload nodeID msg = [byte 1] @ (nodeID @ ''|'') @ msg"

definition QueueBroadcast :: "'w queue_api \<Rightarrow> 'w delegate \<Rightarrow> string \<Rightarrow> bytes \<Rightarrow> 'w \<Rightarrow> 'w" where
  "QueueBroadcast Q d nodeID msg w =
     (case d_broadcasts d of
        None \<Rightarrow> w
      | Some q \<Rightarrow> q_QueueBroadcast Q q (app_payload nodeID msg) w)"

definition GetBroadcasts :: "'w queue_api \<Rightarrow> 'w delegate \<Rightarrow> int \<Rightarrow> int \<Rightarrow> 'w \<Rightarrow> bytes list \<times> 'w" where
  "GetBroadcasts Q d overhead limit w =
     (case d_broadcasts d of
        None \<Rightarrow> ([], w)
      | Some q \<Rightarrow> q_GetBroadcasts Q q overhead limit w)"

text \<open>What \<open>NotifyMsg\<close> hands to the handler, if anything: the sender's name and the message.\<close>

definition parse_app_message :: "bytes \<Rightarrow> (string \<times> bytes) option" where
  "parse_app_message msg =
     (case msg of
        [] \<Rightarrow> None
      | c # rest \<Rightarrow>
          if c = byte 1 \<and> length msg > 1 then
            (case split_first (CHR ''|'') rest of
               [from, body] \<Rightarrow> Some (from, body)
             | _ \<Rightarrow> None)
          else None)"

definition NotifyMsg :: "'w delegate \<Rightarrow> bytes \<Rightarrow> 'w \<Rightarrow> 'w" where
  "NotifyMsg d msg w =
     (if msg = [] then w
      else case d_onAppMessage d of
             None \<Rightarrow> w
           | Some handler \<Rightarrow>
               (case parse_app_message msg of
                  None \<Rightarrow> w
                | Some (from, body) \<Rightarrow> handler from body w))"

definition Invalidates :: "bytes \<Rightarrow> bytes \<Rightarrow> bool" where
  "Invalidates b other = False"

definition LocalState :: "bool \<Rightarrow> bytes" where
  "LocalState joining = []"

definition MergeRemoteState :: "bytes \<Rightarrow> bool \<Rightarrow> 'w delegate \<Rightarrow> 'w delegate" where
  "MergeRemoteState buf joining d = d"

subsection \<open>Membership events\<close>

record 'w event_handler =
  eh_OnJoin :: "gossip_info \<Rightarrow> 'w \<Rightarrow> 'w"
  eh_OnLeave :: "gossip_info \<Rightarrow> 'w \<Rightarrow> 'w"
  eh_OnUpdate :: "gossip_info \<Rightarrow> 'w \<Rightarrow> 'w"

definition NoopEventHandler :: "'w event_handler" where
  "NoopEventHandler = \<lparr>eh_OnJoin = \<lambda>_ w. w, eh_OnLeave = \<lambda>_ w. w, eh_OnUpdate = \<lambda>_ w. w\<rparr>"

definition newEventDelegate :: "'w event_handler option \<Rightarrow> 'w event_handler" where
  "newEventDelegate h = (case h of None \<Rightarrow> NoopEventHandler | Some e \<Rightarrow> e)"

definition NotifyJoin :: "'w event_handler \<Rightarrow> mlnode \<Rightarrow> 'w \<Rightarrow> 'w" where
  "NotifyJoin e n w = eh_OnJoin e (nodeToInfo n) w"

definition NotifyLeave :: "'w event_handler \<Rightarrow> mlnode \<Rightarrow> 'w \<Rightarrow> 'w" where
  "NotifyLeave e n w = eh_OnLeave e (nodeToInfo n) w"

definition NotifyUpdate :: "'w event_handler \<Rightarrow> mlnode \<Rightarrow> 'w \<Rightarrow> 'w" where
  "NotifyUpdate e n w = eh_OnUpdate e (nodeToInfo n) w"

section \<open>An announcement is read back\<close>

text \<open>The announcement as the address followed by fields, each introduced by a bar.\<close>

definition bar_join :: "string \<Rightarrow> string list \<Rightarrow> string" where
  "bar_join a ps = a @ concat (map (\<lambda>p. CHR ''|'' # p) ps)"

definition meta_fields :: "'w delegate \<Rightarrow> string list" where
  "meta_fields d =
     (if d_raftAddr d \<noteq> '''' then [''raft='' @ d_raftAddr d] else [])
     @ (if d_grpcAddr d \<noteq> '''' then [''grpc='' @ d_grpcAddr d] else [])
     @ (if d_bootstrapped d then [''bootstrapped''] else [])
     @ (if d_appMeta d \<noteq> [] then [''app='' @ b64_encode (d_appMeta d)] else [])"

definition no_bar :: "'w delegate \<Rightarrow> bool" where
  "no_bar d \<longleftrightarrow> CHR ''|'' \<notin> set (d_advertiseAddr d) \<and> CHR ''|'' \<notin> set (d_raftAddr d)
     \<and> CHR ''|'' \<notin> set (d_grpcAddr d)"

text \<open>What the receiver is meant to learn.\<close>

definition announced_info :: "string \<Rightarrow> int \<Rightarrow> 'w delegate \<Rightarrow> gossip_info" where
  "announced_info name st d =
     \<lparr>gi_ID = name, gi_Address = d_advertiseAddr d, gi_RaftAddr = d_raftAddr d,
      gi_GRPCAddr = d_grpcAddr d, gi_Bootstrapped = d_bootstrapped d,
      gi_State = node_state st, gi_AppMeta = d_appMeta d\<rparr>"

lemma full_meta_bar_join: "full_meta d = bar_join (d_advertiseAddr d) (meta_fields d)"
  by (simp add: full_meta_def bar_join_def meta_fields_def)

lemma split_bar_join:
  assumes "CHR ''|'' \<notin> set a" and "\<forall>p\<in>set ps. CHR ''|'' \<notin> set p"
  shows "split_on (CHR ''|'') (bar_join a ps) = a # ps"
  using assms
proof (induction ps arbitrary: a)
  case Nil
  then show ?case by (simp add: bar_join_def)
next
  case (Cons p ps)
  then have "split_on (CHR ''|'') (bar_join p ps) = p # ps" by simp
  with Cons.prems(1) show ?case by (simp add: bar_join_def)
qed

lemma meta_fields_no_bar: "no_bar d \<Longrightarrow> \<forall>p\<in>set (meta_fields d). CHR ''|'' \<notin> set p"
  by (auto simp: meta_fields_def no_bar_def)

text \<open>Each field sets its own variable.\<close>

lemma meta_part_simps [simp]:
  "meta_part 0 p v = v\<lparr>mv_address := p\<rparr>"
  "meta_part (Suc i) (CHR ''r'' # CHR ''a'' # CHR ''f'' # CHR ''t'' # CHR ''='' # a) v = v\<lparr>mv_raftAddr := a\<rparr>"
  "meta_part (Suc i) (CHR ''g'' # CHR ''r'' # CHR ''p'' # CHR ''c'' # CHR ''='' # a) v = v\<lparr>mv_grpcAddr := a\<rparr>"
  "meta_part (Suc i) ''bootstrapped'' v = v\<lparr>mv_bootstrapped := True\<rparr>"
  "meta_part (Suc i) (CHR ''a'' # CHR ''p'' # CHR ''p'' # CHR ''='' # b64_encode m) v = v\<lparr>mv_appMeta := m\<rparr>"
  by (simp_all add: meta_part_def hasPrefix_def trimPrefix_def)

lemma meta_loop_append:
  "meta_loop i (ps @ qs) v = meta_loop (i + length ps) qs (meta_loop i ps v)"
  by (induction ps arbitrary: i v) simp_all

lemma meta_loop_fields:
  "meta_loop (Suc i) (meta_fields d) (meta_vars0\<lparr>mv_address := a\<rparr>) =
     \<lparr>mv_address = a, mv_raftAddr = d_raftAddr d, mv_grpcAddr = d_grpcAddr d,
      mv_bootstrapped = d_bootstrapped d, mv_appMeta = d_appMeta d\<rparr>"
  by (simp add: meta_fields_def meta_vars0_def)

lemma nodeToInfo_full_meta:
  assumes "no_bar d"
  shows "nodeToInfo \<lparr>ml_Name = name, ml_Meta = full_meta d, ml_State = st\<rparr> = announced_info name st d"
proof -
  have "split_on (CHR ''|'') (full_meta d) = d_advertiseAddr d # meta_fields d"
    using assms meta_fields_no_bar [OF assms]
    by (simp add: full_meta_bar_join split_bar_join no_bar_def)
  then show ?thesis
    using meta_loop_fields [of 0 d "d_advertiseAddr d"]
    by (simp add: nodeToInfo_def announced_info_def Let_def)
qed

interpretation announcement: codec
  "\<lambda>(name, st, d). \<lparr>ml_Name = name, ml_Meta = full_meta d, ml_State = st\<rparr>"
  nodeToInfo
  "\<lambda>(name, st, d). announced_info name st d"
  "\<lambda>(name, st, d). no_bar d"
  by unfold_locales (auto simp: nodeToInfo_full_meta)

text \<open>
  C13. What a node announces is what every peer reads: when the three addresses hold no bar and
  the announcement fits memberlist's limit, parsing it gives back the gossip address, the Raft
  address, the gRPC address, the bootstrapped flag and the application metadata, byte for byte.
\<close>

theorem announcement_roundtrip:
  assumes "no_bar d" and "int (length (full_meta d)) \<le> limit"
  shows "\<exists>m. NodeMeta d limit = Inr m \<and>
    nodeToInfo \<lparr>ml_Name = name, ml_Meta = m, ml_State = st\<rparr> = announced_info name st d"
  using assms announcement.dec_enc [of "(name, st, d)"] by (simp add: NodeMeta_def Let_def)

definition sample_delegate :: "nat delegate" where
  "sample_delegate =
     \<lparr>d_advertiseAddr = ''10.0.0.1:7946'', d_raftAddr = ''10.0.0.1:8300'', d_grpcAddr = ''10.0.0.1:9000'',
      d_bootstrapped = True, d_appMeta = ''zone|a'', d_broadcasts = None, d_onAppMessage = None\<rparr>"

theorem announcement_roundtrip_witness:
  "\<exists>m. NodeMeta sample_delegate 512 = Inr m \<and>
    nodeToInfo \<lparr>ml_Name = ''n1'', ml_Meta = m, ml_State = 0\<rparr> = announced_info ''n1'' 0 sample_delegate"
  by (rule announcement_roundtrip)
    (simp_all add: sample_delegate_def no_bar_def full_meta_def Let_def)

section \<open>What truncation can damage\<close>

text \<open>
  \<open>NodeMeta\<close> cuts an announcement that is too long. The application metadata comes last, so a
  cut inside it is seen by the receiver as a last field that is a prefix of \<open>app=...\<close>.
\<close>

text \<open>The variables that a prefix of \<open>app=\<dots>\<close> may change, and how.\<close>

lemma meta_part_app_prefix:
  assumes "p = take k (''app='' @ b64_encode m)" and "mv_appMeta v = []"
  shows "\<exists>n. meta_part (Suc i) p v = v\<lparr>mv_appMeta := take n m\<rparr>"
proof (cases "hasPrefix p ''app=''")
  case True
  then have p: "p = ''app='' @ take (k - 4) (b64_encode m)"
    using assms(1) by (cases k rule: nat_upto3_cases) (auto simp: hasPrefix_def)
  show ?thesis
  proof (cases "b64_decode (take (k - 4) (b64_encode m))")
    case None
    then have "meta_part (Suc i) p v = v\<lparr>mv_appMeta := take 0 m\<rparr>"
      using assms(2) by (simp add: p meta_part_def hasPrefix_def trimPrefix_def)
    then show ?thesis by blast
  next
    case (Some ys)
    then obtain n where "ys = take n m" using b64_decode_take by blast
    with Some have "meta_part (Suc i) p v = v\<lparr>mv_appMeta := take n m\<rparr>"
      by (simp add: p meta_part_def hasPrefix_def trimPrefix_def)
    then show ?thesis by blast
  qed
next
  case False
  have "\<not> hasPrefix p ''raft=''" and "\<not> hasPrefix p ''grpc=''" and "p \<noteq> ''bootstrapped''"
    using assms(1) by (cases k; auto simp: hasPrefix_def)+
  with False assms(2) have "meta_part (Suc i) p v = v\<lparr>mv_appMeta := take 0 m\<rparr>"
    by (simp add: meta_part_def)
  then show ?thesis by blast
qed

lemma bar_join_snoc: "bar_join a (ps @ [p]) = bar_join a ps @ CHR ''|'' # p"
  by (simp add: bar_join_def)

abbreviation without_app :: "'w delegate \<Rightarrow> 'w delegate" where
  "without_app d \<equiv> d\<lparr>d_appMeta := []\<rparr>"

lemma meta_fields_app:
  "d_appMeta d \<noteq> [] \<Longrightarrow> meta_fields d = meta_fields (without_app d) @ [''app='' @ b64_encode (d_appMeta d)]"
  by (simp add: meta_fields_def)

lemma take_full_meta:
  assumes "d_appMeta d \<noteq> []" and "length (full_meta (without_app d)) < n"
  shows "\<exists>k. take n (full_meta d) =
    bar_join (d_advertiseAddr d)
      (meta_fields (without_app d) @ [take k (''app='' @ b64_encode (d_appMeta d))])"
proof -
  obtain k where n: "n = length (full_meta (without_app d)) + Suc k"
    using assms(2) less_imp_Suc_add by fastforce
  have "full_meta d = full_meta (without_app d) @ CHR ''|'' # (''app='' @ b64_encode (d_appMeta d))"
    using assms(1) by (simp add: full_meta_bar_join meta_fields_app bar_join_snoc)
  then have "take n (full_meta d) =
      full_meta (without_app d) @ CHR ''|'' # take k (''app='' @ b64_encode (d_appMeta d))"
    unfolding n by simp
  then show ?thesis by (auto simp: full_meta_bar_join bar_join_snoc)
qed

lemma nodeToInfo_cut_field:
  assumes "no_bar d" and "p = take k (''app='' @ b64_encode m)"
  shows "\<exists>j. nodeToInfo \<lparr>ml_Name = name,
      ml_Meta = bar_join (d_advertiseAddr d) (meta_fields (without_app d) @ [p]), ml_State = st\<rparr>
    = (announced_info name st (without_app d))\<lparr>gi_AppMeta := take j m\<rparr>"
proof -
  let ?fs = "meta_fields (without_app d)"
  let ?v = "\<lparr>mv_address = d_advertiseAddr d, mv_raftAddr = d_raftAddr d, mv_grpcAddr = d_grpcAddr d,
    mv_bootstrapped = d_bootstrapped d, mv_appMeta = []\<rparr>"
  have "CHR ''|'' \<notin> set p"
    using assms(2) by (auto dest: in_set_takeD)
  moreover have "no_bar (without_app d)" and adv: "CHR ''|'' \<notin> set (d_advertiseAddr d)"
    using assms(1) by (simp_all add: no_bar_def)
  ultimately have "\<forall>q\<in>set (?fs @ [p]). CHR ''|'' \<notin> set q"
    using meta_fields_no_bar [of "without_app d"] by simp
  with adv have split: "split_on (CHR ''|'') (bar_join (d_advertiseAddr d) (?fs @ [p])) =
      d_advertiseAddr d # ?fs @ [p]"
    by (rule split_bar_join)
  obtain j where "meta_part (Suc (length ?fs)) p ?v = ?v\<lparr>mv_appMeta := take j m\<rparr>"
    using meta_part_app_prefix [OF assms(2), of ?v "length ?fs"] by auto
  then have "nodeToInfo \<lparr>ml_Name = name,
      ml_Meta = bar_join (d_advertiseAddr d) (?fs @ [p]), ml_State = st\<rparr>
    = (announced_info name st (without_app d))\<lparr>gi_AppMeta := take j m\<rparr>"
    using meta_loop_fields [of 0 "without_app d" "d_advertiseAddr d"]
    by (simp add: nodeToInfo_def split meta_loop_append announced_info_def)
  then show ?thesis by blast
qed

text \<open>
  C14. An announcement cut inside the application metadata still carries the routing data: when
  everything but the metadata fits the limit, every receiver reads the right gossip, Raft and gRPC
  addresses and the right bootstrapped flag, and for the metadata some prefix of what was set
  (possibly none of it).
\<close>

theorem truncation_keeps_routing:
  assumes "no_bar d" and "int (length (full_meta (without_app d))) \<le> limit"
  shows "\<exists>m k. NodeMeta d limit = Inr m \<and>
    nodeToInfo \<lparr>ml_Name = name, ml_Meta = m, ml_State = st\<rparr>
      = (announced_info name st d)\<lparr>gi_AppMeta := take k (d_appMeta d)\<rparr>"
proof (cases "int (length (full_meta d)) \<le> limit")
  case True
  then have "NodeMeta d limit = Inr (full_meta d)" by (simp add: NodeMeta_def Let_def)
  moreover have "announced_info name st d
      = (announced_info name st d)\<lparr>gi_AppMeta := take (length (d_appMeta d)) (d_appMeta d)\<rparr>"
    by (simp add: announced_info_def)
  ultimately show ?thesis using nodeToInfo_full_meta [OF assms(1)] by metis
next
  case False
  let ?n = "nat limit"
  have cut: "NodeMeta d limit = Inr (take ?n (full_meta d))"
    using False assms(2) by (simp add: NodeMeta_def Let_def)
  have app: "d_appMeta d \<noteq> []"
  proof
    assume "d_appMeta d = []"
    then have "without_app d = d" by simp
    then show False using False assms(2) by simp
  qed
  have info: "(announced_info name st (without_app d))\<lparr>gi_AppMeta := x\<rparr>
      = (announced_info name st d)\<lparr>gi_AppMeta := x\<rparr>" for x
    by (simp add: announced_info_def)
  show ?thesis
  proof (cases "length (full_meta (without_app d)) < ?n")
    case True
    then obtain k where "take ?n (full_meta d) = bar_join (d_advertiseAddr d)
        (meta_fields (without_app d) @ [take k (''app='' @ b64_encode (d_appMeta d))])"
      using take_full_meta [OF app] by blast
    then show ?thesis
      using nodeToInfo_cut_field [OF assms(1) refl, of name k "d_appMeta d" st] cut
      by (auto simp: info)
  next
    case False
    then have "?n = length (full_meta (without_app d))" using assms(2) by linarith
    moreover have "full_meta d = full_meta (without_app d) @ CHR ''|'' # (''app='' @ b64_encode (d_appMeta d))"
      using app by (simp add: full_meta_bar_join meta_fields_app bar_join_snoc)
    ultimately have "take ?n (full_meta d) = full_meta (without_app d)" by simp
    moreover have "no_bar (without_app d)" using assms(1) by (simp add: no_bar_def)
    ultimately show ?thesis
      using cut nodeToInfo_full_meta [of "without_app d" name st]
      by (auto simp: announced_info_def intro: exI [of _ 0])
  qed
qed

theorem truncation_keeps_routing_witness:
  "\<exists>m k. NodeMeta sample_delegate 80 = Inr m \<and>
    nodeToInfo \<lparr>ml_Name = ''n1'', ml_Meta = m, ml_State = 0\<rparr>
      = (announced_info ''n1'' 0 sample_delegate)\<lparr>gi_AppMeta := take k (d_appMeta sample_delegate)\<rparr>"
  by (rule truncation_keeps_routing)
    (simp_all add: sample_delegate_def no_bar_def full_meta_def)

text \<open>
  A cut before the metadata is worse: the receiver takes a truncated Raft address for a
  complete one.
\<close>

lemma truncated_raft_address:
  "NodeMeta sample_delegate 30 = Inr ''10.0.0.1:7946|raft=10.0.0.1:83''"
  "gi_RaftAddr (nodeToInfo \<lparr>ml_Name = ''n1'', ml_Meta = ''10.0.0.1:7946|raft=10.0.0.1:83'', ml_State = 0\<rparr>)
     = ''10.0.0.1:83''"
  by (simp_all add: NodeMeta_def sample_delegate_def full_meta_def Let_def nodeToInfo_def
      meta_part_def hasPrefix_def trimPrefix_def meta_vars0_def)

section \<open>Application broadcasts\<close>

lemma parse_app_payload:
  assumes "CHR ''|'' \<notin> set nodeID"
  shows "parse_app_message (app_payload nodeID msg) = Some (nodeID, msg)"
  using assms by (simp add: parse_app_message_def app_payload_def)

interpretation app_broadcast: lossless_codec
  "\<lambda>(nodeID, msg). app_payload nodeID msg" parse_app_message Some
  "\<lambda>(nodeID, msg). CHR ''|'' \<notin> set nodeID"
  by unfold_locales (auto simp: parse_app_payload)

text \<open>
  C15. A broadcast reaches the application as it was sent: the payload that \<open>Broadcast\<close> queues under
  a node name without a bar makes \<open>NotifyMsg\<close> call the handler exactly once, with that name and
  exactly that message, whatever bytes the message holds; with no handler it does nothing.
\<close>

theorem broadcast_delivered:
  assumes "CHR ''|'' \<notin> set nodeID"
  shows "NotifyMsg d (app_payload nodeID msg) w =
    (case d_onAppMessage d of None \<Rightarrow> w | Some handler \<Rightarrow> handler nodeID msg w)"
proof -
  have "app_payload nodeID msg \<noteq> []" by (simp add: app_payload_def)
  then show ?thesis
    using app_broadcast.dec_enc [of "(nodeID, msg)"] assms
    by (simp add: NotifyMsg_def split: option.splits)
qed

theorem broadcast_delivered_witness:
  "NotifyMsg (sample_delegate\<lparr>d_onAppMessage := Some (\<lambda>from body w. w + length from + length body)\<rparr>)
     (app_payload ''n1'' ''a|b'') 7 = 12"
  by (subst broadcast_delivered) simp_all

text \<open>
  The condition on the name is needed: nothing stops a node name from holding a bar, and then the
  receiver attributes the message to another name.
\<close>

lemma bar_in_name_misattributes:
  "parse_app_message (app_payload ''a|b'' ''hello'') = Some (''a'', ''b|hello'')"
  by (simp add: parse_app_message_def app_payload_def split_first_def)

text \<open>Messages that are not application broadcasts are ignored.\<close>

lemma NotifyMsg_other: "msg = [] \<or> hd msg \<noteq> byte 1 \<Longrightarrow> NotifyMsg d msg w = w"
  by (cases msg) (auto simp: NotifyMsg_def parse_app_message_def split: option.splits)

end
