(* ===== verification/GoCrypto.thy ===== *)
theory GoCrypto
  imports GoStrings
begin

unbundle bit_operations_syntax

text \<open>
  SHA-256 (\<open>crypto/sha256\<close>), hexadecimal text (\<open>encoding/hex\<close>), and the one piece of
  IEEE-754 arithmetic that the program performs: rounding a natural number to the 53 significant
  bits of a \<open>float64\<close>, ties to even. The program derives from them the cluster identifier that
  mDNS announcements carry and the per-node delays that spread nodes out in time.
\<close>

section \<open>SHA-256\<close>

type_synonym u32 = "32 word"

definition sha_k :: "u32 list" where
  "sha_k = [
     1116352408, 1899447441, 3049323471, 3921009573, 961987163, 1508970993, 2453635748, 2870763221,
     3624381080, 310598401, 607225278, 1426881987, 1925078388, 2162078206, 2614888103, 3248222580,
     3835390401, 4022224774, 264347078, 604807628, 770255983, 1249150122, 1555081692, 1996064986,
     2554220882, 2821834349, 2952996808, 3210313671, 3336571891, 3584528711, 113926993, 338241895,
     666307205, 773529912, 1294757372, 1396182291, 1695183700, 1986661051, 2177026350, 2456956037,
     2730485921, 2820302411, 3259730800, 3345764771, 3516065817, 3600352804, 4094571909, 275423344,
     430227734, 506948616, 659060556, 883997877, 958139571, 1322822218, 1537002063, 1747873779,
     1955562222, 2024104815, 2227730452, 2361852424, 2428436474, 2756734187, 3204031479, 3329325298]"

type_synonym sha_state = "u32 \<times> u32 \<times> u32 \<times> u32 \<times> u32 \<times> u32 \<times> u32 \<times> u32"

definition sha_h0 :: sha_state where
  "sha_h0 = (1779033703, 3144134277, 1013904242, 2773480762, 1359893119, 2600822924, 528734635, 1541459225)"

definition big_sigma0 :: "u32 \<Rightarrow> u32" where
  "big_sigma0 x = word_rotr 2 x XOR word_rotr 13 x XOR word_rotr 22 x"
definition big_sigma1 :: "u32 \<Rightarrow> u32" where
  "big_sigma1 x = word_rotr 6 x XOR word_rotr 11 x XOR word_rotr 25 x"
definition small_sigma0 :: "u32 \<Rightarrow> u32" where
  "small_sigma0 x = word_rotr 7 x XOR word_rotr 18 x XOR drop_bit 3 x"
definition small_sigma1 :: "u32 \<Rightarrow> u32" where
  "small_sigma1 x = word_rotr 17 x XOR word_rotr 19 x XOR drop_bit 10 x"

text \<open>The message schedule: sixteen words of a block extended to sixty-four.\<close>

definition schedule_step :: "nat \<Rightarrow> u32 list \<Rightarrow> u32 list" where
  "schedule_step t ws =
     ws @ [small_sigma1 (ws ! (t - 2)) + ws ! (t - 7) + small_sigma0 (ws ! (t - 15)) + ws ! (t - 16)]"

definition schedule :: "u32 list \<Rightarrow> u32 list" where
  "schedule ws = fold schedule_step [16..<64] ws"

fun sha_round :: "u32 \<times> u32 \<Rightarrow> sha_state \<Rightarrow> sha_state" where
  "sha_round (k, w) (a, b, c, d, e, f, g, h) =
     (let t1 = h + big_sigma1 e + ((e AND f) XOR (NOT e AND g)) + k + w;
          t2 = big_sigma0 a + ((a AND b) XOR (a AND c) XOR (b AND c))
      in (t1 + t2, a, b, c, d + t1, e, f, g))"

fun add_state :: "sha_state \<Rightarrow> sha_state \<Rightarrow> sha_state" where
  "add_state (a, b, c, d, e, f, g, h) (a', b', c', d', e', f', g', h') =
     (a + a', b + b', c + c', d + d', e + e', f + f', g + g', h + h')"

definition sha_block :: "u32 list \<Rightarrow> sha_state \<Rightarrow> sha_state" where
  "sha_block ws s = add_state s (fold sha_round (zip sha_k (schedule ws)) s)"

text \<open>The message with its padding, as bytes and as blocks of sixteen big-endian words.\<close>

definition be_bytes :: "nat \<Rightarrow> nat \<Rightarrow> nat list" where
  "be_bytes k n = map (\<lambda>i. n div 256 ^ (k - 1 - i) mod 256) [0..<k]"

definition sha_pad :: "bytes \<Rightarrow> nat list" where
  "sha_pad m =
     (let n = length m; z = (119 - n mod 64) mod 64
      in map of_char m @ [128] @ replicate z 0 @ be_bytes 8 (8 * n))"

fun be_words :: "nat list \<Rightarrow> u32 list" where
  "be_words (a # b # c # d # rest) =
     of_nat (((a * 256 + b) * 256 + c) * 256 + d) # be_words rest"
| "be_words _ = []"

fun chunks :: "nat \<Rightarrow> 'a list \<Rightarrow> 'a list list" where
  "chunks 0 xs = []"
| "chunks (Suc n) xs = (if xs = [] then [] else take 16 xs # chunks n (drop 16 xs))"

definition word_bytes :: "u32 \<Rightarrow> bytes" where
  "word_bytes w = map byte (be_bytes 4 (unat w))"

fun sha_digest :: "sha_state \<Rightarrow> bytes" where
  "sha_digest (a, b, c, d, e, f, g, h) = concat (map word_bytes [a, b, c, d, e, f, g, h])"

definition sha256 :: "bytes \<Rightarrow> bytes" where
  "sha256 m =
     (let ws = be_words (sha_pad m)
      in sha_digest (fold sha_block (chunks (length ws) ws) sha_h0))"

lemma length_word_bytes [simp]: "length (word_bytes w) = 4"
  by (simp add: word_bytes_def be_bytes_def)

lemma length_sha_digest [simp]: "length (sha_digest s) = 32"
  by (cases s rule: sha_digest.cases) simp

lemma length_sha256 [simp]: "length (sha256 m) = 32"
  by (simp add: sha256_def Let_def)

section \<open>Hexadecimal text\<close>

definition hex_digit :: "nat \<Rightarrow> char" where
  "hex_digit n = byte (if n < 10 then 48 + n else 87 + n)"

definition hex_encode :: "bytes \<Rightarrow> string" where
  "hex_encode bs = concat (map (\<lambda>c. [hex_digit (of_char c div 16), hex_digit (of_char c mod 16)]) bs)"

lemma length_hex_encode [simp]: "length (hex_encode bs) = 2 * length bs"
  by (induction bs) (simp_all add: hex_encode_def)

section \<open>Rounding to a float64\<close>

text \<open>
  The number of bits of \<open>n\<close>, and \<open>n\<close> rounded to 53 significant bits, ties to even. A
  \<open>float64\<close> that arises in the program is such a number divided by a power of two, and
  rounding commutes with that division (no value here is subnormal).
\<close>

fun bit_length :: "nat \<Rightarrow> nat" where
  "bit_length n = (if n = 0 then 0 else Suc (bit_length (n div 2)))"

declare bit_length.simps [simp del]

definition round_half_even :: "nat \<Rightarrow> nat \<Rightarrow> nat" where
  "round_half_even n m =
     (let q = n div m; r = n mod m
      in if 2 * r < m \<or> (2 * r = m \<and> even q) then q else Suc q)"

definition round53 :: "nat \<Rightarrow> nat" where
  "round53 n = (let e = bit_length n - 53 in round_half_even n (2 ^ e) * 2 ^ e)"

lemma bit_length_le: "bit_length n \<le> k \<longleftrightarrow> n < 2 ^ k"
proof (induction n arbitrary: k rule: bit_length.induct)
  case (1 n)
  show ?case
  proof (cases "n = 0")
    case True
    then show ?thesis by (simp add: bit_length.simps)
  next
    case False
    then have "bit_length n = Suc (bit_length (n div 2))" by (simp add: bit_length.simps [of n])
    moreover have "n div 2 < 2 ^ j \<longleftrightarrow> n < 2 ^ Suc j" for j
      by (simp add: div_less_iff_less_mult mult.commute)
    ultimately show ?thesis
      using 1 [OF False] False by (cases k) simp_all
  qed
qed

lemma round_half_even_le: "n \<le> q * m \<Longrightarrow> 0 < m \<Longrightarrow> round_half_even n m \<le> q"
proof -
  assume le: "n \<le> q * m" and m: "0 < m"
  show ?thesis
  proof (cases "n mod m = 0")
    case True
    then have "n div m \<le> q" using le m by (metis div_le_mono nonzero_mult_div_cancel_right less_numeral_extra(3))
    then show ?thesis using True m by (simp add: round_half_even_def Let_def)
  next
    case False
    then have "n < q * m" using le by (metis le_neq_implies_less mod_mult_self2_is_0)
    then have "n div m < q" by (simp add: less_mult_imp_div_less)
    then show ?thesis by (simp add: round_half_even_def Let_def)
  qed
qed

text \<open>Rounding never passes a number that is itself representable.\<close>

lemma round53_le:
  assumes "n \<le> c * 2 ^ k" and "n < 2 ^ (53 + k)"
  shows "round53 n \<le> c * 2 ^ k"
proof -
  let ?e = "bit_length n - 53"
  have "bit_length n \<le> 53 + k" using assms(2) by (simp add: bit_length_le)
  then have e: "?e \<le> k" by simp
  then have split: "(2::nat) ^ k = 2 ^ (k - ?e) * 2 ^ ?e"
    by (simp flip: power_add)
  then have "n \<le> (c * 2 ^ (k - ?e)) * 2 ^ ?e" using assms(1) by simp
  then have "round_half_even n (2 ^ ?e) \<le> c * 2 ^ (k - ?e)"
    by (rule round_half_even_le) simp
  then show ?thesis by (simp add: round53_def Let_def split)
qed

lemma round53_small: "n < 2 ^ 53 \<Longrightarrow> round53 n = n"
proof -
  assume "n < 2 ^ 53"
  then have "bit_length n \<le> 53" by (simp only: bit_length_le)
  then show ?thesis by (simp add: round53_def round_half_even_def Let_def)
qed

end
