(* ===== verification/Discovery.thy ===== *)
theory Discovery
  imports GoCrypto "HOL-Library.AList" "HOL-Library.Multiset"
begin

text \<open>
  Package \<open>internal/discovery\<close>: how a node finds its peers. A discoverer is a function of the
  context and of the outside world \<open>'w\<close> that returns addresses, an error and the new world, as the
  Go method does. Modelled are the static list, the cascade of discoverers, DNS SRV records and
  mDNS; the resolver and the mDNS query themselves are outside the repository and are parameters.
\<close>

text \<open>\<open>ctx.Err()\<close>: what the context answers when it is asked in a given world.\<close>

type_synonym 'w ctx = "'w \<Rightarrow> goerr option \<times> 'w"

type_synonym 'w discover_fn = "'w ctx \<Rightarrow> 'w \<Rightarrow> (string list \<times> goerr option) \<times> 'w"

record PeerInfo =
  pi_Address :: string
  pi_Bootstrapped :: bool

section \<open>Interface: a discoverer\<close>

text \<open>
  \<open>Discoverer\<close> and its contract: an error comes with no peers. Clients may therefore look at the
  peers first. Some discoverers also answer a cancelled context with its error.
\<close>

locale discoverer =
  fixes discover :: "'w ctx \<Rightarrow> 'w \<Rightarrow> (string list \<times> goerr option) \<times> 'w"
  assumes error_no_peers: "discover ctx w = ((peers, Some e), w') \<Longrightarrow> peers = []"
begin

lemma peers_no_error: "discover ctx w = ((peers, err), w') \<Longrightarrow> peers \<noteq> [] \<Longrightarrow> err = None"
  using error_no_peers by (cases err) auto

lemma outcome_cases:
  obtains (found) peers w' where "discover ctx w = ((peers, None), w')" and "peers \<noteq> []"
    | (nothing) w' where "discover ctx w = (([], None), w')"
    | (failed) e w' where "discover ctx w = (([], Some e), w')"
proof -
  obtain peers err w' where d: "discover ctx w = ((peers, err), w')"
    by (metis prod.collapse)
  show thesis
  proof (cases err)
    case None
    show thesis
    proof (cases "peers = []")
      case True
      with d None have "discover ctx w = (([], None), w')" by simp
      then show thesis by (rule nothing)
    next
      case False
      from d None have "discover ctx w = ((peers, None), w')" by simp
      then show thesis using False by (rule found)
    qed
  next
    case (Some e)
    with d have f: "discover ctx w = ((peers, Some e), w')" by simp
    then have "peers = []" by (rule error_no_peers)
    with f have "discover ctx w = (([], Some e), w')" by simp
    then show thesis by (rule failed)
  qed
qed

end

locale cancellable_discoverer = discoverer +
  assumes cancelled: "ctx w = (Some e, w') \<Longrightarrow> discover ctx w = (([], Some e), w')"
begin

lemma found_not_cancelled:
  "discover ctx w = ((peers, None), w') \<Longrightarrow> fst (ctx w) = None"
  using cancelled by (cases "ctx w"; cases "fst (ctx w)") fastforce+

end

section \<open>A static list of peers\<close>

definition static_Discover :: "string list \<Rightarrow> 'w discover_fn" where
  "static_Discover peers ctx w =
     (case ctx w of
        (Some err, w1) \<Rightarrow> (([], Some err), w1)
      | (None, w1) \<Rightarrow> if length peers = 0 then (([], None), w1) else ((peers, None), w1))"

interpretation static: cancellable_discoverer "static_Discover peers" for peers
  by unfold_locales (auto simp: static_Discover_def split: prod.splits option.splits if_splits)

section \<open>A cascade\<close>

fun cascade_loop :: "nat \<Rightarrow> 'w discover_fn list \<Rightarrow> goerr option \<Rightarrow> 'w discover_fn" where
  "cascade_loop i [] lastErr ctx w = (([], lastErr), w)"
| "cascade_loop i (d # ds) lastErr ctx w =
     (case ctx w of
        (Some err, w1) \<Rightarrow> (([], Some err), w1)
      | (None, w1) \<Rightarrow>
          (case d ctx w1 of
             ((_, Some err), w2) \<Rightarrow>
               cascade_loop (Suc i) ds (Some (Wrap (''discoverer '' @ sprintf_d (int i)) err)) ctx w2
           | ((peers, None), w2) \<Rightarrow>
               if length peers > 0 then ((peers, None), w2)
               else cascade_loop (Suc i) ds lastErr ctx w2))"

definition cascade_Discover :: "'w discover_fn list \<Rightarrow> 'w discover_fn" where
  "cascade_Discover ds ctx w = (if length ds = 0 then (([], None), w) else cascade_loop 0 ds None ctx w)"

lemma cascade_loop_error_no_peers:
  "cascade_loop i ds lastErr ctx w = ((peers, Some e), w') \<Longrightarrow> peers = []"
  by (induction i ds lastErr ctx w rule: cascade_loop.induct)
    (auto split: prod.splits option.splits if_splits)

interpretation cascade: discoverer "cascade_Discover ds" for ds
  by unfold_locales (auto simp: cascade_Discover_def dest: cascade_loop_error_no_peers split: if_splits)

interpretation cascade_cons: cancellable_discoverer "cascade_Discover (d # ds)" for d ds
  by unfold_locales (simp add: cascade_Discover_def)

text \<open>A discoverer that finds nothing in a world, whatever its index, is skipped.\<close>

lemma cascade_loop_found:
  assumes "cascade_loop i ds lastErr ctx w = ((peers, err), w')" and "peers \<noteq> []"
  shows "err = None \<and> (\<exists>d\<in>set ds. \<exists>w1. fst (ctx w1) = None \<and> d ctx (snd (ctx w1)) = ((peers, None), w'))"
  using assms
proof (induction ds arbitrary: i lastErr w)
  case (Cons d ds)
  obtain c w1 where c: "ctx w = (c, w1)" by (cases "ctx w")
  obtain ps e w2 where d: "d ctx w1 = ((ps, e), w2)" by (metis prod.collapse)
  show ?case
  proof (cases "c = None \<and> e = None \<and> ps \<noteq> []")
    case True
    then show ?thesis using Cons.prems c d by (auto intro: exI [of _ w])
  next
    case False
    then obtain j l where "cascade_loop j ds l ctx w2 = ((peers, err), w')"
      using Cons.prems c d by (auto split: option.splits if_splits)
    then show ?thesis using Cons.IH Cons.prems(2) by fastforce
  qed
qed simp

text \<open>
  The run of a cascade as a relation: \<open>asked ctx w ds as v\<close> says that from the world \<open>w\<close> on the
  discoverers \<open>ds\<close> were asked in their order, each right after the context had been found alive,
  that they gave the answers \<open>as\<close>, and that the world is \<open>v\<close> afterwards.
\<close>

type_synonym answer = "string list \<times> goerr option"

inductive asked :: "'w ctx \<Rightarrow> 'w \<Rightarrow> 'w discover_fn list \<Rightarrow> answer list \<Rightarrow> 'w \<Rightarrow> bool" for ctx where
  none: "asked ctx w [] [] w"
| one_more: "ctx w = (None, w1) \<Longrightarrow> d ctx w1 = (a, w2) \<Longrightarrow> asked ctx w2 ds as w3 \<Longrightarrow> asked ctx w (d # ds) (a # as) w3"

text \<open>An answer that sends the cascade on, and the error that it is left with at its end.\<close>

definition no_peers :: "answer \<Rightarrow> bool" where
  "no_peers a \<longleftrightarrow> snd a \<noteq> None \<or> fst a = []"

definition indexed_errors :: "nat \<Rightarrow> answer list \<Rightarrow> goerr list" where
  "indexed_errors i as =
     concat (map (\<lambda>(j, (ps, e)). case e of None \<Rightarrow> []
       | Some err \<Rightarrow> [Wrap (''discoverer '' @ sprintf_d (int j)) err]) (enumerate i as))"

definition last_error :: "nat \<Rightarrow> answer list \<Rightarrow> goerr option \<Rightarrow> goerr option" where
  "last_error i as lastErr =
     (if indexed_errors i as = [] then lastErr else Some (last (indexed_errors i as)))"

lemma last_error_simps [simp]:
  "last_error i [] lastErr = lastErr"
  "last_error i ((ps, None) # as) lastErr = last_error (Suc i) as lastErr"
  "last_error i ((ps, Some err) # as) lastErr =
     last_error (Suc i) as (Some (Wrap (''discoverer '' @ sprintf_d (int i)) err))"
proof -
  have "indexed_errors i ((ps, e) # as) = (case e of None \<Rightarrow> [] | Some err \<Rightarrow> [Wrap (''discoverer '' @ sprintf_d (int i)) err])
      @ indexed_errors (Suc i) as" for e :: "goerr option"
    by (cases e) (simp_all add: indexed_errors_def)
  then show "last_error i ((ps, None) # as) lastErr = last_error (Suc i) as lastErr"
    "last_error i ((ps, Some err) # as) lastErr =
       last_error (Suc i) as (Some (Wrap (''discoverer '' @ sprintf_d (int i)) err))"
    by (simp_all add: last_error_def del: append_Cons)
qed (simp add: last_error_def indexed_errors_def)

text \<open>How the loop ends after it has asked some discoverers and the \<open>rest\<close> is left.\<close>

definition cascade_end :: "'w ctx \<Rightarrow> 'w \<Rightarrow> 'w discover_fn list \<Rightarrow> goerr option \<Rightarrow> answer \<times> 'w \<Rightarrow> bool" where
  "cascade_end ctx v rest err r =
     (case rest of
        [] \<Rightarrow> r = (([], err), v)
      | d # _ \<Rightarrow>
          (\<exists>e v1. ctx v = (Some e, v1) \<and> r = (([], Some e), v1)) \<or>
          (\<exists>v1 peers v2. ctx v = (None, v1) \<and> d ctx v1 = ((peers, None), v2) \<and> peers \<noteq> [] \<and> r = ((peers, None), v2)))"

lemma cascade_loop_run:
  "\<exists>before rest as v. ds = before @ rest \<and> asked ctx w before as v \<and> list_all no_peers as \<and>
     cascade_end ctx v rest (last_error i as lastErr) (cascade_loop i ds lastErr ctx w)"
proof (induction ds arbitrary: i lastErr w)
  case Nil
  show ?case by (rule exI [of _ "[]"])+ (auto simp: cascade_end_def intro: asked.none)
next
  case (Cons d ds)
  obtain c w1 where c: "ctx w = (c, w1)" by (cases "ctx w")
  obtain ps e w2 where d: "d ctx w1 = ((ps, e), w2)" by (metis prod.collapse)
  show ?case
  proof (cases "c = None \<and> no_peers (ps, e)")
    case False
    then have "cascade_end ctx w (d # ds) lastErr (cascade_loop i (d # ds) lastErr ctx w)"
      using c d by (cases c) (auto simp: cascade_end_def no_peers_def)
    moreover have "asked ctx w [] [] w" by (rule asked.none)
    ultimately show ?thesis
      by (intro exI [of _ "[]"] exI [of _ "d # ds"] exI [of _ w]) simp
  next
    case True
    define l where "l = last_error i [(ps, e)] lastErr"
    have loop: "cascade_loop i (d # ds) lastErr ctx w = cascade_loop (Suc i) ds l ctx w2"
      using True c d by (cases e) (auto simp: no_peers_def l_def)
    obtain before rest as v where IH: "ds = before @ rest" "asked ctx w2 before as v" "list_all no_peers as"
        "cascade_end ctx v rest (last_error (Suc i) as l) (cascade_loop (Suc i) ds l ctx w2)"
      using Cons.IH by blast
    have "last_error i ((ps, e) # as) lastErr = last_error (Suc i) as l" by (cases e) (simp_all add: l_def)
    moreover have "asked ctx w (d # before) ((ps, e) # as) v"
      by (rule asked.one_more [where d = d and ctx = ctx, OF _ d IH(2)]) (use True c in simp)
    ultimately show ?thesis using IH True loop
      by (intro exI [of _ "d # before"] exI [of _ rest] exI [of _ "(ps, e) # as"] exI [of _ v]) simp
  qed
qed

text \<open>
  C16. What a cascade does, for any discoverers and any context: it asks its discoverers in their
  order, each right after it has found the context alive, until one of them answers with peers and
  no error, which is the answer of the cascade, or until the context is found cancelled, whose error
  is the answer. If all have been asked and none had peers, it answers with no peers and the last
  error, wrapped with the position of its discoverer, or with no error if there was none.
\<close>

theorem cascade_first_answer:
  "\<exists>before rest as v. ds = before @ rest \<and> asked ctx w before as v \<and> list_all no_peers as \<and>
     cascade_end ctx v rest (last_error 0 as None) (cascade_Discover ds ctx w)"
proof (cases ds)
  case Nil
  then show ?thesis
    by (intro exI [of _ "[]"] exI [of _ w]) (auto simp: cascade_Discover_def cascade_end_def intro: asked.none)
next
  case (Cons d ds')
  then show ?thesis using cascade_loop_run [of ds ctx w 0 None] by (simp add: cascade_Discover_def)
qed



section \<open>DNS SRV records\<close>

record DNSConfig =
  dc_Service :: string
  dc_Protocol :: string
  dc_Domain :: string

record SRV =
  srv_Target :: string
  srv_Port :: "16 word"

text \<open>The \<open>Resolver\<close> interface: service, protocol and name; the canonical name is not used.\<close>

type_synonym 'w resolver =
  "'w ctx \<Rightarrow> string \<Rightarrow> string \<Rightarrow> string \<Rightarrow> 'w \<Rightarrow> (SRV list \<times> goerr option) \<times> 'w"

record 'w DNSDiscoverer =
  dd_service :: string
  dd_protocol :: string
  dd_domain :: string
  dd_resolver :: "'w resolver"

definition NewDNSWithResolver :: "DNSConfig \<Rightarrow> 'w resolver \<Rightarrow> 'w DNSDiscoverer" where
  "NewDNSWithResolver cfg r =
     \<lparr>dd_service = dc_Service cfg,
      dd_protocol = (if dc_Protocol cfg = '''' then ''tcp'' else dc_Protocol cfg),
      dd_domain = dc_Domain cfg, dd_resolver = r\<rparr>"

definition srv_address :: "SRV \<Rightarrow> string" where
  "srv_address r = trimSuffix (srv_Target r) ''.'' @ '':'' @ sprintf_d (uint (srv_Port r))"

definition dns_Discover :: "'w DNSDiscoverer \<Rightarrow> 'w discover_fn" where
  "dns_Discover d ctx w =
     (case dd_resolver d ctx (dd_service d) (dd_protocol d) (dd_domain d) w of
        ((_, Some err), w1) \<Rightarrow>
          (case as_dns_error err of
             Some (True, _) \<Rightarrow> (([], None), w1)
           | _ \<Rightarrow> (([], Some (Wrap ''dns srv lookup failed'' err)), w1))
      | ((records, None), w1) \<Rightarrow>
          if length records = 0 then (([], None), w1)
          else ((map srv_address records, None), w1))"

interpretation dns: discoverer "dns_Discover d" for d
  by unfold_locales
    (auto simp: dns_Discover_def split: prod.splits option.splits if_splits bool.splits)

text \<open>Every address names a host and the record's port, so that it splits again.\<close>

lemma srv_address_splits:
  assumes "srv_Target r = h @ ''.''" and "plain_part h" and "CHR '':'' \<notin> set h"
  shows "splitHostPort (srv_address r) = Inr (h, decimal (unat (srv_Port r)))"
proof -
  have "srv_address r = joinHostPort h (decimal (unat (srv_Port r)))"
    using assms by (simp add: srv_address_def joinHostPort_def sprintf_d_def)
  then show ?thesis using splitHostPort_decimal_port [OF assms(2)] by simp
qed

end
