(* ===== verification/GoNet.thy ===== *)
theory GoNet
  imports GoStrings
begin

text \<open>
  What the program uses of Go's \<open>net\<close> and \<open>fmt\<close> packages on addresses: IP literals
  (\<open>net.ParseIP\<close>), the text of an address (\<open>net.IP.String\<close>), its IPv4 form (\<open>net.IP.To4\<close>), and
  the scanning of a decimal number (\<open>fmt.Sscanf\<close> with the verb \<open>%d\<close>).
\<close>

section \<open>IPv4\<close>

type_synonym ipv4 = "8 word \<times> 8 word \<times> 8 word \<times> 8 word"

fun ipv4_String :: "ipv4 \<Rightarrow> string" where
  "ipv4_String (a, b, c, d) =
     decimal (unat a) @ ''.'' @ decimal (unat b) @ ''.'' @ decimal (unat c) @ ''.'' @ decimal (unat d)"

text \<open>One number of a dotted address: digits without a leading zero, at most 255.\<close>

definition octet_ok :: "string \<Rightarrow> bool" where
  "octet_ok s =
     (case digits_val 0 s of
        None \<Rightarrow> False
      | Some n \<Rightarrow> s \<noteq> [] \<and> n \<le> 255 \<and> (length s = 1 \<or> hd s \<noteq> CHR ''0''))"

definition ipv4_text :: "string \<Rightarrow> bool" where
  "ipv4_text s = (let fs = split_on (CHR ''.'') s in length fs = 4 \<and> list_all octet_ok fs)"

section \<open>IPv6\<close>

definition hex_val :: "char \<Rightarrow> nat option" where
  "hex_val c =
     (let n = of_char c in
      if 48 \<le> n \<and> n \<le> 57 then Some (n - 48)
      else if 97 \<le> n \<and> n \<le> 102 then Some (n - 87)
      else if 65 \<le> n \<and> n \<le> 70 then Some (n - 55) else None)"

text \<open>
  The loop over the groups: \<open>r\<close> groups may still follow, \<open>ell\<close> says whether the double colon was
  seen. A dotted tail takes the place of two groups. The library counts bytes, two to a group.
\<close>

fun ipv6_groups :: "nat \<Rightarrow> bool \<Rightarrow> string \<Rightarrow> bool" where
  "ipv6_groups 0 ell s = (s = [] \<and> \<not> ell)"
| "ipv6_groups (Suc r) ell s =
     (let g = takeWhile (\<lambda>c. hex_val c \<noteq> None) s; rest = dropWhile (\<lambda>c. hex_val c \<noteq> None) s
      in if g = [] \<or> length g > 4 then False
         else if rest \<noteq> [] \<and> hd rest = CHR ''.'' then
           (if ell then Suc r \<ge> 2 \<and> ipv4_text s \<and> Suc r > 2 else Suc r = 2 \<and> ipv4_text s)
         else if rest = [] then (if r = 0 then \<not> ell else ell)
         else if hd rest \<noteq> CHR '':'' \<or> tl rest = [] then False
         else if hd (tl rest) = CHR '':'' then
           (if ell then False else if tl (tl rest) = [] then r > 0 else ipv6_groups r True (tl (tl rest)))
         else ipv6_groups r ell (tl rest))"

definition ipv6_text :: "string \<Rightarrow> bool" where
  "ipv6_text s =
     (if CHR ''%'' \<in> set s then False
      else if hasPrefix s ''::'' then drop 2 s = [] \<or> ipv6_groups 8 True (drop 2 s)
      else ipv6_groups 8 False s)"

text \<open>\<open>net.ParseIP(s) != nil\<close>: the first of the characters dot, colon and percent decides.\<close>

definition parseIP_ok :: "string \<Rightarrow> bool" where
  "parseIP_ok s =
     (case List.find (\<lambda>c. c = CHR ''.'' \<or> c = CHR '':'' \<or> c = CHR ''%'') s of
        None \<Rightarrow> False
      | Some c \<Rightarrow> if c = CHR ''.'' then ipv4_text s else if c = CHR '':'' then ipv6_text s else False)"

section \<open>Addresses as bytes\<close>

text \<open>A resolved \<open>net.IP\<close> has four bytes, or sixteen, here as eight groups.\<close>

datatype net_ip = IP4 ipv4 | IP16 "16 word list"

fun to4 :: "net_ip \<Rightarrow> ipv4 option" where
  "to4 (IP4 a) = Some a"
| "to4 (IP16 gs) =
     (if length gs = 8 \<and> take 5 gs = replicate 5 0 \<and> gs ! 5 = 65535
      then Some (ucast (drop_bit 8 (gs ! 6)), ucast (gs ! 6), ucast (drop_bit 8 (gs ! 7)), ucast (gs ! 7))
      else None)"

fun hex_nat :: "nat \<Rightarrow> string" where
  "hex_nat n = (let d = (if n mod 16 < 10 then byte (48 + n mod 16) else byte (87 + n mod 16))
                in if n < 16 then [d] else hex_nat (n div 16) @ [d])"

declare hex_nat.simps [simp del]

definition zero_run :: "16 word list \<Rightarrow> nat" where
  "zero_run gs = length (takeWhile (\<lambda>g. g = 0) gs)"

text \<open>The first longest run of at least two zero groups is written as a double colon.\<close>

definition best_run :: "16 word list \<Rightarrow> (nat \<times> nat) option" where
  "best_run gs =
     fold (\<lambda>i best. let l = zero_run (drop i gs) in
             if l \<ge> 2 \<and> (case best of None \<Rightarrow> True | Some (_, l') \<Rightarrow> l > l') then Some (i, l) else best)
       [0..<length gs] None"

definition colon_join :: "16 word list \<Rightarrow> string" where
  "colon_join gs =
     (case map (\<lambda>g. hex_nat (unat g)) gs of [] \<Rightarrow> [] | h # t \<Rightarrow> h @ concat (map (\<lambda>x. CHR '':'' # x) t))"

definition ipv6_String :: "16 word list \<Rightarrow> string" where
  "ipv6_String gs =
     (case best_run gs of
        None \<Rightarrow> colon_join gs
      | Some (i, l) \<Rightarrow> colon_join (take i gs) @ ''::'' @ colon_join (drop (i + l) gs))"

definition ip_String :: "net_ip \<Rightarrow> string" where
  "ip_String ip =
     (case to4 ip of
        Some a \<Rightarrow> ipv4_String a
      | None \<Rightarrow> (case ip of IP4 a \<Rightarrow> ipv4_String a | IP16 gs \<Rightarrow> ipv6_String gs))"

section \<open>Scanning a number\<close>

text \<open>
  \<open>fmt.Sscanf(s, "%d", &v)\<close> into an int that is zero before: blanks are skipped, but a newline among
  them is an error; then an optional sign and digits. Whatever follows the digits is ignored. After
  an error, among them a value out of range, the variable is still zero.
\<close>

definition sscanf_d :: "string \<Rightarrow> int" where
  "sscanf_d s =
     (let t = trim_left s; skipped = take (length s - length t) s;
          neg = (t \<noteq> [] \<and> hd t = CHR ''-''); signed = (t \<noteq> [] \<and> (hd t = CHR ''-'' \<or> hd t = CHR ''+''));
          ds = takeWhile (\<lambda>c. digit_val c \<noteq> None) (if signed then tl t else t)
      in if CHR 0x0A \<in> set skipped \<or> ds = [] then 0
         else case digits_val 0 ds of
                None \<Rightarrow> 0
              | Some n \<Rightarrow> (let v = (if neg then - int n else int n) in if in_int64 v then v else 0))"

lemma trim_left_nonspace:
  assumes "c \<notin> hd ` set space_encodings"
  shows "trim_left (c # cs) = c # cs"
proof -
  have "\<not> hasPrefix (c # cs) p" if "p \<in> set space_encodings" for p
    using assms space_encodings_nonempty [OF that] that by (cases p) (force simp: hasPrefix_def)+
  then have "List.find (\<lambda>p. hasPrefix (c # cs) p) space_encodings = None" by (simp add: find_None_iff)
  then show ?thesis by (subst trim_left.simps) simp
qed

lemma eq_byte_iff: "n < 256 \<Longrightarrow> c = byte n \<longleftrightarrow> of_char c = n"
  by (metis byte_def char_of_char of_char_byte)

lemma digit_nonspace: "digit_val c \<noteq> None \<or> c = CHR ''-'' \<Longrightarrow> c \<notin> hd ` set space_encodings"
  by (auto simp: space_encodings_def digit_val_def Let_def eq_byte_iff)

lemma takeWhile_decimal [simp]: "takeWhile (\<lambda>c. \<exists>y. digit_val c = Some y) (decimal n) = decimal n"
  using decimal_chars by (fastforce simp: takeWhile_eq_all_conv)

lemma sscanf_sprintf [go_lib]:
  assumes "in_int64 i"
  shows "sscanf_d (sprintf_d i) = i"
proof (cases "i < 0")
  case True
  then have "trim_left (sprintf_d i) = CHR ''-'' # decimal (nat (- i))"
    by (simp add: sprintf_d_def trim_left_nonspace digit_nonspace)
  then show ?thesis using True assms by (simp add: sscanf_d_def sprintf_d_def Let_def)
next
  case False
  obtain c cs where d: "decimal (nat i) = c # cs" by (cases "decimal (nat i)") auto
  then have c: "digit_val c \<noteq> None" using decimal_chars [of c "nat i"] by simp
  then have "c \<noteq> CHR ''-''" and "c \<noteq> CHR ''+''" by auto
  moreover have "trim_left (sprintf_d i) = decimal (nat i)"
    using False c d by (simp add: sprintf_d_def trim_left_nonspace digit_nonspace)
  moreover have "hd (decimal (nat i)) = c" using d by simp
  ultimately show ?thesis using False assms by (simp add: sscanf_d_def sprintf_d_def Let_def)
qed

text \<open>The text of an IPv4 address is an IP literal.\<close>

lemma decimal_hd: "n \<noteq> 0 \<Longrightarrow> hd (decimal n) \<noteq> CHR ''0''"
proof (induction n rule: decimal.induct)
  case (1 n)
  show ?case
  proof (cases "n < 10")
    case True
    then have "of_char (digit n) \<noteq> (of_char CHR ''0'' :: nat)" using 1 by (simp add: digit_def)
    then show ?thesis using True by (auto simp: decimal.simps [of n])
  next
    case False
    then show ?thesis using 1 by (simp add: decimal.simps [of n])
  qed
qed

lemma octet_decimal: "octet_ok (decimal (unat (a :: 8 word)))"
proof -
  have "unat a < 256" using unsigned_less [where w = a] by simp
  moreover have "length (decimal (unat a)) = 1 \<or> hd (decimal (unat a)) \<noteq> CHR ''0''"
    by (cases "unat a = 0") (simp_all add: decimal_hd decimal.simps [of 0])
  ultimately show ?thesis by (simp add: octet_ok_def)
qed

lemma ipv4_text_String: "ipv4_text (ipv4_String a)"
proof (cases a)
  case (fields a b c d)
  have no_dot: "CHR ''.'' \<notin> set (decimal n)" for n
    by (rule decimal_no_char) (simp add: digit_val_def)
  show ?thesis
    by (simp add: fields ipv4_text_def Let_def no_dot octet_decimal)
qed

lemma parseIP_ipv4 [go_lib]: "parseIP_ok (ipv4_String a)"
proof (cases a)
  case (fields a b c d)
  let ?sep = "\<lambda>c. c = CHR ''.'' \<or> c = CHR '':'' \<or> c = CHR ''%''"
  have none: "\<not> ?sep c" if "c \<in> set (decimal n)" for c n
    using decimal_chars [OF that] by (auto simp: digit_val_def)
  have find_skip: "\<forall>x\<in>set xs. \<not> P x \<Longrightarrow> List.find P (xs @ y # ys) = (if P y then Some y else List.find P ys)"
    for P :: "char \<Rightarrow> bool" and xs y ys by (induction xs) auto
  have "List.find ?sep (ipv4_String (a, b, c, d)) = Some CHR ''.''"
    using find_skip [of "decimal (unat a)" ?sep "CHR ''.''"] none by auto
  then show ?thesis using ipv4_text_String [of "(a, b, c, d)"] by (simp add: parseIP_ok_def fields)
qed

lemma ipv4_String_plain: "plain_part (ipv4_String a)" "CHR '':'' \<notin> set (ipv4_String a)" "ipv4_String a \<noteq> []"
  by (cases a; simp add: plain_part_def; fastforce dest!: decimal_chars simp: digit_val_def)+

end
