(* ===== verification/DiscoveryMdns.thy ===== *)
theory DiscoveryMdns
  imports Discovery GoNet
begin

text \<open>
  mDNS discovery (\<open>internal/discovery/mdns.go\<close> and \<open>discovery.go\<close>) and its counterpart, the
  advertiser of \<open>internal/bootstrap/mdns_advertiser.go\<close>. The mDNS library is outside the
  repository: a query is a function of the world that gives the entries received before the query
  context ends, and a server is a handle.
\<close>

section \<open>Cluster identifiers\<close>

definition deriveClusterID :: "bytes \<Rightarrow> string" where
  "deriveClusterID key = (if length key = 0 then '''' else hex_encode (take 8 (sha256 key)))"

lemma length_deriveClusterID: "key \<noteq> [] \<Longrightarrow> length (deriveClusterID key) = 16"
  by (simp add: deriveClusterID_def)

lemma deriveClusterID_eq_Nil_iff [simp]: "deriveClusterID key = [] \<longleftrightarrow> key = []"
proof
  assume "deriveClusterID key = []"
  then show "key = []" using length_deriveClusterID [of key] by (cases "key = []") simp_all
qed (simp add: deriveClusterID_def)

text \<open>\<open>peerMapToSlice\<close>: the values of the map in the order of a Go \<open>range\<close>, which is any order.\<close>

definition peerMapToSlice :: "(PeerInfo list \<Rightarrow> PeerInfo list) \<Rightarrow> (string \<times> PeerInfo) list \<Rightarrow> PeerInfo list" where
  "peerMapToSlice range_order m = (if length m = 0 then [] else range_order (map snd m))"

definition range_ok :: "(PeerInfo list \<Rightarrow> PeerInfo list) \<Rightarrow> bool" where
  "range_ok range_order \<longleftrightarrow> (\<forall>xs. mset (range_order xs) = mset xs)"

section \<open>The discoverer\<close>

record MDNSConfig =
  mc_Service :: string
  mc_Domain :: string
  mc_Timeout :: duration
  mc_SecretKey :: bytes

record MDNSDiscoverer =
  md_service :: string
  md_domain :: string
  md_timeout :: duration
  md_clusterID :: string

definition DefaultMDNSService :: string where "DefaultMDNSService = ''_auto-consensus._tcp''"
definition DefaultMDNSDomain :: string where "DefaultMDNSDomain = ''local''"
definition DefaultMDNSTimeout :: duration where "DefaultMDNSTimeout = 2 * second"

definition NewMDNS :: "MDNSConfig \<Rightarrow> MDNSDiscoverer" where
  "NewMDNS cfg =
     \<lparr>md_service = (if mc_Service cfg = '''' then DefaultMDNSService else mc_Service cfg),
      md_domain = (if mc_Domain cfg = '''' then DefaultMDNSDomain else mc_Domain cfg),
      md_timeout = (if mc_Timeout cfg = 0 then DefaultMDNSTimeout else mc_Timeout cfg),
      md_clusterID = deriveClusterID (mc_SecretKey cfg)\<rparr>"

text \<open>An entry of the mDNS library; an IPv4 address is four bytes, or nil.\<close>

record service_entry =
  se_InfoFields :: "string list"
  se_AddrV4 :: "ipv4 option"
  se_Port :: int

text \<open>The three variables of the loop over the TXT fields.\<close>

definition txt_field :: "string \<Rightarrow> string \<times> string \<times> bool \<Rightarrow> string \<times> string \<times> bool" where
  "txt_field field = (\<lambda>(clusterID, gossipAddr, bootstrapped).
     if hasPrefix field ''cluster='' then (trimPrefix field ''cluster='', gossipAddr, bootstrapped)
     else if hasPrefix field ''gossip='' then (clusterID, trimPrefix field ''gossip='', bootstrapped)
     else if field = ''bootstrapped=1'' then (clusterID, gossipAddr, True)
     else (clusterID, gossipAddr, bootstrapped))"

definition parseEntry :: "MDNSDiscoverer \<Rightarrow> service_entry \<Rightarrow> PeerInfo option" where
  "parseEntry m entry =
     (case fold txt_field (se_InfoFields entry) ('''', '''', False) of
        (clusterID, gossipAddr, bootstrapped) \<Rightarrow>
          if md_clusterID m \<noteq> '''' \<and> clusterID \<noteq> md_clusterID m then None
          else if gossipAddr = '''' then
            (case se_AddrV4 entry of
               Some ip \<Rightarrow>
                 if se_Port entry > 0
                 then Some \<lparr>pi_Address = ipv4_String ip @ '':'' @ sprintf_d (se_Port entry),
                            pi_Bootstrapped = bootstrapped\<rparr>
                 else None
             | None \<Rightarrow> None)
          else Some \<lparr>pi_Address = gossipAddr, pi_Bootstrapped = bootstrapped\<rparr>)"

text \<open>
  The select loop of \<open>DiscoverPeers\<close>. The list holds what arrives on the channel \<open>entries\<close> before
  \<open>queryCtx\<close> is done, so its end is the branch \<open><-queryCtx.Done()\<close>; \<open>Closed\<close> is the close of the
  channel after the query.
\<close>

datatype mdns_event = Received "service_entry option" | Closed

definition merge_peer :: "PeerInfo \<Rightarrow> (string \<times> PeerInfo) list \<Rightarrow> (string \<times> PeerInfo) list" where
  "merge_peer peer peers =
     (case map_of peers (pi_Address peer) of
        Some existing \<Rightarrow>
          if pi_Bootstrapped peer \<and> \<not> pi_Bootstrapped existing
          then AList.update (pi_Address peer) peer peers else peers
      | None \<Rightarrow> AList.update (pi_Address peer) peer peers)"

fun mdns_loop :: "MDNSDiscoverer \<Rightarrow> mdns_event list \<Rightarrow> (string \<times> PeerInfo) list \<Rightarrow> (string \<times> PeerInfo) list" where
  "mdns_loop m [] peers = peers"
| "mdns_loop m (Closed # es) peers = peers"
| "mdns_loop m (Received None # es) peers = mdns_loop m es peers"
| "mdns_loop m (Received (Some entry) # es) peers =
     (case parseEntry m entry of
        None \<Rightarrow> mdns_loop m es peers
      | Some peer \<Rightarrow> mdns_loop m es (merge_peer peer peers))"

text \<open>
  The outside of a query: the time left until the context's deadline, if it has one, and the
  library's query (service, domain, timeout).
\<close>

record 'w mdns_net =
  mn_remaining :: "'w \<Rightarrow> duration option"
  mn_query :: "string \<Rightarrow> string \<Rightarrow> duration \<Rightarrow> 'w \<Rightarrow> mdns_event list \<times> 'w"
  mn_range :: "PeerInfo list \<Rightarrow> PeerInfo list"

definition query_timeout :: "MDNSDiscoverer \<Rightarrow> duration option \<Rightarrow> duration" where
  "query_timeout m remaining =
     (case remaining of
        Some r \<Rightarrow> if r < md_timeout m then r else md_timeout m
      | None \<Rightarrow> md_timeout m)"

definition DiscoverPeers :: "'w mdns_net \<Rightarrow> MDNSDiscoverer \<Rightarrow> 'w ctx \<Rightarrow> 'w
    \<Rightarrow> (PeerInfo list \<times> goerr option) \<times> 'w" where
  "DiscoverPeers N m ctx w =
     (case mn_query N (md_service m) (md_domain m) (query_timeout m (mn_remaining N w)) w of
        (es, w1) \<Rightarrow> ((peerMapToSlice (mn_range N) (mdns_loop m es []), None), w1))"

definition mdns_Discover :: "'w mdns_net \<Rightarrow> MDNSDiscoverer \<Rightarrow> 'w discover_fn" where
  "mdns_Discover N m ctx w =
     (case DiscoverPeers N m ctx w of
        ((_, Some err), w1) \<Rightarrow> (([], Some err), w1)
      | ((peers, None), w1) \<Rightarrow> ((map pi_Address peers, None), w1))"

interpretation mdns: discoverer "mdns_Discover N m" for N m
  by unfold_locales (auto simp: mdns_Discover_def split: prod.splits option.splits)

lemma query_timeout_le: "query_timeout m r \<le> md_timeout m"
  by (simp add: query_timeout_def split: option.splits)

subsection \<open>What a query finds\<close>

text \<open>The valid peers of the entries that the loop reads, and what the code keeps of them.\<close>

definition entry_peer :: "MDNSDiscoverer \<Rightarrow> mdns_event \<Rightarrow> PeerInfo option" where
  "entry_peer m e = (case e of Received (Some entry) \<Rightarrow> parseEntry m entry | _ \<Rightarrow> None)"

definition valid_peers :: "MDNSDiscoverer \<Rightarrow> mdns_event list \<Rightarrow> PeerInfo list" where
  "valid_peers m es = List.map_filter (entry_peer m) (takeWhile (\<lambda>e. e \<noteq> Closed) es)"

definition peer_summary :: "PeerInfo list \<Rightarrow> string \<Rightarrow> PeerInfo option" where
  "peer_summary ps a =
     (if \<exists>p\<in>set ps. pi_Address p = a
      then Some \<lparr>pi_Address = a, pi_Bootstrapped = (\<exists>p\<in>set ps. pi_Address p = a \<and> pi_Bootstrapped p)\<rparr>
      else None)"

lemma mdns_loop_fold: "mdns_loop m es peers = fold merge_peer (valid_peers m es) peers"
proof (induction m es peers rule: mdns_loop.induct)
  case (4 m entry es peers)
  then show ?case
    by (cases "parseEntry m entry") (simp_all add: valid_peers_def map_filter_simps entry_peer_def)
qed (simp_all add: valid_peers_def map_filter_simps entry_peer_def)

lemma map_of_merge_peer:
  "map_of (merge_peer p peers) =
     (case map_of peers (pi_Address p) of
        Some e \<Rightarrow> if pi_Bootstrapped p \<and> \<not> pi_Bootstrapped e
                then (map_of peers)(pi_Address p \<mapsto> p) else map_of peers
      | None \<Rightarrow> (map_of peers)(pi_Address p \<mapsto> p))"
  by (simp add: merge_peer_def update_conv' split: option.splits)

lemma peer_summary_snoc:
  "peer_summary (ps @ [p]) =
     (peer_summary ps)(pi_Address p \<mapsto>
        \<lparr>pi_Address = pi_Address p,
         pi_Bootstrapped = (pi_Bootstrapped p \<or>
           (case peer_summary ps (pi_Address p) of None \<Rightarrow> False | Some e \<Rightarrow> pi_Bootstrapped e))\<rparr>)"
  by (rule ext) (auto simp: peer_summary_def)

lemma map_of_fold_merge: "map_of (fold merge_peer ps []) = peer_summary ps"
proof (induction ps rule: rev_induct)
  case Nil
  then show ?case by (simp add: peer_summary_def fun_eq_iff)
next
  case (snoc p ps)
  have same: "(peer_summary ps)(a \<mapsto> e) = peer_summary ps" if "peer_summary ps a = Some e" for a e
    using that by (simp add: fun_upd_idem)
  have addr: "pi_Address e = a" if "peer_summary ps a = Some e" for a e
    using that by (auto simp: peer_summary_def split: if_splits)
  show ?case
  proof (cases "peer_summary ps (pi_Address p)")
    case None
    have "\<lparr>pi_Address = pi_Address p, pi_Bootstrapped = pi_Bootstrapped p\<rparr> = p" by simp
    then show ?thesis using None by (simp add: snoc map_of_merge_peer peer_summary_snoc fun_eq_iff)
  next
    case (Some e)
    have e: "e = \<lparr>pi_Address = pi_Address p, pi_Bootstrapped = pi_Bootstrapped e\<rparr>"
      using addr [OF Some] by simp
    show ?thesis
    proof (cases "pi_Bootstrapped p \<and> \<not> pi_Bootstrapped e")
      case True
      then have "\<lparr>pi_Address = pi_Address p, pi_Bootstrapped = True\<rparr> = p" by simp
      then show ?thesis using Some True
        by (simp add: snoc map_of_merge_peer peer_summary_snoc fun_eq_iff)
    next
      case False
      then have "\<lparr>pi_Address = pi_Address p, pi_Bootstrapped = pi_Bootstrapped p \<or> pi_Bootstrapped e\<rparr> = e"
        using e by auto
      moreover have "map_of (merge_peer p (fold merge_peer ps [])) = peer_summary ps"
        using Some False by (auto simp: snoc map_of_merge_peer)
      ultimately show ?thesis using Some same [OF Some] by (simp add: peer_summary_snoc)
    qed
  qed
qed

lemma distinct_fold_merge: "distinct (map fst peers) \<Longrightarrow> distinct (map fst (fold merge_peer ps peers))"
  by (induction ps arbitrary: peers) (auto simp: merge_peer_def distinct_update split: option.splits)

lemma keys_fold_merge:
  "(\<forall>(k, v)\<in>set peers. pi_Address v = k) \<Longrightarrow> \<forall>(k, v)\<in>set (fold merge_peer ps peers). pi_Address v = k"
proof (induction ps arbitrary: peers)
  case (Cons p ps)
  have "set (AList.update (pi_Address p) p peers) \<subseteq> insert (pi_Address p, p) (set peers)"
    by (induction peers) auto
  then have "\<forall>(k, v)\<in>set (merge_peer p peers). pi_Address v = k"
    using Cons.prems by (auto simp: merge_peer_def split: option.splits)
  then show ?case using Cons.IH by simp
qed simp

lemma peer_values_of_map:
  assumes "distinct (map fst al)" and "\<forall>(k, v)\<in>set al. pi_Address v = k"
  shows "x \<in> set (map snd al) \<longleftrightarrow> map_of al (pi_Address x) = Some x"
proof
  assume "x \<in> set (map snd al)"
  then obtain k where "(k, x) \<in> set al" by auto
  with assms(2) have "(pi_Address x, x) \<in> set al" by auto
  then show "map_of al (pi_Address x) = Some x" using assms(1) by simp
next
  assume "map_of al (pi_Address x) = Some x"
  then have "(pi_Address x, x) \<in> set al" by (rule map_of_SomeD)
  then show "x \<in> set (map snd al)" by force
qed

text \<open>
  C18. An mDNS query reports each address once, and marks it bootstrapped exactly when some valid
  entry for it was: the result has one peer per address of the valid entries received, its flag is
  the disjunction of theirs, and so it depends neither on the order of arrival nor on duplicates
  nor on the order in which Go ranges over the map.
\<close>

theorem DiscoverPeers_summary:
  assumes "range_ok (mn_range N)"
    and "mn_query N (md_service m) (md_domain m) (query_timeout m (mn_remaining N w)) w = (es, w1)"
  shows "\<exists>peers. DiscoverPeers N m ctx w = ((peers, None), w1) \<and> distinct (map pi_Address peers) \<and>
    (\<forall>p. p \<in> set peers \<longleftrightarrow> peer_summary (valid_peers m es) (pi_Address p) = Some p)"
proof -
  let ?al = "mdns_loop m es []"
  let ?peers = "peerMapToSlice (mn_range N) ?al"
  have al: "?al = fold merge_peer (valid_peers m es) []" by (rule mdns_loop_fold)
  have dist: "distinct (map fst ?al)" unfolding al by (rule distinct_fold_merge) simp
  have keys: "\<forall>(k, v)\<in>set ?al. pi_Address v = k" unfolding al by (rule keys_fold_merge) simp
  have mset: "mset ?peers = mset (map snd ?al)"
    using assms(1) by (simp add: peerMapToSlice_def range_ok_def)
  have "map pi_Address (map snd ?al) = map fst ?al" using keys by auto
  then have "distinct (map pi_Address (map snd ?al))" using dist by metis
  moreover have "mset (map pi_Address ?peers) = mset (map pi_Address (map snd ?al))"
    using mset by (simp only: mset_map)
  ultimately have "distinct (map pi_Address ?peers)" using mset_eq_imp_distinct_iff by metis
  moreover have "\<forall>p. p \<in> set ?peers \<longleftrightarrow> peer_summary (valid_peers m es) (pi_Address p) = Some p"
    using peer_values_of_map [OF dist keys] mset_eq_setD [OF mset] map_of_fold_merge al by metis
  moreover have "DiscoverPeers N m ctx w = ((?peers, None), w1)"
    using assms(2) by (simp add: DiscoverPeers_def)
  ultimately show ?thesis by blast
qed

definition sample_mdns_net :: "nat mdns_net" where
  "sample_mdns_net =
     \<lparr>mn_remaining = \<lambda>w. None,
      mn_query = \<lambda>service domain timeout w.
        ([Received (Some \<lparr>se_InfoFields = [''gossip=10.0.0.1:7946'', ''bootstrapped=0''], se_AddrV4 = None, se_Port = 0\<rparr>),
          Received (Some \<lparr>se_InfoFields = [''gossip=10.0.0.1:7946'', ''bootstrapped=1''], se_AddrV4 = None, se_Port = 0\<rparr>),
          Closed], Suc w),
      mn_range = rev\<rparr>"

definition sample_mdns :: MDNSDiscoverer where
  "sample_mdns = \<lparr>md_service = DefaultMDNSService, md_domain = DefaultMDNSDomain,
     md_timeout = DefaultMDNSTimeout, md_clusterID = []\<rparr>"

theorem DiscoverPeers_summary_witness:
  "\<exists>peers. DiscoverPeers sample_mdns_net sample_mdns (\<lambda>w. (None, w)) 0 = ((peers, None), 1) \<and>
    distinct (map pi_Address peers) \<and>
    (\<forall>p. p \<in> set peers \<longleftrightarrow>
      peer_summary (valid_peers sample_mdns
        (fst (mn_query sample_mdns_net DefaultMDNSService DefaultMDNSDomain 0 0))) (pi_Address p) = Some p)"
  by (rule DiscoverPeers_summary) (simp_all add: sample_mdns_net_def range_ok_def sample_mdns_def)

section \<open>The advertiser\<close>

record MDNSAdvertiserConfig =
  ac_NodeID :: string
  ac_Service :: string
  ac_Domain :: string
  ac_Port :: int
  ac_SecretKey :: bytes
  ac_GossipAddr :: string

record MDNSAdvertiser =
  ma_nodeID :: string
  ma_service :: string
  ma_domain :: string
  ma_port :: int
  ma_clusterID :: string
  ma_gossipAddr :: string
  ma_server :: "nat option"
  ma_started :: bool
  ma_bootstrapped :: bool

definition NewMDNSAdvertiser :: "MDNSAdvertiserConfig \<Rightarrow> MDNSAdvertiser" where
  "NewMDNSAdvertiser cfg =
     \<lparr>ma_nodeID = ac_NodeID cfg,
      ma_service = (if ac_Service cfg = '''' then DefaultMDNSService else ac_Service cfg),
      ma_domain = (if ac_Domain cfg = '''' then DefaultMDNSDomain else ac_Domain cfg),
      ma_port = ac_Port cfg, ma_clusterID = deriveClusterID (ac_SecretKey cfg),
      ma_gossipAddr = ac_GossipAddr cfg, ma_server = None, ma_started = False,
      ma_bootstrapped = False\<rparr>"

text \<open>
  What the mDNS library receives to build a service, and its operations on a world: creating the
  service, starting a server on it (a handle) and shutting one down. The host name and the local
  addresses come from the operating system.
\<close>

record mdns_service =
  ms_instance :: string
  ms_service :: string
  ms_domain :: string
  ms_host :: string
  ms_port :: int
  ms_ips :: "ipv4 list"
  ms_txt :: "string list"

datatype net_addr = IPv4Net ipv4 | OtherAddr

record 'w mdns_server_api =
  sa_Hostname :: "'w \<Rightarrow> string option"
  sa_InterfaceAddrs :: "'w \<Rightarrow> net_addr list option"
  sa_NewMDNSService :: "mdns_service \<Rightarrow> goerr option"
  sa_NewServer :: "mdns_service \<Rightarrow> 'w \<Rightarrow> (goerr + nat) \<times> 'w"
  sa_Shutdown :: "nat \<Rightarrow> 'w \<Rightarrow> 'w"

definition buildTXTRecords :: "MDNSAdvertiser \<Rightarrow> string list" where
  "buildTXTRecords a =
     (if ma_clusterID a \<noteq> '''' then [''cluster='' @ ma_clusterID a] else [])
     @ (if ma_gossipAddr a \<noteq> '''' then [''gossip='' @ ma_gossipAddr a] else [])
     @ (if ma_bootstrapped a then [''bootstrapped=1''] else [''bootstrapped=0''])"

text \<open>IPv4 addresses other than the loopback network 127/8.\<close>

definition local_ip :: "net_addr \<Rightarrow> ipv4 option" where
  "local_ip a = (case a of IPv4Net (p, q, r, s) \<Rightarrow> if p = 127 then None else Some (p, q, r, s)
                 | OtherAddr \<Rightarrow> None)"

definition getLocalIPs :: "'w mdns_server_api \<Rightarrow> 'w \<Rightarrow> ipv4 list" where
  "getLocalIPs S w =
     (case sa_InterfaceAddrs S w of None \<Rightarrow> [] | Some addrs \<Rightarrow> List.map_filter local_ip addrs)"

definition advertised_service :: "'w mdns_server_api \<Rightarrow> MDNSAdvertiser \<Rightarrow> 'w \<Rightarrow> mdns_service" where
  "advertised_service S a w =
     \<lparr>ms_instance = ma_nodeID a, ms_service = ma_service a,
      ms_domain = (if ma_domain a \<noteq> '''' \<and> last (ma_domain a) \<noteq> CHR ''.''
                   then ma_domain a @ ''.'' else ma_domain a),
      ms_host = (case sa_Hostname S w of None \<Rightarrow> ma_nodeID a | Some h \<Rightarrow> h) @ ''.'',
      ms_port = ma_port a, ms_ips = getLocalIPs S w, ms_txt = buildTXTRecords a\<rparr>"

definition startServerLocked :: "'w mdns_server_api \<Rightarrow> MDNSAdvertiser \<Rightarrow> 'w
    \<Rightarrow> (goerr option \<times> MDNSAdvertiser) \<times> 'w" where
  "startServerLocked S a w =
     (let svc = advertised_service S a w
      in case sa_NewMDNSService S svc of
           Some err \<Rightarrow> ((Some (Wrap ''failed to create mDNS service'' err), a), w)
         | None \<Rightarrow>
             (case sa_NewServer S svc w of
                (Inl err, w1) \<Rightarrow> ((Some (Wrap ''failed to start mDNS server'' err), a), w1)
              | (Inr server, w1) \<Rightarrow> ((None, a\<lparr>ma_server := Some server\<rparr>), w1)))"

definition advertiser_Start :: "'w mdns_server_api \<Rightarrow> MDNSAdvertiser \<Rightarrow> 'w
    \<Rightarrow> (goerr option \<times> MDNSAdvertiser) \<times> 'w" where
  "advertiser_Start S a w =
     (if ma_started a then ((None, a), w)
      else case startServerLocked S a w of
             ((Some err, a1), w1) \<Rightarrow> ((Some err, a1), w1)
           | ((None, a1), w1) \<Rightarrow> ((None, a1\<lparr>ma_started := True\<rparr>), w1))"

definition advertiser_Stop :: "'w mdns_server_api \<Rightarrow> MDNSAdvertiser \<Rightarrow> 'w \<Rightarrow> MDNSAdvertiser \<times> 'w" where
  "advertiser_Stop S a w =
     (if \<not> ma_started a then (a, w)
      else case ma_server a of
             Some srv \<Rightarrow> (a\<lparr>ma_server := None, ma_started := False\<rparr>, sa_Shutdown S srv w)
           | None \<Rightarrow> (a\<lparr>ma_started := False\<rparr>, w))"

text \<open>The error of the restart is dropped, as in the code.\<close>

definition advertiser_SetBootstrapped :: "'w mdns_server_api \<Rightarrow> bool \<Rightarrow> MDNSAdvertiser \<Rightarrow> 'w
    \<Rightarrow> MDNSAdvertiser \<times> 'w" where
  "advertiser_SetBootstrapped S b a w =
     (if ma_bootstrapped a = b then (a, w)
      else let a1 = a\<lparr>ma_bootstrapped := b\<rparr>
           in if ma_started a1 \<and> ma_server a1 \<noteq> None
              then (case startServerLocked S a1 (sa_Shutdown S (the (ma_server a1)) w) of
                      ((_, a2), w2) \<Rightarrow> (a2, w2))
              else (a1, w))"

subsection \<open>Discoverers read what advertisers write\<close>

text \<open>The library delivers the TXT records of the service in its entry.\<close>

definition entry_of :: "mdns_service \<Rightarrow> ipv4 option \<Rightarrow> service_entry" where
  "entry_of svc ip = \<lparr>se_InfoFields = ms_txt svc, se_AddrV4 = ip, se_Port = ms_port svc\<rparr>"

lemma txt_field_simps [simp]:
  "txt_field (CHR ''c'' # CHR ''l'' # CHR ''u'' # CHR ''s'' # CHR ''t'' # CHR ''e'' # CHR ''r'' # CHR ''='' # s) (c, g, b)
     = (s, g, b)"
  "txt_field (CHR ''g'' # CHR ''o'' # CHR ''s'' # CHR ''s'' # CHR ''i'' # CHR ''p'' # CHR ''='' # s) (c, g, b)
     = (c, s, b)"
  "txt_field ''bootstrapped=1'' (c, g, b) = (c, g, True)"
  "txt_field ''bootstrapped=0'' (c, g, b) = (c, g, b)"
  by (simp_all add: txt_field_def hasPrefix_def trimPrefix_def)

lemma fold_txt_records:
  "fold txt_field (buildTXTRecords a) ('''', '''', False) =
     (ma_clusterID a, ma_gossipAddr a, ma_bootstrapped a)"
  by (simp add: buildTXTRecords_def)

lemma parseEntry_advertised:
  assumes "ma_gossipAddr a \<noteq> ''''"
  shows "parseEntry m (entry_of (advertised_service S a w) ip) =
    (if md_clusterID m \<noteq> '''' \<and> ma_clusterID a \<noteq> md_clusterID m then None
     else Some \<lparr>pi_Address = ma_gossipAddr a, pi_Bootstrapped = ma_bootstrapped a\<rparr>)"
  using assms by (simp add: parseEntry_def entry_of_def advertised_service_def fold_txt_records)

interpretation txt_records: codec
  "\<lambda>a. buildTXTRecords a"
  "\<lambda>txt. fold txt_field txt ('''', '''', False)"
  "\<lambda>a. (ma_clusterID a, ma_gossipAddr a, ma_bootstrapped a)"
  "\<lambda>_. True"
  by unfold_locales (rule fold_txt_records)

text \<open>
  C19. Advertising and discovery agree: a discoverer reads from the entry of an advertiser exactly
  its gossip address and its bootstrapped flag when both were made with the same secret key, and
  rejects the entry when the discoverer has a secret key whose cluster identifier differs.
\<close>

theorem advertised_entry_roundtrip:
  assumes "ac_GossipAddr cfg \<noteq> ''''"
  shows "parseEntry (NewMDNS mcfg)
      (entry_of (advertised_service S ((NewMDNSAdvertiser cfg)\<lparr>ma_bootstrapped := b\<rparr>) w) ip) =
    (if mc_SecretKey mcfg \<noteq> [] \<and> deriveClusterID (ac_SecretKey cfg) \<noteq> deriveClusterID (mc_SecretKey mcfg)
     then None
     else Some \<lparr>pi_Address = ac_GossipAddr cfg, pi_Bootstrapped = b\<rparr>)"
  using assms by (simp add: parseEntry_advertised NewMDNSAdvertiser_def NewMDNS_def)

definition sample_server_api :: "nat mdns_server_api" where
  "sample_server_api =
     \<lparr>sa_Hostname = \<lambda>w. Some ''host'', sa_InterfaceAddrs = \<lambda>w. Some [IPv4Net (127, 0, 0, 1), IPv4Net (10, 0, 0, 1)],
      sa_NewMDNSService = \<lambda>svc. None, sa_NewServer = \<lambda>svc w. (Inr w, Suc w), sa_Shutdown = \<lambda>h w. Suc w\<rparr>"

definition sample_advertiser_config :: MDNSAdvertiserConfig where
  "sample_advertiser_config =
     \<lparr>ac_NodeID = ''n1'', ac_Service = [], ac_Domain = [], ac_Port = 7946,
      ac_SecretKey = [], ac_GossipAddr = ''10.0.0.1:7946''\<rparr>"

theorem advertised_entry_roundtrip_witness:
  "parseEntry (NewMDNS \<lparr>mc_Service = [], mc_Domain = [], mc_Timeout = 0, mc_SecretKey = []\<rparr>)
      (entry_of (advertised_service sample_server_api
        ((NewMDNSAdvertiser sample_advertiser_config)\<lparr>ma_bootstrapped := True\<rparr>) 0) None) =
    Some \<lparr>pi_Address = ''10.0.0.1:7946'', pi_Bootstrapped = True\<rparr>"
  by (subst advertised_entry_roundtrip) (simp_all add: sample_advertiser_config_def)

subsection \<open>The advertiser's server follows its state\<close>

text \<open>The well-formed states: stopped advertisers have no server, started ones have one.\<close>

definition advertiser_ok :: "MDNSAdvertiser \<Rightarrow> bool" where
  "advertiser_ok a \<longleftrightarrow> (ma_started a \<longleftrightarrow> ma_server a \<noteq> None)"

lemma advertiser_ok_new: "advertiser_ok (NewMDNSAdvertiser cfg)"
  by (simp add: advertiser_ok_def NewMDNSAdvertiser_def)

lemma startServerLocked_frame [frame]:
  "startServerLocked S a w = ((err, a'), w') \<Longrightarrow>
     ma_started a' = ma_started a \<and> ma_bootstrapped a' = ma_bootstrapped a \<and>
     (err = None \<longrightarrow> ma_server a' \<noteq> None) \<and> (err \<noteq> None \<longrightarrow> a' = a)"
  by (auto simp: startServerLocked_def Let_def split: option.splits sum.splits prod.splits)

lemma advertiser_Start_ok:
  "advertiser_Start S a w = ((err, a'), w') \<Longrightarrow> advertiser_ok a \<Longrightarrow>
     advertiser_ok a' \<and> (err = None \<longrightarrow> ma_started a')"
  by (auto simp: advertiser_Start_def advertiser_ok_def split: if_splits prod.splits option.splits
      dest!: startServerLocked_frame)

lemma advertiser_Stop_ok:
  "advertiser_Stop S a w = (a', w') \<Longrightarrow> advertiser_ok a \<Longrightarrow> advertiser_ok a' \<and> \<not> ma_started a'"
  by (auto simp: advertiser_Stop_def advertiser_ok_def split: if_splits option.splits)

lemma advertiser_SetBootstrapped_ok:
  "advertiser_SetBootstrapped S b a w = (a', w') \<Longrightarrow> advertiser_ok a \<Longrightarrow>
     advertiser_ok a' \<and> ma_bootstrapped a' = b \<and> ma_started a' = ma_started a"
  by (auto simp: advertiser_SetBootstrapped_def advertiser_ok_def Let_def
      split: if_splits prod.splits dest!: startServerLocked_frame)

lemmas advertiser_ok_ops = advertiser_Start_ok advertiser_Stop_ok advertiser_SetBootstrapped_ok

end
