(* ===== verification/HashDelay.thy ===== *)
theory HashDelay
  imports GoCrypto
begin

unbundle bit_operations_syntax

text \<open>
  The delays that the program derives from a node's name. Two places compute the same fraction of
  the first eight bytes of a SHA-256 digest: \<open>hashBasedDelay\<close> of the bootstrapper and
  \<open>hashBasedJitter\<close> of the Raft node. The \<open>float64\<close> steps are written out: the conversion of the
  64-bit value rounds to 53 bits, dividing by \<open>float64(^uint64(0))\<close>, which is \<open>2^64\<close>, is exact, the
  product with a duration rounds again, and the conversion to a duration drops the fraction.
\<close>

definition hash_value :: "bytes \<Rightarrow> 64 word" where
  "hash_value h = fold (\<lambda>c v. push_bit 8 v OR of_nat (of_char c)) (take 8 h) 0"

definition hash_fraction_of :: "nat \<Rightarrow> string \<Rightarrow> duration" where
  "hash_fraction_of d nodeID =
     int (round53 (round53 (unat (hash_value (sha256 nodeID))) * d) div 2 ^ 64)"

definition hashBasedJitter :: "string \<Rightarrow> duration" where
  "hashBasedJitter nodeID = hash_fraction_of 3000000000 nodeID"

text \<open>\<open>jitter := time.Duration(float64(d) * jitterFactor * rand.Float64())\<close>, where the
  random number is \<open>k / 2^53\<close> for some \<open>k < 2^53\<close> and the factor is one half.\<close>

definition backoff_jitter :: "nat \<Rightarrow> nat \<Rightarrow> duration" where
  "backoff_jitter d k = int (round53 (round53 d * k) div 2 ^ 54)"

lemma round53_unat64: "round53 (unat (x :: 64 word)) \<le> 2 ^ 64"
proof -
  have "unat x < 2 ^ 64" using unsigned_less [where w = x] by simp
  then show ?thesis using round53_le [of "unat x" 1 64] by simp
qed

lemma hash_fraction_bounds:
  assumes "d < 2 ^ 53"
  shows "0 \<le> hash_fraction_of d nodeID \<and> hash_fraction_of d nodeID \<le> int d"
proof -
  let ?r = "round53 (unat (hash_value (sha256 nodeID)))"
  have r: "?r \<le> 2 ^ 64" by (rule round53_unat64)
  then have le: "?r * d \<le> d * 2 ^ 64" by (simp add: mult.commute)
  have "d * 2 ^ 64 < 2 ^ (53 + 64)" using assms by (simp add: power_add)
  then have "round53 (?r * d) \<le> d * 2 ^ 64" by (rule round53_le [OF le le_less_trans [OF le]])
  then have "round53 (?r * d) div 2 ^ 64 \<le> d"
    using div_le_mono [of "round53 (?r * d)" "d * 2 ^ 64" "2 ^ 64"] by simp
  then show ?thesis by (simp add: hash_fraction_of_def del: of_nat_le_iff)
qed

lemma backoff_jitter_bounds:
  assumes "d < 2 ^ 53" and "k < 2 ^ 53"
  shows "0 \<le> backoff_jitter d k \<and> 2 * backoff_jitter d k \<le> int d"
proof -
  have le: "d * k \<le> d * 2 ^ 53" using assms(2) by simp
  have "d * 2 ^ 53 < 2 ^ (53 + 53)" using assms(1) by (simp add: power_add)
  then have "round53 (d * k) \<le> d * 2 ^ 53" by (rule round53_le [OF le le_less_trans [OF le]])
  then have "2 * (round53 (d * k) div 2 ^ 54) \<le> d" by simp
  then show ?thesis using assms(1)
    by (simp add: backoff_jitter_def round53_small del: of_nat_le_iff)
qed

text \<open>
  C20. The restart jitter lies between zero and three seconds for every node name, rounding
  included, and it is a function of the name alone, so that a node always waits the same time.
\<close>

theorem hashBasedJitter_bounds: "0 \<le> hashBasedJitter nodeID \<and> hashBasedJitter nodeID \<le> 3 * second"
  using hash_fraction_bounds [of 3000000000 nodeID] by (simp add: hashBasedJitter_def second_def)

end
