(* ===== verification/RaftMembership.thy ===== *)
theory RaftMembership
  imports GossipDelegate "HOL-Library.AList"
begin

text \<open>
  Package \<open>internal/raft\<close>, membership side: \<open>reconcile.go\<close> and the peer callbacks of
  \<open>callbacks.go\<close>. The leader keeps the Raft configuration in step with the gossip membership,
  peer by peer when an event arrives and as a whole on every tick.

  The Raft library is outside the repository. The program reaches it through \<open>raftInterface\<close>, a
  record of functions on the world \<open>'w\<close> here, and nothing is assumed of them unless a
  statement says so. The gossip side is \<open>gossipMembersProvider\<close>, a function that lists members.
\<close>

section \<open>The interfaces\<close>

datatype RaftState = Follower | Candidate | Leader | RaftShutdown

record server =
  sv_ID :: string
  sv_Address :: string

record 'w raftInterface =
  ri_State :: "'w \<Rightarrow> RaftState \<times> 'w"
  ri_GetConfiguration :: "'w \<Rightarrow> (server list \<times> goerr option) \<times> 'w"
  ri_AddVoter :: "string \<Rightarrow> string \<Rightarrow> nat \<Rightarrow> duration \<Rightarrow> 'w \<Rightarrow> goerr option \<times> 'w"
  ri_RemoveServer :: "string \<Rightarrow> nat \<Rightarrow> duration \<Rightarrow> 'w \<Rightarrow> goerr option \<times> 'w"

type_synonym 'w members_fn = "'w \<Rightarrow> gossip_info list \<times> 'w"

text \<open>
  A value of the Go interface type: nil, an interface around a nil \<open>*gossip.Gossip\<close> (which is not
  equal to nil, and whose method dereferences the pointer), or a live provider.
\<close>

datatype 'w provider = NilInterface | NilPointer | Live "'w members_fn"

record peer_info =
  ci_ID :: string
  ci_RaftAddr :: string

definition defaultOperationTimeout :: duration where
  "defaultOperationTimeout = 10 * second"

section \<open>Reconciliation\<close>

definition raft_servers_map :: "server list \<Rightarrow> string \<rightharpoonup> string" where
  "raft_servers_map servers = fold (\<lambda>s m. m(sv_ID s \<mapsto> sv_Address s)) servers Map.empty"

text \<open>One iteration over the gossip members.\<close>

definition reconcile_member :: "'w raftInterface \<Rightarrow> string \<Rightarrow> (string \<rightharpoonup> string) \<Rightarrow> gossip_info \<Rightarrow> 'w \<Rightarrow> 'w" where
  "reconcile_member ra selfID raftServers member w =
     (if gi_ID member = selfID \<or> \<not> gi_Bootstrapped member \<or> gi_RaftAddr member = '''' then w
      else case raftServers (gi_ID member) of
        None \<Rightarrow> snd (ri_AddVoter ra (gi_ID member) (gi_RaftAddr member) 0 defaultOperationTimeout w)
      | Some existingAddr \<Rightarrow>
          if existingAddr = gi_RaftAddr member then w
          else (case ri_RemoveServer ra (gi_ID member) 0 defaultOperationTimeout w of
                  (Some err, w1) \<Rightarrow> w1
                | (None, w1) \<Rightarrow>
                    snd (ri_AddVoter ra (gi_ID member) (gi_RaftAddr member) 0 defaultOperationTimeout w1)))"

text \<open>One iteration over the servers of the configuration.\<close>

definition reconcile_server :: "'w raftInterface \<Rightarrow> string \<Rightarrow> string list \<Rightarrow> server \<Rightarrow> 'w \<Rightarrow> 'w" where
  "reconcile_server ra selfID gossipMembers s w =
     (if sv_ID s = selfID \<or> sv_ID s \<in> set gossipMembers then w
      else snd (ri_RemoveServer ra (sv_ID s) 0 defaultOperationTimeout w))"

definition reconcileMembersWithRaft :: "'w raftInterface \<Rightarrow> string \<Rightarrow> 'w members_fn \<Rightarrow> 'w \<Rightarrow> 'w" where
  "reconcileMembersWithRaft ra selfID g w =
     (case ri_State ra w of
        (st, w1) \<Rightarrow>
          if st \<noteq> Leader then w1
          else case g w1 of
            (members, w2) \<Rightarrow>
              case ri_GetConfiguration ra w2 of
                ((servers, Some err), w3) \<Rightarrow> w3
              | ((servers, None), w3) \<Rightarrow>
                  fold (reconcile_server ra selfID (map gi_ID members)) servers
                    (fold (reconcile_member ra selfID (raft_servers_map servers)) members w3))"

section \<open>Peer events\<close>

text \<open>The loop of \<open>isPeerBootstrappedWithGossip\<close> over the members, and the function.\<close>

fun member_bootstrapped :: "string \<Rightarrow> gossip_info list \<Rightarrow> bool" where
  "member_bootstrapped peerID [] = False"
| "member_bootstrapped peerID (m # ms) =
     (if gi_ID m = peerID then gi_Bootstrapped m else member_bootstrapped peerID ms)"

fun isPeerBootstrappedWithGossip :: "string \<Rightarrow> 'w provider \<Rightarrow> 'w \<Rightarrow> panic + (bool \<times> 'w)" where
  "isPeerBootstrappedWithGossip peerID NilInterface w = Inr (True, w)"
| "isPeerBootstrappedWithGossip peerID NilPointer w = Inl NilDereference"
| "isPeerBootstrappedWithGossip peerID (Live g) w =
     (case g w of (ms, w1) \<Rightarrow> Inr (member_bootstrapped peerID ms, w1))"

text \<open>
  The loop over the servers: the first entry with the peer's name decides. \<open>AlreadyThere\<close> is the
  early return; \<open>Stale\<close> the removal of an entry with another address, whose error is only logged;
  \<open>Absent\<close> the end of the loop.
\<close>

datatype peer_entry = AlreadyThere | Stale string | Absent

fun find_peer_entry :: "peer_info \<Rightarrow> server list \<Rightarrow> peer_entry" where
  "find_peer_entry peer [] = Absent"
| "find_peer_entry peer (s # ss) =
     (if sv_ID s = ci_ID peer
      then (if sv_Address s = ci_RaftAddr peer then AlreadyThere else Stale (sv_ID s))
      else find_peer_entry peer ss)"

definition add_peer :: "'w raftInterface \<Rightarrow> peer_info \<Rightarrow> 'w \<Rightarrow> 'w" where
  "add_peer ra peer w = snd (ri_AddVoter ra (ci_ID peer) (ci_RaftAddr peer) 0 defaultOperationTimeout w)"

definition handlePeerJoinWithRaft :: "'w raftInterface \<Rightarrow> peer_info \<Rightarrow> 'w provider \<Rightarrow> 'w \<Rightarrow> panic + 'w" where
  "handlePeerJoinWithRaft ra peer g w =
     (case ri_State ra w of
        (st, w1) \<Rightarrow>
          if st \<noteq> Leader then Inr w1
          else if ci_RaftAddr peer = '''' then Inr w1
          else case isPeerBootstrappedWithGossip (ci_ID peer) g w1 of
            Inl p \<Rightarrow> Inl p
          | Inr (False, w2) \<Rightarrow> Inr w2
          | Inr (True, w2) \<Rightarrow>
              (case ri_GetConfiguration ra w2 of
                 ((servers, Some err), w3) \<Rightarrow> Inr (add_peer ra peer w3)
               | ((servers, None), w3) \<Rightarrow>
                   (case find_peer_entry peer servers of
                      AlreadyThere \<Rightarrow> Inr w3
                    | Stale sid \<Rightarrow>
                        Inr (add_peer ra peer (snd (ri_RemoveServer ra sid 0 defaultOperationTimeout w3)))
                    | Absent \<Rightarrow> Inr (add_peer ra peer w3))))"

text \<open>The leave event, for a running Raft node; the caller has read \<open>n.raft\<close> and \<open>n.selfInfo.ID\<close>.\<close>

definition handlePeerLeaveWithRaft :: "'w raftInterface \<Rightarrow> string \<Rightarrow> peer_info \<Rightarrow> 'w \<Rightarrow> 'w" where
  "handlePeerLeaveWithRaft ra selfID peer w =
     (case ri_State ra w of
        (st, w1) \<Rightarrow>
          if st \<noteq> Leader \<or> ci_ID peer = selfID then w1
          else snd (ri_RemoveServer ra (ci_ID peer) 0 defaultOperationTimeout w1))"

section \<open>Recording the calls\<close>

text \<open>
  To speak of the calls that the program makes, run it on a Raft library that writes them down:
  the world is paired with the list of membership changes requested so far.
\<close>

datatype raft_call = AddVoterCall string string | RemoveServerCall string

definition traced :: "'w raftInterface \<Rightarrow> ('w \<times> raft_call list) raftInterface" where
  "traced ra =
     \<lparr>ri_State = \<lambda>(w, cs). (let (s, w1) = ri_State ra w in (s, (w1, cs))),
      ri_GetConfiguration = \<lambda>(w, cs). (let (r, w1) = ri_GetConfiguration ra w in (r, (w1, cs))),
      ri_AddVoter = \<lambda>i a p t (w, cs).
        (let (e, w1) = ri_AddVoter ra i a p t w in (e, (w1, cs @ [AddVoterCall i a]))),
      ri_RemoveServer = \<lambda>i p t (w, cs).
        (let (e, w1) = ri_RemoveServer ra i p t w in (e, (w1, cs @ [RemoveServerCall i])))\<rparr>"

definition traced_members :: "'w members_fn \<Rightarrow> ('w \<times> raft_call list) members_fn" where
  "traced_members g = (\<lambda>(w, cs). (let (ms, w1) = g w in (ms, (w1, cs))))"

lemma traced_simps [simp]:
  "ri_State (traced ra) (w, cs) = (fst (ri_State ra w), (snd (ri_State ra w), cs))"
  "ri_GetConfiguration (traced ra) (w, cs) =
     (fst (ri_GetConfiguration ra w), (snd (ri_GetConfiguration ra w), cs))"
  "ri_AddVoter (traced ra) i a p t (w, cs) =
     (fst (ri_AddVoter ra i a p t w), (snd (ri_AddVoter ra i a p t w), cs @ [AddVoterCall i a]))"
  "ri_RemoveServer (traced ra) i p t (w, cs) =
     (fst (ri_RemoveServer ra i p t w), (snd (ri_RemoveServer ra i p t w), cs @ [RemoveServerCall i]))"
  "traced_members g (w, cs) = (fst (g w), (snd (g w), cs))"
  by (simp_all add: traced_def traced_members_def split_beta Let_def)

text \<open>The calls that one reconciliation may make.\<close>

fun call_allowed :: "string \<Rightarrow> gossip_info list \<Rightarrow> server list \<Rightarrow> raft_call \<Rightarrow> bool" where
  "call_allowed selfID members servers (AddVoterCall i a) \<longleftrightarrow>
     i \<noteq> selfID \<and> a \<noteq> '''' \<and> (\<exists>m\<in>set members. gi_ID m = i \<and> gi_RaftAddr m = a \<and> gi_Bootstrapped m)"
| "call_allowed selfID members servers (RemoveServerCall i) \<longleftrightarrow>
     i \<noteq> selfID \<and> i \<in> sv_ID ` set servers \<and>
     (i \<notin> gi_ID ` set members \<or>
      (\<exists>m\<in>set members. gi_ID m = i \<and> gi_Bootstrapped m \<and> gi_RaftAddr m \<noteq> '''' \<and>
         raft_servers_map servers i \<noteq> Some (gi_RaftAddr m)))"

lemma raft_servers_map_dom_aux:
  "fold (\<lambda>s m. m(sv_ID s \<mapsto> sv_Address s)) servers m0 i = Some a \<Longrightarrow>
     (\<exists>s\<in>set servers. sv_ID s = i \<and> sv_Address s = a) \<or> m0 i = Some a"
  by (induction servers arbitrary: m0) (fastforce split: if_splits)+

lemma raft_servers_map_SomeD:
  "raft_servers_map servers i = Some a \<Longrightarrow> \<exists>s\<in>set servers. sv_ID s = i \<and> sv_Address s = a"
  unfolding raft_servers_map_def by (drule raft_servers_map_dom_aux) simp

definition calls_allowed :: "string \<Rightarrow> gossip_info list \<Rightarrow> server list \<Rightarrow> 'w \<times> raft_call list \<Rightarrow> bool" where
  "calls_allowed selfID members servers wc \<longleftrightarrow> list_all (call_allowed selfID members servers) (snd wc)"

lemma reconcile_member_traced:
  assumes "m \<in> set members" and "calls_allowed selfID members servers (w, cs)"
  shows "calls_allowed selfID members servers
    (reconcile_member (traced ra) selfID (raft_servers_map servers) m (w, cs))"
proof (cases "raft_servers_map servers (gi_ID m)")
  case None
  then show ?thesis using assms by (auto simp: reconcile_member_def calls_allowed_def)
next
  case (Some a)
  then have "gi_ID m \<in> sv_ID ` set servers" by (force dest: raft_servers_map_SomeD)
  then show ?thesis using assms Some
    by (auto simp: reconcile_member_def calls_allowed_def split: prod.splits option.splits)
qed

lemma reconcile_server_traced:
  assumes "s \<in> set servers" and "calls_allowed selfID members servers (w, cs)"
  shows "calls_allowed selfID members servers
    (reconcile_server (traced ra) selfID (map gi_ID members) s (w, cs))"
  using assms by (auto simp: reconcile_server_def calls_allowed_def)

text \<open>
  C2. A reconciliation pass changes the cluster only as it should, whatever Raft, the gossip layer
  and the network answer: it makes no membership change unless the node is the leader and read
  the configuration; it never adds or removes the node itself; it adds only members that gossip
  reports as bootstrapped, under their announced, non-empty address; it removes only servers
  of the configuration that left the gossip membership or whose announced address changed.
\<close>

theorem reconcile_calls_allowed:
  "\<forall>c \<in> set (snd (reconcileMembersWithRaft (traced ra) selfID (traced_members g) (w, []))).
     \<exists>w1 members w2 servers w3.
       ri_State ra w = (Leader, w1) \<and> g w1 = (members, w2) \<and>
       ri_GetConfiguration ra w2 = ((servers, None), w3) \<and> call_allowed selfID members servers c"
proof -
  obtain st w1 where st: "ri_State ra w = (st, w1)" by (cases "ri_State ra w")
  obtain members w2 where g: "g w1 = (members, w2)" by (cases "g w1")
  obtain servers err w3 where cf: "ri_GetConfiguration ra w2 = ((servers, err), w3)"
    by (metis prod.collapse)
  show ?thesis
  proof (cases "st = Leader \<and> err = None")
    case False
    then show ?thesis using st g cf
      by (auto simp: reconcileMembersWithRaft_def split: option.splits)
  next
    case True
    let ?ok = "calls_allowed selfID members servers"
    let ?mid = "fold (reconcile_member (traced ra) selfID (raft_servers_map servers)) members (w3, [])"
    let ?fin = "fold (reconcile_server (traced ra) selfID (map gi_ID members)) servers ?mid"
    have "?ok ?mid"
    proof (rule fold_invariant [where P = ?ok])
      show "?ok (w3, [])" by (simp add: calls_allowed_def)
    qed (metis prod.collapse reconcile_member_traced)
    then have "?ok ?fin"
    proof (rule fold_invariant [where P = ?ok])
    qed (metis prod.collapse reconcile_server_traced)
    then have "call_allowed selfID members servers c" if "c \<in> set (snd ?fin)" for c
      using that by (simp add: calls_allowed_def list_all_iff)
    moreover have "reconcileMembersWithRaft (traced ra) selfID (traced_members g) (w, []) = ?fin"
      using True st g cf by (simp add: reconcileMembersWithRaft_def)
    ultimately show ?thesis using True st g cf by auto
  qed
qed

section \<open>Convergence\<close>

text \<open>
  The documented behaviour of the Raft library, as seen through a view \<open>conf\<close> of the world that
  maps each server of the cluster to its address: asking for the role or the configuration does
  not change it; the configuration lists it, each server once; a membership change that succeeds
  has been made, and one that fails has been made or not, but has touched no other server.
\<close>

definition raft_laws :: "'w raftInterface \<Rightarrow> ('w \<Rightarrow> string \<rightharpoonup> string) \<Rightarrow> bool" where
  "raft_laws ra conf \<longleftrightarrow>
     (\<forall>w. conf (snd (ri_State ra w)) = conf w) \<and>
     (\<forall>w. conf (snd (ri_GetConfiguration ra w)) = conf w) \<and>
     (\<forall>w servers w'. ri_GetConfiguration ra w = ((servers, None), w') \<longrightarrow>
        raft_servers_map servers = conf w \<and> distinct (map sv_ID servers)) \<and>
     (\<forall>i a p t w e w'. ri_AddVoter ra i a p t w = (e, w') \<longrightarrow>
        conf w' = (conf w)(i \<mapsto> a) \<or> e \<noteq> None \<and> conf w' = conf w) \<and>
     (\<forall>i p t w e w'. ri_RemoveServer ra i p t w = (e, w') \<longrightarrow>
        conf w' = (conf w)(i := None) \<or> e \<noteq> None \<and> conf w' = conf w)"

text \<open>A leader whose calls all succeed.\<close>

definition raft_serves :: "'w raftInterface \<Rightarrow> bool" where
  "raft_serves ra \<longleftrightarrow>
     (\<forall>w. fst (ri_State ra w) = Leader) \<and>
     (\<forall>w. snd (fst (ri_GetConfiguration ra w)) = None) \<and>
     (\<forall>i a p t w. fst (ri_AddVoter ra i a p t w) = None) \<and>
     (\<forall>i p t w. fst (ri_RemoveServer ra i p t w) = None)"

definition quiet_members :: "'w members_fn \<Rightarrow> ('w \<Rightarrow> string \<rightharpoonup> string) \<Rightarrow> bool" where
  "quiet_members g conf \<longleftrightarrow> (\<forall>w. conf (snd (g w)) = conf w)"

lemma raft_lawsD:
  assumes "raft_laws ra conf"
  shows "conf (snd (ri_State ra w)) = conf w"
    and "conf (snd (ri_GetConfiguration ra w)) = conf w"
    and "ri_GetConfiguration ra w = ((servers, None), w') \<Longrightarrow> raft_servers_map servers = conf w"
    and "ri_GetConfiguration ra w = ((servers, None), w') \<Longrightarrow> distinct (map sv_ID servers)"
    and "j \<noteq> i \<Longrightarrow> conf (snd (ri_AddVoter ra i a p t w)) j = conf w j"
    and "j \<noteq> i \<Longrightarrow> conf (snd (ri_RemoveServer ra i p t w)) j = conf w j"
    and "ri_AddVoter ra i a p t w = (None, w') \<Longrightarrow> conf w' = (conf w)(i \<mapsto> a)"
    and "ri_RemoveServer ra i p t w = (None, w') \<Longrightarrow> conf w' = (conf w)(i := None)"
proof -
  have add: "conf w' = (conf w)(i \<mapsto> a) \<or> e \<noteq> None \<and> conf w' = conf w"
    if "ri_AddVoter ra i a p t w = (e, w')" for e w'
    using assms that unfolding raft_laws_def by blast
  have rem: "conf w' = (conf w)(i := None) \<or> e \<noteq> None \<and> conf w' = conf w"
    if "ri_RemoveServer ra i p t w = (e, w')" for e w'
    using assms that unfolding raft_laws_def by blast
  show "j \<noteq> i \<Longrightarrow> conf (snd (ri_AddVoter ra i a p t w)) j = conf w j"
    using add [of "fst (ri_AddVoter ra i a p t w)" "snd (ri_AddVoter ra i a p t w)"] by auto
  show "j \<noteq> i \<Longrightarrow> conf (snd (ri_RemoveServer ra i p t w)) j = conf w j"
    using rem [of "fst (ri_RemoveServer ra i p t w)" "snd (ri_RemoveServer ra i p t w)"] by auto
  show "ri_AddVoter ra i a p t w = (None, w') \<Longrightarrow> conf w' = (conf w)(i \<mapsto> a)"
    using add by blast
  show "ri_RemoveServer ra i p t w = (None, w') \<Longrightarrow> conf w' = (conf w)(i := None)"
    using rem by blast
  show "conf (snd (ri_State ra w)) = conf w" "conf (snd (ri_GetConfiguration ra w)) = conf w"
    "ri_GetConfiguration ra w = ((servers, None), w') \<Longrightarrow> raft_servers_map servers = conf w"
    "ri_GetConfiguration ra w = ((servers, None), w') \<Longrightarrow> distinct (map sv_ID servers)"
    using assms unfolding raft_laws_def by blast+
qed

lemma raft_servesD:
  assumes "raft_serves ra"
  shows "fst (ri_State ra w) = Leader"
    and "snd (fst (ri_GetConfiguration ra w)) = None"
    and "ri_AddVoter ra i a p t w = (None, snd (ri_AddVoter ra i a p t w))"
    and "ri_RemoveServer ra i p t w = (None, snd (ri_RemoveServer ra i p t w))"
  using assms unfolding raft_serves_def by (auto simp: prod_eq_iff)

text \<open>The members that the pass enforces.\<close>

definition active :: "string \<Rightarrow> gossip_info \<Rightarrow> bool" where
  "active selfID m \<longleftrightarrow> gi_ID m \<noteq> selfID \<and> gi_Bootstrapped m \<and> gi_RaftAddr m \<noteq> ''''"

lemma reconcile_member_frame:
  assumes "raft_laws ra conf"
    and "i \<noteq> gi_ID m \<or> \<not> active selfID m \<or> c0 i = Some (gi_RaftAddr m)"
  shows "conf (reconcile_member ra selfID c0 m w) i = conf w i"
  using assms(2) raft_lawsD(5,6) [OF assms(1)]
  by (auto simp: reconcile_member_def active_def split: option.splits prod.splits)
     (metis (no_types, lifting) snd_conv)+

lemma reconcile_server_frame:
  assumes "raft_laws ra conf" and "i \<noteq> sv_ID s \<or> i = selfID \<or> i \<in> set ids"
  shows "conf (reconcile_server ra selfID ids s w) i = conf w i"
  using assms(2) raft_lawsD(6) [OF assms(1)] by (auto simp: reconcile_server_def)

lemma reconcile_member_serves:
  assumes "raft_laws ra conf" and "raft_serves ra" and "c0 (gi_ID m) = conf w (gi_ID m)"
  shows "conf (reconcile_member ra selfID c0 m w) =
    (if active selfID m then (conf w)(gi_ID m \<mapsto> gi_RaftAddr m) else conf w)"
proof (cases "active selfID m")
  case True
  show ?thesis
  proof (cases "c0 (gi_ID m)")
    case None
    then show ?thesis using True raft_lawsD(7) [OF assms(1) raft_servesD(3) [OF assms(2)]]
      by (simp add: reconcile_member_def active_def)
  next
    case (Some a)
    show ?thesis
    proof (cases "a = gi_RaftAddr m")
      case same: True
      then show ?thesis using True Some assms(3)
        by (simp add: reconcile_member_def active_def fun_upd_idem)
    next
      case False
      let ?r = "ri_RemoveServer ra (gi_ID m) 0 defaultOperationTimeout w"
      have r: "?r = (None, snd ?r)" by (rule raft_servesD(4) [OF assms(2)])
      then have "conf (snd ?r) = (conf w)(gi_ID m := None)" by (rule raft_lawsD(8) [OF assms(1)])
      moreover have "reconcile_member ra selfID c0 m w =
          snd (ri_AddVoter ra (gi_ID m) (gi_RaftAddr m) 0 defaultOperationTimeout (snd ?r))"
        using True Some False by (simp add: reconcile_member_def active_def) (subst r, simp)
      ultimately show ?thesis using True raft_lawsD(7) [OF assms(1) raft_servesD(3) [OF assms(2)]]
        by simp
    qed
  qed
next
  case False
  then show ?thesis by (auto simp: reconcile_member_def active_def)
qed

lemma fold_reconcile_members:
  assumes "raft_laws ra conf" and "raft_serves ra"
    and "distinct (map gi_ID ms)" and "\<forall>m\<in>set ms. c0 (gi_ID m) = conf w (gi_ID m)"
  shows "conf (fold (reconcile_member ra selfID c0) ms w) i =
    (case List.find (\<lambda>m. gi_ID m = i) ms of
       Some m \<Rightarrow> if active selfID m then Some (gi_RaftAddr m) else conf w i
     | None \<Rightarrow> conf w i)"
  using assms(3,4)
proof (induction ms arbitrary: w)
  case (Cons m ms)
  let ?w1 = "reconcile_member ra selfID c0 m w"
  have w1: "conf ?w1 = (if active selfID m then (conf w)(gi_ID m \<mapsto> gi_RaftAddr m) else conf w)"
    using Cons.prems by (intro reconcile_member_serves [OF assms(1,2)]) simp
  have "gi_ID m \<notin> gi_ID ` set ms" using Cons.prems(1) by simp
  then have rest: "\<forall>m'\<in>set ms. gi_ID m' \<noteq> gi_ID m" by (metis imageI)
  then have "\<forall>m'\<in>set ms. c0 (gi_ID m') = conf ?w1 (gi_ID m')"
    using Cons.prems(2) by (simp add: w1)
  then have IH: "conf (fold (reconcile_member ra selfID c0) ms ?w1) i =
    (case List.find (\<lambda>m. gi_ID m = i) ms of
       Some m \<Rightarrow> if active selfID m then Some (gi_RaftAddr m) else conf ?w1 i
     | None \<Rightarrow> conf ?w1 i)"
    using Cons.IH Cons.prems(1) by simp
  show ?case
  proof (cases "gi_ID m = i")
    case True
    then have "List.find (\<lambda>m. gi_ID m = i) ms = None"
      using rest by (auto simp: find_None_iff)
    then show ?thesis using IH True w1 by simp
  next
    case False
    then have "conf ?w1 i = conf w i" by (simp add: w1)
    then show ?thesis using IH False by (simp split: option.splits)
  qed
qed simp

lemma fold_reconcile_servers:
  assumes "raft_laws ra conf" and "raft_serves ra"
  shows "conf (fold (reconcile_server ra selfID ids) servers w) i =
    (if i \<in> sv_ID ` set servers \<and> i \<noteq> selfID \<and> i \<notin> set ids then None else conf w i)"
proof (induction servers arbitrary: w)
  case (Cons s servers)
  have "conf (reconcile_server ra selfID ids s w) =
      (if sv_ID s \<noteq> selfID \<and> sv_ID s \<notin> set ids then (conf w)(sv_ID s := None) else conf w)"
    using raft_lawsD(8) [OF assms(1) raft_servesD(4) [OF assms(2)]]
    by (simp add: reconcile_server_def)
  then show ?case using Cons.IH by auto
qed simp

text \<open>
  What the cluster should be: the node keeps its own entry; a server that gossip no longer knows is
  gone; a bootstrapped member with an address has that address; any other member keeps what it has.
\<close>

definition reconciled :: "(string \<rightharpoonup> string) \<Rightarrow> string \<Rightarrow> gossip_info list \<Rightarrow> string \<rightharpoonup> string" where
  "reconciled c selfID members i =
     (if i = selfID then c i
      else case List.find (\<lambda>m. gi_ID m = i) members of
        None \<Rightarrow> None
      | Some m \<Rightarrow> if gi_Bootstrapped m \<and> gi_RaftAddr m \<noteq> '''' then Some (gi_RaftAddr m) else c i)"

text \<open>One pass from a leader whose reads succeed, as its two loops.\<close>

lemma reconcile_pass_split:
  assumes "ri_State ra w = (Leader, w1)" and "g w1 = (members, w2)"
    and "ri_GetConfiguration ra w2 = ((servers, None), w3)"
  shows "reconcileMembersWithRaft ra selfID g w =
    fold (reconcile_server ra selfID (map gi_ID members)) servers
      (fold (reconcile_member ra selfID (raft_servers_map servers)) members w3)"
  using assms by (simp add: reconcileMembersWithRaft_def)

lemma raft_servers_map_dom: "dom (raft_servers_map servers) = sv_ID ` set servers"
proof -
  have "dom (fold (\<lambda>s m. m(sv_ID s \<mapsto> sv_Address s)) servers m0) = sv_ID ` set servers \<union> dom m0" for m0
    by (induction servers arbitrary: m0) auto
  then show ?thesis by (simp add: raft_servers_map_def)
qed

text \<open>What the reads of a pass return when the library serves its leader.\<close>

lemma reconcile_reads:
  assumes "raft_laws ra conf" and "raft_serves ra" and "quiet_members g conf"
  obtains w1 w2 servers w3 where "ri_State ra w = (Leader, w1)"
    and "g w1 = (fst (g (snd (ri_State ra w))), w2)"
    and "ri_GetConfiguration ra w2 = ((servers, None), w3)"
    and "conf w3 = conf w" and "raft_servers_map servers = conf w"
proof -
  let ?w1 = "snd (ri_State ra w)"
  let ?w2 = "snd (g ?w1)"
  let ?w3 = "snd (ri_GetConfiguration ra ?w2)"
  let ?servers = "fst (fst (ri_GetConfiguration ra ?w2))"
  have cf: "ri_GetConfiguration ra ?w2 = ((?servers, None), ?w3)"
    using raft_servesD(2) [OF assms(2)] by (simp add: prod_eq_iff)
  have "conf ?w2 = conf w"
    using assms(3) raft_lawsD(1) [OF assms(1)] by (simp add: quiet_members_def)
  then have "conf ?w3 = conf w" and "raft_servers_map ?servers = conf w"
    using raft_lawsD(2) [OF assms(1)] raft_lawsD(3) [OF assms(1) cf] by simp_all
  moreover have "ri_State ra w = (Leader, ?w1)"
    using raft_servesD(1) [OF assms(2)] by (simp add: prod_eq_iff)
  moreover have "g ?w1 = (fst (g ?w1), ?w2)" by simp
  ultimately show thesis using that cf by blast
qed

lemma reconcile_result:
  assumes "raft_laws ra conf" and "raft_serves ra" and "quiet_members g conf"
    and "distinct (map gi_ID (fst (g (snd (ri_State ra w)))))"
  shows "conf (reconcileMembersWithRaft ra selfID g w) =
    reconciled (conf w) selfID (fst (g (snd (ri_State ra w))))"
proof
  fix i
  let ?ms = "fst (g (snd (ri_State ra w)))"
  obtain w1 w2 servers w3 where r: "ri_State ra w = (Leader, w1)" "g w1 = (?ms, w2)"
    "ri_GetConfiguration ra w2 = ((servers, None), w3)"
    and c: "conf w3 = conf w" "raft_servers_map servers = conf w"
    by (rule reconcile_reads [OF assms(1-3)])
  let ?mid = "fold (reconcile_member ra selfID (raft_servers_map servers)) ?ms w3"
  have mid: "conf ?mid i = (case List.find (\<lambda>m. gi_ID m = i) ?ms of
       Some m \<Rightarrow> if active selfID m then Some (gi_RaftAddr m) else conf w i
     | None \<Rightarrow> conf w i)"
    using fold_reconcile_members [OF assms(1,2,4), of "raft_servers_map servers" w3 selfID i]
    unfolding c by simp
  have fin: "conf (reconcileMembersWithRaft ra selfID g w) i =
      (if i \<in> sv_ID ` set servers \<and> i \<noteq> selfID \<and> i \<notin> gi_ID ` set ?ms then None else conf ?mid i)"
    using fold_reconcile_servers [OF assms(1,2)]
      reconcile_pass_split [where g = g and selfID = selfID, OF r] by simp
  have outside: "i \<notin> sv_ID ` set servers \<Longrightarrow> conf w i = None"
    using raft_servers_map_dom [of servers] c(2) by auto
  show "conf (reconcileMembersWithRaft ra selfID g w) i = reconciled (conf w) selfID ?ms i"
  proof (cases "List.find (\<lambda>m. gi_ID m = i) ?ms")
    case None
    then have "i \<notin> gi_ID ` set ?ms" by (auto simp: find_None_iff)
    then show ?thesis using None mid fin outside by (auto simp: reconciled_def)
  next
    case (Some m)
    then have "gi_ID m = i" and "i \<in> gi_ID ` set ?ms" by (auto dest: find_SomeD)
    then show ?thesis using Some mid fin by (auto simp: reconciled_def active_def)
  qed
qed

text \<open>
  C1. One reconciliation pass by a leader whose calls succeed makes the cluster configuration
  exactly what gossip asks for: every bootstrapped member with an address is a server at that
  address (stale addresses replaced, missing peers added), members not yet bootstrapped keep
  their entry if they have one, servers unknown to gossip are removed, and the node's own entry
  is untouched.
\<close>

theorem reconcile_converges:
  assumes "raft_laws ra conf" and "raft_serves ra" and "quiet_members g conf"
    and "distinct (map gi_ID (fst (g (snd (ri_State ra w)))))"
  shows "conf (reconcileMembersWithRaft ra selfID g w) =
    reconciled (conf w) selfID (fst (g (snd (ri_State ra w))))"
  by (rule reconcile_result [OF assms])

text \<open>
  C3. A reconciliation pass never disturbs a peer in good standing, even when Raft calls fail or
  time out: the node's own entry, every member whose configured address is the announced one, and
  every member that is not bootstrapped or announces no address, keep their entries unchanged.
\<close>

theorem reconcile_no_churn:
  assumes "raft_laws ra conf" and "quiet_members g conf"
    and "members = fst (g (snd (ri_State ra w)))"
    and "i = selfID \<or> i \<in> gi_ID ` set members \<and>
      (\<forall>m\<in>set members. gi_ID m = i \<longrightarrow>
         \<not> gi_Bootstrapped m \<or> gi_RaftAddr m = '''' \<or> conf w i = Some (gi_RaftAddr m))"
  shows "conf (reconcileMembersWithRaft ra selfID g w) i = conf w i"
proof -
  obtain st w1 where st: "ri_State ra w = (st, w1)" by (cases "ri_State ra w")
  obtain w2 where g: "g w1 = (members, w2)" using assms(3) st by (cases "g w1") simp
  obtain servers err w3 where cf: "ri_GetConfiguration ra w2 = ((servers, err), w3)"
    by (metis prod.collapse)
  have c1: "conf w1 = conf w" using raft_lawsD(1) [OF assms(1), of w] st by simp
  have c2: "conf w2 = conf w" using assms(2) g c1 by (metis quiet_members_def snd_conv)
  have c3: "conf w3 = conf w" using raft_lawsD(2) [OF assms(1), of w2] cf c2 by simp
  show ?thesis
  proof (cases "st = Leader \<and> err = None")
    case False
    then show ?thesis using st g cf c1 c3
      by (auto simp: reconcileMembersWithRaft_def split: option.splits)
  next
    case True
    then have cfg: "raft_servers_map servers = conf w"
      using raft_lawsD(3) [OF assms(1)] cf c2 by simp
    let ?mid = "fold (reconcile_member ra selfID (raft_servers_map servers)) members w3"
    have "conf ?mid i = conf w i"
    proof (rule fold_invariant [where P = "\<lambda>v. conf v i = conf w i"])
      fix m v assume m: "m \<in> set members" and v: "conf v i = conf w i"
      have "i \<noteq> gi_ID m \<or> \<not> active selfID m \<or> raft_servers_map servers i = Some (gi_RaftAddr m)"
        using assms(4) m by (auto simp: active_def cfg)
      then show "conf (reconcile_member ra selfID (raft_servers_map servers) m v) i = conf w i"
        using reconcile_member_frame [OF assms(1)] v by metis
    qed (simp add: c3)
    then have "conf (fold (reconcile_server ra selfID (map gi_ID members)) servers ?mid) i = conf w i"
    proof (rule fold_invariant [where P = "\<lambda>v. conf v i = conf w i"])
      fix s :: server and v assume v: "conf v i = conf w i"
      have "i \<noteq> sv_ID s \<or> i = selfID \<or> i \<in> set (map gi_ID members)" using assms(4) by auto
      with v show "conf (reconcile_server ra selfID (map gi_ID members) s v) i = conf w i"
        using reconcile_server_frame [where ra = ra and conf = conf and s = s
            and ids = "map gi_ID members", OF assms(1)] by simp
    qed
    then show ?thesis using True st g cf by (simp add: reconcileMembersWithRaft_def)
  qed
qed

text \<open>A configuration in which the pass has nothing to do.\<close>

definition settled :: "(string \<rightharpoonup> string) \<Rightarrow> string \<Rightarrow> gossip_info list \<Rightarrow> bool" where
  "settled c selfID members \<longleftrightarrow>
     (\<forall>m\<in>set members. active selfID m \<longrightarrow> c (gi_ID m) = Some (gi_RaftAddr m)) \<and>
     (\<forall>i\<in>dom c. i = selfID \<or> i \<in> gi_ID ` set members)"

lemma settled_reconciled:
  assumes "distinct (map gi_ID members)"
  shows "settled (reconciled c selfID members) selfID members"
proof -
  have "reconciled c selfID members (gi_ID m) = Some (gi_RaftAddr m)"
    if "m \<in> set members" "active selfID m" for m
    using that find_distinct_key [OF assms that(1)] by (simp add: reconciled_def active_def)
  moreover have "i = selfID \<or> i \<in> gi_ID ` set members" if "i \<in> dom (reconciled c selfID members)" for i
  proof (cases "List.find (\<lambda>m. gi_ID m = i) members")
    case None
    then show ?thesis using that by (auto simp: reconciled_def split: if_splits)
  next
    case (Some m)
    then have "m \<in> set members \<and> gi_ID m = i" by (rule find_SomeD)
    then show ?thesis by auto
  qed
  ultimately show ?thesis by (auto simp: settled_def)
qed

lemma settled_no_calls:
  assumes "raft_laws ra conf" and "raft_serves ra" and "settled (conf w) selfID members"
  shows "snd (reconcileMembersWithRaft (traced ra) selfID (\<lambda>wc. (members, wc)) (w, [])) = []"
proof -
  obtain w1 w2 servers w3 where r: "ri_State ra w = (Leader, w1)" "w2 = w1"
    "ri_GetConfiguration ra w2 = ((servers, None), w3)"
    and c: "conf w3 = conf w" "raft_servers_map servers = conf w"
    by (rule reconcile_reads [OF assms(1,2), of "\<lambda>v. (members, v)"]) (auto simp: quiet_members_def)
  have servers: "sv_ID s = selfID \<or> sv_ID s \<in> gi_ID ` set members" if "s \<in> set servers" for s
  proof -
    have "sv_ID s \<in> dom (conf w)" using that raft_servers_map_dom [of servers] c(2) by auto
    then show ?thesis using assms(3) by (simp add: settled_def)
  qed
  have "fold (reconcile_member (traced ra) selfID (conf w)) members (w3, []) = (w3, [])"
  proof (rule fold_invariant [where P = "\<lambda>v. v = (w3, [] :: raft_call list)"])
    fix m and v :: "'a \<times> raft_call list"
    assume "m \<in> set members" and "v = (w3, [])"
    then show "reconcile_member (traced ra) selfID (conf w) m v = (w3, [])"
      using assms(3) by (auto simp: reconcile_member_def settled_def active_def)
  qed simp
  moreover have "fold (reconcile_server (traced ra) selfID (map gi_ID members)) servers (w3, []) = (w3, [])"
  proof (rule fold_invariant [where P = "\<lambda>v. v = (w3, [] :: raft_call list)"])
    fix s and v :: "'a \<times> raft_call list"
    assume "s \<in> set servers" and "v = (w3, [])"
    then show "reconcile_server (traced ra) selfID (map gi_ID members) s v = (w3, [])"
      using servers by (auto simp: reconcile_server_def)
  qed simp
  ultimately show ?thesis using r c by (simp add: reconcileMembersWithRaft_def)
qed

text \<open>
  C4. Reconciliation is idempotent: after a successful pass, a second pass over the same gossip
  membership asks Raft for no membership change at all.
\<close>

theorem reconcile_idempotent:
  assumes "raft_laws ra conf" and "raft_serves ra" and "distinct (map gi_ID members)"
  shows "snd (reconcileMembersWithRaft (traced ra) selfID (\<lambda>wc. (members, wc))
    (reconcileMembersWithRaft ra selfID (\<lambda>v. (members, v)) w, [])) = []"
proof (rule settled_no_calls [OF assms(1,2)])
  have "conf (reconcileMembersWithRaft ra selfID (\<lambda>v. (members, v)) w) = reconciled (conf w) selfID members"
    using reconcile_result [OF assms(1,2), of "\<lambda>v. (members, v)" w selfID] assms(3)
    by (simp add: quiet_members_def)
  then show "settled (conf (reconcileMembersWithRaft ra selfID (\<lambda>v. (members, v)) w)) selfID members"
    using settled_reconciled [OF assms(3)] by simp
qed

section \<open>A concrete cluster\<close>

text \<open>An in-memory Raft leader over an association list, for the witnesses.\<close>

definition mem_raft :: "(string \<times> string) list raftInterface" where
  "mem_raft =
     \<lparr>ri_State = \<lambda>w. (Leader, w),
      ri_GetConfiguration = \<lambda>w. ((map (\<lambda>(i, a). \<lparr>sv_ID = i, sv_Address = a\<rparr>) (AList.clearjunk w), None), w),
      ri_AddVoter = \<lambda>i a p t w. (None, AList.update i a w),
      ri_RemoveServer = \<lambda>i p t w. (None, AList.delete i w)\<rparr>"

lemma fold_map_upds_distinct:
  "distinct (map fst al) \<Longrightarrow>
     fold (\<lambda>s m. m(sv_ID s \<mapsto> sv_Address s)) (map (\<lambda>(i, a). \<lparr>sv_ID = i, sv_Address = a\<rparr>) al) m0
     = m0 ++ map_of al"
proof (induction al arbitrary: m0)
  case (Cons x al)
  then have "fst x \<notin> dom (map_of al)" by (simp add: dom_map_of_conv_image_fst)
  then have "m0(fst x \<mapsto> snd x) ++ map_of al = m0 ++ map_of (x # al)"
    by (auto simp: map_add_def fun_eq_iff split: option.splits)
  then show ?case using Cons by (simp add: split_beta del: fun_upd_apply)
qed simp

lemma mem_raft_laws: "raft_laws mem_raft map_of"
proof -
  have "raft_servers_map (map (\<lambda>(i, a). \<lparr>sv_ID = i, sv_Address = a\<rparr>) (AList.clearjunk w)) = map_of w" for w
    using fold_map_upds_distinct [of "AList.clearjunk w" Map.empty]
    by (simp add: raft_servers_map_def distinct_clearjunk map_of_clearjunk)
  moreover have "map sv_ID (map (\<lambda>(i, a). \<lparr>sv_ID = i, sv_Address = a\<rparr>) (AList.clearjunk w))
      = map fst (AList.clearjunk w)" for w :: "(string \<times> string) list"
    by (simp add: split_beta)
  ultimately show ?thesis
    using distinct_clearjunk
    by (auto simp: raft_laws_def mem_raft_def update_conv' delete_conv' simp del: map_map)
qed

lemma mem_raft_serves: "raft_serves mem_raft"
  by (simp add: raft_serves_def mem_raft_def)

definition sample_member :: "string \<Rightarrow> string \<Rightarrow> bool \<Rightarrow> gossip_info" where
  "sample_member i a b = zero_info\<lparr>gi_ID := i, gi_RaftAddr := a, gi_Bootstrapped := b\<rparr>"

definition sample_members :: "gossip_info list" where
  "sample_members = [sample_member ''n1'' ''10.0.0.1:1'' True, sample_member ''n2'' ''10.0.0.2:2'' True,
     sample_member ''n3'' ''10.0.0.3:3'' False]"

definition sample_cluster :: "(string \<times> string) list" where
  "sample_cluster = [(''n1'', ''10.0.0.1:1''), (''n2'', ''10.0.0.2:9''), (''n4'', ''10.0.0.4:4'')]"

lemmas sample_defs = sample_members_def sample_member_def sample_cluster_def zero_info_def

theorem reconcile_converges_witness:
  "map_of (reconcileMembersWithRaft mem_raft ''n1'' (\<lambda>w. (sample_members, w)) sample_cluster) ''n2''
     = Some ''10.0.0.2:2'' \<and>
   map_of (reconcileMembersWithRaft mem_raft ''n1'' (\<lambda>w. (sample_members, w)) sample_cluster) ''n4'' = None"
  by (subst (1 2) reconcile_converges [OF mem_raft_laws mem_raft_serves])
    (simp_all add: quiet_members_def sample_defs reconciled_def)

theorem reconcile_no_churn_witness:
  "map_of (reconcileMembersWithRaft mem_raft ''n1'' (\<lambda>w. (sample_members, w)) sample_cluster) ''n1''
     = Some ''10.0.0.1:1''"
  by (subst reconcile_no_churn [OF mem_raft_laws _ refl])
    (simp_all add: quiet_members_def sample_defs)

theorem reconcile_idempotent_witness:
  "snd (reconcileMembersWithRaft (traced mem_raft) ''n1'' (\<lambda>wc. (sample_members, wc))
    (reconcileMembersWithRaft mem_raft ''n1'' (\<lambda>v. (sample_members, v)) sample_cluster, [])) = []"
  by (rule reconcile_idempotent [OF mem_raft_laws mem_raft_serves]) (simp add: sample_defs)

section \<open>What peer events do\<close>

lemma raft_servers_map_distinct:
  assumes "distinct (map sv_ID servers)"
  shows "raft_servers_map servers = map_of (map (\<lambda>s. (sv_ID s, sv_Address s)) servers)"
proof -
  have "map (\<lambda>(i, a). \<lparr>sv_ID = i, sv_Address = a\<rparr>) (map (\<lambda>s. (sv_ID s, sv_Address s)) servers) = servers"
    by (simp add: map_idI)
  moreover have "distinct (map fst (map (\<lambda>s. (sv_ID s, sv_Address s)) servers))"
    using assms by (simp add: comp_def)
  ultimately show ?thesis
    using fold_map_upds_distinct [of "map (\<lambda>s. (sv_ID s, sv_Address s)) servers" Map.empty]
    by (simp add: raft_servers_map_def)
qed

lemma find_peer_entry_conf:
  assumes "distinct (map sv_ID servers)"
  shows "find_peer_entry peer servers =
    (case raft_servers_map servers (ci_ID peer) of
       None \<Rightarrow> Absent
     | Some a \<Rightarrow> if a = ci_RaftAddr peer then AlreadyThere else Stale (ci_ID peer))"
  unfolding raft_servers_map_distinct [OF assms] by (induction servers) auto

lemma add_peer_serves:
  assumes "raft_laws ra conf" and "raft_serves ra"
  shows "conf (add_peer ra peer w) = (conf w)(ci_ID peer \<mapsto> ci_RaftAddr peer)"
  using raft_lawsD(7) [OF assms(1) raft_servesD(3) [OF assms(2)]] by (simp add: add_peer_def)

lemma peer_join_applies:
  assumes "raft_laws ra conf" and "raft_serves ra" and "quiet_members g conf"
  shows "\<exists>w'. handlePeerJoinWithRaft ra peer (Live g) w = Inr w' \<and>
    conf w' =
      (if ci_RaftAddr peer \<noteq> '''' \<and> member_bootstrapped (ci_ID peer) (fst (g (snd (ri_State ra w))))
       then (conf w)(ci_ID peer \<mapsto> ci_RaftAddr peer) else conf w)"
proof -
  define ms where "ms = fst (g (snd (ri_State ra w)))"
  obtain w1 w2 servers w3 where r: "ri_State ra w = (Leader, w1)" "g w1 = (ms, w2)"
    "ri_GetConfiguration ra w2 = ((servers, None), w3)"
    and c: "conf w3 = conf w" "raft_servers_map servers = conf w"
    using reconcile_reads [OF assms] unfolding ms_def by blast
  have w1: "conf w1 = conf w" using raft_lawsD(1) [OF assms(1), of w] r(1) by simp
  have w2: "conf w2 = conf w" using assms(3) r(2) w1 by (metis quiet_members_def snd_conv)
  let ?id = "ci_ID peer" and ?addr = "ci_RaftAddr peer"
  show ?thesis
  proof (cases "?addr \<noteq> '''' \<and> member_bootstrapped ?id ms")
    case False
    then show ?thesis using r w1 w2 by (auto simp: handlePeerJoinWithRaft_def)
  next
    case True
    have find: "find_peer_entry peer servers =
        (case conf w ?id of None \<Rightarrow> Absent | Some a \<Rightarrow> if a = ?addr then AlreadyThere else Stale ?id)"
      using find_peer_entry_conf [OF raft_lawsD(4) [OF assms(1) r(3)], of peer] c(2) by simp
    have removed: "conf (snd (ri_RemoveServer ra ?id 0 defaultOperationTimeout w3)) = (conf w)(?id := None)"
      using raft_lawsD(8) [OF assms(1) raft_servesD(4) [OF assms(2)]] c(1) by simp
    show ?thesis
    proof (cases "conf w ?id")
      case None
      then show ?thesis using True r find c add_peer_serves [OF assms(1,2), of peer w3]
        by (auto simp: handlePeerJoinWithRaft_def)
    next
      case (Some a)
      show ?thesis
      proof (cases "a = ?addr")
        case same: True
        then show ?thesis using True Some r find c
          by (auto simp: handlePeerJoinWithRaft_def fun_upd_idem)
      next
        case False
        then show ?thesis using True Some r find removed
            add_peer_serves [OF assms(1,2), of peer "snd (ri_RemoveServer ra ?id 0 defaultOperationTimeout w3)"]
          by (auto simp: handlePeerJoinWithRaft_def)
      qed
    qed
  qed
qed

text \<open>
  C10. A peer event has the effect that reconciliation would have on that peer: on a leader whose
  calls succeed, the peer becomes a server at its announced address when gossip reports it as
  bootstrapped and it announces an address (replacing a stale entry if there is one); otherwise
  the configuration is unchanged. No other server is touched, and the handler does not panic.
\<close>

theorem peer_join_effect:
  assumes "raft_laws ra conf" and "raft_serves ra" and "quiet_members g conf"
  shows "\<exists>w'. handlePeerJoinWithRaft ra peer (Live g) w = Inr w' \<and>
    conf w' =
      (if ci_RaftAddr peer \<noteq> '''' \<and> member_bootstrapped (ci_ID peer) (fst (g (snd (ri_State ra w))))
       then (conf w)(ci_ID peer \<mapsto> ci_RaftAddr peer) else conf w)"
  by (rule peer_join_applies [OF assms])

theorem peer_join_effect_witness:
  "\<exists>w'. handlePeerJoinWithRaft mem_raft \<lparr>ci_ID = ''n2'', ci_RaftAddr = ''10.0.0.2:2''\<rparr>
      (Live (\<lambda>w. (sample_members, w))) sample_cluster = Inr w' \<and>
    map_of w' = (map_of sample_cluster)(''n2'' \<mapsto> ''10.0.0.2:2'')"
  using peer_join_effect [OF mem_raft_laws mem_raft_serves, of "\<lambda>w. (sample_members, w)"
      "\<lparr>ci_ID = ''n2'', ci_RaftAddr = ''10.0.0.2:2''\<rparr>" sample_cluster]
  by (simp add: quiet_members_def sample_defs mem_raft_def)

text \<open>The requests of the handler, whatever Raft and gossip answer.\<close>

fun traced_provider :: "'w provider \<Rightarrow> ('w \<times> raft_call list) provider" where
  "traced_provider NilInterface = NilInterface"
| "traced_provider NilPointer = NilPointer"
| "traced_provider (Live g) = Live (traced_members g)"

text \<open>
  What the handler needs of gossip: a live layer that lists the peer as bootstrapped; a node that
  was given no gossip function at all (a nil interface) adds every peer.
\<close>

definition gossip_permits :: "string \<Rightarrow> 'w provider \<Rightarrow> 'w \<Rightarrow> bool" where
  "gossip_permits i g w \<longleftrightarrow> g = NilInterface \<or> (\<exists>f. g = Live f \<and> member_bootstrapped i (fst (f w)))"

lemma isPeerBootstrapped_traced:
  "isPeerBootstrappedWithGossip i (traced_provider g) (w, cs) =
     (case isPeerBootstrappedWithGossip i g w of Inl p \<Rightarrow> Inl p | Inr (b, w1) \<Rightarrow> Inr (b, (w1, cs)))"
  by (cases g) (simp_all split: prod.splits)

lemma isPeerBootstrapped_permits:
  "isPeerBootstrappedWithGossip i g w = Inr (b, w1) \<Longrightarrow> b = gossip_permits i g w"
  by (cases g) (auto simp: gossip_permits_def split: prod.splits)

text \<open>
  C11. A peer event asks Raft for nothing unless the node is the leader and the peer announces an
  address, and, if the node has a gossip layer, unless gossip lists the peer as bootstrapped (a node
  that was given no gossip function adds every peer). Then it asks for at most a removal of the peer's
  stale entry followed by an addition of the peer, in that order, and for nothing about any other
  server.
\<close>

theorem peer_join_calls:
  assumes "handlePeerJoinWithRaft (traced ra) peer (traced_provider g) (w, []) = Inr (w', calls)"
  shows "calls = [] \<or>
    (fst (ri_State ra w) = Leader \<and> ci_RaftAddr peer \<noteq> '''' \<and>
     gossip_permits (ci_ID peer) g (snd (ri_State ra w)) \<and>
     (calls = [AddVoterCall (ci_ID peer) (ci_RaftAddr peer)] \<or>
      calls = [RemoveServerCall (ci_ID peer), AddVoterCall (ci_ID peer) (ci_RaftAddr peer)]))"
proof -
  obtain st w1 where st: "ri_State ra w = (st, w1)" by (cases "ri_State ra w")
  have stale: "find_peer_entry peer servers = Stale i \<Longrightarrow> i = ci_ID peer" for servers i
    by (induction servers) (auto split: if_splits)
  show ?thesis
  proof (cases "isPeerBootstrappedWithGossip (ci_ID peer) g w1")
    case (Inl p)
    then show ?thesis using assms st
      by (auto simp: handlePeerJoinWithRaft_def isPeerBootstrapped_traced split: if_splits)
  next
    case (Inr bw)
    obtain b w2 where bw: "bw = (b, w2)" by (cases bw)
    obtain servers err w3 where cf: "ri_GetConfiguration ra w2 = ((servers, err), w3)"
      by (metis prod.collapse)
    have "b = gossip_permits (ci_ID peer) g w1"
      using Inr bw isPeerBootstrapped_permits by simp
    then show ?thesis using assms st Inr bw cf
      by (auto simp: handlePeerJoinWithRaft_def isPeerBootstrapped_traced add_peer_def
          split: if_splits option.splits peer_entry.splits bool.splits dest: stale)
  qed
qed

theorem peer_join_calls_witness:
  "\<exists>w' calls. handlePeerJoinWithRaft (traced mem_raft) \<lparr>ci_ID = ''n2'', ci_RaftAddr = ''10.0.0.2:2''\<rparr>
      (traced_provider (Live (\<lambda>w. (sample_members, w)))) (sample_cluster, []) = Inr (w', calls) \<and> calls \<noteq> [] \<and>
    gossip_permits ''n2'' (Live (\<lambda>w. (sample_members, w))) sample_cluster \<and>
    (calls = [AddVoterCall ''n2'' ''10.0.0.2:2''] \<or>
     calls = [RemoveServerCall ''n2'', AddVoterCall ''n2'' ''10.0.0.2:2''])"
proof -
  let ?g = "Live (\<lambda>w. (sample_members, w))" and ?peer = "\<lparr>ci_ID = ''n2'', ci_RaftAddr = ''10.0.0.2:2''\<rparr>"
  obtain w' calls where r: "handlePeerJoinWithRaft (traced mem_raft) ?peer (traced_provider ?g) (sample_cluster, [])
      = Inr (w', calls)" "calls \<noteq> []"
    by (simp add: handlePeerJoinWithRaft_def mem_raft_def sample_defs add_peer_def)
  show ?thesis using peer_join_calls [OF r(1)] r by (auto simp: mem_raft_def)
qed

text \<open>
  The guard \<open>g == nil\<close> does not see a nil \<open>*gossip.Gossip\<close> stored in the interface: a leader that
  handles a peer event in that state dereferences the nil pointer.
\<close>

lemma nil_gossip_pointer_panics:
  "ri_State ra w = (Leader, w1) \<Longrightarrow> ci_RaftAddr peer \<noteq> '''' \<Longrightarrow>
     handlePeerJoinWithRaft ra peer NilPointer w = Inl NilDereference"
  by (simp add: handlePeerJoinWithRaft_def)

text \<open>
  C12. A leave event removes exactly the peer that left: a leader whose calls succeed drops that
  peer's entry and no other; a node that is not the leader, or that hears of its own departure,
  asks Raft for nothing.
\<close>

theorem peer_leave_effect:
  "(raft_laws ra conf \<and> raft_serves ra \<and> ci_ID peer \<noteq> selfID \<longrightarrow>
      conf (handlePeerLeaveWithRaft ra selfID peer w) = (conf w)(ci_ID peer := None)) \<and>
   (fst (ri_State ra w) \<noteq> Leader \<or> ci_ID peer = selfID \<longrightarrow>
      snd (handlePeerLeaveWithRaft (traced ra) selfID peer (w, [])) = [])"
proof (intro conjI impI)
  assume a: "raft_laws ra conf \<and> raft_serves ra \<and> ci_ID peer \<noteq> selfID"
  then have laws: "raft_laws ra conf" and serves: "raft_serves ra" by auto
  show "conf (handlePeerLeaveWithRaft ra selfID peer w) = (conf w)(ci_ID peer := None)"
    using a raft_servesD(1) [OF serves, of w] raft_lawsD(1) [OF laws, of w]
      raft_lawsD(8) [OF laws raft_servesD(4) [OF serves]]
    by (cases "ri_State ra w") (simp add: handlePeerLeaveWithRaft_def)
next
  assume "fst (ri_State ra w) \<noteq> Leader \<or> ci_ID peer = selfID"
  then show "snd (handlePeerLeaveWithRaft (traced ra) selfID peer (w, [])) = []"
    by (auto simp: handlePeerLeaveWithRaft_def)
qed

theorem peer_leave_effect_witness:
  "map_of (handlePeerLeaveWithRaft mem_raft ''n1'' \<lparr>ci_ID = ''n4'', ci_RaftAddr = []\<rparr> sample_cluster)
     = (map_of sample_cluster)(''n4'' := None)"
  using peer_leave_effect [of mem_raft map_of "\<lparr>ci_ID = ''n4'', ci_RaftAddr = []\<rparr>" "''n1''" sample_cluster]
    mem_raft_laws mem_raft_serves by simp

theorem reconcile_calls_allowed_witness:
  "snd (reconcileMembersWithRaft (traced mem_raft) ''n1'' (traced_members (\<lambda>w. (sample_members, w)))
      (sample_cluster, [])) \<noteq> [] \<and>
   list_all (call_allowed ''n1'' sample_members (fst (fst (ri_GetConfiguration mem_raft sample_cluster))))
     (snd (reconcileMembersWithRaft (traced mem_raft) ''n1'' (traced_members (\<lambda>w. (sample_members, w)))
        (sample_cluster, [])))"
  using reconcile_calls_allowed [of mem_raft "''n1''" "\<lambda>w. (sample_members, w)" sample_cluster]
  by (simp add: mem_raft_def sample_defs reconcileMembersWithRaft_def reconcile_member_def
      reconcile_server_def traced_def traced_members_def raft_servers_map_def)

end
