(* ===== verification/RaftNode.thy ===== *)
theory RaftNode
  imports RaftMembership HashDelay
begin

text \<open>
  Package \<open>internal/raft\<close>, the node: \<open>config.go\<close>, \<open>node.go\<close>, \<open>acceptance.go\<close>, the callbacks
  \<open>OnBootstrap\<close> and \<open>OnJoin\<close> with \<open>resetAndRestart\<close> (\<open>callbacks.go\<close>) and the reconciliation loop
  (\<open>reconcile.go\<close>).

  The Raft library and the network are the record \<open>raft_lib\<close>; a \<open>*raft.Raft\<close> or a transport is a
  number. A stop channel is an index into the list \<open>rn_chans\<close> of closed flags, so that closing a
  closed channel is the panic it is in Go. Methods that hold the mutex throughout are functions;
  where a method lets go of it to wait, what the other goroutines do to the node meanwhile is an
  argument (the record \<open>others\<close>).
\<close>

section \<open>Configuration\<close>

definition raft_ErrMissingNodeID :: goerr where
  "raft_ErrMissingNodeID = Sentinel ''raft'' ''node ID is required''"
definition raft_ErrMissingBindAddr :: goerr where
  "raft_ErrMissingBindAddr = Sentinel ''raft'' ''bind address is required''"
definition raft_ErrMissingFactory :: goerr where
  "raft_ErrMissingFactory = Sentinel ''raft'' ''storage factory is required''"
definition raft_ErrMissingFSM :: goerr where
  "raft_ErrMissingFSM = Sentinel ''raft'' ''FSM is required''"
definition raft_ErrNotRunning :: goerr where
  "raft_ErrNotRunning = Sentinel ''raft'' ''raft node not running''"

definition defaultReconcileInterval :: duration where "defaultReconcileInterval = 10 * second"
definition defaultAcceptanceTimeout :: duration where "defaultAcceptanceTimeout = 10 * second"
definition defaultAcceptanceRetries :: nat where "defaultAcceptanceRetries = 3"

record raft_config =
  rc_NodeID :: string
  rc_BindAddr :: string
  rc_AdvertiseAddr :: string
  rc_ReconcileInterval :: duration

definition raft_validate :: "raft_config \<Rightarrow> goerr + raft_config" where
  "raft_validate c =
     (if rc_NodeID c = '''' then Inl raft_ErrMissingNodeID
      else if rc_BindAddr c = '''' then Inl raft_ErrMissingBindAddr
      else let c1 = (if rc_AdvertiseAddr c = '''' then c\<lparr>rc_AdvertiseAddr := rc_BindAddr c\<rparr> else c)
           in Inr (if rc_ReconcileInterval c1 = 0
                   then c1\<lparr>rc_ReconcileInterval := defaultReconcileInterval\<rparr> else c1))"

record storages =
  st_LogStore :: nat
  st_StableStore :: nat
  st_SnapshotStore :: nat

record 'w storage_factory =
  sf_Create :: "'w \<Rightarrow> (goerr + storages) \<times> 'w"
  sf_Reset :: "'w \<Rightarrow> goerr option \<times> 'w"

section \<open>The node and its surroundings\<close>

record tcp_addr =
  ta_IP :: string
  ta_Port :: int

definition tcp_addr_String :: "tcp_addr \<Rightarrow> string" where
  "tcp_addr_String a = joinHostPort (ta_IP a) (sprintf_d (ta_Port a))"

record 'w raft_lib =
  rl_iface :: "nat \<Rightarrow> 'w raftInterface"
  rl_LeaderWithID :: "nat \<Rightarrow> 'w \<Rightarrow> (string \<times> string) \<times> 'w"
  rl_Apply :: "nat \<Rightarrow> bytes \<Rightarrow> duration \<Rightarrow> 'w \<Rightarrow> nat \<times> 'w"
  rl_Shutdown :: "nat \<Rightarrow> 'w \<Rightarrow> goerr option \<times> 'w"
  rl_BootstrapCluster :: "nat \<Rightarrow> server list \<Rightarrow> 'w \<Rightarrow> goerr option \<times> 'w"
  rl_HasExistingState :: "storages \<Rightarrow> 'w \<Rightarrow> (bool \<times> goerr option) \<times> 'w"
  rl_ResolveTCPAddr :: "string \<Rightarrow> 'w \<Rightarrow> (goerr + tcp_addr) \<times> 'w"
  rl_ListenTCP :: "tcp_addr \<Rightarrow> 'w \<Rightarrow> (goerr + (nat \<times> int)) \<times> 'w"
  rl_CloseListener :: "nat \<Rightarrow> 'w \<Rightarrow> 'w"
  rl_NewTCPTransport :: "string \<Rightarrow> tcp_addr \<Rightarrow> 'w \<Rightarrow> (goerr + nat) \<times> 'w"
  rl_LocalAddr :: "nat \<Rightarrow> string"
  rl_CloseTransport :: "nat \<Rightarrow> 'w \<Rightarrow> 'w"
  rl_NewRaft :: "string \<Rightarrow> storages \<Rightarrow> nat \<Rightarrow> 'w \<Rightarrow> (goerr + nat) \<times> 'w"
  rl_ErrCantBootstrap :: goerr

text \<open>A live \<open>*gossip.Gossip\<close>, with the two methods that the node calls.\<close>

record 'w gossip_obj =
  go_Members :: "'w members_fn"
  go_SetRaftAddr :: "string \<Rightarrow> 'w \<Rightarrow> 'w"

record 'w raft_node =
  rn_raft :: "nat option"
  rn_config :: raft_config
  rn_storages :: storages
  rn_factory :: "'w storage_factory"
  rn_transport :: "nat option"
  rn_gossipFn :: "('w \<Rightarrow> 'w gossip_obj option) option"
  rn_selfInfo :: peer_info
  rn_running :: bool
  rn_started :: bool
  rn_chans :: "bool list"
  rn_stopCh :: nat
  rn_loops :: nat

text \<open>\<open>raft.New\<close>: a factory and an FSM may be nil; the FSM is only passed on.\<close>

definition raft_New :: "raft_config \<Rightarrow> 'w storage_factory option \<Rightarrow> 'fsm option \<Rightarrow> 'w
    \<Rightarrow> (goerr + 'w raft_node) \<times> 'w" where
  "raft_New cfg factory fsm w =
     (case raft_validate cfg of
        Inl err \<Rightarrow> (Inl err, w)
      | Inr cfg1 \<Rightarrow>
          (case factory of
             None \<Rightarrow> (Inl raft_ErrMissingFactory, w)
           | Some f \<Rightarrow>
               (case fsm of
                  None \<Rightarrow> (Inl raft_ErrMissingFSM, w)
                | Some _ \<Rightarrow>
                    (case sf_Create f w of
                       (Inl err, w1) \<Rightarrow> (Inl (Wrap ''failed to create storages'' err), w1)
                     | (Inr s, w1) \<Rightarrow>
                         (Inr \<lparr>rn_raft = None, rn_config = cfg1, rn_storages = s, rn_factory = f,
                               rn_transport = None, rn_gossipFn = None,
                               rn_selfInfo = \<lparr>ci_ID = [], ci_RaftAddr = []\<rparr>, rn_running = False,
                               rn_started = False, rn_chans = [False], rn_stopCh = 0, rn_loops = 0\<rparr>, w1)))))"

definition SetGossipFunc :: "('w \<Rightarrow> 'w gossip_obj option) \<Rightarrow> 'w raft_node \<Rightarrow> 'w raft_node" where
  "SetGossipFunc fn n = (if rn_started n then n else n\<lparr>rn_gossipFn := Some fn\<rparr>)"

definition raft_Apply :: "'w raft_lib \<Rightarrow> bytes \<Rightarrow> duration \<Rightarrow> 'w raft_node \<Rightarrow> 'w \<Rightarrow> (goerr + nat) \<times> 'w" where
  "raft_Apply L cmd timeout n w =
     (case rn_raft n of
        Some ra \<Rightarrow>
          if \<not> rn_running n then (Inl raft_ErrNotRunning, w)
          else (case rl_Apply L ra cmd timeout w of (future, w1) \<Rightarrow> (Inr future, w1))
      | None \<Rightarrow> (Inl raft_ErrNotRunning, w))"

definition raft_IsLeader :: "'w raft_lib \<Rightarrow> 'w raft_node \<Rightarrow> 'w \<Rightarrow> bool \<times> 'w" where
  "raft_IsLeader L n w =
     (case rn_raft n of
        None \<Rightarrow> (False, w)
      | Some ra \<Rightarrow> (case ri_State (rl_iface L ra) w of (s, w1) \<Rightarrow> (s = Leader, w1)))"

text \<open>The library returns the address first; the method returns the name first.\<close>

definition raft_Leader :: "'w raft_lib \<Rightarrow> 'w raft_node \<Rightarrow> 'w \<Rightarrow> (string \<times> string) \<times> 'w" where
  "raft_Leader L n w =
     (case rn_raft n of
        None \<Rightarrow> (('''', ''''), w)
      | Some ra \<Rightarrow> (case rl_LeaderWithID L ra w of ((addr, leaderID), w1) \<Rightarrow> ((leaderID, addr), w1)))"

fun RaftState_String :: "RaftState \<Rightarrow> string" where
  "RaftState_String Follower = ''Follower''"
| "RaftState_String Candidate = ''Candidate''"
| "RaftState_String Leader = ''Leader''"
| "RaftState_String RaftShutdown = ''Shutdown''"

definition raft_State :: "'w raft_lib \<Rightarrow> 'w raft_node \<Rightarrow> 'w \<Rightarrow> string \<times> 'w" where
  "raft_State L n w =
     (case rn_raft n of
        None \<Rightarrow> (''not_started'', w)
      | Some ra \<Rightarrow> (case ri_State (rl_iface L ra) w of (s, w1) \<Rightarrow> (RaftState_String s, w1)))"

section \<open>Channels\<close>

definition is_closed :: "nat \<Rightarrow> 'w raft_node \<Rightarrow> bool" where
  "is_closed c n \<longleftrightarrow> c < length (rn_chans n) \<and> rn_chans n ! c"

definition close_chan :: "nat \<Rightarrow> 'w raft_node \<Rightarrow> panic + 'w raft_node" where
  "close_chan c n =
     (if is_closed c n then Inl CloseOfClosedChannel else Inr (n\<lparr>rn_chans := (rn_chans n)[c := True]\<rparr>))"

definition fresh_stopCh :: "'w raft_node \<Rightarrow> 'w raft_node" where
  "fresh_stopCh n = n\<lparr>rn_stopCh := length (rn_chans n), rn_chans := rn_chans n @ [False]\<rparr>"

section \<open>Starting and stopping Raft\<close>

text \<open>Stop the library's node and close the transport; the shutdown error is returned.\<close>

definition drop_raft :: "'w raft_lib \<Rightarrow> 'w raft_node \<Rightarrow> 'w \<Rightarrow> goerr option \<times> 'w raft_node \<times> 'w" where
  "drop_raft L n w =
     (case (case rn_raft n of None \<Rightarrow> (None, w) | Some ra \<Rightarrow> rl_Shutdown L ra w) of
        (err, w1) \<Rightarrow>
          (err, n\<lparr>rn_raft := None, rn_transport := None\<rparr>,
           case rn_transport n of None \<Rightarrow> w1 | Some t \<Rightarrow> rl_CloseTransport L t w1))"

definition raft_node_Shutdown :: "'w raft_lib \<Rightarrow> 'w raft_node \<Rightarrow> 'w
    \<Rightarrow> panic + (goerr option \<times> 'w raft_node \<times> 'w)" where
  "raft_node_Shutdown L n w =
     (if \<not> rn_running n then Inr (None, n, w)
      else case close_chan (rn_stopCh n) n of
             Inl p \<Rightarrow> Inl p
           | Inr n1 \<Rightarrow> Inr (drop_raft L (n1\<lparr>rn_running := False\<rparr>) w))"

definition allocateDynamicPort :: "'w raft_lib \<Rightarrow> tcp_addr \<Rightarrow> 'w \<Rightarrow> (goerr + int) \<times> 'w" where
  "allocateDynamicPort L addr w =
     (case rl_ListenTCP L addr w of
        (Inl err, w1) \<Rightarrow> (Inl err, w1)
      | (Inr (listener, port), w1) \<Rightarrow> (Inr port, rl_CloseListener L listener w1))"

text \<open>The address to bind: resolved, with a free port chosen when the port is zero.\<close>

definition bind_address :: "'w raft_lib \<Rightarrow> string \<Rightarrow> 'w \<Rightarrow> (goerr + tcp_addr) \<times> 'w" where
  "bind_address L bindAddr w =
     (case rl_ResolveTCPAddr L bindAddr w of
        (Inl err, w1) \<Rightarrow> (Inl (Wrap ''resolve addr'' err), w1)
      | (Inr addr, w1) \<Rightarrow>
          if ta_Port addr = 0 then
            (case allocateDynamicPort L addr w1 of
               (Inl err, w2) \<Rightarrow> (Inl (Wrap ''allocate dynamic port'' err), w2)
             | (Inr p, w2) \<Rightarrow> (Inr (addr\<lparr>ta_Port := p\<rparr>), w2))
          else (Inr addr, w1))"

definition advertised_raft_addr :: "string \<Rightarrow> string \<Rightarrow> string" where
  "advertised_raft_addr advertiseAddr localAddr =
     (if advertiseAddr \<noteq> '''' then joinHostPort (host_of advertiseAddr) (port_of localAddr) else localAddr)"

text \<open>The end of \<open>startRaft\<close>: gossip learns the address in use.\<close>

definition announce_raft_addr :: "'w raft_lib \<Rightarrow> nat \<Rightarrow> 'w raft_node \<Rightarrow> 'w \<Rightarrow> 'w" where
  "announce_raft_addr L tr n w =
     (case rn_gossipFn n of
        None \<Rightarrow> w
      | Some f \<Rightarrow>
          (case f w of
             None \<Rightarrow> w
           | Some g \<Rightarrow>
               go_SetRaftAddr g (advertised_raft_addr (rc_AdvertiseAddr (rn_config n)) (rl_LocalAddr L tr)) w))"

definition startRaft :: "'w raft_lib \<Rightarrow> peer_info \<Rightarrow> 'w raft_node \<Rightarrow> 'w
    \<Rightarrow> goerr option \<times> 'w raft_node \<times> 'w" where
  "startRaft L self n w =
     (case bind_address L (if ci_RaftAddr self \<noteq> '''' then ci_RaftAddr self else rc_BindAddr (rn_config n)) w of
        (Inl err, w1) \<Rightarrow> (Some err, n, w1)
      | (Inr addr, w1) \<Rightarrow>
          (case rl_NewTCPTransport L
             (if rc_AdvertiseAddr (rn_config n) \<noteq> ''''
              then joinHostPort (host_of (rc_AdvertiseAddr (rn_config n))) (sprintf_d (ta_Port addr))
              else tcp_addr_String addr) addr w1 of
             (Inl err, w2) \<Rightarrow> (Some (Wrap ''create transport'' err), n, w2)
           | (Inr tr, w2) \<Rightarrow>
               (case rl_NewRaft L (ci_ID self) (rn_storages n) tr w2 of
                  (Inl err, w3) \<Rightarrow>
                    (Some (Wrap ''create raft'' err), n\<lparr>rn_transport := None\<rparr>, rl_CloseTransport L tr w3)
                | (Inr ra, w3) \<Rightarrow>
                    (let n1 = n\<lparr>rn_transport := Some tr, rn_raft := Some ra, rn_running := True,
                                rn_started := True\<rparr>
                     in (None, n1, announce_raft_addr L tr n1 w3)))))"

text \<open>\<open>go n.startReconciliationLoop()\<close>.\<close>

definition spawn_loop :: "'w raft_node \<Rightarrow> 'w raft_node" where
  "spawn_loop n = n\<lparr>rn_loops := Suc (rn_loops n)\<rparr>"

section \<open>Bootstrapping\<close>

definition OnBootstrap :: "'w raft_lib \<Rightarrow> peer_info \<Rightarrow> 'w raft_node \<Rightarrow> 'w
    \<Rightarrow> goerr option \<times> 'w raft_node \<times> 'w" where
  "OnBootstrap L self n w =
     (case startRaft L self (n\<lparr>rn_selfInfo := self\<rparr>) w of
        (Some err, n1, w1) \<Rightarrow> (Some err, n1, w1)
      | (None, n1, w1) \<Rightarrow>
          (case rl_HasExistingState L (rn_storages n1) w1 of
             ((hasState, Some err), w2) \<Rightarrow> (Some (Wrap ''check existing state'' err), n1, w2)
           | ((hasState, None), w2) \<Rightarrow>
               if hasState then (None, spawn_loop n1, w2)
               else (case rl_BootstrapCluster L (the (rn_raft n1))
                       [\<lparr>sv_ID = ci_ID self, sv_Address = rl_LocalAddr L (the (rn_transport n1))\<rparr>] w2 of
                       (Some err, w3) \<Rightarrow>
                         if err \<noteq> rl_ErrCantBootstrap L
                         then (Some (Wrap ''bootstrap failed'' err), n1, w3)
                         else (None, spawn_loop n1, w3)
                     | (None, w3) \<Rightarrow> (None, spawn_loop n1, w3))))"

section \<open>Joining\<close>

text \<open>What other goroutines do to the node and the world while a method waits without the lock.\<close>

type_synonym 'w step = "'w raft_node \<times> 'w \<Rightarrow> 'w raft_node \<times> 'w"

text \<open>
  A wait in a \<open>select\<close> on the stop channel and a timer or ticker: what the others do meanwhile, and
  whether the timer fires too and is the case taken. If only one of the two is ready that one is
  taken; if both are, Go takes either, so the choice is an input of the model.
\<close>

type_synonym 'w wake = "'w step \<times> bool"

definition takes_stop :: "bool \<Rightarrow> nat \<Rightarrow> 'w raft_node \<Rightarrow> bool" where
  "takes_stop timer ch n \<longleftrightarrow> is_closed ch n \<and> \<not> timer"

text \<open>
  \<open>ot_accept_wait k\<close> is the pause before attempt \<open>k\<close>; \<open>ot_ticks k\<close> has one wait for each tick that
  attempt \<open>k\<close> sees before its deadline; \<open>ot_reset_wait\<close> is the restart jitter.
\<close>

record 'w others =
  ot_accept_wait :: "nat \<Rightarrow> 'w wake"
  ot_ticks :: "nat \<Rightarrow> 'w wake list"
  ot_reset_wait :: "'w wake"

fun check_loop :: "'w raft_lib \<Rightarrow> nat \<Rightarrow> peer_info \<Rightarrow> 'w wake list \<Rightarrow> 'w raft_node \<Rightarrow> 'w
    \<Rightarrow> (bool \<times> goerr option) \<times> 'w raft_node \<times> 'w" where
  "check_loop L ra self [] n w = ((False, Some (Msg ''timeout waiting for leader'')), n, w)"
| "check_loop L ra self ((f, tick) # fs) n w =
     (case f (n, w) of
        (n1, w1) \<Rightarrow>
          if takes_stop tick (rn_stopCh n) n1 then ((False, Some (Msg ''shutting down'')), n1, w1)
          else case rl_LeaderWithID L ra w1 of
            ((_, leaderID), w2) \<Rightarrow>
              if leaderID = '''' then check_loop L ra self fs n1 w2
              else if leaderID = ci_ID self then ((True, None), n1, w2)
              else (case ri_GetConfiguration (rl_iface L ra) w2 of
                      ((_, Some err), w3) \<Rightarrow> check_loop L ra self fs n1 w3
                    | ((servers, None), w3) \<Rightarrow>
                        ((\<exists>s\<in>set servers. sv_ID s = ci_ID self, None), n1, w3)))"

definition checkAcceptance :: "'w raft_lib \<Rightarrow> 'w wake list \<Rightarrow> 'w raft_node \<Rightarrow> 'w
    \<Rightarrow> (bool \<times> goerr option) \<times> 'w raft_node \<times> 'w" where
  "checkAcceptance L ticks n w =
     (case rn_raft n of
        None \<Rightarrow> ((False, Some (Msg ''raft not started'')), n, w)
      | Some ra \<Rightarrow> check_loop L ra (rn_selfInfo n) ticks n w)"

text \<open>\<open>accept_loop r k\<close>: attempt \<open>k\<close>, with \<open>r\<close> attempts left.\<close>

fun accept_loop :: "'w raft_lib \<Rightarrow> 'w others \<Rightarrow> nat \<Rightarrow> nat \<Rightarrow> 'w raft_node \<Rightarrow> 'w
    \<Rightarrow> (bool \<times> goerr option) \<times> 'w raft_node \<times> 'w" where
  "accept_loop L Ot 0 k n w = ((False, None), n, w)"
| "accept_loop L Ot (Suc r) k n w =
     (case (if k > 0 then fst (ot_accept_wait Ot k) (n, w) else (n, w)) of
        (n1, w1) \<Rightarrow>
          if k > 0 \<and> takes_stop (snd (ot_accept_wait Ot k)) (rn_stopCh n) n1 then ((False, Some (Msg ''shutting down'')), n1, w1)
          else case checkAcceptance L (ot_ticks Ot k) n1 w1 of
            ((accepted, Some err), n2, w2) \<Rightarrow> accept_loop L Ot r (Suc k) n2 w2
          | ((accepted, None), n2, w2) \<Rightarrow>
              if accepted then ((True, None), n2, w2) else accept_loop L Ot r (Suc k) n2 w2)"

definition waitForAcceptance :: "'w raft_lib \<Rightarrow> 'w others \<Rightarrow> 'w raft_node \<Rightarrow> 'w
    \<Rightarrow> (bool \<times> goerr option) \<times> 'w raft_node \<times> 'w" where
  "waitForAcceptance L Ot n w = accept_loop L Ot defaultAcceptanceRetries 0 n w"

text \<open>
  \<open>resetAndRestart\<close>. First, under the lock: stop Raft, replace the stop channel and close the old
  one. Then the wait without the lock, on the new channel. Then, under the lock again: fresh
  storage and a new Raft node.
\<close>

definition reset_begin :: "'w raft_lib \<Rightarrow> 'w raft_node \<Rightarrow> 'w \<Rightarrow> panic + ('w raft_node \<times> 'w)" where
  "reset_begin L n w =
     (case drop_raft L n w of
        (err, n1, w1) \<Rightarrow>
          (case close_chan (rn_stopCh n1) (fresh_stopCh (n1\<lparr>rn_running := False\<rparr>)) of
             Inl p \<Rightarrow> Inl p
           | Inr n2 \<Rightarrow> Inr (n2, w1)))"

definition reset_finish :: "'w raft_lib \<Rightarrow> peer_info \<Rightarrow> 'w raft_node \<Rightarrow> 'w
    \<Rightarrow> goerr option \<times> 'w raft_node \<times> 'w" where
  "reset_finish L self n w =
     (case sf_Reset (rn_factory n) w of
        (Some err, w1) \<Rightarrow> (Some (Wrap ''failed to reset storage'' err), n, w1)
      | (None, w1) \<Rightarrow>
          (case sf_Create (rn_factory n) w1 of
             (Inl err, w2) \<Rightarrow> (Some (Wrap ''failed to recreate storages'' err), n, w2)
           | (Inr s, w2) \<Rightarrow>
               (case startRaft L self (n\<lparr>rn_storages := s\<rparr>) w2 of
                  (Some err, n1, w3) \<Rightarrow> (Some err, n1, w3)
                | (None, n1, w3) \<Rightarrow> (None, spawn_loop n1, w3))))"

definition resetAndRestart :: "'w raft_lib \<Rightarrow> 'w others \<Rightarrow> peer_info \<Rightarrow> 'w raft_node \<Rightarrow> 'w
    \<Rightarrow> panic + (goerr option \<times> 'w raft_node \<times> 'w)" where
  "resetAndRestart L Ot self n w =
     (case reset_begin L n w of
        Inl p \<Rightarrow> Inl p
      | Inr (n1, w1) \<Rightarrow>
          (case fst (ot_reset_wait Ot) (n1, w1) of
             (n2, w2) \<Rightarrow>
               if takes_stop (snd (ot_reset_wait Ot)) (rn_stopCh n1) n2 then Inr (Some (Msg ''shutting down''), n2, w2)
               else Inr (reset_finish L self n2 w2)))"

definition OnJoin :: "'w raft_lib \<Rightarrow> 'w others \<Rightarrow> peer_info \<Rightarrow> peer_info list \<Rightarrow> 'w raft_node \<Rightarrow> 'w
    \<Rightarrow> panic + (goerr option \<times> 'w raft_node \<times> 'w)" where
  "OnJoin L Ot self peers n w =
     (case startRaft L self (n\<lparr>rn_selfInfo := self\<rparr>) w of
        (Some err, n1, w1) \<Rightarrow> Inr (Some err, n1, w1)
      | (None, n1, w1) \<Rightarrow>
          (case rl_HasExistingState L (rn_storages n1) w1 of
             ((hasState, _), w2) \<Rightarrow>
               if \<not> hasState then Inr (None, spawn_loop n1, w2)
               else (case waitForAcceptance L Ot n1 w2 of
                       ((accepted, _), n2, w3) \<Rightarrow>
                         if accepted then Inr (None, spawn_loop n2, w3)
                         else (case resetAndRestart L Ot self n2 w3 of
                                 Inl p \<Rightarrow> Inl p
                               | Inr (Some err, n3, w4) \<Rightarrow>
                                   Inr (Some (Wrap ''failed to reset and restart'' err), n3, w4)
                               | Inr (None, n3, w4) \<Rightarrow> Inr (None, n3, w4)))))"

section \<open>Peer events and the reconciliation loop\<close>

definition provider_of :: "'w raft_node \<Rightarrow> 'w \<Rightarrow> 'w provider" where
  "provider_of n w =
     (case rn_gossipFn n of
        None \<Rightarrow> NilInterface
      | Some f \<Rightarrow> (case f w of None \<Rightarrow> NilPointer | Some g \<Rightarrow> Live (go_Members g)))"

definition handlePeerJoin :: "'w raft_lib \<Rightarrow> 'w raft_node \<Rightarrow> peer_info \<Rightarrow> 'w \<Rightarrow> panic + 'w" where
  "handlePeerJoin L n peer w =
     (case rn_raft n of
        None \<Rightarrow> Inr w
      | Some ra \<Rightarrow>
          if ci_ID peer = ci_ID (rn_selfInfo n) then Inr w
          else handlePeerJoinWithRaft (rl_iface L ra) peer (provider_of n w) w)"

definition handlePeerLeave :: "'w raft_lib \<Rightarrow> 'w raft_node \<Rightarrow> peer_info \<Rightarrow> 'w \<Rightarrow> 'w" where
  "handlePeerLeave L n peer w =
     (case rn_raft n of
        None \<Rightarrow> w
      | Some ra \<Rightarrow> handlePeerLeaveWithRaft (rl_iface L ra) (ci_ID (rn_selfInfo n)) peer w)"

definition isPeerBootstrapped :: "'w raft_node \<Rightarrow> string \<Rightarrow> 'w \<Rightarrow> bool \<times> 'w" where
  "isPeerBootstrapped n peerID w =
     (case rn_gossipFn n of
        None \<Rightarrow> (True, w)
      | Some f \<Rightarrow>
          (case f w of
             None \<Rightarrow> (True, w)
           | Some g \<Rightarrow> (case go_Members g w of (ms, w1) \<Rightarrow> (member_bootstrapped peerID ms, w1))))"

definition reconcileMembers :: "'w raft_lib \<Rightarrow> 'w raft_node \<Rightarrow> 'w \<Rightarrow> 'w" where
  "reconcileMembers L n w =
     (case rn_raft n of
        None \<Rightarrow> w
      | Some ra \<Rightarrow>
          (case rn_gossipFn n of
             None \<Rightarrow> w
           | Some f \<Rightarrow>
               (case f w of
                  None \<Rightarrow> w
                | Some g \<Rightarrow>
                    reconcileMembersWithRaft (rl_iface L ra) (ci_ID (rn_selfInfo n)) (go_Members g) w)))"

text \<open>
  The reconciliation loop, for a list of waits. \<open>True\<close> says that the loop has returned, which it does
  when a \<open>select\<close> takes the stop channel.
\<close>

fun reconciliation_loop :: "'w raft_lib \<Rightarrow> 'w wake list \<Rightarrow> 'w raft_node \<Rightarrow> 'w \<Rightarrow> bool \<times> 'w raft_node \<times> 'w" where
  "reconciliation_loop L [] n w = (False, n, w)"
| "reconciliation_loop L ((f, tick) # fs) n w =
     (case f (n, w) of
        (n1, w1) \<Rightarrow>
          if takes_stop tick (rn_stopCh n) n1 then (True, n1, w1)
          else reconciliation_loop L fs n1 (reconcileMembers L n1 w1))"

section \<open>The states of a node\<close>

text \<open>
  \<open>node_idle\<close>: Raft is not running and everything it holds is released; \<open>node_live\<close>: Raft and
  its transport exist. In both, the stop channel is open.
\<close>

definition node_idle :: "'w raft_node \<Rightarrow> bool" where
  "node_idle n \<longleftrightarrow> \<not> rn_running n \<and> rn_raft n = None \<and> rn_transport n = None \<and>
     rn_stopCh n < length (rn_chans n) \<and> \<not> is_closed (rn_stopCh n) n"

definition node_live :: "'w raft_node \<Rightarrow> bool" where
  "node_live n \<longleftrightarrow> rn_running n \<and> rn_started n \<and> rn_raft n \<noteq> None \<and> rn_transport n \<noteq> None \<and>
     rn_stopCh n < length (rn_chans n) \<and> \<not> is_closed (rn_stopCh n) n"

definition node_stopped :: "'w raft_node \<Rightarrow> bool" where
  "node_stopped n \<longleftrightarrow> \<not> rn_running n \<and> rn_raft n = None \<and> rn_transport n = None \<and>
     is_closed (rn_stopCh n) n"

lemma is_closed_update [simp]:
  "is_closed c (n\<lparr>rn_raft := a\<rparr>) = is_closed c n" "is_closed c (n\<lparr>rn_transport := b\<rparr>) = is_closed c n"
  "is_closed c (n\<lparr>rn_running := d\<rparr>) = is_closed c n" "is_closed c (n\<lparr>rn_started := d\<rparr>) = is_closed c n"
  "is_closed c (n\<lparr>rn_selfInfo := e\<rparr>) = is_closed c n" "is_closed c (n\<lparr>rn_storages := f\<rparr>) = is_closed c n"
  "is_closed c (n\<lparr>rn_loops := g\<rparr>) = is_closed c n" "is_closed c (n\<lparr>rn_stopCh := h\<rparr>) = is_closed c n"
  by (simp_all add: is_closed_def)

text \<open>What \<open>startRaft\<close> leaves of a node: everything, or a node with Raft and a transport.\<close>

lemma startRaft_cases:
  obtains (failed) err tr w' where "startRaft L self n w = (Some err, n\<lparr>rn_transport := tr\<rparr>, w')"
      "tr = rn_transport n \<or> tr = None"
  | (started) tr ra w' where
      "startRaft L self n w = (None, n\<lparr>rn_transport := Some tr, rn_raft := Some ra,
         rn_running := True, rn_started := True\<rparr>, w')"
proof (cases "startRaft L self n w")
  case (fields e n1 w1)
  then have "(\<exists>err tr. e = Some err \<and> n1 = n\<lparr>rn_transport := tr\<rparr> \<and> (tr = rn_transport n \<or> tr = None)) \<or>
      (\<exists>tr ra. e = None \<and> n1 = n\<lparr>rn_transport := Some tr, rn_raft := Some ra,
         rn_running := True, rn_started := True\<rparr>)"
    by (auto simp: startRaft_def Let_def split: sum.splits prod.splits if_splits intro: exI [of _ "rn_transport n"])
  then consider err tr where "e = Some err" "n1 = n\<lparr>rn_transport := tr\<rparr>" "tr = rn_transport n \<or> tr = None"
    | tr ra where "e = None" "n1 = n\<lparr>rn_transport := Some tr, rn_raft := Some ra,
         rn_running := True, rn_started := True\<rparr>"
    by blast
  then show thesis using fields by cases (auto intro: failed started)
qed

lemma startRaft_idle:
  assumes "node_idle n" and "startRaft L self n w = (e, n1, w1)"
  shows "(e \<noteq> None \<longrightarrow> n1 = n) \<and> (e = None \<longrightarrow> node_live n1) \<and> rn_loops n1 = rn_loops n \<and>
    rn_storages n1 = rn_storages n \<and> rn_selfInfo n1 = rn_selfInfo n \<and> rn_factory n1 = rn_factory n \<and>
    rn_chans n1 = rn_chans n \<and> rn_stopCh n1 = rn_stopCh n"
  using assms by (cases rule: startRaft_cases [of L self n w]) (auto simp: node_idle_def node_live_def)

lemma node_idle_self [simp]: "node_idle (n\<lparr>rn_selfInfo := s\<rparr>) = node_idle n"
  "node_idle (n\<lparr>rn_storages := st\<rparr>) = node_idle n"
  by (simp_all add: node_idle_def)

lemma node_live_spawn [simp]: "node_live (spawn_loop n) = node_live n" "rn_loops (spawn_loop n) = Suc (rn_loops n)"
  "rn_storages (spawn_loop n) = rn_storages n"
  by (simp_all add: node_live_def spawn_loop_def)

section \<open>Shutting down\<close>

lemma node_live_shutdown:
  assumes "node_live n"
  shows "\<exists>err n' w'. raft_node_Shutdown L n w = Inr (err, n', w') \<and> node_stopped n' \<and>
    rn_stopCh n' = rn_stopCh n"
  using assms
  by (auto simp: node_live_def node_stopped_def raft_node_Shutdown_def drop_raft_def close_chan_def is_closed_def
      split: prod.splits)

lemma node_stopped_shutdown: "node_stopped n \<Longrightarrow> raft_node_Shutdown L n w = Inr (None, n, w)"
  by (simp add: node_stopped_def raft_node_Shutdown_def)

text \<open>A step of the others that leaves the node alone; in particular nobody shuts it down or restarts it.\<close>

definition keeps_node :: "'w step \<Rightarrow> bool" where
  "keeps_node f \<longleftrightarrow> (\<forall>n w. fst (f (n, w)) = n)"

lemma keeps_nodeD: "keeps_node f \<Longrightarrow> \<exists>w'. f (n, w) = (n, w')"
  unfolding keeps_node_def by (metis prod.collapse)

text \<open>
  A loop that does nothing on a tick: the node and the world change by what the others do, and it
  returns at the first wait whose \<open>select\<close> takes the stop channel. Neither Raft nor gossip occurs here.
\<close>

fun drained :: "'w wake list \<Rightarrow> 'w raft_node \<Rightarrow> 'w \<Rightarrow> bool \<times> 'w raft_node \<times> 'w" where
  "drained [] n w = (False, n, w)"
| "drained ((f, tick) # fs) n w = (case f (n, w) of (n1, w1) \<Rightarrow> if tick then drained fs n1 w1 else (True, n1, w1))"

lemma reconcileMembers_stopped: "node_stopped n \<Longrightarrow> reconcileMembers L n w = w"
  by (simp add: node_stopped_def reconcileMembers_def)

lemma stopped_loop_drains:
  assumes "node_stopped n" and "\<forall>x\<in>set ws. keeps_node (fst x)"
  shows "reconciliation_loop L ws n w = drained ws n w \<and>
    fst (drained ws n w) = (\<exists>x\<in>set ws. \<not> snd x)"
  using assms(2)
proof (induction ws arbitrary: w)
  case (Cons x ws)
  obtain f tick where x: "x = (f, tick)" by (cases x)
  obtain w1 where w1: "f (n, w) = (n, w1)" using Cons.prems x keeps_nodeD [of f n w] by auto
  have "is_closed (rn_stopCh n) n" using assms(1) by (simp add: node_stopped_def)
  then show ?case using Cons x w1 reconcileMembers_stopped [OF assms(1)]
    by (cases tick) (simp_all add: takes_stop_def)
qed simp


section \<open>Waiting to be accepted\<close>

text \<open>Nobody else touches the node while it waits: in particular nobody shuts it down.\<close>

definition undisturbed :: "'w others \<Rightarrow> bool" where
  "undisturbed Ot \<longleftrightarrow> (\<forall>k. keeps_node (fst (ot_accept_wait Ot k)) \<and> (\<forall>x\<in>set (ot_ticks Ot k). keeps_node (fst x))) \<and>
     keeps_node (fst (ot_reset_wait Ot))"

lemma undisturbed_start:
  "undisturbed Ot \<Longrightarrow> \<exists>w1. (if k > 0 then fst (ot_accept_wait Ot k) (n, w) else (n, w)) = (n, w1)"
  by (simp add: undisturbed_def keeps_nodeD)

lemma check_loop_keeps:
  assumes "\<forall>x\<in>set ticks. keeps_node (fst x)" and "check_loop L ra self ticks n w = (r, n', w')"
  shows "n' = n"
  using assms
proof (induction ticks arbitrary: w)
  case (Cons x xs)
  obtain f tick where x: "x = (f, tick)" by (cases x)
  obtain w1 where "f (n, w) = (n, w1)" using Cons.prems(1) x keeps_nodeD [of f n w] by auto
  then show ?case using Cons x by (auto split: prod.splits if_splits option.splits)
qed simp

lemma checkAcceptance_keeps:
  assumes "undisturbed Ot" and "checkAcceptance L (ot_ticks Ot k) n w = (r, n', w')"
  shows "n' = n"
proof (cases "rn_raft n")
  case None
  then show ?thesis using assms(2) by (simp add: checkAcceptance_def)
next
  case (Some ra)
  then have "check_loop L ra (rn_selfInfo n) (ot_ticks Ot k) n w = (r, n', w')"
    using assms(2) by (simp add: checkAcceptance_def)
  then show ?thesis using assms(1) by (intro check_loop_keeps) (simp_all add: undisturbed_def)
qed

lemma accept_loop_keeps:
  assumes "undisturbed Ot" and "accept_loop L Ot r k n w = (res, n', w')"
  shows "n' = n"
  using assms(2)
proof (induction r arbitrary: k w)
  case (Suc r)
  obtain w1 where "(if k > 0 then fst (ot_accept_wait Ot k) (n, w) else (n, w)) = (n, w1)"
    using undisturbed_start [OF assms(1)] by blast
  moreover have "n2 = n" if "checkAcceptance L (ot_ticks Ot k) n w1 = (res2, n2, w2)" for res2 n2 w2
    using checkAcceptance_keeps [OF assms(1) that] .
  ultimately show ?case using Suc
    by (auto split: prod.splits if_splits option.splits)
qed simp

text \<open>
  What a run has asked and been told. The history of the polls is a view \<open>seen\<close> of the world: each
  question to the library adds its answer, and what the others do adds nothing.
\<close>

datatype poll = LeaderPoll string | ConfigPoll "server list option"

definition config_answer :: "server list \<times> goerr option \<Rightarrow> server list option" where
  "config_answer a = (case snd a of None \<Rightarrow> Some (fst a) | Some _ \<Rightarrow> None)"

definition poll_log :: "'w raft_lib \<Rightarrow> ('w \<Rightarrow> poll list) \<Rightarrow> bool" where
  "poll_log L seen \<longleftrightarrow>
     (\<forall>ra w. seen (snd (rl_LeaderWithID L ra w)) = seen w @ [LeaderPoll (snd (fst (rl_LeaderWithID L ra w)))]) \<and>
     (\<forall>ra w. seen (snd (ri_GetConfiguration (rl_iface L ra) w)) =
        seen w @ [ConfigPoll (config_answer (fst (ri_GetConfiguration (rl_iface L ra) w)))])"

definition polls_nothing :: "('w \<Rightarrow> poll list) \<Rightarrow> 'w step \<Rightarrow> bool" where
  "polls_nothing seen f \<longleftrightarrow>
     (\<forall>n w. seen (snd (f (n, w))) = seen w \<and> rn_selfInfo (fst (f (n, w))) = rn_selfInfo n)"

definition others_poll_nothing :: "('w \<Rightarrow> poll list) \<Rightarrow> 'w others \<Rightarrow> bool" where
  "others_poll_nothing seen Ot \<longleftrightarrow>
     (\<forall>k. polls_nothing seen (fst (ot_accept_wait Ot k)) \<and> (\<forall>x\<in>set (ot_ticks Ot k). polls_nothing seen (fst x)))"

text \<open>
  Polls that end in an acceptance: the last one named this node as the leader, or the last two are
  another leader and then a configuration that lists the node. \<open>mentions\<close>: some poll did either.
\<close>

definition accepting :: "string \<Rightarrow> poll list \<Rightarrow> bool" where
  "accepting self ps \<longleftrightarrow> (\<exists>xs. ps = xs @ [LeaderPoll self] \<and> self \<noteq> '''') \<or>
     (\<exists>xs leader servers. ps = xs @ [LeaderPoll leader, ConfigPoll (Some servers)] \<and> leader \<noteq> '''' \<and>
        self \<in> sv_ID ` set servers)"

definition mentions :: "string \<Rightarrow> poll list \<Rightarrow> bool" where
  "mentions self ps \<longleftrightarrow> self \<noteq> '''' \<and> LeaderPoll self \<in> set ps \<or>
     (\<exists>servers. ConfigPoll (Some servers) \<in> set ps \<and> self \<in> sv_ID ` set servers)"

definition poll_verdict :: "string \<Rightarrow> bool \<Rightarrow> poll list \<Rightarrow> bool" where
  "poll_verdict self accepted ps \<longleftrightarrow> (if accepted then accepting self ps else \<not> mentions self ps)"

lemma poll_verdict_append:
  assumes "\<not> mentions self ps" and "poll_verdict self accepted qs"
  shows "poll_verdict self accepted (ps @ qs)"
proof (cases accepted)
  case True
  then have "accepting self qs" using assms(2) by (simp add: poll_verdict_def)
  then have "accepting self (ps @ qs)" unfolding accepting_def by (metis append.assoc)
  then show ?thesis using True by (simp add: poll_verdict_def)
next
  case False
  then show ?thesis using assms by (auto simp: poll_verdict_def mentions_def)
qed

lemma check_loop_error: "check_loop L ra self ticks n w = ((a, Some e), n', w') \<Longrightarrow> \<not> a"
  by (induction L ra self ticks n w rule: check_loop.induct) (auto split: prod.splits if_splits option.splits)

lemma poll_verdict_Nil [simp]: "poll_verdict self False []"
  by (simp add: poll_verdict_def mentions_def)

lemma check_loop_polls:
  assumes "poll_log L seen" and "\<forall>x\<in>set ticks. polls_nothing seen (fst x)"
    and "check_loop L ra self ticks n w = ((a, e), n', w')"
  shows "\<exists>ps. seen w' = seen w @ ps \<and> poll_verdict (ci_ID self) a ps \<and> rn_selfInfo n' = rn_selfInfo n"
  using assms(2,3)
proof (induction ticks arbitrary: n w)
  case (Cons x xs)
  obtain f tick where x: "x = (f, tick)" by (cases x)
  obtain n1 w1 where f: "f (n, w) = (n1, w1)" by fastforce
  then have f': "seen w1 = seen w" "rn_selfInfo n1 = rn_selfInfo n"
    using Cons.prems(1) x unfolding polls_nothing_def by (metis fst_conv snd_conv list.set_intros(1))+
  obtain addr leader w2 where l: "rl_LeaderWithID L ra w1 = ((addr, leader), w2)" by (metis prod.exhaust_sel)
  have l': "seen w2 = seen w @ [LeaderPoll leader]"
    using assms(1) l f'(1) unfolding poll_log_def by (metis fst_conv snd_conv)
  obtain servers err w3 where g: "ri_GetConfiguration (rl_iface L ra) w2 = ((servers, err), w3)"
    by (metis prod.exhaust_sel)
  have g': "seen w3 = seen w @ [LeaderPoll leader, ConfigPoll (config_answer (servers, err))]"
    using assms(1) g l' unfolding poll_log_def by (metis append.assoc append_Cons append_Nil fst_conv snd_conv)
  have quiet: "\<forall>x\<in>set xs. polls_nothing seen (fst x)" using Cons.prems(1) by simp
  have again: "\<exists>ps. seen w' = seen w @ ps \<and> poll_verdict (ci_ID self) a ps \<and> rn_selfInfo n' = rn_selfInfo n"
    if loop: "check_loop L ra self xs n1 v = ((a, e), n', w')" and v: "seen v = seen w @ qs"
      and no: "\<not> mentions (ci_ID self) qs" for v qs
  proof -
    obtain ps where "seen w' = seen v @ ps" "poll_verdict (ci_ID self) a ps" "rn_selfInfo n' = rn_selfInfo n1"
      using Cons.IH [OF quiet loop] by blast
    then show ?thesis using v f'(2) poll_verdict_append [OF no] by (intro exI [of _ "qs @ ps"]) simp
  qed
  consider (stop) "takes_stop tick (rn_stopCh n) n1" | (unknown) "\<not> takes_stop tick (rn_stopCh n) n1" "leader = ''''"
    | (self) "\<not> takes_stop tick (rn_stopCh n) n1" "leader \<noteq> ''''" "leader = ci_ID self"
    | (unread) er where "\<not> takes_stop tick (rn_stopCh n) n1" "leader \<noteq> ''''" "leader \<noteq> ci_ID self" "err = Some er"
    | (listed) "\<not> takes_stop tick (rn_stopCh n) n1" "leader \<noteq> ''''" "leader \<noteq> ci_ID self" "err = None"
    by fastforce
  then show ?case
  proof cases
    case stop
    then show ?thesis using Cons.prems(2) x f f' by auto
  next
    case unknown
    then show ?thesis using Cons.prems(2) x f l
      by (intro again [OF _ l']) (auto simp: mentions_def)
  next
    case self
    then have "a" "w' = w2" "n' = n1" using Cons.prems(2) x f l by auto
    then show ?thesis using self l' f'(2)
      by (intro exI [of _ "[LeaderPoll leader]"]) (auto simp: poll_verdict_def accepting_def)
  next
    case unread
    then show ?thesis using Cons.prems(2) x f l g
      by (intro again [OF _ g']) (auto simp: mentions_def config_answer_def)
  next
    case listed
    then have "a = (ci_ID self \<in> sv_ID ` set servers)" "w' = w3" "n' = n1" using Cons.prems(2) x f l g by (force simp: image_iff)+
    then show ?thesis using listed g' f'(2)
      by (intro exI [of _ "[LeaderPoll leader, ConfigPoll (Some servers)]"])
        (auto simp: poll_verdict_def accepting_def mentions_def config_answer_def)
  qed
qed simp

lemma accept_loop_polls:
  assumes "poll_log L seen" and "others_poll_nothing seen Ot"
    and "accept_loop L Ot r k n w = ((a, e), n', w')"
  shows "\<exists>ps. seen w' = seen w @ ps \<and> poll_verdict (ci_ID (rn_selfInfo n)) a ps"
  using assms(3)
proof (induction r arbitrary: k n w)
  case (Suc r)
  obtain n1 w1 where p: "(if k > 0 then fst (ot_accept_wait Ot k) (n, w) else (n, w)) = (n1, w1)" by fastforce
  have p': "seen w1 = seen w" "rn_selfInfo n1 = rn_selfInfo n"
    using p assms(2) unfolding others_poll_nothing_def polls_nothing_def
    by (auto split: if_splits) (metis fst_conv snd_conv)+
  obtain a1 e1 n2 w2 where c: "checkAcceptance L (ot_ticks Ot k) n1 w1 = ((a1, e1), n2, w2)"
    by (metis prod.exhaust_sel)
  have "\<exists>ps. seen w2 = seen w1 @ ps \<and> poll_verdict (ci_ID (rn_selfInfo n1)) a1 ps \<and> rn_selfInfo n2 = rn_selfInfo n1"
  proof (cases "rn_raft n1")
    case None
    then show ?thesis using c by (auto simp: checkAcceptance_def)
  next
    case (Some ra)
    then have "check_loop L ra (rn_selfInfo n1) (ot_ticks Ot k) n1 w1 = ((a1, e1), n2, w2)"
      using c by (simp add: checkAcceptance_def)
    moreover have "\<forall>x\<in>set (ot_ticks Ot k). polls_nothing seen (fst x)"
      using assms(2) by (simp add: others_poll_nothing_def)
    ultimately show ?thesis using check_loop_polls [OF assms(1)] by blast
  qed
  then obtain ps where ps: "seen w2 = seen w @ ps" "poll_verdict (ci_ID (rn_selfInfo n)) a1 ps"
      "rn_selfInfo n2 = rn_selfInfo n"
    using p' by auto
  have err: "e1 \<noteq> None \<Longrightarrow> \<not> a1"
    using c check_loop_error [of L _ "rn_selfInfo n1" "ot_ticks Ot k" n1 w1 a1 _ n2 w2]
    by (cases "rn_raft n1") (auto simp: checkAcceptance_def)
  have again: "?case" if loop: "accept_loop L Ot r (Suc k) n2 w2 = ((a, e), n', w')" and no: "\<not> a1"
  proof -
    obtain qs where "seen w' = seen w2 @ qs" "poll_verdict (ci_ID (rn_selfInfo n2)) a qs"
      using Suc.IH [OF loop] by blast
    then show ?thesis using ps no poll_verdict_append [of "ci_ID (rn_selfInfo n)" ps a qs]
      by (intro exI [of _ "ps @ qs"]) (simp add: poll_verdict_def)
  qed
  show ?case
  proof (cases "k > 0 \<and> takes_stop (snd (ot_accept_wait Ot k)) (rn_stopCh n) n1")
    case True
    then show ?thesis using Suc.prems p p' by (auto split: if_splits)
  next
    case False
    then show ?thesis using Suc.prems p c err again ps by (cases e1; cases a1) (auto split: if_splits)
  qed
qed simp

text \<open>
  C8. Acceptance is decided by what the node was told in this run, whatever the other goroutines do
  meanwhile, a \<open>Shutdown\<close> included, as long as they do not poll the library and leave the node's own
  name alone. With \<open>ps\<close> the answers to the polls of this call, in their order: if it answers true, then
  the last poll named this node as the leader, or the last two polls named some leader and then read a
  configuration that lists this node; if it answers false, no poll of the call did either.
\<close>

theorem waitForAcceptance_sound:
  assumes "poll_log L seen" and "others_poll_nothing seen Ot"
    and "waitForAcceptance L Ot n w = ((accepted, e), n', w')"
  shows "\<exists>ps. seen w' = seen w @ ps \<and>
    (if accepted then accepting (ci_ID (rn_selfInfo n)) ps else \<not> mentions (ci_ID (rn_selfInfo n)) ps)"
  using accept_loop_polls [OF assms(1,2), of defaultAcceptanceRetries 0] assms(3)
  by (simp add: waitForAcceptance_def poll_verdict_def)

text \<open>A cluster that stays the same: a known leader and a configuration that can be read.\<close>

definition stable_cluster :: "'w raft_lib \<Rightarrow> nat \<Rightarrow> string \<Rightarrow> server list \<Rightarrow> bool" where
  "stable_cluster L ra leader servers \<longleftrightarrow> leader \<noteq> '''' \<and>
     (\<forall>w. snd (fst (rl_LeaderWithID L ra w)) = leader \<and>
          fst (ri_GetConfiguration (rl_iface L ra) w) = (servers, None))"

definition counted_in :: "string \<Rightarrow> string \<Rightarrow> server list \<Rightarrow> bool" where
  "counted_in self leader servers \<longleftrightarrow> leader = self \<or> (\<exists>s\<in>set servers. sv_ID s = self)"

lemma check_loop_stable:
  assumes "stable_cluster L ra leader servers" and "keeps_node f" and "\<not> is_closed (rn_stopCh n) n"
  shows "fst (check_loop L ra self ((f, tick) # fs) n w) = (counted_in (ci_ID self) leader servers, None)"
proof -
  obtain w1 where w1: "f (n, w) = (n, w1)" using keeps_nodeD [OF assms(2)] by blast
  obtain addr w2 where w2: "rl_LeaderWithID L ra w1 = ((addr, leader), w2)"
    using assms(1) unfolding stable_cluster_def by (metis prod.collapse)
  obtain w3 where w3: "ri_GetConfiguration (rl_iface L ra) w2 = ((servers, None), w3)"
    using assms(1) unfolding stable_cluster_def by (metis prod.collapse)
  show ?thesis
    using assms(1,3) w1 w2 w3 by (auto simp: stable_cluster_def counted_in_def takes_stop_def)
qed

lemma accept_loop_stable:
  assumes "stable_cluster L ra leader servers" and "undisturbed Ot" and "\<forall>k. ot_ticks Ot k \<noteq> []"
    and "rn_raft n = Some ra" and "\<not> is_closed (rn_stopCh n) n"
  shows "fst (accept_loop L Ot r k n w) =
    (0 < r \<and> counted_in (ci_ID (rn_selfInfo n)) leader servers, None)"
proof (induction r arbitrary: k w)
  case (Suc r)
  obtain w1 where w1: "(if k > 0 then fst (ot_accept_wait Ot k) (n, w) else (n, w)) = (n, w1)"
    using undisturbed_start [OF assms(2)] by blast
  obtain f tick fs where fs: "ot_ticks Ot k = (f, tick) # fs"
    using assms(3) by (metis neq_Nil_conv surj_pair)
  then have "keeps_node f" using assms(2) unfolding undisturbed_def by (metis fst_conv list.set_intros(1))
  then have a: "fst (checkAcceptance L (ot_ticks Ot k) n w1)
      = (counted_in (ci_ID (rn_selfInfo n)) leader servers, None)"
    using check_loop_stable [OF assms(1) _ assms(5)] assms(4) fs by (simp add: checkAcceptance_def)
  obtain n2 w2 where c: "checkAcceptance L (ot_ticks Ot k) n w1
      = ((counted_in (ci_ID (rn_selfInfo n)) leader servers, None), n2, w2)"
    using a by (metis prod.collapse)
  moreover have "n2 = n" by (rule checkAcceptance_keeps [OF assms(2) c])
  ultimately show ?case using w1 assms(5) Suc.IH by (simp add: takes_stop_def)
qed simp

text \<open>
  C6. A node that restarts with old state into a stable cluster: it is accepted, and keeps its
  storage, exactly when it is the leader or is listed in the configuration; otherwise what happens is
  \<open>resetAndRestart\<close>.
\<close>

theorem OnJoin_existing_state:
  assumes "undisturbed Ot" and "\<forall>k. ot_ticks Ot k \<noteq> []" and "node_idle n"
    and "startRaft L self (n\<lparr>rn_selfInfo := self\<rparr>) w = (None, n1, w1)"
    and "rl_HasExistingState L (rn_storages n) w1 = ((True, e), w2)"
    and "stable_cluster L (the (rn_raft n1)) leader servers"
  shows "\<exists>w3. OnJoin L Ot self peers n w =
    (if counted_in (ci_ID self) leader servers then Inr (None, spawn_loop n1, w3)
     else case resetAndRestart L Ot self n1 w3 of
            Inl p \<Rightarrow> Inl p
          | Inr (err, n3, w4) \<Rightarrow> Inr (map_option (Wrap ''failed to reset and restart'') err, n3, w4))"
proof -
  have n1: "node_live n1" "rn_storages n1 = rn_storages n" "rn_selfInfo n1 = self"
    using startRaft_idle [OF _ assms(4)] assms(3) by simp_all
  obtain res n2 w3 where acc: "waitForAcceptance L Ot n1 w2 = (res, n2, w3)" by (metis prod.exhaust_sel)
  have n2: "n2 = n1"
    using acc accept_loop_keeps [OF assms(1)] unfolding waitForAcceptance_def by blast
  have live: "rn_raft n1 = Some (the (rn_raft n1))" "\<not> is_closed (rn_stopCh n1) n1"
    using n1(1) by (auto simp: node_live_def)
  have "res = (counted_in (ci_ID self) leader servers, None)"
    using accept_loop_stable [OF assms(6,1,2) live, of defaultAcceptanceRetries 0 w2] acc n1(3)
    by (simp add: waitForAcceptance_def defaultAcceptanceRetries_def)
  then show ?thesis
    using assms(4,5) acc n1(2) n2
    by (intro exI [of _ w3]) (auto simp: OnJoin_def split: sum.splits prod.splits option.splits)
qed

section \<open>What a join leaves behind\<close>

lemma drop_raft_result: "\<exists>e w'. drop_raft L n w = (e, n\<lparr>rn_raft := None, rn_transport := None\<rparr>, w')"
  by (simp add: drop_raft_def split: prod.splits)

text \<open>The channel that replaces the old one is open, and the old one is closed.\<close>

lemma reset_begin_live:
  assumes "node_live n"
  shows "\<exists>n1 w1. reset_begin L n w = Inr (n1, w1) \<and> node_idle n1 \<and> is_closed (rn_stopCh n) n1 \<and>
    rn_loops n1 = rn_loops n \<and> rn_factory n1 = rn_factory n"
proof -
  obtain e w' where d: "drop_raft L n w = (e, n\<lparr>rn_raft := None, rn_transport := None\<rparr>, w')"
    using drop_raft_result [of L n w] by blast
  show ?thesis
    using assms
    by (auto simp: reset_begin_def d close_chan_def fresh_stopCh_def is_closed_def node_live_def
        node_idle_def nth_append nth_list_update)
qed

lemma reset_finish_idle:
  assumes "node_idle n" and "reset_finish L self n w = (err, n', w')"
  shows "if err = None then node_live n' \<and> rn_loops n' = Suc (rn_loops n)
    else node_idle n' \<and> rn_loops n' = rn_loops n"
proof -
  obtain e1 w1 where r: "sf_Reset (rn_factory n) w = (e1, w1)" by fastforce
  obtain c w2 where c: "sf_Create (rn_factory n) w1 = (c, w2)" by fastforce
  show ?thesis
  proof (cases "e1 = None \<and> \<not> isl c")
    case False
    then show ?thesis using assms r c by (auto simp: reset_finish_def split: option.splits sum.splits)
  next
    case True
    then obtain s where s: "c = Inr s" by (cases c) auto
    obtain e3 n1 w3 where t: "startRaft L self (n\<lparr>rn_storages := s\<rparr>) w2 = (e3, n1, w3)"
      by (metis prod.exhaust_sel)
    have "err = e3 \<and> n' = (if e3 = None then spawn_loop n1 else n1)"
      using True s t r c assms(2) by (cases e3) (auto simp: reset_finish_def)
    then show ?thesis using startRaft_idle [OF _ t] assms(1) by (auto simp: node_idle_def)
  qed
qed

lemma resetAndRestart_live:
  assumes "undisturbed Ot" and "node_live n"
  shows "\<exists>err n' w'. resetAndRestart L Ot self n w = Inr (err, n', w') \<and>
    (if err = None then node_live n' \<and> rn_loops n' = Suc (rn_loops n)
     else node_idle n' \<and> rn_loops n' = rn_loops n)"
proof -
  obtain n1 w1 where b: "reset_begin L n w = Inr (n1, w1)" "node_idle n1" "rn_loops n1 = rn_loops n"
    using reset_begin_live [OF assms(2)] by blast
  obtain w2 where w2: "fst (ot_reset_wait Ot) (n1, w1) = (n1, w2)"
    using assms(1) keeps_nodeD [of "fst (ot_reset_wait Ot)" n1 w1] by (auto simp: undisturbed_def)
  obtain err n' w' where f: "reset_finish L self n1 w2 = (err, n', w')" by (metis prod.exhaust_sel)
  have "resetAndRestart L Ot self n w = Inr (err, n', w')"
    using b(1,2) w2 f by (simp add: resetAndRestart_def node_idle_def takes_stop_def)
  then show ?thesis using reset_finish_idle [OF b(2) f] b(3) by auto
qed

text \<open>
  C5. What a join leaves behind, when nobody shuts the node down meanwhile: \<open>OnJoin\<close> on an idle node
  never panics. If it returns nil, Raft and its transport run, the stop channel is open and exactly
  one reconciliation loop was started; if it returns an error, nothing runs, nothing is held, and
  no loop was started.
\<close>

theorem OnJoin_outcome:
  assumes "undisturbed Ot" and "node_idle n"
  shows "\<exists>err n' w'. OnJoin L Ot self peers n w = Inr (err, n', w') \<and>
    (if err = None then node_live n' \<and> rn_loops n' = Suc (rn_loops n)
     else node_idle n' \<and> rn_loops n' = rn_loops n)"
proof -
  obtain e n1 w1 where s: "startRaft L self (n\<lparr>rn_selfInfo := self\<rparr>) w = (e, n1, w1)"
    by (metis prod.exhaust_sel)
  note facts = startRaft_idle [OF _ s, simplified]
  show ?thesis
  proof (cases e)
    case (Some err)
    then show ?thesis using s facts assms(2) by (simp add: OnJoin_def node_idle_def)
  next
    case None
    then have live: "node_live n1" and loops: "rn_loops n1 = rn_loops n" using facts assms(2) by auto
    obtain has e2 w2 where h: "rl_HasExistingState L (rn_storages n1) w1 = ((has, e2), w2)"
      by (metis prod.exhaust_sel)
    obtain acc e3 n2 w3 where a: "waitForAcceptance L Ot n1 w2 = ((acc, e3), n2, w3)"
      by (metis prod.exhaust_sel)
    have n2: "n2 = n1" by (rule accept_loop_keeps [OF assms(1) a [unfolded waitForAcceptance_def]])
    obtain err n' w' where r: "resetAndRestart L Ot self n1 w3 = Inr (err, n', w')"
        "if err = None then node_live n' \<and> rn_loops n' = Suc (rn_loops n1)
         else node_idle n' \<and> rn_loops n' = rn_loops n1"
      using resetAndRestart_live [OF assms(1) live, of L self w3] by blast
    show ?thesis
    proof (cases "has \<and> \<not> acc")
      case True
      then show ?thesis using s None h a n2 r loops
        by (cases err) (simp_all add: OnJoin_def)
    next
      case False
      then show ?thesis using s None h a n2 live loops by (auto simp: OnJoin_def)
    qed
  qed
qed

text \<open>
  The storage as the library documents it, through a view \<open>boot\<close> of the world: the servers of the
  configuration in the node's log, none if the log is empty. A successful check for existing state
  tells whether there is one; \<open>BootstrapCluster\<close> without an error has written the configuration it was
  given, and \<open>ErrCantBootstrap\<close> says that one was there already, which stays. Opening and closing
  sockets and creating the Raft node leave it alone.
\<close>

definition boot_laws :: "'w raft_lib \<Rightarrow> storages \<Rightarrow> ('w \<Rightarrow> server list) \<Rightarrow> bool" where
  "boot_laws L st boot \<longleftrightarrow>
     (\<forall>w has w'. rl_HasExistingState L st w = ((has, None), w') \<longrightarrow> has = (boot w \<noteq> []) \<and> boot w' = boot w) \<and>
     (\<forall>ra ss w w'. rl_BootstrapCluster L ra ss w = (None, w') \<longrightarrow> boot w' = ss) \<and>
     (\<forall>ra ss w w'. rl_BootstrapCluster L ra ss w = (Some (rl_ErrCantBootstrap L), w') \<longrightarrow> boot w \<noteq> [] \<and> boot w' = boot w)"

definition sockets_keep :: "'w raft_lib \<Rightarrow> ('w \<Rightarrow> server list) \<Rightarrow> bool" where
  "sockets_keep L boot \<longleftrightarrow>
     (\<forall>a w. boot (snd (rl_ResolveTCPAddr L a w)) = boot w) \<and> (\<forall>a w. boot (snd (rl_ListenTCP L a w)) = boot w) \<and>
     (\<forall>l w. boot (rl_CloseListener L l w) = boot w) \<and> (\<forall>a b w. boot (snd (rl_NewTCPTransport L a b w)) = boot w) \<and>
     (\<forall>t w. boot (rl_CloseTransport L t w) = boot w) \<and> (\<forall>i s t w. boot (snd (rl_NewRaft L i s t w)) = boot w)"

definition gossip_keeps :: "'w raft_node \<Rightarrow> ('w \<Rightarrow> server list) \<Rightarrow> bool" where
  "gossip_keeps n boot \<longleftrightarrow>
     (\<forall>f w g a v. rn_gossipFn n = Some f \<and> f w = Some g \<longrightarrow> boot (go_SetRaftAddr g a v) = boot v)"

lemma startRaft_keeps_boot:
  assumes "sockets_keep L boot" and "gossip_keeps n boot" and "startRaft L self n w = (e, n1, w1)"
  shows "boot w1 = boot w"
proof -
  have q: "rl_ResolveTCPAddr L a v = (x1, v') \<Longrightarrow> boot v' = boot v" "rl_ListenTCP L b v = (x2, v') \<Longrightarrow> boot v' = boot v"
    "boot (rl_CloseListener L l v) = boot v" "rl_NewTCPTransport L a b v = (x3, v') \<Longrightarrow> boot v' = boot v"
    "boot (rl_CloseTransport L l v) = boot v" "rl_NewRaft L a st l v = (x4, v') \<Longrightarrow> boot v' = boot v"
    for a b l st v v' x1 x2 x3 x4
    using assms(1) unfolding sockets_keep_def by (metis snd_conv)+
  have bind: "boot v' = boot v" if "bind_address L a v = (x, v')" for a v x v'
    using that by (auto simp: bind_address_def allocateDynamicPort_def q(3) dest!: q(1,2)
        split: sum.splits prod.splits if_splits)
  have ann: "boot (announce_raft_addr L tr m v) = boot v" if "rn_gossipFn m = rn_gossipFn n" for m tr v
    using assms(2) that by (auto simp: announce_raft_addr_def gossip_keeps_def split: option.splits)
  show ?thesis
    using assms(3)
    by (auto simp: startRaft_def Let_def ann q(5) dest!: bind q(4,6) split: sum.splits prod.splits)
qed


section \<open>Shutting down at the wrong moment\<close>

text \<open>
  \<open>OnJoin\<close> lets go of the lock while it waits for acceptance. A \<open>Shutdown\<close> in that time closes the
  stop channel, the wait gives up, and \<open>resetAndRestart\<close> closes the same channel again: a panic.
\<close>

lemma shutdown_before_reset_panics:
  assumes "node_live n" and "raft_node_Shutdown L n w = Inr (e, n1, w1)"
  shows "resetAndRestart L Ot self n1 w2 = Inl CloseOfClosedChannel"
proof -
  have n1: "node_stopped n1" using node_live_shutdown [OF assms(1), of L w] assms(2) by auto
  obtain e' w' where d: "drop_raft L n1 w2 = (e', n1\<lparr>rn_raft := None, rn_transport := None\<rparr>, w')"
    using drop_raft_result [of L n1 w2] by blast
  show ?thesis using n1
    by (auto simp: resetAndRestart_def reset_begin_def d close_chan_def fresh_stopCh_def
        node_stopped_def is_closed_def nth_append)
qed

text \<open>
  While \<open>resetAndRestart\<close> waits out its jitter the node counts as not running, so that a \<open>Shutdown\<close>
  in that time does nothing and Raft starts afterwards all the same.
\<close>

lemma shutdown_during_reset_is_lost:
  assumes "node_live n" and "reset_begin L n w = Inr (n1, w1)"
  shows "raft_node_Shutdown L n1 w2 = Inr (None, n1, w2)"
  using reset_begin_live [OF assms(1), of L w] assms(2)
  by (auto simp: node_idle_def raft_node_Shutdown_def)

text \<open>
  \<open>Shutdown\<close> does not replace the channel that it closes. A node that is started again after it
  has a reconciliation loop that ends at its first wait, and its next \<open>Shutdown\<close> panics.
\<close>

lemma second_life_panics:
  assumes "node_stopped n" and "startRaft L self n w = (None, n1, w1)"
  shows "raft_node_Shutdown L n1 w2 = Inl CloseOfClosedChannel"
    and "keeps_node f \<Longrightarrow> fst (reconciliation_loop L ((f, False) # fs) n1 w2)"
proof -
  have n1: "rn_running n1" "is_closed (rn_stopCh n1) n1"
    using assms by (cases rule: startRaft_cases [of L self n w], auto simp: node_stopped_def)+
  show "raft_node_Shutdown L n1 w2 = Inl CloseOfClosedChannel"
    using n1 by (simp add: raft_node_Shutdown_def close_chan_def)
  assume "keeps_node f"
  then show "fst (reconciliation_loop L ((f, False) # fs) n1 w2)"
    using keeps_nodeD [of f n1 w2] n1(2) by (auto simp: takes_stop_def)
qed

section \<open>A sample library\<close>

text \<open>The Raft library over the association list of the servers in the configuration.\<close>

definition sample_lib :: "(string \<times> string) list raft_lib" where
  "sample_lib =
     \<lparr>rl_iface = \<lambda>_. mem_raft,
      rl_LeaderWithID = \<lambda>_ w. ((''10.0.0.1:1'', ''n1''), w),
      rl_Apply = \<lambda>_ _ _ w. (0, w),
      rl_Shutdown = \<lambda>_ w. (None, w),
      rl_BootstrapCluster = \<lambda>_ ss w. (None, map (\<lambda>s. (sv_ID s, sv_Address s)) ss),
      rl_HasExistingState = \<lambda>s w. ((0 < st_LogStore s, None), w),
      rl_ResolveTCPAddr = \<lambda>a w. (Inr \<lparr>ta_IP = host_of a, ta_Port = 7000\<rparr>, w),
      rl_ListenTCP = \<lambda>a w. (Inr (0, 7001), w),
      rl_CloseListener = \<lambda>_ w. w,
      rl_NewTCPTransport = \<lambda>_ _ w. (Inr 1, w),
      rl_LocalAddr = \<lambda>_. ''10.0.0.2:7000'',
      rl_CloseTransport = \<lambda>_ w. w,
      rl_NewRaft = \<lambda>_ _ _ w. (Inr 2, w),
      rl_ErrCantBootstrap = Foreign ''cant bootstrap''\<rparr>"

definition sample_factory :: "'w storage_factory" where
  "sample_factory = \<lparr>sf_Create = \<lambda>w. (Inr \<lparr>st_LogStore = 0, st_StableStore = 0, st_SnapshotStore = 0\<rparr>, w),
     sf_Reset = \<lambda>w. (None, w)\<rparr>"

definition sample_node :: "nat \<Rightarrow> (string \<times> string) list raft_node" where
  "sample_node log =
     \<lparr>rn_raft = None,
      rn_config = \<lparr>rc_NodeID = ''n2'', rc_BindAddr = ''10.0.0.2:7000'', rc_AdvertiseAddr = [],
        rc_ReconcileInterval = defaultReconcileInterval\<rparr>,
      rn_storages = \<lparr>st_LogStore = log, st_StableStore = 0, st_SnapshotStore = 0\<rparr>,
      rn_factory = sample_factory, rn_transport = None, rn_gossipFn = None,
      rn_selfInfo = \<lparr>ci_ID = [], ci_RaftAddr = []\<rparr>, rn_running = False, rn_started = False,
      rn_chans = [False], rn_stopCh = 0, rn_loops = 0\<rparr>"

definition sample_self :: peer_info where
  "sample_self = \<lparr>ci_ID = ''n2'', ci_RaftAddr = ''10.0.0.2:7000''\<rparr>"

definition calm :: "'w others" where
  "calm = \<lparr>ot_accept_wait = \<lambda>_. (\<lambda>x. x, True), ot_ticks = \<lambda>_. [(\<lambda>x. x, True)], ot_reset_wait = (\<lambda>x. x, True)\<rparr>"

definition running_node :: "nat \<Rightarrow> (string \<times> string) list raft_node" where
  "running_node log = (sample_node log)\<lparr>rn_transport := Some 1, rn_raft := Some 2, rn_running := True,
     rn_started := True, rn_selfInfo := sample_self\<rparr>"

lemma calm_undisturbed: "undisturbed calm"
  by (simp add: calm_def undisturbed_def keeps_node_def)

lemma sample_node_idle: "node_idle (sample_node log)"
  by (simp add: sample_node_def node_idle_def is_closed_def)

lemma running_node_live: "node_live (running_node log)"
  by (simp add: running_node_def sample_node_def node_live_def is_closed_def)

lemma sample_start: "startRaft sample_lib sample_self ((sample_node log)\<lparr>rn_selfInfo := sample_self\<rparr>) w
    = (None, running_node log, w)"
  by (simp add: startRaft_def bind_address_def sample_lib_def sample_self_def sample_node_def
      running_node_def announce_raft_addr_def Let_def)

text \<open>The same library with a configuration that never changes.\<close>

definition steady_lib :: "server list \<Rightarrow> (string \<times> string) list raft_lib" where
  "steady_lib servers = sample_lib\<lparr>rl_iface := \<lambda>_. mem_raft\<lparr>ri_GetConfiguration := \<lambda>w. ((servers, None), w)\<rparr>\<rparr>"

lemma steady_stable: "stable_cluster (steady_lib servers) ra ''n1'' servers"
  by (simp add: stable_cluster_def steady_lib_def sample_lib_def)

lemma steady_start: "startRaft (steady_lib servers) sample_self ((sample_node log)\<lparr>rn_selfInfo := sample_self\<rparr>) w
    = (None, running_node log, w)"
  by (simp add: startRaft_def bind_address_def sample_lib_def sample_self_def sample_node_def
      running_node_def announce_raft_addr_def Let_def steady_lib_def)

section \<open>Witnesses\<close>


text \<open>A library that keeps the polls as its world, a follower of \<open>n1\<close> that is listed.\<close>

definition log_lib :: "poll list raft_lib" where
  "log_lib =
     \<lparr>rl_iface = \<lambda>_. \<lparr>ri_State = \<lambda>w. (Follower, w),
        ri_GetConfiguration = \<lambda>w. (([\<lparr>sv_ID = ''n2'', sv_Address = []\<rparr>], None), w @ [ConfigPoll (Some [\<lparr>sv_ID = ''n2'', sv_Address = []\<rparr>])]),
        ri_AddVoter = \<lambda>_ _ _ _ w. (None, w), ri_RemoveServer = \<lambda>_ _ _ w. (None, w)\<rparr>,
      rl_LeaderWithID = \<lambda>_ w. (([], ''n1''), w @ [LeaderPoll ''n1'']), rl_Apply = \<lambda>_ _ _ w. (0, w),
      rl_Shutdown = \<lambda>_ w. (None, w), rl_BootstrapCluster = \<lambda>_ _ w. (None, w),
      rl_HasExistingState = \<lambda>_ w. ((True, None), w), rl_ResolveTCPAddr = \<lambda>a w. (Inr \<lparr>ta_IP = a, ta_Port = 1\<rparr>, w),
      rl_ListenTCP = \<lambda>_ w. (Inr (0, 1), w), rl_CloseListener = \<lambda>_ w. w, rl_NewTCPTransport = \<lambda>_ _ w. (Inr 1, w),
      rl_LocalAddr = \<lambda>_. [], rl_CloseTransport = \<lambda>_ w. w, rl_NewRaft = \<lambda>_ _ _ w. (Inr 2, w),
      rl_ErrCantBootstrap = Foreign ''cant bootstrap''\<rparr>"

definition log_node :: "poll list raft_node" where
  "log_node =
     \<lparr>rn_raft = Some 2, rn_config = \<lparr>rc_NodeID = ''n2'', rc_BindAddr = [], rc_AdvertiseAddr = [], rc_ReconcileInterval = 1\<rparr>,
      rn_storages = \<lparr>st_LogStore = 1, st_StableStore = 0, st_SnapshotStore = 0\<rparr>, rn_factory = sample_factory,
      rn_transport = Some 1, rn_gossipFn = None, rn_selfInfo = sample_self, rn_running = True, rn_started = True,
      rn_chans = [False], rn_stopCh = 0, rn_loops = 0\<rparr>"

lemma log_lib_log: "poll_log log_lib (\<lambda>w. w)" "others_poll_nothing (\<lambda>w. w) calm"
  by (simp_all add: poll_log_def log_lib_def config_answer_def others_poll_nothing_def polls_nothing_def calm_def)

lemma log_accepted:
  "waitForAcceptance log_lib calm log_node [] = ((True, None), log_node,
     [LeaderPoll ''n1'', ConfigPoll (Some [\<lparr>sv_ID = ''n2'', sv_Address = []\<rparr>])])"
  by (simp add: waitForAcceptance_def defaultAcceptanceRetries_def numeral_3_eq_3 calm_def checkAcceptance_def
      log_node_def log_lib_def takes_stop_def is_closed_def sample_self_def)

theorem waitForAcceptance_sound_witness:
  "\<exists>e n' w'. waitForAcceptance log_lib calm log_node [] = ((True, e), n', w') \<and> accepting ''n2'' w'"
  using waitForAcceptance_sound [OF log_lib_log log_accepted] log_accepted
  by (simp add: log_node_def sample_self_def)

theorem OnJoin_existing_state_witness:
  "\<exists>w3. OnJoin (steady_lib [\<lparr>sv_ID = ''n2'', sv_Address = []\<rparr>]) calm sample_self [] (sample_node 1) []
    = Inr (None, spawn_loop (running_node 1), w3)"
  using OnJoin_existing_state [OF calm_undisturbed _ sample_node_idle [of 1]
      steady_start [of "[\<lparr>sv_ID = ''n2'', sv_Address = []\<rparr>]" 1 "[]"] _ steady_stable, of None "[]" "[]"]
  by (simp add: calm_def counted_in_def sample_self_def steady_lib_def sample_lib_def sample_node_def)

theorem OnJoin_outcome_witness:
  "\<exists>err n' w'. OnJoin (steady_lib []) calm sample_self [] (sample_node 1) [] = Inr (err, n', w') \<and>
    (if err = None then node_live n' \<and> rn_loops n' = Suc (rn_loops (sample_node 1))
     else node_idle n' \<and> rn_loops n' = rn_loops (sample_node 1))"
  by (rule OnJoin_outcome [OF calm_undisturbed sample_node_idle])

text \<open>The library with an empty log, kept as the world.\<close>

definition boot_lib :: "(string \<times> string) list raft_lib" where
  "boot_lib = sample_lib\<lparr>rl_HasExistingState := \<lambda>_ w. ((w \<noteq> [], None), w),
     rl_BootstrapCluster := \<lambda>_ ss w. if w = [] then (None, map (\<lambda>s. (sv_ID s, sv_Address s)) ss)
       else (Some (Foreign ''cant bootstrap''), w)\<rparr>"

definition boot_view :: "(string \<times> string) list \<Rightarrow> server list" where
  "boot_view w = map (\<lambda>(i, a). \<lparr>sv_ID = i, sv_Address = a\<rparr>) w"

lemma boot_lib_laws: "boot_laws boot_lib st boot_view" "sockets_keep boot_lib boot_view"
    "gossip_keeps (sample_node log) boot_view"
proof -
  have "boot_view (map (\<lambda>s. (sv_ID s, sv_Address s)) ss) = ss" for ss
    by (simp add: boot_view_def comp_def map_idI)
  then show "boot_laws boot_lib st boot_view"
    by (auto simp: boot_laws_def boot_lib_def sample_lib_def boot_view_def split: if_splits)
qed (simp_all add: boot_lib_def sample_lib_def sockets_keep_def gossip_keeps_def sample_node_def)


end
