(* ===== verification/Gossip.thy ===== *)
theory Gossip
  imports GossipDelegate GoCrypto GoNet
begin

text \<open>
  Package \<open>internal/gossip\<close>, file \<open>gossip.go\<close>: the \<open>Gossip\<close> type, which owns the delegate and
  drives memberlist. The memberlist library is the record \<open>ml_api\<close>: a \<open>*Memberlist\<close>, a keyring and
  a broadcast queue are numbers, and since the library keeps a pointer to the delegate, the calls in
  which it consults the delegate take its present value.
\<close>

section \<open>The library\<close>

record memberlist_config =
  mlc_Name :: string
  mlc_BindAddr :: string
  mlc_BindPort :: int
  mlc_AdvertiseAddr :: string
  mlc_AdvertisePort :: int
  mlc_TCPTimeout :: duration
  mlc_SuspicionMult :: int
  mlc_RetransmitMult :: int
  mlc_Keyring :: "nat option"

record 'w ml_api =
  ml_DefaultLANConfig :: memberlist_config
  ml_NewKeyring :: "bytes \<Rightarrow> goerr + nat"
  ml_LookupIP :: "string \<Rightarrow> 'w \<Rightarrow> (goerr + net_ip list) \<times> 'w"
  ml_Create :: "memberlist_config \<Rightarrow> 'w delegate \<Rightarrow> 'w event_handler \<Rightarrow> 'w \<Rightarrow> (goerr + nat) \<times> 'w"
  ml_NewQueue :: "nat \<Rightarrow> int \<Rightarrow> 'w \<Rightarrow> nat \<times> 'w"
  ml_Leave :: "nat \<Rightarrow> duration \<Rightarrow> 'w \<Rightarrow> goerr option \<times> 'w"
  ml_Shutdown :: "nat \<Rightarrow> 'w \<Rightarrow> goerr option \<times> 'w"
  ml_Join :: "nat \<Rightarrow> string list \<Rightarrow> 'w \<Rightarrow> (int \<times> goerr option) \<times> 'w"
  ml_Members :: "nat \<Rightarrow> 'w \<Rightarrow> mlnode list \<times> 'w"
  ml_LocalNode :: "nat \<Rightarrow> 'w \<Rightarrow> mlnode \<times> 'w"
  ml_NumMembers :: "nat \<Rightarrow> 'w \<Rightarrow> int \<times> 'w"
  ml_UpdateNode :: "nat \<Rightarrow> 'w delegate \<Rightarrow> duration \<Rightarrow> 'w \<Rightarrow> goerr option \<times> 'w"

section \<open>Configuration for memberlist\<close>

definition deriveEncryptionKey :: "bytes \<Rightarrow> bytes" where
  "deriveEncryptionKey secret = sha256 secret"

definition resolveAdvertiseAddr :: "'w ml_api \<Rightarrow> string \<Rightarrow> 'w \<Rightarrow> string \<times> 'w" where
  "resolveAdvertiseAddr M host w =
     (if parseIP_ok host then (host, w)
      else case ml_LookupIP M host w of
             (Inl err, w1) \<Rightarrow> (host, w1)
           | (Inr addrs, w1) \<Rightarrow>
               (case List.find (\<lambda>a. a \<noteq> None) (map to4 addrs) of
                  Some (Some v4) \<Rightarrow> (ipv4_String v4, w1)
                | _ \<Rightarrow> (if addrs \<noteq> [] then ip_String (hd addrs) else host, w1)))"

definition base_config :: "'w ml_api \<Rightarrow> gossip_config \<Rightarrow> memberlist_config" where
  "base_config M c = (ml_DefaultLANConfig M)\<lparr>mlc_Name := gc_NodeID c, mlc_BindPort := 7946,
     mlc_AdvertisePort := 7946, mlc_TCPTimeout := 30 * second, mlc_SuspicionMult := 4,
     mlc_RetransmitMult := 4\<rparr>"

definition with_bind :: "gossip_config \<Rightarrow> memberlist_config \<Rightarrow> memberlist_config" where
  "with_bind c m =
     (case splitHostPort (gc_BindAddr c) of
        Inl err \<Rightarrow> m
      | Inr (host, portStr) \<Rightarrow> m\<lparr>mlc_BindAddr := host, mlc_BindPort := sscanf_d portStr\<rparr>)"

definition with_advertise :: "'w ml_api \<Rightarrow> gossip_config \<Rightarrow> memberlist_config \<Rightarrow> 'w
    \<Rightarrow> memberlist_config \<times> 'w" where
  "with_advertise M c m w =
     (if gc_AdvertiseAddr c = '''' then (m, w)
      else case splitHostPort (gc_AdvertiseAddr c) of
             Inl err \<Rightarrow> (m, w)
           | Inr (advHost, advPortStr) \<Rightarrow>
               (case resolveAdvertiseAddr M advHost w of
                  (resolvedIP, w1) \<Rightarrow>
                    (if resolvedIP \<noteq> ''''
                     then m\<lparr>mlc_AdvertiseAddr := resolvedIP, mlc_AdvertisePort := sscanf_d advPortStr\<rparr>
                     else m, w1)))"

definition with_keyring :: "'w ml_api \<Rightarrow> gossip_config \<Rightarrow> memberlist_config \<Rightarrow> memberlist_config" where
  "with_keyring M c m =
     (if gc_SecretKey c = [] then m
      else case ml_NewKeyring M (deriveEncryptionKey (gc_SecretKey c)) of
             Inl err \<Rightarrow> m
           | Inr keyring \<Rightarrow> m\<lparr>mlc_Keyring := Some keyring\<rparr>)"

definition buildMemberlistConfig :: "'w ml_api \<Rightarrow> gossip_config \<Rightarrow> 'w \<Rightarrow> memberlist_config \<times> 'w" where
  "buildMemberlistConfig M c w =
     (case with_advertise M c (with_bind c (base_config M c)) w of
        (m, w1) \<Rightarrow> (with_keyring M c m, w1))"

section \<open>The gossip layer\<close>

text \<open>\<open>New\<close> always sets the delegate, so that the tests \<open>g.delegate != nil\<close> hold throughout.\<close>

record 'w gossip =
  g_config :: gossip_config
  g_list :: "nat option"
  g_delegate :: "'w delegate"
  g_events :: "'w event_handler"
  g_started :: bool

definition gossip_New :: "gossip_config \<Rightarrow> 'w event_handler option \<Rightarrow> goerr + 'w gossip" where
  "gossip_New cfg handler =
     (case gossip_validate cfg of
        Inl err \<Rightarrow> Inl err
      | Inr c \<Rightarrow> Inr \<lparr>g_config = c, g_list = None,
          g_delegate = newDelegate (gc_AdvertiseAddr c) (gc_RaftAddr c),
          g_events = newEventDelegate handler, g_started = False\<rparr>)"

definition gossip_Start :: "'w ml_api \<Rightarrow> 'w gossip \<Rightarrow> 'w \<Rightarrow> goerr option \<times> 'w gossip \<times> 'w" where
  "gossip_Start M g w =
     (if g_started g then (Some gossip_ErrAlreadyStarted, g, w)
      else case buildMemberlistConfig M (g_config g) w of
             (mlConfig, w1) \<Rightarrow>
               (case ml_Create M mlConfig (g_delegate g) (g_events g) w1 of
                  (Inl err, w2) \<Rightarrow> (Some (Wrap ''failed to create memberlist'' err), g, w2)
                | (Inr list, w2) \<Rightarrow>
                    (case ml_NewQueue M list 3 w2 of
                       (broadcasts, w3) \<Rightarrow>
                         (None, g\<lparr>g_list := Some list, g_started := True,
                            g_delegate := delegate_SetBroadcastQueue (Some broadcasts) (g_delegate g)\<rparr>, w3))))"

definition gossip_Stop :: "'w ml_api \<Rightarrow> 'w gossip \<Rightarrow> 'w \<Rightarrow> goerr option \<times> 'w gossip \<times> 'w" where
  "gossip_Stop M g w =
     (if \<not> g_started g then (Some gossip_ErrNotStarted, g, w)
      else case ml_Leave M (the (g_list g)) (5 * second) w of
             (Some err, w1) \<Rightarrow> (Some (Wrap ''failed to leave cluster'' err), g, w1)
           | (None, w1) \<Rightarrow>
               (case ml_Shutdown M (the (g_list g)) w1 of
                  (Some err, w2) \<Rightarrow> (Some (Wrap ''failed to shutdown memberlist'' err), g, w2)
                | (None, w2) \<Rightarrow> (None, g\<lparr>g_started := False\<rparr>, w2)))"

definition gossip_Join :: "'w ml_api \<Rightarrow> string list \<Rightarrow> 'w gossip \<Rightarrow> 'w \<Rightarrow> (int \<times> goerr option) \<times> 'w" where
  "gossip_Join M peers g w =
     (if \<not> g_started g then ((0, Some gossip_ErrNotStarted), w)
      else if peers = [] then ((0, None), w)
      else case ml_Join M (the (g_list g)) peers w of
             ((n, Some err), w1) \<Rightarrow> ((n, Some (Wrap ''failed to join cluster'' err)), w1)
           | ((n, None), w1) \<Rightarrow> ((n, None), w1))"

definition gossip_Members :: "'w ml_api \<Rightarrow> 'w gossip \<Rightarrow> 'w \<Rightarrow> gossip_info list \<times> 'w" where
  "gossip_Members M g w =
     (if \<not> g_started g then ([], w)
      else case ml_Members M (the (g_list g)) w of (members, w1) \<Rightarrow> (map nodeToInfo members, w1))"

definition gossip_LocalNode :: "'w ml_api \<Rightarrow> 'w gossip \<Rightarrow> 'w \<Rightarrow> gossip_info \<times> 'w" where
  "gossip_LocalNode M g w =
     (if \<not> g_started g then (zero_info, w)
      else case ml_LocalNode M (the (g_list g)) w of (n, w1) \<Rightarrow> (nodeToInfo n, w1))"

definition gossip_NumMembers :: "'w ml_api \<Rightarrow> 'w gossip \<Rightarrow> 'w \<Rightarrow> int \<times> 'w" where
  "gossip_NumMembers M g w =
     (if \<not> g_started g then (0, w) else ml_NumMembers M (the (g_list g)) w)"

text \<open>The common end of the setters: re-announce, whether or not the layer is started.\<close>

definition set_and_update :: "'w ml_api \<Rightarrow> ('w delegate \<Rightarrow> 'w delegate) \<Rightarrow> 'w gossip \<Rightarrow> 'w
    \<Rightarrow> 'w gossip \<times> 'w" where
  "set_and_update M f g w =
     (let g1 = g\<lparr>g_delegate := f (g_delegate g)\<rparr>
      in (g1, case g_list g of None \<Rightarrow> w | Some l \<Rightarrow> snd (ml_UpdateNode M l (g_delegate g1) second w)))"

definition gossip_SetBootstrapped :: "'w ml_api \<Rightarrow> bool \<Rightarrow> 'w gossip \<Rightarrow> 'w \<Rightarrow> 'w gossip \<times> 'w" where
  "gossip_SetBootstrapped M b = set_and_update M (delegate_SetBootstrapped b)"

definition gossip_SetGRPCAddr :: "'w ml_api \<Rightarrow> string \<Rightarrow> 'w gossip \<Rightarrow> 'w \<Rightarrow> 'w gossip \<times> 'w" where
  "gossip_SetGRPCAddr M a = set_and_update M (delegate_SetGRPCAddr a)"

definition gossip_SetRaftAddr :: "'w ml_api \<Rightarrow> string \<Rightarrow> 'w gossip \<Rightarrow> 'w \<Rightarrow> 'w gossip \<times> 'w" where
  "gossip_SetRaftAddr M a = set_and_update M (delegate_SetRaftAddr a)"

definition gossip_SetAppMetadata :: "'w ml_api \<Rightarrow> bytes \<Rightarrow> 'w gossip \<Rightarrow> 'w \<Rightarrow> 'w gossip \<times> 'w" where
  "gossip_SetAppMetadata M m = set_and_update M (delegate_SetAppMeta m)"

definition gossip_Broadcast :: "'w queue_api \<Rightarrow> bytes \<Rightarrow> 'w gossip \<Rightarrow> 'w \<Rightarrow> 'w" where
  "gossip_Broadcast Q msg g w =
     (if g_list g \<noteq> None then QueueBroadcast Q (g_delegate g) (gc_NodeID (g_config g)) msg w else w)"

definition gossip_OnAppMessage :: "(string \<Rightarrow> bytes \<Rightarrow> 'w \<Rightarrow> 'w) option \<Rightarrow> 'w gossip \<Rightarrow> 'w gossip" where
  "gossip_OnAppMessage f g = g\<lparr>g_delegate := delegate_SetOnAppMessage f (g_delegate g)\<rparr>"

section \<open>The addresses that memberlist is given\<close>

lemma length_deriveEncryptionKey: "length (deriveEncryptionKey s) = 32"
  by (simp add: deriveEncryptionKey_def length_sha256)

text \<open>
  C36. The addresses of the configuration reach memberlist unharmed, bracketed hosts and every
  port included, when the advertised host is an IP literal; and a node with a secret key, given a
  library that accepts 32-byte keys, gossips under the key derived from it.
\<close>

theorem memberlist_config_addresses:
  assumes "gc_BindAddr c = joinHostPort bh (sprintf_d bp)" and "gc_AdvertiseAddr c = joinHostPort ah (sprintf_d ap)"
    and "plain_part bh" and "plain_part ah" and "parseIP_ok ah" and "in_int64 bp" and "in_int64 ap"
    and "\<And>key. length key = 32 \<Longrightarrow> \<exists>k. ml_NewKeyring M key = Inr k"
  shows "\<exists>m. buildMemberlistConfig M c w = (m, w) \<and> mlc_Name m = gc_NodeID c \<and>
    mlc_BindAddr m = bh \<and> mlc_BindPort m = bp \<and> mlc_AdvertiseAddr m = ah \<and> mlc_AdvertisePort m = ap \<and>
    (gc_SecretKey c \<noteq> [] \<longrightarrow>
       (\<exists>k. ml_NewKeyring M (deriveEncryptionKey (gc_SecretKey c)) = Inr k \<and> mlc_Keyring m = Some k))"
proof -
  have port: "plain_part (sprintf_d p)" "CHR '':'' \<notin> set (sprintf_d p)" for p
    by (auto simp: sprintf_d_def plain_part_def)
  have b: "splitHostPort (gc_BindAddr c) = Inr (bh, sprintf_d bp)"
    and a: "splitHostPort (gc_AdvertiseAddr c) = Inr (ah, sprintf_d ap)"
    using assms(1-4) port by (simp_all add: split_joinHostPort valid_hostport_def)
  have ah: "ah \<noteq> []" and av: "gc_AdvertiseAddr c \<noteq> []"
    using assms(5) by (auto simp: parseIP_ok_def assms(2) joinHostPort_def)
  obtain k where k: "ml_NewKeyring M (deriveEncryptionKey (gc_SecretKey c)) = Inr k"
    using assms(8) length_deriveEncryptionKey by blast
  show ?thesis
    using assms(5-7) a b ah av k
    by (simp add: buildMemberlistConfig_def with_advertise_def with_bind_def base_config_def
        with_keyring_def resolveAdvertiseAddr_def sscanf_sprintf)
qed

section \<open>States of the gossip layer\<close>

text \<open>Every state that the methods can bring about, one rule per method that changes it.\<close>

inductive gossip_reach :: "'w ml_api \<Rightarrow> 'w gossip \<Rightarrow> bool" for M where
  new: "gossip_New cfg handler = Inr g \<Longrightarrow> gossip_reach M g"
| start: "gossip_reach M g \<Longrightarrow> gossip_Start M g w = (e, g1, w1) \<Longrightarrow> gossip_reach M g1"
| stop: "gossip_reach M g \<Longrightarrow> gossip_Stop M g w = (e, g1, w1) \<Longrightarrow> gossip_reach M g1"
| bootstrapped: "gossip_reach M g \<Longrightarrow> gossip_SetBootstrapped M b g w = (g1, w1) \<Longrightarrow> gossip_reach M g1"
| grpc: "gossip_reach M g \<Longrightarrow> gossip_SetGRPCAddr M a g w = (g1, w1) \<Longrightarrow> gossip_reach M g1"
| raft: "gossip_reach M g \<Longrightarrow> gossip_SetRaftAddr M a g w = (g1, w1) \<Longrightarrow> gossip_reach M g1"
| app: "gossip_reach M g \<Longrightarrow> gossip_SetAppMetadata M m g w = (g1, w1) \<Longrightarrow> gossip_reach M g1"
| handler: "gossip_reach M g \<Longrightarrow> gossip_reach M (gossip_OnAppMessage f g)"

lemmas gossip_setters = gossip_SetBootstrapped_def gossip_SetGRPCAddr_def gossip_SetRaftAddr_def
  gossip_SetAppMetadata_def gossip_OnAppMessage_def set_and_update_def

definition gossip_ok :: "'w gossip \<Rightarrow> bool" where
  "gossip_ok g \<longleftrightarrow> gc_NodeID (g_config g) \<noteq> [] \<and> gc_BindAddr (g_config g) \<noteq> [] \<and>
     d_advertiseAddr (g_delegate g) = gc_AdvertiseAddr (g_config g) \<and> gc_AdvertiseAddr (g_config g) \<noteq> [] \<and>
     (g_started g \<longrightarrow> g_list g \<noteq> None) \<and>
     (g_list g \<noteq> None \<longrightarrow> d_broadcasts (g_delegate g) \<noteq> None)"

lemma gossip_reach_ok:
  assumes "gossip_reach M g"
  shows "gossip_ok g"
  using assms
proof (induction rule: gossip_reach.induct)
  case (new cfg handler g)
  then show ?case
    by (auto simp: gossip_New_def gossip_validate_def gossip_ok_def newDelegate_def split: if_splits)
next
  case (start g w e g1 w1)
  then show ?case
    by (auto simp: gossip_Start_def gossip_ok_def delegate_setters split: if_splits prod.splits sum.splits)
next
  case (stop g w e g1 w1)
  then show ?case
    by (auto simp: gossip_Stop_def gossip_ok_def split: if_splits prod.splits option.splits)
qed (auto simp: gossip_setters gossip_ok_def delegate_setters Let_def)

text \<open>
  C34. In every state that the methods can bring about, a started layer has a member list, so that no
  method follows a nil pointer; a layer with a list has a broadcast queue, so that a broadcast is
  never dropped; and the node announces a non-empty gossip address under a non-empty name.
\<close>

theorem gossip_invariant:
  assumes "gossip_reach M g"
  shows "(g_started g \<longrightarrow> g_list g \<noteq> None) \<and>
    (g_list g \<noteq> None \<longrightarrow> gossip_Broadcast Q msg g w =
       q_QueueBroadcast Q (the (d_broadcasts (g_delegate g))) (app_payload (gc_NodeID (g_config g)) msg) w) \<and>
    d_advertiseAddr (g_delegate g) \<noteq> [] \<and> gc_NodeID (g_config g) \<noteq> []"
  using gossip_reach_ok [OF assms] by (auto simp: gossip_ok_def gossip_Broadcast_def QueueBroadcast_def)

section \<open>A setting is announced\<close>

text \<open>
  memberlist: after a successful \<open>UpdateNode\<close> the local node's metadata is what the delegate
  returns for the limit of 512 bytes; the node is alive and has the configured name.
\<close>

definition updates_local :: "'w ml_api \<Rightarrow> string \<Rightarrow> bool" where
  "updates_local M name \<longleftrightarrow>
     (\<forall>l d t w w'. ml_UpdateNode M l d t w = (None, w') \<longrightarrow>
        (\<exists>m. NodeMeta d 512 = Inr m \<and>
           fst (ml_LocalNode M l w') = \<lparr>ml_Name = name, ml_Meta = m, ml_State = 0\<rparr>))"

lemma set_and_update_announced:
  assumes "updates_local M (gc_NodeID (g_config g))" and "gossip_ok g" and "g_started g"
    and "no_bar (f (g_delegate g))" and "length (full_meta (f (g_delegate g))) \<le> 512"
    and "set_and_update M f g w = (g1, w1)"
    and "fst (ml_UpdateNode M (the (g_list g)) (f (g_delegate g)) second w) = None"
  shows "fst (gossip_LocalNode M g1 w1) = announced_info (gc_NodeID (g_config g)) 0 (f (g_delegate g))"
proof -
  obtain l where l: "g_list g = Some l" using assms(2,3) by (auto simp: gossip_ok_def)
  have g1: "g1 = g\<lparr>g_delegate := f (g_delegate g)\<rparr>"
    and up: "ml_UpdateNode M l (f (g_delegate g)) second w = (None, w1)"
    using assms(6,7) l by (auto simp: set_and_update_def Let_def prod_eq_iff)
  obtain m where m: "NodeMeta (f (g_delegate g)) 512 = Inr m"
      "fst (ml_LocalNode M l w1) = \<lparr>ml_Name = gc_NodeID (g_config g), ml_Meta = m, ml_State = 0\<rparr>"
    using assms(1) up unfolding updates_local_def by blast
  then have "m = full_meta (f (g_delegate g))" using assms(5) by (simp add: NodeMeta_def Let_def)
  then show ?thesis
    using m(2) nodeToInfo_full_meta [OF assms(4), of "gc_NodeID (g_config g)" 0] assms(3) l
    by (simp add: gossip_LocalNode_def g1 split_beta)
qed

text \<open>
  C35. What is set is announced: when memberlist accepts the update and the metadata is well formed
  and fits, \<open>LocalNode\<close> of a started layer, which is what the peers read, shows the new bootstrapped
  flag and leaves every other announced field as it was.
\<close>

theorem SetBootstrapped_announced:
  assumes "updates_local M (gc_NodeID (g_config g))" and "gossip_reach M g" and "g_started g"
    and "no_bar (g_delegate g)"
    and "length (full_meta (delegate_SetBootstrapped b (g_delegate g))) \<le> 512"
    and "fst (ml_UpdateNode M (the (g_list g)) (delegate_SetBootstrapped b (g_delegate g)) second w) = None"
    and "gossip_SetBootstrapped M b g w = (g1, w1)"
  shows "fst (gossip_LocalNode M g1 w1) =
    (announced_info (gc_NodeID (g_config g)) 0 (g_delegate g))\<lparr>gi_Bootstrapped := b\<rparr>"
proof -
  have "fst (gossip_LocalNode M g1 w1) =
      announced_info (gc_NodeID (g_config g)) 0 (delegate_SetBootstrapped b (g_delegate g))"
    by (rule set_and_update_announced [where f = "delegate_SetBootstrapped b", OF assms(1) gossip_reach_ok [OF assms(2)] assms(3) _ assms(5) _ assms(6)])
      (use assms(4,7) in \<open>simp_all add: no_bar_def delegate_SetBootstrapped_def gossip_SetBootstrapped_def\<close>)
  then show ?thesis by (simp add: announced_info_def delegate_SetBootstrapped_def)
qed

section \<open>Witnesses\<close>

text \<open>A memberlist whose world is the local node.\<close>

definition sample_ml :: "mlnode ml_api" where
  "sample_ml =
     \<lparr>ml_DefaultLANConfig = \<lparr>mlc_Name = [], mlc_BindAddr = [], mlc_BindPort = 0, mlc_AdvertiseAddr = [],
        mlc_AdvertisePort = 0, mlc_TCPTimeout = 0, mlc_SuspicionMult = 0, mlc_RetransmitMult = 0, mlc_Keyring = None\<rparr>,
      ml_NewKeyring = \<lambda>k. Inr (length k),
      ml_LookupIP = \<lambda>h w. (Inr [], w),
      ml_Create = \<lambda>c d e w. (Inr 1, \<lparr>ml_Name = mlc_Name c, ml_Meta = full_meta d, ml_State = 0\<rparr>),
      ml_NewQueue = \<lambda>l r w. (2, w),
      ml_Leave = \<lambda>l t w. (None, w), ml_Shutdown = \<lambda>l w. (None, w),
      ml_Join = \<lambda>l ps w. ((int (length ps), None), w),
      ml_Members = \<lambda>l w. ([w], w), ml_LocalNode = \<lambda>l w. (w, w), ml_NumMembers = \<lambda>l w. (1, w),
      ml_UpdateNode = \<lambda>l d t w. (None, \<lparr>ml_Name = ''n1'', ml_Meta = take 512 (full_meta d), ml_State = 0\<rparr>)\<rparr>"

definition sample_gossip_config :: gossip_config where
  "sample_gossip_config = \<lparr>gc_NodeID = ''n1'', gc_BindAddr = ''0.0.0.0:7946'', gc_AdvertiseAddr = ''10.0.0.1:7946'',
     gc_RaftAddr = ''10.0.0.1:8300'', gc_SecretKey = ''secret'', gc_Mode = LAN\<rparr>"

definition sample_gossip :: "mlnode gossip" where
  "sample_gossip = \<lparr>g_config = sample_gossip_config, g_list = Some 1,
     g_delegate = delegate_SetBroadcastQueue (Some 2) (newDelegate ''10.0.0.1:7946'' ''10.0.0.1:8300''),
     g_events = NoopEventHandler, g_started = True\<rparr>"

lemma sample_gossip_reach: "gossip_reach sample_ml sample_gossip"
proof -
  let ?g = "sample_gossip\<lparr>g_list := None, g_started := False, g_delegate := newDelegate ''10.0.0.1:7946'' ''10.0.0.1:8300''\<rparr>"
  have "gossip_New sample_gossip_config None = Inr ?g"
    by (simp add: gossip_New_def gossip_validate_def sample_gossip_config_def sample_gossip_def newEventDelegate_def)
  then have "gossip_reach sample_ml ?g" by (rule gossip_reach.new)
  then show ?thesis
    by (rule gossip_reach.start)
      (simp add: gossip_Start_def sample_ml_def sample_gossip_def split_beta)
qed

lemma sample_ml_updates: "updates_local sample_ml ''n1''"
  by (auto simp: updates_local_def sample_ml_def NodeMeta_def Let_def)

lemma sample_port: "sprintf_d 7946 = ''7946''"
  by (simp add: sprintf_d_def decimal.simps [of 7946] decimal.simps [of 794] decimal.simps [of 79]
      decimal.simps [of 7] digit_def byte_def char_of_def bit_Suc_0_iff)

lemma sample_host: "parseIP_ok ''10.0.0.1''"
  by (simp add: parseIP_ok_def ipv4_text_def octet_ok_def digit_val_def)

definition no_node :: mlnode where
  "no_node = \<lparr>ml_Name = [], ml_Meta = [], ml_State = 0\<rparr>"

theorem memberlist_config_addresses_witness:
  "\<exists>m. buildMemberlistConfig sample_ml sample_gossip_config no_node = (m, no_node) \<and> mlc_Name m = ''n1'' \<and>
    mlc_BindAddr m = ''0.0.0.0'' \<and> mlc_BindPort m = 7946 \<and> mlc_AdvertiseAddr m = ''10.0.0.1'' \<and>
    mlc_AdvertisePort m = 7946 \<and> mlc_Keyring m = Some 32"
proof -
  have "gc_BindAddr sample_gossip_config = joinHostPort ''0.0.0.0'' (sprintf_d 7946)"
    "gc_AdvertiseAddr sample_gossip_config = joinHostPort ''10.0.0.1'' (sprintf_d 7946)"
    by (simp_all add: sample_gossip_config_def joinHostPort_def sample_port)
  from memberlist_config_addresses [OF this _ _ sample_host, of sample_ml no_node] show ?thesis
    by (simp add: plain_part_def in_int64_def sample_ml_def sample_gossip_config_def length_deriveEncryptionKey)
qed

theorem gossip_invariant_witness:
  "gossip_Broadcast \<lparr>q_QueueBroadcast = \<lambda>q m w. w\<lparr>ml_Meta := m\<rparr>, q_GetBroadcasts = \<lambda>_ _ _ w. ([], w)\<rparr>
     ''hi'' sample_gossip no_node = no_node\<lparr>ml_Meta := app_payload ''n1'' ''hi''\<rparr>"
  using gossip_invariant [OF sample_gossip_reach,
      of "\<lparr>q_QueueBroadcast = \<lambda>q m w. w\<lparr>ml_Meta := m\<rparr>, q_GetBroadcasts = \<lambda>_ _ _ w. ([], w)\<rparr>" "''hi''" no_node]
  by (simp add: sample_gossip_def sample_gossip_config_def)

theorem SetBootstrapped_announced_witness:
  "\<exists>g1 w1. gossip_SetBootstrapped sample_ml True sample_gossip no_node = (g1, w1) \<and>
    fst (gossip_LocalNode sample_ml g1 w1) =
      (announced_info ''n1'' 0 (g_delegate sample_gossip))\<lparr>gi_Bootstrapped := True\<rparr>"
proof -
  obtain g1 w1 where s: "gossip_SetBootstrapped sample_ml True sample_gossip no_node = (g1, w1)"
    by fastforce
  have "fst (gossip_LocalNode sample_ml g1 w1) =
      (announced_info (gc_NodeID (g_config sample_gossip)) 0 (g_delegate sample_gossip))\<lparr>gi_Bootstrapped := True\<rparr>"
    by (rule SetBootstrapped_announced [OF _ sample_gossip_reach _ _ _ _ s])
      (simp_all add: sample_ml_updates sample_gossip_def sample_gossip_config_def no_bar_def
        newDelegate_def delegate_setters full_meta_def, simp add: sample_ml_def)
  then show ?thesis using s by (simp add: sample_gossip_def sample_gossip_config_def)
qed

end
