(* ===== verification/Bootstrapper.thy ===== *)
theory Bootstrapper
  imports Gossip DiscoveryMdns HashDelay
begin

text \<open>
  Package \<open>internal/bootstrap\<close>, files \<open>state.go\<close>, \<open>config.go\<close> and \<open>bootstrapper.go\<close>: the state
  machine by which a node starts gossip, looks for a cluster and either joins it, creates it or
  gives up.

  \<open>run\<close> is a goroutine; what others do while it waits is a field of the environment \<open>bs_env\<close>. They
  may close the stop channel, read from the channels of subscribers and change the world. When a
  wait could end in two ways, Go picks one; both choices are among the environments, since the
  event that was not picked can as well happen a moment later.
\<close>

section \<open>States\<close>

datatype State = StateInit | StateMDNSAdvertiserUp | StateGossipUp | StateDiscovering | StateJoining
  | StateBootstrapping | StateRetrying | StateRunning | StateFailed

fun State_iota :: "State \<Rightarrow> nat" where
  "State_iota StateInit = 0"
| "State_iota StateMDNSAdvertiserUp = 1"
| "State_iota StateGossipUp = 2"
| "State_iota StateDiscovering = 3"
| "State_iota StateJoining = 4"
| "State_iota StateBootstrapping = 5"
| "State_iota StateRetrying = 6"
| "State_iota StateRunning = 7"
| "State_iota StateFailed = 8"

lemma State_iota_inj: "State_iota s = State_iota t \<longleftrightarrow> s = t"
  by (cases s; cases t) simp_all

instantiation State :: linorder
begin

definition less_eq_State :: "State \<Rightarrow> State \<Rightarrow> bool" where
  "less_eq_State s t \<longleftrightarrow> State_iota s \<le> State_iota t"

definition less_State :: "State \<Rightarrow> State \<Rightarrow> bool" where
  "less_State s t \<longleftrightarrow> State_iota s < State_iota t"

instance
  by standard (auto simp: less_eq_State_def less_State_def State_iota_inj)

end

fun State_String :: "State \<Rightarrow> string" where
  "State_String StateInit = ''Init''"
| "State_String StateMDNSAdvertiserUp = ''MDNSAdvertiserUp''"
| "State_String StateGossipUp = ''GossipUp''"
| "State_String StateDiscovering = ''Discovering''"
| "State_String StateJoining = ''Joining''"
| "State_String StateBootstrapping = ''Bootstrapping''"
| "State_String StateRetrying = ''Retrying''"
| "State_String StateRunning = ''Running''"
| "State_String StateFailed = ''Failed''"

record StateChange =
  sc_Old :: State
  sc_New :: State

section \<open>Configuration\<close>

definition bs_ErrMissingNodeID :: goerr where
  "bs_ErrMissingNodeID = Sentinel ''bootstrap'' ''node ID is required''"
definition bs_ErrMissingGossipAddr :: goerr where
  "bs_ErrMissingGossipAddr = Sentinel ''bootstrap'' ''gossip address is required''"
definition bs_ErrInvalidGossipAddr :: goerr where
  "bs_ErrInvalidGossipAddr = Sentinel ''bootstrap'' ''gossip address must be host:port format''"
definition bs_ErrInvalidMaxRetries :: goerr where
  "bs_ErrInvalidMaxRetries = Sentinel ''bootstrap'' ''max discovery retries cannot be negative''"
definition bs_ErrInvalidDiscoveryTime :: goerr where
  "bs_ErrInvalidDiscoveryTime = Sentinel ''bootstrap'' ''discovery timeout must be positive''"
definition bs_ErrAlreadyRunning :: goerr where
  "bs_ErrAlreadyRunning = Sentinel ''bootstrap'' ''bootstrapper already running''"
definition bs_ErrNotRunning :: goerr where
  "bs_ErrNotRunning = Sentinel ''bootstrap'' ''bootstrapper not running''"

definition DefaultDiscoveryTimeout :: duration where "DefaultDiscoveryTimeout = 5 * second"
definition initialBackoff :: duration where "initialBackoff = 250 * millisecond"
definition maxBackoff :: duration where "maxBackoff = 15 * second"

record 'w bs_config =
  bc_NodeID :: string
  bc_GossipAddr :: string
  bc_GossipAdvertiseAddr :: string
  bc_RaftAdvertiseAddr :: string
  bc_SecretKey :: bytes
  bc_NetworkMode :: NetworkMode
  bc_CanBootstrap :: bool
  bc_DiscoveryTimeout :: duration
  bc_MaxDiscoveryRetries :: int
  bc_EventHandler :: "'w event_handler option"
  bc_MDNSService :: string
  bc_MDNSDomain :: string

definition bs_applyDefaults :: "'w bs_config \<Rightarrow> 'w bs_config" where
  "bs_applyDefaults c =
     (let c1 = (if bc_DiscoveryTimeout c = 0 then c\<lparr>bc_DiscoveryTimeout := DefaultDiscoveryTimeout\<rparr> else c);
          c2 = (if bc_GossipAdvertiseAddr c1 = '''' then c1\<lparr>bc_GossipAdvertiseAddr := bc_GossipAddr c1\<rparr> else c1)
      in if bc_RaftAdvertiseAddr c2 = '''' then c2\<lparr>bc_RaftAdvertiseAddr := bc_GossipAdvertiseAddr c2\<rparr> else c2)"

definition bs_validate :: "'w bs_config \<Rightarrow> goerr option" where
  "bs_validate c =
     (if bc_NodeID c = '''' then Some bs_ErrMissingNodeID
      else if bc_GossipAddr c = '''' then Some bs_ErrMissingGossipAddr
      else if isl (splitHostPort (bc_GossipAddr c)) then Some bs_ErrInvalidGossipAddr
      else if bc_MaxDiscoveryRetries c < 0 then Some bs_ErrInvalidMaxRetries
      else if bc_DiscoveryTimeout c \<le> 0 then Some bs_ErrInvalidDiscoveryTime
      else None)"

section \<open>The bootstrapper and its environment\<close>

text \<open>A discoverer with the plain method only, or one that also reports who is bootstrapped.\<close>

datatype 'w disc =
    PlainDisc "'w discover_fn"
  | BootstrapDisc "'w discover_fn" "'w ctx \<Rightarrow> 'w \<Rightarrow> (PeerInfo list \<times> goerr option) \<times> 'w"

text \<open>
  The stop channel is nil before the first \<open>Start\<close>, later open or closed; each subscriber has a
  buffered channel, here the list of the changes in it.
\<close>

record 'w bootstrapper =
  b_config :: "'w bs_config"
  b_state :: State
  b_mdnsAdvertiser :: "MDNSAdvertiser option"
  b_gossip :: "'w gossip option"
  b_discoverer :: "'w disc option"
  b_didBootstrap :: bool
  b_stopCh :: "bool option"
  b_subscribers :: "StateChange list list"

text \<open>
  What surrounds a run: the libraries below, the context and the clock, the random numbers, and what
  other goroutines do between the passes and during a wait (they read from subscribers' channels and
  may close the stop channel). \<open>be_select\<close> decides a \<open>select\<close> in which several cases are ready: true
  takes the one that the code lists last.
\<close>

type_synonym 'w interference = "StateChange list list \<times> bool option \<times> 'w \<Rightarrow> StateChange list list \<times> bool option \<times> 'w"

record 'w bs_env =
  be_mdns :: "'w mdns_server_api"
  be_ml :: "'w ml_api"
  be_ctx :: "'w ctx"
  be_now :: "'w \<Rightarrow> int"
  be_rand :: "'w \<Rightarrow> nat \<times> 'w"
  be_others :: "'w interference"
  be_wait :: "duration \<Rightarrow> 'w interference"
  be_select :: "'w \<Rightarrow> bool"

definition interfere :: "'w interference \<Rightarrow> 'w bootstrapper \<Rightarrow> 'w \<Rightarrow> 'w bootstrapper \<times> 'w" where
  "interfere f b w =
     (case f (b_subscribers b, b_stopCh b, w) of
        (subs, ch, w1) \<Rightarrow> (b\<lparr>b_subscribers := subs, b_stopCh := ch\<rparr>, w1))"

definition bs_New :: "'w bs_config \<Rightarrow> 'w disc option \<Rightarrow> goerr + 'w bootstrapper" where
  "bs_New cfg d =
     (let c = bs_applyDefaults cfg
      in case bs_validate c of
           Some err \<Rightarrow> Inl err
         | None \<Rightarrow> Inr \<lparr>b_config = c, b_state = StateInit, b_mdnsAdvertiser = None, b_gossip = None,
             b_discoverer = d, b_didBootstrap = False, b_stopCh = None, b_subscribers = []\<rparr>)"

subsection \<open>Transitions and subscribers\<close>

definition subscriber_capacity :: nat where "subscriber_capacity = 16"

definition broadcast :: "StateChange \<Rightarrow> 'w bootstrapper \<Rightarrow> 'w bootstrapper" where
  "broadcast change b =
     b\<lparr>b_subscribers := map (\<lambda>ch. if length ch < subscriber_capacity then ch @ [change] else ch) (b_subscribers b)\<rparr>"

definition transitionTo :: "State \<Rightarrow> 'w bootstrapper \<Rightarrow> 'w bootstrapper" where
  "transitionTo st b =
     (let old = b_state b; b1 = b\<lparr>b_state := st\<rparr>
      in if old \<noteq> st then broadcast \<lparr>sc_Old = old, sc_New = st\<rparr> b1 else b1)"

definition Subscribe :: "'w bootstrapper \<Rightarrow> nat \<times> 'w bootstrapper" where
  "Subscribe b = (length (b_subscribers b), b\<lparr>b_subscribers := b_subscribers b @ [[]]\<rparr>)"

subsection \<open>Starting the layers below\<close>

definition startMDNSAdvertiser :: "'w bs_env \<Rightarrow> 'w bootstrapper \<Rightarrow> 'w \<Rightarrow> goerr option \<times> 'w bootstrapper \<times> 'w" where
  "startMDNSAdvertiser E b w =
     (let c = b_config b;
          port = fst (atoi (port_of (bc_GossipAdvertiseAddr c)));
          a = NewMDNSAdvertiser \<lparr>ac_NodeID = bc_NodeID c, ac_Service = bc_MDNSService c,
                ac_Domain = bc_MDNSDomain c, ac_Port = port, ac_SecretKey = bc_SecretKey c,
                ac_GossipAddr = bc_GossipAdvertiseAddr c\<rparr>
      in case advertiser_Start (be_mdns E) a w of
           ((Some err, a1), w1) \<Rightarrow> (Some err, b\<lparr>b_mdnsAdvertiser := Some a1\<rparr>, w1)
         | ((None, a1), w1) \<Rightarrow> (None, transitionTo StateMDNSAdvertiserUp (b\<lparr>b_mdnsAdvertiser := Some a1\<rparr>), w1))"

definition startGossip :: "'w bs_env \<Rightarrow> 'w bootstrapper \<Rightarrow> 'w \<Rightarrow> goerr option \<times> 'w bootstrapper \<times> 'w" where
  "startGossip E b w =
     (let c = b_config b
      in case gossip_New \<lparr>gc_NodeID = bc_NodeID c, gc_BindAddr = bc_GossipAddr c,
                gc_AdvertiseAddr = bc_GossipAdvertiseAddr c, gc_RaftAddr = bc_RaftAdvertiseAddr c,
                gc_SecretKey = bc_SecretKey c, gc_Mode = bc_NetworkMode c\<rparr> (bc_EventHandler c) of
           Inl err \<Rightarrow> (Some err, b, w)
         | Inr g \<Rightarrow>
             (case gossip_Start (be_ml E) g w of
                (Some err, _, w1) \<Rightarrow> (Some err, b, w1)
              | (None, g1, w1) \<Rightarrow> (None, transitionTo StateGossipUp (b\<lparr>b_gossip := Some g1\<rparr>), w1)))"

subsection \<open>Discovery\<close>

text \<open>\<open>context.WithTimeout\<close>: the parent's error, or the deadline once it has passed.\<close>

definition with_timeout :: "'w bs_env \<Rightarrow> duration \<Rightarrow> 'w \<Rightarrow> 'w ctx" where
  "with_timeout E d w0 w =
     (case be_ctx E w of
        (Some e, w1) \<Rightarrow> (Some e, w1)
      | (None, w1) \<Rightarrow> (if be_now E w1 \<ge> be_now E w0 + d then Some DeadlineExceeded else None, w1))"

text \<open>The inner part for a plain discoverer: join, then look for a bootstrapped member.\<close>

definition sees_bootstrapped :: "'w bs_env \<Rightarrow> 'w bootstrapper \<Rightarrow> string list \<Rightarrow> 'w \<Rightarrow> bool \<times> 'w" where
  "sees_bootstrapped E b addrs w =
     (case b_gossip b of
        None \<Rightarrow> (False, w)
      | Some g \<Rightarrow>
          (case gossip_Join (be_ml E) addrs g w of
             ((_, Some err), w1) \<Rightarrow> (False, w1)
           | ((_, None), w1) \<Rightarrow>
               (case gossip_NumMembers (be_ml E) g w1 of
                  (n, w2) \<Rightarrow>
                    if n > 1 then
                      (case gossip_Members (be_ml E) g w2 of
                         (ms, w3) \<Rightarrow> (\<exists>m\<in>set ms. gi_ID m \<noteq> bc_NodeID (b_config b) \<and> gi_Bootstrapped m, w3))
                    else (False, w2))))"

definition runDiscovery :: "'w bs_env \<Rightarrow> 'w bootstrapper \<Rightarrow> 'w \<Rightarrow> (string list \<times> bool \<times> goerr option) \<times> 'w" where
  "runDiscovery E b w =
     (case b_discoverer b of
        None \<Rightarrow> (([], False, None), w)
      | Some (BootstrapDisc _ bd) \<Rightarrow>
          (case bd (with_timeout E (bc_DiscoveryTimeout (b_config b)) w) w of
             ((_, Some err), w1) \<Rightarrow> (([], False, Some err), w1)
           | ((peers, None), w1) \<Rightarrow> ((map pi_Address peers, \<exists>p\<in>set peers. pi_Bootstrapped p, None), w1))
      | Some (PlainDisc d) \<Rightarrow>
          (case d (with_timeout E (bc_DiscoveryTimeout (b_config b)) w) w of
             ((_, Some err), w1) \<Rightarrow> (([], False, Some err), w1)
           | ((addrs, None), w1) \<Rightarrow>
               if addrs \<noteq> [] then
                 (case sees_bootstrapped E b addrs w1 of (found, w2) \<Rightarrow> ((addrs, found, None), w2))
               else ((addrs, False, None), w1)))"

definition joinCluster :: "'w bs_env \<Rightarrow> 'w bootstrapper \<Rightarrow> string list \<Rightarrow> 'w \<Rightarrow> goerr option \<times> 'w" where
  "joinCluster E b peers w =
     (case b_gossip b of
        None \<Rightarrow> (Some (Msg ''gossip not initialized''), w)
      | Some g \<Rightarrow>
          (case gossip_Join (be_ml E) peers g w of
             ((_, Some err), w1) \<Rightarrow> (Some err, w1)
           | ((n, None), w1) \<Rightarrow> (if n = 0 then Some (Msg ''failed to join any peers'') else None, w1)))"

subsection \<open>Delays\<close>

definition hashBasedDelay :: "'w bs_config \<Rightarrow> duration" where
  "hashBasedDelay c = int64 (bc_DiscoveryTimeout c + hash_fraction_of 1000000000 (bc_NodeID c))"

definition stop_closed :: "'w bootstrapper \<Rightarrow> bool" where
  "stop_closed b \<longleftrightarrow> b_stopCh b = Some True"

definition waitForBootstrapSlot :: "'w bs_env \<Rightarrow> 'w bootstrapper \<Rightarrow> 'w \<Rightarrow> bool \<times> 'w bootstrapper \<times> 'w" where
  "waitForBootstrapSlot E b w =
     (case interfere (be_wait E (hashBasedDelay (b_config b))) b w of
        (b1, w1) \<Rightarrow>
          (case be_ctx E w1 of
             (done, w2) \<Rightarrow> (done = None \<and> \<not> stop_closed b1 \<or> be_select E w2, b1, w2)))"

definition shouldBootstrap :: "'w bs_env \<Rightarrow> 'w bootstrapper \<Rightarrow> 'w \<Rightarrow> bool \<times> 'w bootstrapper \<times> 'w" where
  "shouldBootstrap E b w =
     (case waitForBootstrapSlot E b w of
        (False, b1, w1) \<Rightarrow> (False, b1, w1)
      | (True, b1, w1) \<Rightarrow>
          (case runDiscovery E b1 w1 of
             ((_, hasBootstrapped, _), w2) \<Rightarrow>
               if hasBootstrapped then (False, b1, w2)
               else (case b_gossip b1 of
                       None \<Rightarrow> (True, b1, w2)
                     | Some g \<Rightarrow>
                         (case gossip_NumMembers (be_ml E) g w2 of
                            (n, w3) \<Rightarrow> (\<not> n > 1, b1, w3)))))"

definition shouldFail :: "'w bs_config \<Rightarrow> int \<Rightarrow> bool" where
  "shouldFail c attempt =
     (if bc_MaxDiscoveryRetries c = 0 then False else attempt \<ge> bc_MaxDiscoveryRetries c)"

definition waitBackoff :: "'w bs_env \<Rightarrow> duration \<Rightarrow> 'w bootstrapper \<Rightarrow> 'w \<Rightarrow> 'w bootstrapper \<times> 'w" where
  "waitBackoff E d b w =
     (case be_rand E w of
        (k, w1) \<Rightarrow> interfere (be_wait E (int64 (d + backoff_jitter (nat d) k))) b w1)"

definition nextBackoff :: "duration \<Rightarrow> duration" where
  "nextBackoff current =
     (let nxt = int64 (current * 2) in if nxt > maxBackoff then maxBackoff else nxt)"

definition setBootstrapped :: "'w bs_env \<Rightarrow> bool \<Rightarrow> 'w bootstrapper \<Rightarrow> 'w \<Rightarrow> 'w bootstrapper \<times> 'w" where
  "setBootstrapped E v b w =
     (case (case b_mdnsAdvertiser b of
              None \<Rightarrow> (b, w)
            | Some a \<Rightarrow> (case advertiser_SetBootstrapped (be_mdns E) v a w of
                           (a1, w1) \<Rightarrow> (b\<lparr>b_mdnsAdvertiser := Some a1\<rparr>, w1))) of
        (b1, w1) \<Rightarrow>
          (case b_gossip b1 of
             None \<Rightarrow> (b1, w1)
           | Some g \<Rightarrow> (case gossip_SetBootstrapped (be_ml E) v g w1 of
                          (g1, w2) \<Rightarrow> (b1\<lparr>b_gossip := Some g1\<rparr>, w2))))"

section \<open>The loop\<close>

text \<open>One pass of the loop of \<open>run\<close>: it returns, or goes on with a new count and backoff.\<close>

datatype 'w pass = Done "'w bootstrapper" 'w | Again int duration "'w bootstrapper" 'w

definition retry :: "'w bs_env \<Rightarrow> int \<Rightarrow> duration \<Rightarrow> 'w bootstrapper \<Rightarrow> 'w \<Rightarrow> 'w pass" where
  "retry E attempt backoff b w =
     (let b1 = transitionTo StateRetrying b; n = attempt + 1
      in if shouldFail (b_config b1) n then Done (transitionTo StateFailed b1) w
         else case waitBackoff E backoff b1 w of
                (b2, w1) \<Rightarrow> Again n (nextBackoff backoff) b2 w1)"

definition run_joining :: "'w bs_env \<Rightarrow> string list \<Rightarrow> int \<Rightarrow> duration \<Rightarrow> 'w bootstrapper \<Rightarrow> 'w \<Rightarrow> 'w pass" where
  "run_joining E peers attempt backoff b w =
     (let b1 = transitionTo StateJoining b
      in case joinCluster E b1 peers w of
           (Some err, w1) \<Rightarrow> retry E attempt backoff b1 w1
         | (None, w1) \<Rightarrow>
             (case setBootstrapped E True b1 w1 of
                (b2, w2) \<Rightarrow> Done (transitionTo StateRunning b2) w2))"

definition run_alone :: "'w bs_env \<Rightarrow> int \<Rightarrow> duration \<Rightarrow> 'w bootstrapper \<Rightarrow> 'w \<Rightarrow> 'w pass" where
  "run_alone E attempt backoff b w =
     (if bc_CanBootstrap (b_config b) then
        (case shouldBootstrap E b w of
           (True, b1, w1) \<Rightarrow>
             (case setBootstrapped E True ((transitionTo StateBootstrapping b1)\<lparr>b_didBootstrap := True\<rparr>) w1 of
                (b2, w2) \<Rightarrow> Done (transitionTo StateRunning b2) w2)
         | (False, b1, w1) \<Rightarrow> retry E attempt backoff b1 w1)
      else retry E attempt backoff b w)"

definition run_pass :: "'w bs_env \<Rightarrow> int \<Rightarrow> duration \<Rightarrow> 'w bootstrapper \<Rightarrow> 'w \<Rightarrow> 'w pass" where
  "run_pass E attempt backoff b w =
     (case interfere (be_others E) b w of
        (b0, w0) \<Rightarrow>
          (case be_ctx E w0 of
             (done, w1) \<Rightarrow>
               if done \<noteq> None \<and> \<not> (stop_closed b0 \<and> be_select E w1) then Done (transitionTo StateFailed b0) w1
               else if stop_closed b0 then Done b0 w1
               else let b1 = transitionTo StateDiscovering b0
                    in case runDiscovery E b1 w1 of
                         ((peers, hasBootstrappedPeer, err), w2) \<Rightarrow>
                           if hasBootstrappedPeer \<and> peers \<noteq> []
                           then run_joining E peers attempt backoff b1 w2
                           else run_alone E attempt backoff b1 w2))"

text \<open>The loop with fuel: \<open>None\<close> says that \<open>n\<close> passes were not enough.\<close>

fun run_loop :: "'w bs_env \<Rightarrow> nat \<Rightarrow> int \<Rightarrow> duration \<Rightarrow> 'w bootstrapper \<Rightarrow> 'w \<Rightarrow> ('w bootstrapper \<times> 'w) option" where
  "run_loop E 0 attempt backoff b w = None"
| "run_loop E (Suc n) attempt backoff b w =
     (case run_pass E attempt backoff b w of
        Done b1 w1 \<Rightarrow> Some (b1, w1)
      | Again attempt1 backoff1 b1 w1 \<Rightarrow> run_loop E n attempt1 backoff1 b1 w1)"

definition run :: "'w bs_env \<Rightarrow> nat \<Rightarrow> 'w bootstrapper \<Rightarrow> 'w \<Rightarrow> ('w bootstrapper \<times> 'w) option" where
  "run E n b w =
     (case startMDNSAdvertiser E b w of
        (Some err, b1, w1) \<Rightarrow> Some (transitionTo StateFailed b1, w1)
      | (None, b1, w1) \<Rightarrow>
          (case startGossip E b1 w1 of
             (Some err, b2, w2) \<Rightarrow> Some (transitionTo StateFailed b2, w2)
           | (None, b2, w2) \<Rightarrow> run_loop E n 0 initialBackoff b2 w2))"

section \<open>The methods of the owner\<close>

text \<open>\<open>Start\<close>, up to the point where the goroutine \<open>run\<close> is on its way.\<close>

definition bs_Start :: "'w bootstrapper \<Rightarrow> goerr option \<times> 'w bootstrapper" where
  "bs_Start b =
     (if b_state b \<noteq> StateInit \<and> b_state b \<noteq> StateFailed then (Some bs_ErrAlreadyRunning, b)
      else (None, b\<lparr>b_state := StateInit, b_stopCh := Some False\<rparr>))"

text \<open>
  \<open>Stop\<close>: the argument \<open>finish\<close> is the rest of the goroutine, which sees the closed channel and
  ends; a goroutine that has returned already is the identity.
\<close>

definition bs_Stop :: "'w bs_env \<Rightarrow> ('w bootstrapper \<times> 'w \<Rightarrow> 'w bootstrapper \<times> 'w) \<Rightarrow> 'w bootstrapper \<Rightarrow> 'w
    \<Rightarrow> goerr option \<times> 'w bootstrapper \<times> 'w" where
  "bs_Stop E finish b w =
     (if b_state b = StateInit then (Some bs_ErrNotRunning, b, w)
      else case finish (b\<lparr>b_stopCh := Some True\<rparr>, w) of
             (b1, w1) \<Rightarrow>
               (case (case b_gossip b1 of
                        None \<Rightarrow> (b1, w1)
                      | Some g \<Rightarrow> (case gossip_Stop (be_ml E) g w1 of (_, g1, w2) \<Rightarrow> (b1\<lparr>b_gossip := Some g1\<rparr>, w2))) of
                  (b2, w2) \<Rightarrow>
                    (case (case b_mdnsAdvertiser b2 of
                             None \<Rightarrow> (b2, w2)
                           | Some a \<Rightarrow> (case advertiser_Stop (be_mdns E) a w2 of
                                          (a1, w3) \<Rightarrow> (b2\<lparr>b_mdnsAdvertiser := Some a1\<rparr>, w3))) of
                       (b3, w3) \<Rightarrow> (None, b3\<lparr>b_state := StateInit\<rparr>, w3))))"

lemma bs_Stop_stops:
  assumes "b_state b \<noteq> StateInit"
  shows "\<exists>b1 w1. bs_Stop E finish b w = (None, b1, w1) \<and> b_state b1 = StateInit"
  using assms by (simp add: bs_Stop_def split: prod.splits)

definition DidBootstrap :: "'w bootstrapper \<Rightarrow> bool" where
  "DidBootstrap b \<longleftrightarrow> b_state b = StateRunning \<and> b_didBootstrap b"

definition RaftAddress :: "'w bootstrapper \<Rightarrow> string" where
  "RaftAddress b = bc_RaftAdvertiseAddr (b_config b)"

section \<open>The transition diagram\<close>

definition state_edges :: "(State \<times> State) list" where
  "state_edges =
     [(StateInit, StateMDNSAdvertiserUp), (StateInit, StateFailed),
      (StateMDNSAdvertiserUp, StateGossipUp), (StateMDNSAdvertiserUp, StateFailed),
      (StateGossipUp, StateDiscovering), (StateGossipUp, StateFailed),
      (StateDiscovering, StateJoining), (StateDiscovering, StateBootstrapping), (StateDiscovering, StateRetrying),
      (StateJoining, StateRunning), (StateJoining, StateRetrying),
      (StateBootstrapping, StateRunning),
      (StateRetrying, StateDiscovering), (StateRetrying, StateFailed)]"

definition edges_ok :: "'w bootstrapper \<Rightarrow> bool" where
  "edges_ok b \<longleftrightarrow> (\<forall>ch\<in>set (b_subscribers b). \<forall>c\<in>set ch. (sc_Old c, sc_New c) \<in> set state_edges)"

text \<open>Others read from the channels of subscribers and may close the stop channel, but not open it.\<close>

definition reads_only :: "'w interference \<Rightarrow> bool" where
  "reads_only f \<longleftrightarrow>
     (\<forall>subs ch w. case f (subs, ch, w) of (subs', ch', w') \<Rightarrow>
        (\<forall>c\<in>set subs'. \<exists>d\<in>set subs. set c \<subseteq> set d) \<and> (ch = Some True \<longrightarrow> ch' = Some True))"

definition well_behaved :: "'w bs_env \<Rightarrow> bool" where
  "well_behaved E \<longleftrightarrow> reads_only (be_others E) \<and> (\<forall>d. reads_only (be_wait E d))"

text \<open>What discovery and joining depend on.\<close>

definition link :: "'w bootstrapper \<Rightarrow> (bool \<times> nat option) option" where
  "link b = map_option (\<lambda>g. (g_started g, g_list g)) (b_gossip b)"

definition same_base :: "'w bootstrapper \<Rightarrow> 'w bootstrapper \<Rightarrow> bool" where
  "same_base b b' \<longleftrightarrow> b_config b' = b_config b \<and> b_discoverer b' = b_discoverer b \<and> link b' = link b"

lemma same_base_refl [simp]: "same_base b b" by (simp add: same_base_def)

lemma same_base_trans: "same_base a b \<Longrightarrow> same_base b c \<Longrightarrow> same_base a c" by (simp add: same_base_def)

lemma transitionTo_simps [simp]:
  "b_state (transitionTo st b) = st" "b_config (transitionTo st b) = b_config b"
  "b_gossip (transitionTo st b) = b_gossip b" "b_mdnsAdvertiser (transitionTo st b) = b_mdnsAdvertiser b"
  "b_discoverer (transitionTo st b) = b_discoverer b" "b_didBootstrap (transitionTo st b) = b_didBootstrap b"
  "b_stopCh (transitionTo st b) = b_stopCh b" "stop_closed (transitionTo st b) = stop_closed b"
  "link (transitionTo st b) = link b"
  by (simp_all add: transitionTo_def broadcast_def Let_def stop_closed_def link_def)

lemma same_base_transitionTo [simp]: "same_base a (transitionTo st b) = same_base a b" "same_base (transitionTo st b) c = same_base b c"
  by (simp_all add: same_base_def)

lemma edges_ok_transitionTo:
  assumes "edges_ok b" and "b_state b = st \<or> (b_state b, st) \<in> set state_edges"
  shows "edges_ok (transitionTo st b)"
  using assms by (auto simp: edges_ok_def transitionTo_def broadcast_def Let_def)

lemma edges_ok_update [simp]:
  "edges_ok (b\<lparr>b_gossip := g\<rparr>) = edges_ok b" "edges_ok (b\<lparr>b_mdnsAdvertiser := a\<rparr>) = edges_ok b"
  "edges_ok (b\<lparr>b_didBootstrap := d\<rparr>) = edges_ok b"
  by (simp_all add: edges_ok_def)

lemma interfere_frame:
  assumes "interfere f b w = (b1, w1)" and "reads_only f"
  shows "same_base b b1 \<and> b_state b1 = b_state b \<and> b_gossip b1 = b_gossip b \<and>
    b_mdnsAdvertiser b1 = b_mdnsAdvertiser b \<and> b_didBootstrap b1 = b_didBootstrap b \<and>
    (edges_ok b \<longrightarrow> edges_ok b1) \<and> (stop_closed b \<longrightarrow> stop_closed b1)"
proof -
  obtain subs ch where f: "f (b_subscribers b, b_stopCh b, w) = (subs, ch, w1)"
      "b1 = b\<lparr>b_subscribers := subs, b_stopCh := ch\<rparr>"
    using assms(1) by (auto simp: interfere_def split: prod.splits)
  have "\<forall>c\<in>set subs. \<exists>d\<in>set (b_subscribers b). set c \<subseteq> set d" "b_stopCh b = Some True \<longrightarrow> ch = Some True"
    using assms(2) [unfolded reads_only_def, THEN spec, THEN spec, THEN spec, of "b_subscribers b" "b_stopCh b" w]
    by (simp_all add: f(1))
  then show ?thesis using f(2) by (auto simp: same_base_def link_def edges_ok_def stop_closed_def)
qed

section \<open>One pass\<close>

lemma gossip_queries_cong:
  assumes "g_started g = g_started h" and "g_list g = g_list h"
  shows "gossip_Join M peers g = gossip_Join M peers h" "gossip_Members M g = gossip_Members M h"
    "gossip_NumMembers M g = gossip_NumMembers M h"
  using assms by (auto simp: fun_eq_iff gossip_Join_def gossip_Members_def gossip_NumMembers_def)

lemma link_cases:
  assumes "link b' = link b"
  obtains "b_gossip b = None" "b_gossip b' = None"
    | g h where "b_gossip b = Some g" "b_gossip b' = Some h" "g_started h = g_started g" "g_list h = g_list g"
  using assms by (auto simp: link_def map_option_eq_Some) (cases "b_gossip b"; cases "b_gossip b'"; auto)

lemma runDiscovery_same_base:
  assumes "same_base b b'"
  shows "runDiscovery E b' w = runDiscovery E b w"
proof -
  have "sees_bootstrapped E b' addrs w = sees_bootstrapped E b addrs w" for addrs w
  proof -
    from assms have "link b' = link b" and c: "b_config b' = b_config b" by (auto simp: same_base_def)
    then show ?thesis
    proof (cases rule: link_cases)
      case (2 g h)
      then show ?thesis using gossip_queries_cong [of h g] c
        by (simp add: sees_bootstrapped_def cong: if_cong option.case_cong prod.case_cong)
    qed (simp add: sees_bootstrapped_def)
  qed
  then show ?thesis using assms
    by (simp add: runDiscovery_def same_base_def cong: if_cong option.case_cong prod.case_cong disc.case_cong)
qed

definition flagged :: "'w bootstrapper \<Rightarrow> bool" where
  "flagged b \<longleftrightarrow> (\<exists>a g. b_mdnsAdvertiser b = Some a \<and> ma_bootstrapped a \<and> b_gossip b = Some g \<and>
     d_bootstrapped (g_delegate g))"

definition layers_up :: "'w bootstrapper \<Rightarrow> bool" where
  "layers_up b \<longleftrightarrow> b_mdnsAdvertiser b \<noteq> None \<and> b_gossip b \<noteq> None"

lemma advertiser_SetBootstrapped_flag:
  "advertiser_SetBootstrapped S v a w = (a1, w1) \<Longrightarrow> ma_bootstrapped a1 = v"
  by (auto simp: advertiser_SetBootstrapped_def startServerLocked_def Let_def
      split: if_splits prod.splits option.splits sum.splits)

lemma setBootstrapped_frame:
  assumes "setBootstrapped E True b w = (b1, w1)"
  shows "same_base b b1 \<and> b_state b1 = b_state b \<and> b_didBootstrap b1 = b_didBootstrap b \<and>
    (edges_ok b \<longrightarrow> edges_ok b1) \<and> (layers_up b \<longrightarrow> flagged b1)"
  using assms
  by (auto simp: setBootstrapped_def same_base_def link_def flagged_def layers_up_def
      gossip_SetBootstrapped_def set_and_update_def delegate_SetBootstrapped_def Let_def
      dest: advertiser_SetBootstrapped_flag split: option.splits prod.splits)

text \<open>
  What a pass promises for the state \<open>b\<close> before it: the diagram is respected, and a pass that ends
  leaves the node failed, stopped or running with both flags up.
\<close>

definition pass_ok :: "'w bs_env \<Rightarrow> int \<Rightarrow> duration \<Rightarrow> 'w bootstrapper \<Rightarrow> 'w pass \<Rightarrow> bool" where
  "pass_ok E attempt backoff b p =
     (case p of
        Done b1 w1 \<Rightarrow> edges_ok b1 \<and> same_base b b1 \<and>
          (b_state b1 = StateFailed \<or> stop_closed b1 \<and> b_state b1 = b_state b \<or>
           b_state b1 = StateRunning \<and> flagged b1)
      | Again attempt1 backoff1 b1 w1 \<Rightarrow> edges_ok b1 \<and> same_base b b1 \<and> layers_up b1 \<and>
          b_state b1 = StateRetrying \<and> attempt1 = attempt + 1 \<and>
          \<not> shouldFail (b_config b) attempt1 \<and> backoff1 = nextBackoff backoff)"

lemma retry_ok:
  assumes "well_behaved E" and "edges_ok b" and "layers_up b" and "b_state b = StateDiscovering \<or> b_state b = StateJoining"
  shows "pass_ok E attempt backoff b (retry E attempt backoff b w)"
proof -
  let ?b = "transitionTo StateRetrying b"
  have e: "edges_ok ?b" using assms(2,4) by (intro edges_ok_transitionTo) (auto simp: state_edges_def)
  show ?thesis
  proof (cases "shouldFail (b_config b) (attempt + 1)")
    case True
    have "edges_ok (transitionTo StateFailed ?b)"
      by (rule edges_ok_transitionTo [OF e]) (simp add: state_edges_def)
    then show ?thesis using True by (simp add: retry_def Let_def pass_ok_def)
  next
    case False
    obtain k w1 where k: "be_rand E w = (k, w1)" by fastforce
    obtain b2 w2 where i: "interfere (be_wait E (int64 (backoff + backoff_jitter (nat backoff) k))) ?b w1 = (b2, w2)"
      by fastforce
    note fr = interfere_frame [OF i]
    have "reads_only (be_wait E d)" for d using assms(1) by (simp add: well_behaved_def)
    then show ?thesis using False k i fr e assms(3)
      by (simp add: retry_def Let_def waitBackoff_def pass_ok_def layers_up_def)
  qed
qed

lemma pass_ok_mono:
  assumes "pass_ok E attempt backoff b p" and "same_base a b"
    and "b_state b = b_state a \<or> (\<forall>b1 w1. p = Done b1 w1 \<longrightarrow> b_state b1 \<noteq> b_state b)"
  shows "pass_ok E attempt backoff a p"
  using assms by (cases p) (auto simp: pass_ok_def same_base_def)

lemma joinCluster_state: "joinCluster E (transitionTo st b) peers w = joinCluster E b peers w"
  by (simp add: joinCluster_def)

lemma retry_not_state:
  "retry E attempt backoff b w = Done b1 w1 \<Longrightarrow> b_state b1 = StateFailed"
  by (auto simp: retry_def Let_def split: if_splits prod.splits)

lemma run_joining_ok:
  assumes "well_behaved E" and "edges_ok b" and "layers_up b" and "b_state b = StateDiscovering"
  shows "pass_ok E attempt backoff b (run_joining E peers attempt backoff b w)"
proof -
  let ?b = "transitionTo StateJoining b"
  have e: "edges_ok ?b" using assms(2,4) by (intro edges_ok_transitionTo) (auto simp: state_edges_def)
  obtain err w1 where j: "joinCluster E ?b peers w = (err, w1)" by fastforce
  show ?thesis
  proof (cases err)
    case None
    obtain b2 w2 where s: "setBootstrapped E True ?b w1 = (b2, w2)" by fastforce
    note fr = setBootstrapped_frame [OF s]
    have "edges_ok (transitionTo StateRunning b2)"
      using fr e by (intro edges_ok_transitionTo) (auto simp: state_edges_def)
    then show ?thesis using None j s fr e assms(3)
      by (simp add: run_joining_def Let_def pass_ok_def layers_up_def flagged_def same_base_def)
  next
    case (Some x)
    have "pass_ok E attempt backoff ?b (retry E attempt backoff ?b w1)"
      using assms(3) e by (intro retry_ok [OF assms(1)]) (simp_all add: layers_up_def)
    then have "pass_ok E attempt backoff b (retry E attempt backoff ?b w1)"
      by (rule pass_ok_mono) (auto dest: retry_not_state)
    then show ?thesis using Some j by (simp add: run_joining_def Let_def)
  qed
qed

lemma shouldBootstrap_frame:
  assumes "well_behaved E" and "shouldBootstrap E b w = (r, b1, w1)"
  shows "same_base b b1 \<and> b_state b1 = b_state b \<and> b_gossip b1 = b_gossip b \<and>
    b_mdnsAdvertiser b1 = b_mdnsAdvertiser b \<and> b_didBootstrap b1 = b_didBootstrap b \<and>
    (edges_ok b \<longrightarrow> edges_ok b1)"
proof -
  obtain b2 w2 where i: "interfere (be_wait E (hashBasedDelay (b_config b))) b w = (b2, w2)" by fastforce
  have "b1 = b2"
    using assms(2) i
    by (auto simp: shouldBootstrap_def waitForBootstrapSlot_def
        split: prod.splits option.splits if_splits bool.splits)
  then show ?thesis using interfere_frame [OF i] assms(1) by (simp add: well_behaved_def)
qed

lemma run_alone_ok:
  assumes "well_behaved E" and "edges_ok b" and "layers_up b" and "b_state b = StateDiscovering"
  shows "pass_ok E attempt backoff b (run_alone E attempt backoff b w)"
proof (cases "bc_CanBootstrap (b_config b)")
  case False
  then show ?thesis using retry_ok [OF assms(1-3)] assms(4) by (simp add: run_alone_def)
next
  case True
  obtain r b1 w1 where s: "shouldBootstrap E b w = (r, b1, w1)" by (metis prod.exhaust_sel)
  note fr = shouldBootstrap_frame [OF assms(1) s]
  have b1: "edges_ok b1" "layers_up b1" "b_state b1 = StateDiscovering"
    using fr assms by (simp_all add: layers_up_def)
  show ?thesis
  proof (cases r)
    case False
    have "pass_ok E attempt backoff b1 (retry E attempt backoff b1 w1)"
      using b1 by (intro retry_ok [OF assms(1)]) simp_all
    then have "pass_ok E attempt backoff b (retry E attempt backoff b1 w1)"
      by (rule pass_ok_mono) (simp_all add: fr)
    then show ?thesis using False True s by (simp add: run_alone_def)
  next
    case True': True
    let ?b = "(transitionTo StateBootstrapping b1)\<lparr>b_didBootstrap := True\<rparr>"
    have "edges_ok ?b"
      using edges_ok_transitionTo [OF b1(1), of StateBootstrapping] b1(3) by (simp add: state_edges_def)
    obtain b2 w2 where sb: "setBootstrapped E True ?b w1 = (b2, w2)" by fastforce
    note fs = setBootstrapped_frame [OF sb]
    have base: "same_base b1 ?b" by (simp add: same_base_def link_def)
    have b2: "same_base b1 b2" using base fs same_base_trans by blast
    have "edges_ok (transitionTo StateRunning b2)"
      using fs \<open>edges_ok ?b\<close> by (intro edges_ok_transitionTo) (auto simp: state_edges_def)
    moreover have "same_base b (transitionTo StateRunning b2)"
      using fr b2 by (simp add: same_base_def)
    moreover have "flagged (transitionTo StateRunning b2)"
      using fs b1(2) by (simp add: flagged_def layers_up_def)
    ultimately show ?thesis using True True' s sb by (simp add: run_alone_def pass_ok_def)
  qed
qed

lemma run_pass_ok:
  assumes "well_behaved E" and "edges_ok b" and "layers_up b"
    and "b_state b = StateGossipUp \<or> b_state b = StateRetrying"
  shows "pass_ok E attempt backoff b (run_pass E attempt backoff b w)"
proof -
  obtain b0 w0 where i: "interfere (be_others E) b w = (b0, w0)" by fastforce
  have fr: "same_base b b0" "b_state b0 = b_state b" "layers_up b0" "b_didBootstrap b0 = b_didBootstrap b" "edges_ok b0"
    using interfere_frame [OF i] assms by (simp_all add: well_behaved_def layers_up_def)
  obtain c w1 where c: "be_ctx E w0 = (c, w1)" by fastforce
  let ?b = "transitionTo StateDiscovering b0"
  have e: "edges_ok ?b" "layers_up ?b"
    using fr assms(4) by (auto intro!: edges_ok_transitionTo simp: state_edges_def layers_up_def)
  obtain peers found err w2 where d: "runDiscovery E ?b w1 = ((peers, found, err), w2)"
    by (metis prod.exhaust_sel)
  let ?p = "if found \<and> peers \<noteq> [] then run_joining E peers attempt backoff ?b w2
    else run_alone E attempt backoff ?b w2"
  have p: "pass_ok E attempt backoff ?b ?p"
    using run_joining_ok [OF assms(1) e] run_alone_ok [OF assms(1) e] by simp
  have nd: "b_state b1 \<noteq> StateDiscovering" if "?p = Done b1 w3" for b1 w3
    using that by (auto simp: run_joining_def run_alone_def Let_def dest: retry_not_state
        split: if_splits prod.splits option.splits bool.splits)
  have "pass_ok E attempt backoff b ?p"
    by (rule pass_ok_mono [OF p]) (use fr(1,4) nd in \<open>simp_all add: same_base_def\<close>)
  moreover have "edges_ok (transitionTo StateFailed b0)"
    using fr assms(4) by (intro edges_ok_transitionTo) (auto simp: state_edges_def)
  ultimately show ?thesis
    using i c d fr by (auto simp: run_pass_def Let_def pass_ok_def same_base_def)
qed

section \<open>The whole run\<close>

definition outcome_ok :: "'w bootstrapper \<Rightarrow> bool" where
  "outcome_ok b' \<longleftrightarrow> edges_ok b' \<and>
     (b_state b' = StateFailed \<or> stop_closed b' \<or> b_state b' = StateRunning \<and> flagged b')"

lemma run_loop_ok:
  assumes "well_behaved E" and "edges_ok b" and "layers_up b"
    and "b_state b = StateGossipUp \<or> b_state b = StateRetrying"
    and "run_loop E n attempt backoff b w = Some (b', w')"
  shows "outcome_ok b'"
  using assms(2-)
proof (induction n arbitrary: attempt backoff b w)
  case (Suc n)
  have p: "pass_ok E attempt backoff b (run_pass E attempt backoff b w)"
    using Suc.prems(1-3) by (rule run_pass_ok [OF assms(1)])
  show ?case
  proof (cases "run_pass E attempt backoff b w")
    case (Done b1 w1)
    then show ?thesis using p Suc.prems(4) by (auto simp: pass_ok_def outcome_ok_def)
  next
    case (Again a1 bo1 b1 w1)
    then show ?thesis using p Suc.IH [of b1 a1 bo1 w1] Suc.prems(4) by (auto simp: pass_ok_def)
  qed
qed simp

lemma run_loop_returns:
  assumes "well_behaved E" and "edges_ok b" and "layers_up b"
    and "b_state b = StateGossipUp \<or> b_state b = StateRetrying"
    and "0 < bc_MaxDiscoveryRetries (b_config b)" and "attempt < bc_MaxDiscoveryRetries (b_config b)"
    and "nat (bc_MaxDiscoveryRetries (b_config b) - attempt) \<le> n"
  shows "\<exists>b' w'. run_loop E n attempt backoff b w = Some (b', w')"
  using assms(2-)
proof (induction n arbitrary: attempt backoff b w)
  case (Suc n)
  have p: "pass_ok E attempt backoff b (run_pass E attempt backoff b w)"
    using Suc.prems(1-3) by (rule run_pass_ok [OF assms(1)])
  show ?case
  proof (cases "run_pass E attempt backoff b w")
    case (Again a1 bo1 b1 w1)
    then have "a1 < bc_MaxDiscoveryRetries (b_config b)" "a1 = attempt + 1" "same_base b b1"
      using p Suc.prems(4) by (auto simp: pass_ok_def shouldFail_def split: if_splits)
    then have "\<exists>b' w'. run_loop E n a1 bo1 b1 w1 = Some (b', w')"
      using p Again Suc.prems by (intro Suc.IH) (auto simp: pass_ok_def same_base_def)
    then show ?thesis using Again by simp
  qed simp
qed simp

text \<open>How the layers below come up.\<close>

lemma startMDNS_cases:
  assumes "startMDNSAdvertiser E b w = (e, b1, w1)"
  shows "(if e = None then \<exists>a. b1 = transitionTo StateMDNSAdvertiserUp (b\<lparr>b_mdnsAdvertiser := Some a\<rparr>)
    else \<exists>a. b1 = b\<lparr>b_mdnsAdvertiser := Some a\<rparr>)"
  using assms by (auto simp: startMDNSAdvertiser_def Let_def split: prod.splits option.splits)

lemma startGossip_cases:
  assumes "startGossip E b w = (e, b1, w1)"
  shows "(if e = None then \<exists>g. b1 = transitionTo StateGossipUp (b\<lparr>b_gossip := Some g\<rparr>) else b1 = b)"
  using assms by (auto simp: startGossip_def Let_def split: prod.splits option.splits sum.splits)

lemma run_started:
  assumes "b_state b = StateInit" and "edges_ok b" and "run E n b w = r"
  obtains (failed) b1 w1 where "r = Some (b1, w1)" "b_state b1 = StateFailed" "edges_ok b1"
      "b_didBootstrap b1 = b_didBootstrap b"
    | (up) b2 w2 where "r = run_loop E n 0 initialBackoff b2 w2" "b_state b2 = StateGossipUp" "edges_ok b2"
      "layers_up b2" "b_didBootstrap b2 = b_didBootstrap b" "b_config b2 = b_config b"
proof -
  obtain e b1 w1 where m: "startMDNSAdvertiser E b w = (e, b1, w1)" by (metis prod.exhaust_sel)
  obtain e2 b2 w2 where g: "startGossip E b1 w1 = (e2, b2, w2)" by (metis prod.exhaust_sel)
  show thesis
  proof (cases e)
    case (Some err)
    then obtain a where "b1 = b\<lparr>b_mdnsAdvertiser := Some a\<rparr>" using startMDNS_cases [OF m] by auto
    moreover from this have "edges_ok (transitionTo StateFailed b1)"
      using assms(1,2) by (intro edges_ok_transitionTo) (simp_all add: state_edges_def)
    ultimately show thesis using assms(3) m Some
      by (intro failed [of "transitionTo StateFailed b1" w1]) (auto simp: run_def)
  next
    case None
    then obtain a where b1: "b1 = transitionTo StateMDNSAdvertiserUp (b\<lparr>b_mdnsAdvertiser := Some a\<rparr>)"
      using startMDNS_cases [OF m] by auto
    have e1: "edges_ok b1" unfolding b1 using assms(1,2)
      by (intro edges_ok_transitionTo) (simp_all add: state_edges_def)
    show thesis
    proof (cases e2)
      case (Some err)
      then have "b2 = b1" using startGossip_cases [OF g] by simp
      moreover have "edges_ok (transitionTo StateFailed b1)"
        by (rule edges_ok_transitionTo [OF e1]) (simp add: b1 state_edges_def)
      ultimately show thesis using assms(3) m g None Some
        by (intro failed [of "transitionTo StateFailed b2" w2]) (auto simp: run_def b1)
    next
      case none: None
      then obtain h where b2: "b2 = transitionTo StateGossipUp (b1\<lparr>b_gossip := Some h\<rparr>)"
        using startGossip_cases [OF g] by auto
      have "edges_ok b2" unfolding b2
        by (rule edges_ok_transitionTo) (use e1 in \<open>simp_all add: b1 state_edges_def\<close>)
      then show thesis using assms(3) m g None none
        by (intro up [of b2 w2]) (auto simp: run_def b2 b1 layers_up_def)
    qed
  qed
qed

lemma run_outcome:
  assumes "well_behaved E" and "b_state b = StateInit" and "edges_ok b" and "run E n b w = Some (b', w')"
  shows "outcome_ok b'"
proof (cases rule: run_started [OF assms(2,3,4)])
  case (1 b1 w1)
  then show ?thesis by (simp add: outcome_ok_def)
next
  case (2 b2 w2)
  then show ?thesis using run_loop_ok [OF assms(1) 2(3,4), of n 0 initialBackoff w2 b' w'] by simp
qed

text \<open>
  C23. A run with a bound on its retries ends, after at most that many passes, whatever the network,
  the discoverer, the context and the scheduler do, and whatever the other goroutines do to the
  subscribers' channels and the stop channel short of adding changes or opening a closed channel; and
  it ends failed, or stopped, or running with the bootstrapped flag up both in the mDNS advertisement
  and in gossip.
\<close>

theorem run_terminates:
  assumes "well_behaved E" and "b_state b = StateInit" and "edges_ok b"
    and "0 < bc_MaxDiscoveryRetries (b_config b)" and "nat (bc_MaxDiscoveryRetries (b_config b)) \<le> n"
  shows "\<exists>b' w'. run E n b w = Some (b', w') \<and>
    (b_state b' = StateFailed \<or> stop_closed b' \<or> b_state b' = StateRunning \<and> flagged b')"
proof -
  have "\<exists>b' w'. run E n b w = Some (b', w')"
  proof (cases rule: run_started [OF assms(2,3) refl, of E n w])
    case (2 b2 w2)
    then show ?thesis using run_loop_returns [OF assms(1) 2(3,4), of 0 n initialBackoff w2] assms(4,5) by simp
  qed simp
  then show ?thesis using run_outcome [OF assms(1-3)] unfolding outcome_ok_def by blast
qed

section \<open>Who creates a cluster\<close>

text \<open>The count, the backoff, the bootstrapper and the world before pass \<open>k\<close> of a loop, if it gets there.\<close>

fun before_pass :: "'w bs_env \<Rightarrow> nat \<Rightarrow> int \<Rightarrow> duration \<Rightarrow> 'w bootstrapper \<Rightarrow> 'w
    \<Rightarrow> (int \<times> duration \<times> 'w bootstrapper \<times> 'w) option" where
  "before_pass E 0 attempt backoff b w = Some (attempt, backoff, b, w)"
| "before_pass E (Suc k) attempt backoff b w =
     (case run_pass E attempt backoff b w of
        Done _ _ \<Rightarrow> None
      | Again attempt1 backoff1 b1 w1 \<Rightarrow> before_pass E k attempt1 backoff1 b1 w1)"

text \<open>
  A pass from \<open>(b, w)\<close> to \<open>(b', w')\<close> that creates a cluster, step by step: a first discovery without
  a bootstrapped peer to join; the wait for the node's slot, to its end; a second discovery, right after
  it, that reports no bootstrapped peer; then a count of at most one gossip member; then the flag.
\<close>

definition creation_decided :: "'w bs_env \<Rightarrow> 'w bootstrapper \<Rightarrow> 'w \<Rightarrow> 'w bootstrapper \<Rightarrow> 'w \<Rightarrow> bool" where
  "creation_decided E b w b' w' \<longleftrightarrow>
     (\<exists>b0 w0 peers found err w2 b1 w3 peers2 err2 w4 w5 b2.
        interfere (be_others E) b w = (b0, w0) \<and> bc_CanBootstrap (b_config b0) \<and>
        runDiscovery E (transitionTo StateDiscovering b0) (snd (be_ctx E w0)) = ((peers, found, err), w2) \<and>
        \<not> (found \<and> peers \<noteq> []) \<and>
        waitForBootstrapSlot E (transitionTo StateDiscovering b0) w2 = (True, b1, w3) \<and>
        runDiscovery E b1 w3 = ((peers2, False, err2), w4) \<and>
        (case b_gossip b1 of None \<Rightarrow> w5 = w4 | Some g \<Rightarrow> \<exists>m. gossip_NumMembers (be_ml E) g w4 = (m, w5) \<and> m \<le> 1) \<and>
        setBootstrapped E True ((transitionTo StateBootstrapping b1)\<lparr>b_didBootstrap := True\<rparr>) w5 = (b2, w') \<and>
        b' = transitionTo StateRunning b2)"

lemma retry_keeps_did:
  assumes "well_behaved E"
  shows "retry E attempt backoff b w = Done b1 w1 \<Longrightarrow> b_didBootstrap b1 = b_didBootstrap b"
    and "retry E attempt backoff b w = Again a1 bo1 b1 w1 \<Longrightarrow> b_didBootstrap b1 = b_didBootstrap b"
proof -
  show "retry E attempt backoff b w = Done b1 w1 \<Longrightarrow> b_didBootstrap b1 = b_didBootstrap b"
    by (auto simp: retry_def Let_def split: if_splits prod.splits)
  have ro: "reads_only (be_wait E d)" for d using assms by (simp add: well_behaved_def)
  show "retry E attempt backoff b w = Again a1 bo1 b1 w1 \<Longrightarrow> b_didBootstrap b1 = b_didBootstrap b"
    by (auto simp: retry_def waitBackoff_def Let_def dest!: interfere_frame [OF _ ro] split: if_splits prod.splits)
qed

lemma run_joining_keeps_did:
  assumes "well_behaved E"
  shows "run_joining E peers attempt backoff b w = Done b1 w1 \<Longrightarrow> b_didBootstrap b1 = b_didBootstrap b"
    and "run_joining E peers attempt backoff b w = Again a1 bo1 b1 w1 \<Longrightarrow> b_didBootstrap b1 = b_didBootstrap b"
  by (auto simp: run_joining_def Let_def dest!: retry_keeps_did [OF assms] setBootstrapped_frame
      split: prod.splits option.splits)

lemma run_alone_keeps_did:
  assumes "well_behaved E"
  shows "run_alone E attempt backoff b w = Again a1 bo1 b1 w1 \<Longrightarrow> b_didBootstrap b1 = b_didBootstrap b"
  by (auto simp: run_alone_def dest!: retry_keeps_did [OF assms] shouldBootstrap_frame [OF assms]
      split: if_splits prod.splits bool.splits)

lemma shouldBootstrap_decides:
  assumes "shouldBootstrap E b w = (True, b1, w1)"
  obtains w3 peers err w4 where "waitForBootstrapSlot E b w = (True, b1, w3)"
    "runDiscovery E b1 w3 = ((peers, False, err), w4)"
    "case b_gossip b1 of None \<Rightarrow> w1 = w4 | Some g \<Rightarrow> \<exists>m. gossip_NumMembers (be_ml E) g w4 = (m, w1) \<and> m \<le> 1"
  using assms
  by (auto simp: shouldBootstrap_def split: prod.splits bool.splits if_splits option.splits)

lemma run_alone_creates:
  assumes "well_behaved E" and "run_alone E attempt backoff b w = Done b' w'"
    and "\<not> b_didBootstrap b" and "b_didBootstrap b'"
  obtains b1 w1 b2 where "bc_CanBootstrap (b_config b)" "shouldBootstrap E b w = (True, b1, w1)"
    "setBootstrapped E True ((transitionTo StateBootstrapping b1)\<lparr>b_didBootstrap := True\<rparr>) w1 = (b2, w')"
    "b' = transitionTo StateRunning b2"
proof -
  obtain r b1 w1 where sb: "shouldBootstrap E b w = (r, b1, w1)" by (metis prod.exhaust_sel)
  have did: "b_didBootstrap b1 = b_didBootstrap b" using shouldBootstrap_frame [OF assms(1) sb] by simp
  have no: "retry E attempt backoff v x = Done b' w' \<Longrightarrow> b_didBootstrap v" for v x
    using retry_keeps_did(1) [OF assms(1)] assms(4) by blast
  have "bc_CanBootstrap (b_config b)" "r"
    using assms(2,3) sb did no by (auto simp: run_alone_def split: if_splits bool.splits)
  then show thesis using assms(2) sb that by (auto simp: run_alone_def split: prod.splits)
qed

lemma run_pass_creates:
  assumes "well_behaved E" and "run_pass E attempt backoff b w = Done b' w'"
    and "\<not> b_didBootstrap b" and "b_didBootstrap b'"
  shows "creation_decided E b w b' w'"
proof -
  obtain b0 w0 where i: "interfere (be_others E) b w = (b0, w0)" by fastforce
  have did: "\<not> b_didBootstrap b0"
    using interfere_frame [OF i] assms(1,3) by (simp add: well_behaved_def)
  let ?b = "transitionTo StateDiscovering b0"
  obtain c w1 where c: "be_ctx E w0 = (c, w1)" by fastforce
  obtain peers found err w2 where d: "runDiscovery E ?b w1 = ((peers, found, err), w2)" by (metis prod.exhaust_sel)
  have nj: "run_joining E peers attempt backoff ?b w2 \<noteq> Done b' w'"
    using run_joining_keeps_did(1) [OF assms(1)] did assms(4) by fastforce
  have alone: "run_alone E attempt backoff ?b w2 = Done b' w'" "\<not> (found \<and> peers \<noteq> [])"
    using assms(2,4) i c d did nj by (auto simp: run_pass_def Let_def split: if_splits)
  obtain b1 w5 b2 where a: "bc_CanBootstrap (b_config ?b)" "shouldBootstrap E ?b w2 = (True, b1, w5)"
      "setBootstrapped E True ((transitionTo StateBootstrapping b1)\<lparr>b_didBootstrap := True\<rparr>) w5 = (b2, w')"
      "b' = transitionTo StateRunning b2"
    by (rule run_alone_creates [OF assms(1) alone(1) _ assms(4)]) (use did in auto)
  obtain w3 peers2 err2 w4 where s: "waitForBootstrapSlot E ?b w2 = (True, b1, w3)"
      "runDiscovery E b1 w3 = ((peers2, False, err2), w4)"
      "case b_gossip b1 of None \<Rightarrow> w5 = w4 | Some g \<Rightarrow> \<exists>m. gossip_NumMembers (be_ml E) g w4 = (m, w5) \<and> m \<le> 1"
    by (rule shouldBootstrap_decides [OF a(2)])
  have "bc_CanBootstrap (b_config b0)" "runDiscovery E ?b (snd (be_ctx E w0)) = ((peers, found, err), w2)"
    using a(1) d c by simp_all
  then show ?thesis unfolding creation_decided_def using i alone(2) s a(3,4) by blast
qed

lemma run_pass_again_did:
  assumes "well_behaved E" and "run_pass E attempt backoff b w = Again a1 bo1 b1 w1"
  shows "b_didBootstrap b1 = b_didBootstrap b"
proof -
  obtain b0 w0 where i: "interfere (be_others E) b w = (b0, w0)" by fastforce
  have "b_didBootstrap b0 = b_didBootstrap b" using interfere_frame [OF i] assms(1) by (simp add: well_behaved_def)
  then show ?thesis using assms(2) i
    by (auto simp: run_pass_def Let_def dest!: run_joining_keeps_did(2) [OF assms(1)] run_alone_keeps_did [OF assms(1)]
        split: prod.splits if_splits)
qed

lemma run_loop_creates:
  assumes "well_behaved E" and "run_loop E n attempt backoff b w = Some (b', w')"
    and "\<not> b_didBootstrap b" and "b_didBootstrap b'"
  shows "\<exists>k a bo b1 w1. k < n \<and> before_pass E k attempt backoff b w = Some (a, bo, b1, w1) \<and>
    creation_decided E b1 w1 b' w'"
  using assms(2,3)
proof (induction n arbitrary: attempt backoff b w)
  case (Suc n)
  show ?case
  proof (cases "run_pass E attempt backoff b w")
    case (Done b1 w1)
    then have "creation_decided E b w b' w'"
      using Suc.prems run_pass_creates [OF assms(1) _ Suc.prems(2) assms(4)] by simp
    then show ?thesis by (intro exI [of _ "0 :: nat"]) simp
  next
    case (Again a1 bo1 b1 w1)
    then obtain k a bo b2 w2 where "k < n" "before_pass E k a1 bo1 b1 w1 = Some (a, bo, b2, w2)"
        "creation_decided E b2 w2 b' w'"
      using Suc.IH [of a1 bo1 b1 w1] Suc.prems run_pass_again_did [OF assms(1) Again] by auto
    then show ?thesis using Again by (intro exI [of _ "Suc k"]) auto
  qed
qed simp

text \<open>
  C22. A cluster is created only on evidence, gathered in this run: whatever others do to the subscribers'
  channels and the stop channel, short of opening a closed one or adding changes, if a run of a node that had not
  created one sets \<open>didBootstrap\<close>, then its layers came up and some pass of its loop ended the run in
  the following way: the node may create a cluster; a discovery found no bootstrapped peer to join; the
  node waited for its slot; a second discovery right afterwards reported no bootstrapped peer; gossip
  then counted at most this one member; and from there the flag was set and the run ended.
\<close>

theorem bootstrap_only_on_evidence:
  assumes "well_behaved E" and "\<not> b_didBootstrap b" and "run E n b w = Some (b', w')" and "b_didBootstrap b'"
  shows "\<exists>bm wm b0 w0 k attempt backoff b1 w1.
    startMDNSAdvertiser E b w = (None, bm, wm) \<and> startGossip E bm wm = (None, b0, w0) \<and> k < n \<and>
    before_pass E k 0 initialBackoff b0 w0 = Some (attempt, backoff, b1, w1) \<and> creation_decided E b1 w1 b' w'"
proof -
  obtain e bm wm where m: "startMDNSAdvertiser E b w = (e, bm, wm)" by (metis prod.exhaust_sel)
  obtain e2 b0 w0 where g: "startGossip E bm wm = (e2, b0, w0)" by (metis prod.exhaust_sel)
  have dm: "b_didBootstrap bm = b_didBootstrap b" using startMDNS_cases [OF m] by (auto split: if_splits)
  have d0: "b_didBootstrap b0 = b_didBootstrap b" using startGossip_cases [OF g] dm by (auto split: if_splits)
  have up: "e = None" "e2 = None"
    using assms(2-4) m g dm d0 by (auto simp: run_def split: option.splits)
  then have "run_loop E n 0 initialBackoff b0 w0 = Some (b', w')" using assms(3) m g by (simp add: run_def)
  then have "\<exists>k a bo b1 w1. k < n \<and> before_pass E k 0 initialBackoff b0 w0 = Some (a, bo, b1, w1) \<and>
      creation_decided E b1 w1 b' w'"
    using assms(2) d0 by (intro run_loop_creates [OF assms(1) _ _ assms(4)]) simp_all
  then show ?thesis using m g unfolding up by blast
qed

text \<open>
  C27. Subscribers see the state machine of the diagram: starting in the first state, from channels that hold
  only edges of the diagram and from which others only take, every change that is in a subscriber's channel after a run is an edge of it.
\<close>

theorem run_respects_diagram:
  assumes "well_behaved E" and "b_state b = StateInit" and "edges_ok b"
    and "run E n b w = Some (b', w')" and "ch \<in> set (b_subscribers b')" and "c \<in> set ch"
  shows "(sc_Old c, sc_New c) \<in> set state_edges"
  using run_outcome [OF assms(1-4)] assms(5,6) by (auto simp: outcome_ok_def edges_ok_def)

section \<open>Delays\<close>

lemma nextBackoff_in_range:
  assumes "0 \<le> d" and "d \<le> maxBackoff"
  shows "nextBackoff d = min (2 * d) maxBackoff"
  using assms by (simp add: nextBackoff_def maxBackoff_def second_def Let_def in_int64_def min_def)


text \<open>
  C38. Before it creates a cluster a node waits at least its discovery timeout and at most one second
  more, for every timeout that is not negative and not within a second of the largest duration.
\<close>

theorem hashBasedDelay_bounds:
  assumes "0 \<le> bc_DiscoveryTimeout c" and "bc_DiscoveryTimeout c + second < 2 ^ 63"
  shows "bc_DiscoveryTimeout c \<le> hashBasedDelay c \<and> hashBasedDelay c \<le> bc_DiscoveryTimeout c + second"
proof -
  have "0 \<le> hash_fraction_of 1000000000 (bc_NodeID c)" "hash_fraction_of 1000000000 (bc_NodeID c) \<le> second"
    using hash_fraction_bounds [of 1000000000 "bc_NodeID c"] by (simp_all add: second_def)
  moreover from this have "in_int64 (bc_DiscoveryTimeout c + hash_fraction_of 1000000000 (bc_NodeID c))"
    using assms by (simp add: in_int64_def)
  ultimately show ?thesis by (simp add: hashBasedDelay_def)
qed

section \<open>Progress\<close>

text \<open>An undisturbed run: the context is never done and nobody closes the stop channel.\<close>

definition undisturbed_run :: "'w bs_env \<Rightarrow> bool" where
  "undisturbed_run E \<longleftrightarrow> well_behaved E \<and> (\<forall>w. fst (be_ctx E w) = None) \<and>
     (\<forall>x. fst (snd (be_others E x)) = fst (snd x)) \<and> (\<forall>d x. fst (snd (be_wait E d x)) = fst (snd x))"

lemma interfere_stop:
  assumes "interfere f b w = (b1, w1)" and "\<forall>x. fst (snd (f x)) = fst (snd x)"
  shows "b_stopCh b1 = b_stopCh b"
  using assms(1) assms(2) [THEN spec, of "(b_subscribers b, b_stopCh b, w)"]
  by (auto simp: interfere_def split: prod.splits)

text \<open>The beginning of a pass that nobody disturbs.\<close>

lemma run_pass_discovers:
  assumes "undisturbed_run E" and "\<not> stop_closed b"
  obtains b1 w1 where "same_base b b1" "b_gossip b1 = b_gossip b" "b_mdnsAdvertiser b1 = b_mdnsAdvertiser b"
    "b_didBootstrap b1 = b_didBootstrap b" "\<not> stop_closed b1"
    "run_pass E attempt backoff b w =
      (case runDiscovery E b w1 of
         ((peers, found, err), w2) \<Rightarrow>
           if found \<and> peers \<noteq> [] then run_joining E peers attempt backoff b1 w2
           else run_alone E attempt backoff b1 w2)"
proof -
  obtain b0 w0 where i: "interfere (be_others E) b w = (b0, w0)" by fastforce
  have fr: "same_base b b0" "b_gossip b0 = b_gossip b" "b_mdnsAdvertiser b0 = b_mdnsAdvertiser b"
      "b_didBootstrap b0 = b_didBootstrap b"
    using interfere_frame [OF i] assms(1) by (simp_all add: undisturbed_run_def well_behaved_def)
  have st: "\<not> stop_closed b0"
    using interfere_stop [OF i] assms by (simp add: undisturbed_run_def stop_closed_def)
  obtain w1 where c: "be_ctx E w0 = (None, w1)"
    using assms(1) unfolding undisturbed_run_def by (metis prod.collapse)
  have "runDiscovery E (transitionTo StateDiscovering b0) w1 = runDiscovery E b w1"
    by (rule runDiscovery_same_base) (simp add: fr)
  then show thesis
    using i c st fr by (intro that [of "transitionTo StateDiscovering b0" w1]) (simp_all add: run_pass_def Let_def)
qed

text \<open>
  C25. In a run that nobody cancels or stops, with advertiser and gossip up, a node whose discovery
  reports a bootstrapped peer and which can join the reported peers does so in the next pass: it is
  running, both its flags say bootstrapped, and it has not created a cluster.
\<close>

theorem run_joins_existing_cluster:
  assumes "undisturbed_run E" and "\<not> stop_closed b" and "layers_up b"
    and "\<And>w. \<exists>w'. runDiscovery E b w = ((peers, True, None), w')" and "peers \<noteq> []"
    and "\<And>w. fst (joinCluster E b peers w) = None"
  shows "\<exists>b' w'. run_loop E (Suc n) attempt backoff b w = Some (b', w') \<and> b_state b' = StateRunning \<and>
    flagged b' \<and> b_didBootstrap b' = b_didBootstrap b"
proof -
  obtain b1 w1 where b1: "same_base b b1" "b_gossip b1 = b_gossip b" "b_mdnsAdvertiser b1 = b_mdnsAdvertiser b"
      "b_didBootstrap b1 = b_didBootstrap b"
    and p: "run_pass E attempt backoff b w = (case runDiscovery E b w1 of ((peers, found, err), w2) \<Rightarrow>
      if found \<and> peers \<noteq> [] then run_joining E peers attempt backoff b1 w2 else run_alone E attempt backoff b1 w2)"
    by (rule run_pass_discovers [OF assms(1,2), of attempt backoff w]) blast
  obtain w2 where d: "runDiscovery E b w1 = ((peers, True, None), w2)" using assms(4) by blast
  let ?b = "transitionTo StateJoining b1"
  have "joinCluster E ?b peers w2 = joinCluster E b peers w2" using b1(2) by (simp add: joinCluster_def)
  then obtain w3 where j: "joinCluster E ?b peers w2 = (None, w3)"
    using assms(6) [of w2] by (metis prod.collapse)
  obtain b2 w4 where s: "setBootstrapped E True ?b w3 = (b2, w4)" by fastforce
  have "run_pass E attempt backoff b w = Done (transitionTo StateRunning b2) w4"
    using p d j s assms(5) by (simp add: run_joining_def Let_def)
  then show ?thesis using setBootstrapped_frame [OF s] assms(3) b1
    by (simp add: layers_up_def flagged_def)
qed

text \<open>
  C26. In a run that nobody cancels or stops, with advertiser and gossip up, a node that may create a
  cluster, whose discovery reports no bootstrapped peer and which is alone in gossip creates the cluster in
  the next pass, and both its flags say bootstrapped.
\<close>

theorem lone_node_bootstraps:
  assumes "undisturbed_run E" and "\<not> stop_closed b" and "layers_up b" and "bc_CanBootstrap (b_config b)"
    and "\<And>w. \<exists>peers err w'. runDiscovery E b w = ((peers, False, err), w')"
    and "\<And>w. fst (gossip_NumMembers (be_ml E) (the (b_gossip b)) w) \<le> 1"
  shows "\<exists>b' w'. run_loop E (Suc n) attempt backoff b w = Some (b', w') \<and> DidBootstrap b' \<and> flagged b'"
proof -
  obtain b1 w1 where b1: "same_base b b1" "b_gossip b1 = b_gossip b" "b_mdnsAdvertiser b1 = b_mdnsAdvertiser b"
      "\<not> stop_closed b1"
    and p: "run_pass E attempt backoff b w = (case runDiscovery E b w1 of ((peers, found, err), w2) \<Rightarrow>
      if found \<and> peers \<noteq> [] then run_joining E peers attempt backoff b1 w2 else run_alone E attempt backoff b1 w2)"
    by (rule run_pass_discovers [OF assms(1,2), of attempt backoff w]) blast
  obtain w2 where p2: "run_pass E attempt backoff b w = run_alone E attempt backoff b1 w2"
    using p assms(5) [of w1] by auto
  obtain b2 w3 where i: "interfere (be_wait E (hashBasedDelay (b_config b1))) b1 w2 = (b2, w3)" by fastforce
  have b2: "same_base b1 b2" "b_gossip b2 = b_gossip b1" "b_mdnsAdvertiser b2 = b_mdnsAdvertiser b1"
    using interfere_frame [OF i] assms(1) by (simp_all add: undisturbed_run_def well_behaved_def)
  have "\<not> stop_closed b2" using interfere_stop [OF i] assms(1) b1(4) by (simp add: undisturbed_run_def stop_closed_def)
  moreover obtain w4 where "be_ctx E w3 = (None, w4)"
    using assms(1) unfolding undisturbed_run_def by (metis prod.collapse)
  ultimately have slot: "waitForBootstrapSlot E b1 w2 = (True, b2, w4)" using i by (simp add: waitForBootstrapSlot_def)
  have "runDiscovery E b2 w4 = runDiscovery E b w4"
    using b1(1) b2(1) by (intro runDiscovery_same_base) (rule same_base_trans)
  then obtain peers err w5 where d: "runDiscovery E b2 w4 = ((peers, False, err), w5)" using assms(5) by metis
  obtain g where g: "b_gossip b = Some g" using assms(3) by (auto simp: layers_up_def)
  obtain m w6 where m: "gossip_NumMembers (be_ml E) g w5 = (m, w6)" by fastforce
  have "shouldBootstrap E b1 w2 = (True, b2, w6)"
    using slot d b1(2) b2(2) g m assms(6) [of w5] by (simp add: shouldBootstrap_def)
  moreover obtain b3 w7 where s:
      "setBootstrapped E True ((transitionTo StateBootstrapping b2)\<lparr>b_didBootstrap := True\<rparr>) w6 = (b3, w7)" by fastforce
  moreover have "bc_CanBootstrap (b_config b1)" using b1(1) assms(4) by (simp add: same_base_def)
  ultimately have "run_pass E attempt backoff b w = Done (transitionTo StateRunning b3) w7"
    using p2 by (simp add: run_alone_def)
  then show ?thesis using setBootstrapped_frame [OF s] assms(3) b1 b2
    by (simp add: layers_up_def flagged_def DidBootstrap_def)
qed

section \<open>Where the protocol stalls\<close>

text \<open>
  A discoverer without the method \<open>DiscoverPeers\<close> makes the node join its peers while it looks for
  them. Nodes that start together then count each other, none of them is bootstrapped, and so none
  ever creates the cluster: no run ends in the state Running.
\<close>

definition sees_only_fresh_peers :: "'w bs_env \<Rightarrow> 'w bootstrapper \<Rightarrow> bool" where
  "sees_only_fresh_peers E b \<longleftrightarrow>
     (\<forall>w. fst (snd (fst (runDiscovery E b w))) = False) \<and>
     (\<forall>w. fst (gossip_NumMembers (be_ml E) (the (b_gossip b)) w) > 1)"

lemma sees_only_fresh_peers_cong:
  assumes "same_base b b'" and "layers_up b" and "sees_only_fresh_peers E b"
  shows "sees_only_fresh_peers E b'"
proof -
  have "link b' = link b" using assms(1) by (simp add: same_base_def)
  then have "gossip_NumMembers (be_ml E) (the (b_gossip b')) = gossip_NumMembers (be_ml E) (the (b_gossip b))"
  proof (cases rule: link_cases)
    case (2 g h)
    then show ?thesis using gossip_queries_cong(3) [of h g] by simp
  qed (use assms(2) in \<open>simp add: layers_up_def\<close>)
  then show ?thesis using assms(3) runDiscovery_same_base [OF assms(1)] by (simp add: sees_only_fresh_peers_def)
qed

lemma fresh_peers_no_bootstrap:
  assumes "well_behaved E" and "layers_up b" and "sees_only_fresh_peers E b"
  shows "\<not> fst (shouldBootstrap E b w)"
proof
  assume t: "fst (shouldBootstrap E b w)"
  obtain b1 w1 where s: "waitForBootstrapSlot E b w = (True, b1, w1)"
    using t by (auto simp: shouldBootstrap_def split: prod.splits bool.splits)
  obtain b2 w2 where i: "interfere (be_wait E (hashBasedDelay (b_config b))) b w = (b2, w2)" by fastforce
  have "b1 = b2" using s i by (auto simp: waitForBootstrapSlot_def split: prod.splits option.splits)
  then have fr: "same_base b b1" "layers_up b1"
    using interfere_frame [OF i] assms(1,2) by (simp_all add: well_behaved_def layers_up_def)
  have f: "sees_only_fresh_peers E b1" using sees_only_fresh_peers_cong [OF fr(1) assms(2,3)] .
  obtain peers found err w3 where d: "runDiscovery E b1 w1 = ((peers, found, err), w3)"
    by (metis prod.exhaust_sel)
  obtain g where g: "b_gossip b1 = Some g" using fr(2) by (auto simp: layers_up_def)
  obtain m w4 where m: "gossip_NumMembers (be_ml E) g w3 = (m, w4)" by fastforce
  have "\<not> found" using f d unfolding sees_only_fresh_peers_def by (metis fst_conv snd_conv)
  moreover have "1 < m" using f g m unfolding sees_only_fresh_peers_def by (metis fst_conv option.sel)
  ultimately show False using t s d g m by (simp add: shouldBootstrap_def)
qed

lemma fresh_peers_pass:
  assumes "well_behaved E" and "layers_up b" and "sees_only_fresh_peers E b"
    and "b_state b \<noteq> StateRunning" and "run_pass E attempt backoff b w = Done b' w'"
  shows "b_state b' \<noteq> StateRunning"
proof -
  obtain b0 w0 where i: "interfere (be_others E) b w = (b0, w0)" by fastforce
  have fr: "same_base b b0" "b_state b0 = b_state b" "layers_up b0"
    using interfere_frame [OF i] assms by (simp_all add: well_behaved_def layers_up_def)
  let ?b = "transitionTo StateDiscovering b0"
  have fresh: "sees_only_fresh_peers E ?b" "layers_up ?b"
    using sees_only_fresh_peers_cong [OF _ assms(2,3), of ?b] fr by (simp_all add: layers_up_def)
  have found: "\<not> fst (snd (fst (runDiscovery E ?b x)))" for x
    using fresh(1) by (simp add: sees_only_fresh_peers_def)
  have no: "shouldBootstrap E ?b x \<noteq> (True, b2, w2)" for x b2 w2
    using fresh_peers_no_bootstrap [OF assms(1) fresh(2,1), of x] by auto
  have alone: "b_state b1 = StateFailed" if "run_alone E attempt backoff ?b x = Done b1 w1" for b1 x w1
    using that no by (auto simp: run_alone_def dest: retry_not_state split: if_splits prod.splits bool.splits)
  obtain c w1 where c: "be_ctx E w0 = (c, w1)" by fastforce
  obtain peers fnd err w2 where d: "runDiscovery E ?b w1 = ((peers, fnd, err), w2)" by (metis prod.exhaust_sel)
  have "\<not> fnd" using found [of w1] d by simp
  then show ?thesis using assms(4,5) i fr(2) c d
    by (auto simp: run_pass_def Let_def dest: alone split: if_splits)
qed

lemma fresh_peers_stall:
  assumes "well_behaved E" and "edges_ok b" and "layers_up b"
    and "b_state b = StateGossipUp \<or> b_state b = StateRetrying"
    and "sees_only_fresh_peers E b" and "run_loop E n attempt backoff b w = Some (b', w')"
  shows "b_state b' \<noteq> StateRunning"
  using assms(2-)
proof (induction n arbitrary: attempt backoff b w)
  case (Suc n)
  show ?case
  proof (cases "run_pass E attempt backoff b w")
    case (Done b1 w1)
    then show ?thesis using fresh_peers_pass [OF assms(1) Suc.prems(2,4) _ Done] Suc.prems(3,5) by auto
  next
    case (Again a1 bo1 b1 w1)
    have "pass_ok E attempt backoff b (run_pass E attempt backoff b w)"
      using Suc.prems(1-3) by (rule run_pass_ok [OF assms(1)])
    then have "edges_ok b1" "layers_up b1" "b_state b1 = StateRetrying" "same_base b b1"
      using Again by (auto simp: pass_ok_def)
    then show ?thesis using Suc.IH [of b1 a1 bo1 w1] Again Suc.prems sees_only_fresh_peers_cong by auto
  qed
qed simp

text \<open>
  \<open>Start\<close> leaves the state at Init until the goroutine has started the advertiser. In that time a
  second \<open>Start\<close> succeeds too and a second goroutine runs, and a \<open>Stop\<close> reports that nothing runs.
\<close>

lemma start_twice:
  assumes "bs_Start b = (None, b1)"
  shows "\<exists>b2. bs_Start b1 = (None, b2)" and "bs_Stop E finish b1 w = (Some bs_ErrNotRunning, b1, w)"
  using assms by (auto simp: bs_Start_def bs_Stop_def split: if_splits)

text \<open>
  \<open>didBootstrap\<close> is never taken back. A node that created a cluster, was stopped and started again and
  then joined another cluster still reports that it created one.
\<close>

lemma didBootstrap_survives_restart:
  assumes "bs_Stop E (\<lambda>x. x) b w = (None, b1, w1)" and "bs_Start b1 = (None, b2)"
  shows "b_didBootstrap b2 = b_didBootstrap b"
  using assms by (auto simp: bs_Start_def bs_Stop_def split: if_splits option.splits prod.splits)

section \<open>Witnesses\<close>

definition sample_mdns_api :: "mlnode mdns_server_api" where
  "sample_mdns_api =
     \<lparr>sa_Hostname = \<lambda>w. None, sa_InterfaceAddrs = \<lambda>w. None, sa_NewMDNSService = \<lambda>svc. None,
      sa_NewServer = \<lambda>svc w. (Inr 0, w), sa_Shutdown = \<lambda>h w. w\<rparr>"

definition sample_env :: "mlnode bs_env" where
  "sample_env = \<lparr>be_mdns = sample_mdns_api, be_ml = sample_ml, be_ctx = \<lambda>w. (None, w), be_now = \<lambda>_. 0,
     be_rand = \<lambda>w. (0, w), be_others = \<lambda>x. x, be_wait = \<lambda>_ x. x, be_select = \<lambda>_. False\<rparr>"

definition sample_bs_config :: "mlnode bs_config" where
  "sample_bs_config = \<lparr>bc_NodeID = ''n1'', bc_GossipAddr = ''0.0.0.0:7946'', bc_GossipAdvertiseAddr = ''10.0.0.1:7946'',
     bc_RaftAdvertiseAddr = ''10.0.0.1:8300'', bc_SecretKey = [], bc_NetworkMode = LAN, bc_CanBootstrap = True,
     bc_DiscoveryTimeout = 5 * second, bc_MaxDiscoveryRetries = 3, bc_EventHandler = None,
     bc_MDNSService = [], bc_MDNSDomain = []\<rparr>"

definition sample_bs :: "mlnode bootstrapper" where
  "sample_bs = \<lparr>b_config = sample_bs_config, b_state = StateInit, b_mdnsAdvertiser = None, b_gossip = None,
     b_discoverer = None, b_didBootstrap = False, b_stopCh = Some False, b_subscribers = [[]]\<rparr>"

lemma sample_env_behaved: "well_behaved sample_env" "undisturbed_run sample_env"
  by (auto simp: sample_env_def undisturbed_run_def well_behaved_def reads_only_def)

lemma sample_bs_init: "b_state sample_bs = StateInit" "edges_ok sample_bs" "\<not> b_didBootstrap sample_bs"
  by (simp_all add: sample_bs_def edges_ok_def)

lemma sample_env_simps [simp]:
  "interfere (be_others sample_env) b w = (b, w)" "interfere (be_wait sample_env d) b w = (b, w)"
  "be_ctx sample_env w = (None, w)" "be_ml sample_env = sample_ml"
  by (cases b; simp add: interfere_def sample_env_def)+

lemma sample_bs_simps [simp]:
  "b_discoverer sample_bs = None" "b_config sample_bs = sample_bs_config" "bc_CanBootstrap sample_bs_config"
  "b_stopCh sample_bs = Some False"
  by (simp_all add: sample_bs_def sample_bs_config_def)

lemma sample_run:
  "\<exists>b' w'. run sample_env 3 sample_bs no_node = Some (b', w') \<and> DidBootstrap b' \<and>
     b_subscribers b' = [[\<lparr>sc_Old = StateInit, sc_New = StateMDNSAdvertiserUp\<rparr>,
       \<lparr>sc_Old = StateMDNSAdvertiserUp, sc_New = StateGossipUp\<rparr>, \<lparr>sc_Old = StateGossipUp, sc_New = StateDiscovering\<rparr>,
       \<lparr>sc_Old = StateDiscovering, sc_New = StateBootstrapping\<rparr>, \<lparr>sc_Old = StateBootstrapping, sc_New = StateRunning\<rparr>]]"
proof -
  obtain a where m: "startMDNSAdvertiser sample_env sample_bs no_node =
      (None, transitionTo StateMDNSAdvertiserUp (sample_bs\<lparr>b_mdnsAdvertiser := Some a\<rparr>), no_node)"
    by (simp add: startMDNSAdvertiser_def sample_env_def sample_mdns_api_def advertiser_Start_def
        startServerLocked_def NewMDNSAdvertiser_def Let_def)
  let ?b = "transitionTo StateMDNSAdvertiserUp (sample_bs\<lparr>b_mdnsAdvertiser := Some a\<rparr>)"
  obtain g w1 where g: "startGossip sample_env ?b no_node =
      (None, transitionTo StateGossipUp (?b\<lparr>b_gossip := Some g\<rparr>), w1)" "g_started g"
    by (simp add: startGossip_def sample_env_def sample_ml_def sample_bs_def sample_bs_config_def gossip_New_def
        gossip_validate_def gossip_Start_def split_beta Let_def)
  let ?u = "transitionTo StateGossipUp (?b\<lparr>b_gossip := Some g\<rparr>)"
  let ?d = "transitionTo StateDiscovering ?u"
  have n: "gossip_NumMembers sample_ml g w = (1, w)" for w using g(2) by (simp add: gossip_NumMembers_def sample_ml_def)
  have sb: "shouldBootstrap sample_env ?d w = (True, ?d, w)" for w
    by (simp add: shouldBootstrap_def waitForBootstrapSlot_def runDiscovery_def n stop_closed_def)
  obtain b2 w2 where s: "setBootstrapped sample_env True
      ((transitionTo StateBootstrapping ?d)\<lparr>b_didBootstrap := True\<rparr>) w1 = (b2, w2)" by fastforce
  have subs: "b_subscribers b2 = b_subscribers (transitionTo StateBootstrapping ?d)"
    using s by (auto simp: setBootstrapped_def split: option.splits prod.splits)
  have r: "run sample_env 3 sample_bs no_node = Some (transitionTo StateRunning b2, w2)"
    using s by (simp add: run_def m g(1) numeral_3_eq_3 run_pass_def runDiscovery_def Let_def
        run_alone_def sb stop_closed_def)
  show ?thesis
    using r setBootstrapped_frame [OF s] subs
    by (simp add: DidBootstrap_def transitionTo_def broadcast_def Let_def subscriber_capacity_def sample_bs_def)
qed

theorem run_terminates_witness:
  "\<exists>b' w'. run sample_env 3 sample_bs no_node = Some (b', w') \<and>
    (b_state b' = StateFailed \<or> stop_closed b' \<or> b_state b' = StateRunning \<and> flagged b')"
  by (rule run_terminates [OF sample_env_behaved(1) sample_bs_init(1,2)])
    (simp_all add: sample_bs_config_def)

theorem bootstrap_only_on_evidence_witness:
  "\<exists>b' w' bm wm b0 w0 k attempt backoff b1 w1. run sample_env 3 sample_bs no_node = Some (b', w') \<and>
    startMDNSAdvertiser sample_env sample_bs no_node = (None, bm, wm) \<and> startGossip sample_env bm wm = (None, b0, w0) \<and>
    k < 3 \<and> before_pass sample_env k 0 initialBackoff b0 w0 = Some (attempt, backoff, b1, w1) \<and>
    creation_decided sample_env b1 w1 b' w'"
proof -
  obtain b' w' where r: "run sample_env 3 sample_bs no_node = Some (b', w')" "DidBootstrap b'"
    using sample_run by blast
  then have "b_didBootstrap b'" by (simp add: DidBootstrap_def)
  from bootstrap_only_on_evidence [OF sample_env_behaved(1) sample_bs_init(3) r(1) this] r(1)
  show ?thesis by blast
qed

theorem run_respects_diagram_witness:
  "\<exists>b' w' ch c. run sample_env 3 sample_bs no_node = Some (b', w') \<and> ch \<in> set (b_subscribers b') \<and>
    c \<in> set ch \<and> sc_New c = StateRunning \<and> (sc_Old c, sc_New c) \<in> set state_edges"
proof -
  obtain b' w' ch where r: "run sample_env 3 sample_bs no_node = Some (b', w')" "ch \<in> set (b_subscribers b')"
      "\<lparr>sc_Old = StateBootstrapping, sc_New = StateRunning\<rparr> \<in> set ch"
    using sample_run by auto
  show ?thesis using run_respects_diagram [OF sample_env_behaved(1) sample_bs_init(1,2) r] r by fastforce
qed


theorem hashBasedDelay_bounds_witness:
  "5 * second \<le> hashBasedDelay sample_bs_config \<and> hashBasedDelay sample_bs_config \<le> 6 * second"
  using hashBasedDelay_bounds [of sample_bs_config] by (simp add: sample_bs_config_def second_def)

definition sample_up :: "mlnode disc option \<Rightarrow> mlnode bootstrapper" where
  "sample_up d = sample_bs\<lparr>b_state := StateGossipUp, b_gossip := Some sample_gossip,
     b_mdnsAdvertiser := Some (NewMDNSAdvertiser sample_advertiser_config), b_discoverer := d\<rparr>"

lemma sample_up_facts: "\<not> stop_closed (sample_up d)" "layers_up (sample_up d)"
  by (simp_all add: sample_up_def stop_closed_def layers_up_def)

theorem run_joins_existing_cluster_witness:
  "\<exists>b' w'. run_loop sample_env (Suc 0) 0 initialBackoff (sample_up (Some (BootstrapDisc (static_Discover [])
      (\<lambda>ctx w. (([\<lparr>pi_Address = ''10.0.0.2:7946'', pi_Bootstrapped = True\<rparr>], None), w))))) no_node = Some (b', w') \<and>
    b_state b' = StateRunning \<and> flagged b' \<and> b_didBootstrap b' = False"
  using run_joins_existing_cluster [OF sample_env_behaved(2) sample_up_facts, of "Some (BootstrapDisc (static_Discover [])
      (\<lambda>ctx w. (([\<lparr>pi_Address = ''10.0.0.2:7946'', pi_Bootstrapped = True\<rparr>], None), w)))" "[''10.0.0.2:7946'']"
      0 0 initialBackoff no_node]
  by (simp add: runDiscovery_def joinCluster_def sample_up_def sample_gossip_def gossip_Join_def sample_ml_def sample_bs_def)

theorem lone_node_bootstraps_witness:
  "\<exists>b' w'. run_loop sample_env (Suc 0) 0 initialBackoff (sample_up None) no_node = Some (b', w') \<and>
    DidBootstrap b' \<and> flagged b'"
  using lone_node_bootstraps [OF sample_env_behaved(2) sample_up_facts, of None 0 0 initialBackoff no_node]
  by (simp add: runDiscovery_def sample_up_def sample_gossip_def gossip_NumMembers_def sample_ml_def)

end
