(* ===== verification/ConsensusNode.thy ===== *)
theory ConsensusNode
  imports Bootstrapper RaftMembership
begin

text \<open>
  Package \<open>internal/consensus\<close> (\<open>callbacks.go\<close>, \<open>node.go\<close>): the node that waits for the bootstrapper and
  then tells Raft whether to create a cluster or to join one, and that passes membership events on.

  The callbacks act on the state \<open>'r\<close> of whoever implements them, on the gossip layer, to which the
  implementation holds a pointer, and on the world. Errors that the code drops are dropped here.
\<close>

section \<open>Callbacks\<close>

record 's raft_callbacks =
  cb_OnBootstrap :: "peer_info \<Rightarrow> 's \<Rightarrow> goerr option \<times> 's"
  cb_OnJoin :: "peer_info \<Rightarrow> peer_info list \<Rightarrow> 's \<Rightarrow> goerr option \<times> 's"
  cb_OnPeerJoin :: "peer_info \<Rightarrow> 's \<Rightarrow> 's"
  cb_OnPeerLeave :: "peer_info \<Rightarrow> 's \<Rightarrow> 's"

definition NoopCallbacks :: "'s raft_callbacks" where
  "NoopCallbacks = \<lparr>cb_OnBootstrap = \<lambda>_ s. (None, s), cb_OnJoin = \<lambda>_ _ s. (None, s),
     cb_OnPeerJoin = \<lambda>_ s. s, cb_OnPeerLeave = \<lambda>_ s. s\<rparr>"

type_synonym ('r, 'w) cb_state = "'r \<times> 'w gossip option \<times> 'w"

section \<open>The node\<close>

definition cs_ErrAlreadyRunning :: goerr where
  "cs_ErrAlreadyRunning = Sentinel ''consensus'' ''node already running''"
definition cs_ErrNotRunning :: goerr where
  "cs_ErrNotRunning = Sentinel ''consensus'' ''node not running''"

text \<open>The stop channels made so far, as flags, and the index of the present one.\<close>

record ('r, 'w) consensus_node =
  cn_callbacks :: "('r, 'w) cb_state raft_callbacks"
  cn_bootstrapper :: "'w bootstrapper"
  cn_running :: bool
  cn_localInfo :: peer_info
  cn_chans :: "bool list"
  cn_stopCh :: "nat option"
  cn_appOnJoin :: "(gossip_info \<Rightarrow> 'w \<Rightarrow> 'w) option"
  cn_appOnLeave :: "(gossip_info \<Rightarrow> 'w \<Rightarrow> 'w) option"

text \<open>
  \<open>New\<close>; \<open>self\<close> is the node's own event handler, which the gossip layer is given before the node is
  complete.
\<close>

definition cs_New :: "'w bs_config \<Rightarrow> ('r, 'w) cb_state raft_callbacks option \<Rightarrow> 'w event_handler \<Rightarrow> 'w disc option
    \<Rightarrow> goerr + ('r, 'w) consensus_node" where
  "cs_New cfg callbacks self d =
     (case bs_New (cfg\<lparr>bc_EventHandler := Some self\<rparr>) d of
        Inl err \<Rightarrow> Inl err
      | Inr b \<Rightarrow>
          Inr \<lparr>cn_callbacks = (case callbacks of None \<Rightarrow> NoopCallbacks | Some c \<Rightarrow> c),
               cn_bootstrapper = b, cn_running = False,
               cn_localInfo = \<lparr>ci_ID = bc_NodeID (b_config b), ci_RaftAddr = bc_RaftAdvertiseAddr (b_config b)\<rparr>,
               cn_chans = [], cn_stopCh = None, cn_appOnJoin = None, cn_appOnLeave = None\<rparr>)"

definition cs_Start :: "('r, 'w) consensus_node \<Rightarrow> goerr option \<times> ('r, 'w) consensus_node" where
  "cs_Start n =
     (if cn_running n then (Some cs_ErrAlreadyRunning, n)
      else let n1 = n\<lparr>cn_running := True, cn_stopCh := Some (length (cn_chans n)), cn_chans := cn_chans n @ [False]\<rparr>
           in case bs_Start (cn_bootstrapper n1) of
                (Some err, b) \<Rightarrow> (Some err, n1\<lparr>cn_running := False, cn_bootstrapper := b\<rparr>)
              | (None, b) \<Rightarrow> (None, n1\<lparr>cn_bootstrapper := b\<rparr>))"

definition chan_closed :: "nat option \<Rightarrow> ('r, 'w) consensus_node \<Rightarrow> bool" where
  "chan_closed c n = (case c of None \<Rightarrow> False | Some i \<Rightarrow> i < length (cn_chans n) \<and> cn_chans n ! i)"

definition cs_close :: "('r, 'w) consensus_node \<Rightarrow> panic + ('r, 'w) consensus_node" where
  "cs_close n =
     (case cn_stopCh n of
        None \<Rightarrow> Inl CloseOfNilChannel
      | Some i \<Rightarrow> if chan_closed (Some i) n then Inl CloseOfClosedChannel
                  else Inr (n\<lparr>cn_chans := (cn_chans n)[i := True]\<rparr>))"

text \<open>
  \<open>Stop\<close>. The lock is free while the bootstrapper stops; \<open>finish\<close> is the rest of its goroutine.
\<close>

definition cs_Stop :: "'w bs_env \<Rightarrow> ('w bootstrapper \<times> 'w \<Rightarrow> 'w bootstrapper \<times> 'w) \<Rightarrow> ('r, 'w) consensus_node \<Rightarrow> 'w
    \<Rightarrow> panic + (goerr option \<times> ('r, 'w) consensus_node \<times> 'w)" where
  "cs_Stop E finish n w =
     (if \<not> cn_running n then Inr (Some cs_ErrNotRunning, n, w)
      else case cs_close n of
             Inl p \<Rightarrow> Inl p
           | Inr n1 \<Rightarrow>
               (case bs_Stop E finish (cn_bootstrapper n1) w of
                  (err, b, w1) \<Rightarrow> Inr (err, n1\<lparr>cn_bootstrapper := b, cn_running := False\<rparr>, w1)))"

section \<open>After the bootstrap\<close>

definition peer_of :: "gossip_info \<Rightarrow> peer_info" where
  "peer_of m = \<lparr>ci_ID = gi_ID m, ci_RaftAddr = gi_RaftAddr m\<rparr>"

definition updateLocalInfoFromGossip :: "'w ml_api \<Rightarrow> ('r, 'w) consensus_node \<Rightarrow> 'w \<Rightarrow> ('r, 'w) consensus_node \<times> 'w" where
  "updateLocalInfoFromGossip M n w =
     (case b_gossip (cn_bootstrapper n) of
        None \<Rightarrow> (n, w)
      | Some g \<Rightarrow>
          (case gossip_Members M g w of
             (ms, w1) \<Rightarrow>
               (case List.find (\<lambda>m. gi_ID m = ci_ID (cn_localInfo n)) ms of
                  None \<Rightarrow> (n, w1)
                | Some m \<Rightarrow> (n\<lparr>cn_localInfo := (cn_localInfo n)\<lparr>ci_RaftAddr := gi_RaftAddr m\<rparr>\<rparr>, w1))))"

text \<open>A callback may change the gossip layer, which the bootstrapper owns.\<close>

definition with_callback :: "(('r, 'w) cb_state \<Rightarrow> goerr option \<times> ('r, 'w) cb_state) \<Rightarrow> ('r, 'w) consensus_node
    \<Rightarrow> 'r \<Rightarrow> 'w \<Rightarrow> ('r, 'w) consensus_node \<times> 'r \<times> 'w" where
  "with_callback f n r w =
     (case f (r, b_gossip (cn_bootstrapper n), w) of
        (_, r1, g1, w1) \<Rightarrow> (n\<lparr>cn_bootstrapper := (cn_bootstrapper n)\<lparr>b_gossip := g1\<rparr>\<rparr>, r1, w1))"

definition onBootstrapComplete :: "'w ml_api \<Rightarrow> ('r, 'w) consensus_node \<Rightarrow> 'r \<Rightarrow> 'w
    \<Rightarrow> ('r, 'w) consensus_node \<times> 'r \<times> 'w" where
  "onBootstrapComplete M n r w =
     (if DidBootstrap (cn_bootstrapper n) then
        (case with_callback (cb_OnBootstrap (cn_callbacks n) (cn_localInfo n)) n r w of
           (n1, r1, w1) \<Rightarrow> (case updateLocalInfoFromGossip M n1 w1 of (n2, w2) \<Rightarrow> (n2, r1, w2)))
      else case b_gossip (cn_bootstrapper n) of
             None \<Rightarrow> (n, r, w)
           | Some g \<Rightarrow>
               (case gossip_Members M g w of
                  (members, w1) \<Rightarrow>
                    (let peers = map peer_of (filter (\<lambda>m. gi_ID m \<noteq> ci_ID (cn_localInfo n)) members)
                     in case with_callback (cb_OnJoin (cn_callbacks n) (cn_localInfo n) peers) n r w1 of
                          (n1, r1, w2) \<Rightarrow> (case updateLocalInfoFromGossip M n1 w2 of (n2, w3) \<Rightarrow> (n2, r1, w3)))))"

text \<open>
  \<open>waitForBootstrap\<close>: for each turn of the loop one step of the other goroutines, and whether the tick is
  the case that the \<open>select\<close> takes when the context is done or the stop channel closed as well. \<open>True\<close> says
  that the goroutine has returned. The channel is the one that the node had when the \<open>select\<close> began.
\<close>

type_synonym ('r, 'w) cs_step = "('r, 'w) consensus_node \<times> 'r \<times> 'w \<Rightarrow> ('r, 'w) consensus_node \<times> 'r \<times> 'w"

fun waitForBootstrap :: "'w bs_env \<Rightarrow> (('r, 'w) cs_step \<times> bool) list \<Rightarrow> ('r, 'w) consensus_node \<Rightarrow> 'r \<Rightarrow> 'w
    \<Rightarrow> bool \<times> ('r, 'w) consensus_node \<times> 'r \<times> 'w" where
  "waitForBootstrap E [] n r w = (False, n, r, w)"
| "waitForBootstrap E ((f, tick) # fs) n r w =
     (case f (n, r, w) of
        (n1, r1, w1) \<Rightarrow>
          (case be_ctx E w1 of
             (done, w2) \<Rightarrow>
               if (done \<noteq> None \<or> chan_closed (cn_stopCh n) n1) \<and> \<not> tick then (True, n1, r1, w2)
               else if b_state (cn_bootstrapper n1) = StateRunning then
                 (case onBootstrapComplete (be_ml E) n1 r1 w2 of (n2, r2, w3) \<Rightarrow> (True, n2, r2, w3))
               else if b_state (cn_bootstrapper n1) = StateFailed \<or> b_state (cn_bootstrapper n1) = StateInit then
                 (True, n1, r1, w2)
               else waitForBootstrap E fs n1 r1 w2))"

section \<open>Membership events\<close>

definition SetAppOnJoin :: "(gossip_info \<Rightarrow> 'w \<Rightarrow> 'w) option \<Rightarrow> ('r, 'w) consensus_node \<Rightarrow> ('r, 'w) consensus_node" where
  "SetAppOnJoin f n = n\<lparr>cn_appOnJoin := f\<rparr>"

definition SetAppOnLeave :: "(gossip_info \<Rightarrow> 'w \<Rightarrow> 'w) option \<Rightarrow> ('r, 'w) consensus_node \<Rightarrow> ('r, 'w) consensus_node" where
  "SetAppOnLeave f n = n\<lparr>cn_appOnLeave := f\<rparr>"

definition app_call :: "(gossip_info \<Rightarrow> 'w \<Rightarrow> 'w) option \<Rightarrow> gossip_info \<Rightarrow> ('r, 'w) cb_state \<Rightarrow> ('r, 'w) cb_state" where
  "app_call f node s = (case s of (r, g, w) \<Rightarrow> (r, g, case f of None \<Rightarrow> w | Some h \<Rightarrow> h node w))"

definition cs_OnJoin :: "('r, 'w) consensus_node \<Rightarrow> gossip_info \<Rightarrow> ('r, 'w) cb_state \<Rightarrow> ('r, 'w) cb_state" where
  "cs_OnJoin n node s =
     (if gi_ID node = ci_ID (cn_localInfo n) then s
      else app_call (cn_appOnJoin n) node (cb_OnPeerJoin (cn_callbacks n) (peer_of node) s))"

definition cs_OnLeave :: "('r, 'w) consensus_node \<Rightarrow> gossip_info \<Rightarrow> ('r, 'w) cb_state \<Rightarrow> ('r, 'w) cb_state" where
  "cs_OnLeave n node s =
     (if gi_ID node = ci_ID (cn_localInfo n) then s
      else app_call (cn_appOnLeave n) node (cb_OnPeerLeave (cn_callbacks n) (peer_of node) s))"

definition cs_OnUpdate :: "('r, 'w) consensus_node \<Rightarrow> gossip_info \<Rightarrow> ('r, 'w) cb_state \<Rightarrow> ('r, 'w) cb_state" where
  "cs_OnUpdate n node s =
     (if gi_ID node = ci_ID (cn_localInfo n) then s else cb_OnPeerJoin (cn_callbacks n) (peer_of node) s)"

section \<open>What the callbacks are told\<close>

datatype cb_call = BootstrapCall peer_info | JoinCall peer_info "peer_info list"
  | PeerJoinCall peer_info | PeerLeaveCall peer_info

text \<open>Callbacks that note each call before they pass it on.\<close>

definition recorded :: "cb_call \<Rightarrow> (('r, 'w) cb_state \<Rightarrow> goerr option \<times> ('r, 'w) cb_state)
    \<Rightarrow> ('r \<times> cb_call list, 'w) cb_state \<Rightarrow> goerr option \<times> ('r \<times> cb_call list, 'w) cb_state" where
  "recorded c f s =
     (case s of ((r, calls), g, w) \<Rightarrow> (case f (r, g, w) of (e, r1, g1, w1) \<Rightarrow> (e, (r1, calls @ [c]), g1, w1)))"

definition recording :: "('r, 'w) cb_state raft_callbacks \<Rightarrow> ('r \<times> cb_call list, 'w) cb_state raft_callbacks" where
  "recording C = \<lparr>cb_OnBootstrap = \<lambda>p. recorded (BootstrapCall p) (cb_OnBootstrap C p),
     cb_OnJoin = \<lambda>p ps. recorded (JoinCall p ps) (cb_OnJoin C p ps),
     cb_OnPeerJoin = \<lambda>p s. snd (recorded (PeerJoinCall p) (\<lambda>t. (None, cb_OnPeerJoin C p t)) s),
     cb_OnPeerLeave = \<lambda>p s. snd (recorded (PeerLeaveCall p) (\<lambda>t. (None, cb_OnPeerLeave C p t)) s)\<rparr>"

fun is_lifecycle :: "cb_call \<Rightarrow> bool" where
  "is_lifecycle (BootstrapCall _) = True"
| "is_lifecycle (JoinCall _ _) = True"
| "is_lifecycle _ = False"

definition lifecycle :: "'r \<times> cb_call list \<Rightarrow> cb_call list" where
  "lifecycle r = filter is_lifecycle (snd r)"

text \<open>The call that a running bootstrapper asks for.\<close>

definition lifecycle_call :: "'w ml_api \<Rightarrow> ('r, 'w) consensus_node \<Rightarrow> 'w \<Rightarrow> cb_call" where
  "lifecycle_call M n w =
     (if DidBootstrap (cn_bootstrapper n) then BootstrapCall (cn_localInfo n)
      else JoinCall (cn_localInfo n) (map peer_of (filter (\<lambda>m. gi_ID m \<noteq> ci_ID (cn_localInfo n))
             (fst (gossip_Members M (the (b_gossip (cn_bootstrapper n))) w)))))"

lemma with_callback_recorded:
  assumes "with_callback (recorded c f) n r w = (n1, r1, w1)"
  shows "snd r1 = snd r @ [c]"
  using assms by (auto simp: with_callback_def recorded_def split: prod.splits)

lemma onBootstrapComplete_calls:
  assumes "cn_callbacks n = recording C" and "onBootstrapComplete M n r w = (n1, r1, w1)"
  shows "snd r1 = snd r @ (if DidBootstrap (cn_bootstrapper n) \<or> b_gossip (cn_bootstrapper n) \<noteq> None
    then [lifecycle_call M n w] else [])"
  using assms
  by (auto simp: onBootstrapComplete_def recording_def lifecycle_call_def Let_def
      split: if_splits prod.splits option.splits dest!: with_callback_recorded)

text \<open>Other goroutines leave the callbacks alone and make no lifecycle call; only this one does.\<close>

definition bystander :: "('r \<times> cb_call list, 'w) cs_step \<Rightarrow> bool" where
  "bystander f \<longleftrightarrow> (\<forall>n r w. case f (n, r, w) of (n1, r1, w1) \<Rightarrow>
     cn_callbacks n1 = cn_callbacks n \<and> lifecycle r1 = lifecycle r)"

lemma bystanderD:
  assumes "bystander f" and "f (n, r, w) = (n1, r1, w1)"
  shows "cn_callbacks n1 = cn_callbacks n \<and> lifecycle r1 = lifecycle r"
  using assms(1) [unfolded bystander_def, THEN spec, THEN spec, THEN spec, of n r w] by (simp add: assms(2))

lemma is_lifecycle_call [simp]: "is_lifecycle (lifecycle_call M n w)"
  by (simp add: lifecycle_call_def)

text \<open>
  The turn of this run in which the bootstrapper was found running: the turns before it went by
  without a return, and then a step of the others and a tick led to the node \<open>n1\<close> and the world \<open>w1\<close>.
\<close>

definition found_running :: "'w bs_env \<Rightarrow> (('r, 'w) cs_step \<times> bool) list \<Rightarrow> ('r, 'w) consensus_node \<Rightarrow> 'r \<Rightarrow> 'w
    \<Rightarrow> ('r, 'w) consensus_node \<Rightarrow> 'w \<Rightarrow> bool" where
  "found_running E fs n r w n1 w1 \<longleftrightarrow>
     (\<exists>pre f tick post n0 r0 w0 r1 v. fs = pre @ (f, tick) # post \<and>
        waitForBootstrap E pre n r w = (False, n0, r0, w0) \<and> f (n0, r0, w0) = (n1, r1, v) \<and> w1 = snd (be_ctx E v) \<and>
        b_state (cn_bootstrapper n1) = StateRunning)"

lemma found_running_later:
  assumes "found_running E fs n1 r1 w2 n2 w3" and "waitForBootstrap E [(f, tick)] n r w = (False, n1, r1, w2)"
  shows "found_running E ((f, tick) # fs) n r w n2 w3"
proof -
  obtain pre g t post n0 r0 w0 r2 v where p: "fs = pre @ (g, t) # post"
      "waitForBootstrap E pre n1 r1 w2 = (False, n0, r0, w0)" "g (n0, r0, w0) = (n2, r2, v)" "w3 = snd (be_ctx E v)"
      "b_state (cn_bootstrapper n2) = StateRunning"
    using assms(1) unfolding found_running_def by blast
  have "waitForBootstrap E ((f, tick) # pre) n r w = (False, n0, r0, w0)"
    using assms(2) p(2) by (auto split: prod.splits if_splits)
  then show ?thesis unfolding found_running_def using p by (metis append_Cons)
qed

text \<open>
  C24. Raft is started once and in the right way: whatever the other goroutines do between the ticks,
  as long as they leave the callbacks alone and make no lifecycle callback themselves,
  \<open>waitForBootstrap\<close> makes at most one lifecycle callback. It makes it in the turn of this run in which it
  found the bootstrapper running, and returns: \<open>OnBootstrap\<close> for the local node if this node created
  the cluster, and otherwise \<open>OnJoin\<close> with all members but the node itself that gossip listed then.
\<close>

theorem lifecycle_callback_once:
  assumes "cn_callbacks n = recording C" and "\<forall>x\<in>set fs. bystander (fst x)"
    and "waitForBootstrap E fs n r w = (returned, n', r', w')"
  shows "lifecycle r' = lifecycle r \<or>
    returned \<and> (\<exists>n1 w1. found_running E fs n r w n1 w1 \<and>
      lifecycle r' = lifecycle r @ [lifecycle_call (be_ml E) n1 w1])"
  using assms
proof (induction fs arbitrary: n r w)
  case (Cons x fs)
  obtain f tick where x: "x = (f, tick)" by (cases x)
  obtain n1 r1 w1 where f: "f (n, r, w) = (n1, r1, w1)" by (metis prod.exhaust_sel)
  have p: "cn_callbacks n1 = recording C" "lifecycle r1 = lifecycle r"
    using Cons.prems(1,2) x bystanderD [where f = f, OF _ f] by simp_all
  obtain c w2 where c: "be_ctx E w1 = (c, w2)" by fastforce
  obtain n2 r2 w3 where o: "onBootstrapComplete (be_ml E) n1 r1 w2 = (n2, r2, w3)" by (metis prod.exhaust_sel)
  have calls: "lifecycle r2 = lifecycle r \<or> lifecycle r2 = lifecycle r @ [lifecycle_call (be_ml E) n1 w2]"
    using onBootstrapComplete_calls [OF p(1) o] p(2) by (auto simp: lifecycle_def)
  let ?stop = "(c \<noteq> None \<or> chan_closed (cn_stopCh n) n1) \<and> \<not> tick" and ?st = "b_state (cn_bootstrapper n1)"
  consider (quiet) "?stop \<or> ?st = StateFailed \<or> ?st = StateInit" | (running) "\<not> ?stop" "?st = StateRunning"
    | (again) "\<not> ?stop" "?st \<noteq> StateRunning" "?st \<noteq> StateFailed" "?st \<noteq> StateInit" by blast
  then show ?case
  proof cases
    case quiet
    then show ?thesis using Cons.prems(3) x f c p(2) by (auto split: if_splits)
  next
    case running
    have "found_running E (x # fs) n r w n1 w2"
      unfolding found_running_def using x f c running(2)
      by (intro exI [of _ "[]"] exI [of _ f] exI [of _ tick] exI [of _ fs] exI [of _ n] exI [of _ r]
          exI [of _ w] exI [of _ r1] exI [of _ w1]) simp
    moreover have "returned" "r' = r2" using Cons.prems(3) x f c o running by (auto split: if_splits)
    ultimately show ?thesis using calls by blast
  next
    case again
    then have loop: "waitForBootstrap E fs n1 r1 w2 = (returned, n', r', w')"
      "waitForBootstrap E [(f, tick)] n r w = (False, n1, r1, w2)"
      using Cons.prems(3) x f c by (auto split: if_splits)
    have "lifecycle r' = lifecycle r1 \<or> returned \<and> (\<exists>m v. found_running E fs n1 r1 w2 m v \<and>
        lifecycle r' = lifecycle r1 @ [lifecycle_call (be_ml E) m v])"
      using Cons.IH [OF p(1) _ loop(1)] Cons.prems(2) by simp
    then show ?thesis unfolding p(2) x using found_running_later [OF _ loop(2)] by metis
  qed
qed simp


section \<open>Races\<close>

text \<open>
  The first tick comes after 50 milliseconds. If the bootstrapper has not left its first state by
  then (the mDNS advertiser is still starting), the waiting goroutine returns for good: the node goes
  on to Running, but Raft is never told.
\<close>

lemma slow_start_is_never_reported:
  assumes "f (n, r, w) = (n1, r, w1)" and "b_state (cn_bootstrapper n1) = StateInit"
  shows "\<exists>w'. waitForBootstrap E ((f, tick) # fs) n r w = (True, n1, r, w')"
  using assms by (auto split: prod.splits)

text \<open>\<open>Stop\<close> clears \<open>running\<close> only at its end; a second \<open>Stop\<close> before that closes the channel again.\<close>

lemma concurrent_stop_panics:
  assumes "cn_running n" and "cn_stopCh n = Some i" and "i < length (cn_chans n)" and "cs_close n = Inr n1"
  shows "cs_Stop E finish n1 w = Inl CloseOfClosedChannel"
  using assms by (auto simp: cs_Stop_def cs_close_def chan_closed_def split: if_splits)

text \<open>Errors of the callbacks are dropped: the node's state is the same whether Raft started or not.\<close>

lemma callback_errors_dropped:
  assumes "\<And>s. snd (f s) = snd (g s)"
  shows "with_callback f n r w = with_callback g n r w"
proof -
  obtain e s where f: "f (r, b_gossip (cn_bootstrapper n), w) = (e, s)" by (metis surj_pair)
  obtain e' s' where g: "g (r, b_gossip (cn_bootstrapper n), w) = (e', s')" by (metis surj_pair)
  have "s = s'" using assms [of "(r, b_gossip (cn_bootstrapper n), w)"] f g by simp
  then show ?thesis using f g by (simp add: with_callback_def split: prod.splits)
qed

section \<open>Witnesses\<close>

definition sample_cs :: "(unit \<times> cb_call list, mlnode) consensus_node" where
  "sample_cs = \<lparr>cn_callbacks = recording NoopCallbacks, cn_bootstrapper = (sample_up None)\<lparr>b_state := StateRunning\<rparr>,
     cn_running = True, cn_localInfo = \<lparr>ci_ID = ''n1'', ci_RaftAddr = ''10.0.0.1:8300''\<rparr>, cn_chans = [False],
     cn_stopCh = Some 0, cn_appOnJoin = None, cn_appOnLeave = None\<rparr>"

lemma sample_cs_join:
  "snd (snd (waitForBootstrap sample_env [(\<lambda>x. x, True)] sample_cs ((), []) no_node)) =
     (((), [JoinCall \<lparr>ci_ID = ''n1'', ci_RaftAddr = ''10.0.0.1:8300''\<rparr> [\<lparr>ci_ID = [], ci_RaftAddr = []\<rparr>]]), no_node)"
  by (simp add: sample_cs_def chan_closed_def onBootstrapComplete_def DidBootstrap_def sample_up_def sample_bs_def
      gossip_Members_def sample_gossip_def sample_ml_def with_callback_def recording_def recorded_def NoopCallbacks_def
      updateLocalInfoFromGossip_def no_node_def nodeToInfo_def meta_vars0_def peer_of_def Let_def)

theorem lifecycle_callback_once_witness:
  "\<exists>n' r' w' n1 w1. waitForBootstrap sample_env [(\<lambda>x. x, True)] sample_cs ((), []) no_node = (True, n', r', w') \<and>
    found_running sample_env [(\<lambda>x. x, True)] sample_cs ((), []) no_node n1 w1 \<and>
    lifecycle r' = [lifecycle_call sample_ml n1 w1]"
proof -
  obtain d n' r' w' where r: "waitForBootstrap sample_env [(\<lambda>x. x, True)] sample_cs ((), []) no_node = (d, n', r', w')"
    by (metis prod.exhaust_sel)
  then have "lifecycle r' \<noteq> []" using sample_cs_join by (simp add: lifecycle_def)
  moreover have "cn_callbacks sample_cs = recording NoopCallbacks" by (simp add: sample_cs_def)
  moreover have "\<forall>x\<in>set [(\<lambda>x. x, True)]. bystander (fst x)" by (simp add: bystander_def)
  moreover have "lifecycle ((), []) = []" by (simp add: lifecycle_def)
  ultimately show ?thesis
    using lifecycle_callback_once [OF _ _ r, of NoopCallbacks] r
    by (simp del: waitForBootstrap.simps) blast
qed


end
