(* ===== verification/GrpcForward.thy ===== *)
theory GrpcForward
  imports GoStrings
begin

text \<open>
  Package \<open>internal/grpc\<close>: the forwarding of commands to the leader (\<open>forward.go\<close>) and the server that
  answers (\<open>server.go\<close>). The gRPC library is a parameter: dialling, the remote call, and on the server
  side listening and serving. Messages are the ones of \<open>consensus.proto\<close>.
\<close>

section \<open>Messages\<close>

record ForwardRequest =
  fr_Command :: bytes
  fr_TimeoutMs :: int

record ForwardResponse =
  fp_Success :: bool
  fp_Result :: bytes
  fp_Error :: string
  fp_LeaderAddr :: string

definition empty_response :: ForwardResponse where
  "empty_response = \<lparr>fp_Success = False, fp_Result = [], fp_Error = [], fp_LeaderAddr = []\<rparr>"

section \<open>The forwarder\<close>

definition grpc_ErrNoLeader :: goerr where
  "grpc_ErrNoLeader = Sentinel ''grpc'' ''no leader available''"
definition grpc_ErrForwardFailed :: goerr where
  "grpc_ErrForwardFailed = Sentinel ''grpc'' ''forward failed''"
definition grpc_ErrMaxHopsExceeded :: goerr where
  "grpc_ErrMaxHopsExceeded = Sentinel ''grpc'' ''max redirect hops exceeded''"

definition maxRedirectHops :: nat where "maxRedirectHops = 2"

text \<open>\<open>rp_call addr timeout request\<close>: the remote call under a context with that timeout.\<close>

record 'w rpc =
  rp_dial :: "string \<Rightarrow> 'w \<Rightarrow> goerr option \<times> 'w"
  rp_call :: "string \<Rightarrow> duration \<Rightarrow> ForwardRequest \<Rightarrow> 'w \<Rightarrow> (goerr + ForwardResponse) \<times> 'w"
  rp_close :: "string \<Rightarrow> 'w \<Rightarrow> 'w"

text \<open>\<open>timeout.Milliseconds()\<close>: integer division, towards zero.\<close>

definition milliseconds :: "duration \<Rightarrow> int" where
  "milliseconds d = go_div d millisecond"

function (sequential) forwardWithHops :: "'w rpc \<Rightarrow> string \<Rightarrow> bytes \<Rightarrow> duration \<Rightarrow> nat \<Rightarrow> 'w
    \<Rightarrow> (goerr + bytes) \<times> 'w" where
  "forwardWithHops R leaderAddr cmd timeout hops w =
     (if hops \<ge> maxRedirectHops then (Inl grpc_ErrMaxHopsExceeded, w)
      else if leaderAddr = '''' then (Inl grpc_ErrNoLeader, w)
      else case rp_dial R leaderAddr w of
             (Some err, w1) \<Rightarrow> (Inl (Wrap (''dial leader '' @ leaderAddr) err), w1)
           | (None, w1) \<Rightarrow>
               (case rp_call R leaderAddr timeout \<lparr>fr_Command = cmd, fr_TimeoutMs = milliseconds timeout\<rparr> w1 of
                  (Inl err, w2) \<Rightarrow> (Inl (Wrap ''forward command'' err), rp_close R leaderAddr w2)
                | (Inr resp, w2) \<Rightarrow>
                    if fp_LeaderAddr resp \<noteq> '''' \<and> \<not> fp_Success resp then
                      (case forwardWithHops R (fp_LeaderAddr resp) cmd timeout (Suc hops) w2 of
                         (r, w3) \<Rightarrow> (r, rp_close R leaderAddr w3))
                    else if \<not> fp_Success resp then
                      (Inl (if fp_Error resp \<noteq> '''' then Msg (fp_Error resp) else grpc_ErrForwardFailed),
                       rp_close R leaderAddr w2)
                    else (Inr (fp_Result resp), rp_close R leaderAddr w2)))"
  by pat_completeness auto
termination
  by (relation "measure (\<lambda>(R, a, c, t, hops, w). maxRedirectHops - hops)") (auto simp: maxRedirectHops_def)

declare forwardWithHops.simps [simp del]

definition Forward :: "'w rpc \<Rightarrow> string \<Rightarrow> bytes \<Rightarrow> duration \<Rightarrow> 'w \<Rightarrow> (goerr + bytes) \<times> 'w" where
  "Forward R leaderAddr cmd timeout w = forwardWithHops R leaderAddr cmd timeout 0 w"

section \<open>The server\<close>

record 'w grpc_server =
  gs_server :: "nat option"
  gs_listener :: "nat option"
  gs_addr :: string
  gs_started :: bool
  gs_applyFn :: "(bytes \<Rightarrow> duration \<Rightarrow> 'w \<Rightarrow> (goerr + bytes) \<times> 'w) option"
  gs_isLeaderFn :: "('w \<Rightarrow> bool \<times> 'w) option"
  gs_leaderFn :: "('w \<Rightarrow> string \<times> 'w) option"
  gs_registrars :: "(nat \<Rightarrow> 'w \<Rightarrow> 'w) list"

record 'w grpc_api =
  ga_Listen :: "string \<Rightarrow> 'w \<Rightarrow> (goerr + (nat \<times> string)) \<times> 'w"
  ga_NewServer :: "'w \<Rightarrow> nat \<times> 'w"
  ga_RegisterConsensus :: "nat \<Rightarrow> 'w \<Rightarrow> 'w"
  ga_Serve :: "nat \<Rightarrow> nat \<Rightarrow> 'w \<Rightarrow> 'w"
  ga_GracefulStop :: "nat \<Rightarrow> 'w \<Rightarrow> 'w"

definition NewServer :: "'w grpc_server" where
  "NewServer = \<lparr>gs_server = None, gs_listener = None, gs_addr = [], gs_started = False, gs_applyFn = None,
     gs_isLeaderFn = None, gs_leaderFn = None, gs_registrars = []\<rparr>"

definition server_Start :: "'w grpc_api \<Rightarrow> string \<Rightarrow> 'w grpc_server \<Rightarrow> 'w \<Rightarrow> goerr option \<times> 'w grpc_server \<times> 'w" where
  "server_Start G bindAddr s w =
     (if gs_started s then (Some (Msg ''server already started''), s, w)
      else case ga_Listen G (if bindAddr = '''' then '':0'' else bindAddr) w of
             (Inl err, w1) \<Rightarrow> (Some (Wrap ''listen'' err), s, w1)
           | (Inr (listener, addr), w1) \<Rightarrow>
               (case ga_NewServer G w1 of
                  (srv, w2) \<Rightarrow>
                    (let w3 = fold (\<lambda>registrar. registrar srv) (gs_registrars s) (ga_RegisterConsensus G srv w2)
                     in (None, s\<lparr>gs_listener := Some listener, gs_addr := addr, gs_server := Some srv,
                               gs_started := True\<rparr>, ga_Serve G srv listener w3))))"

definition server_Stop :: "'w grpc_api \<Rightarrow> 'w grpc_server \<Rightarrow> 'w \<Rightarrow> 'w grpc_server \<times> 'w" where
  "server_Stop G s w =
     (if \<not> gs_started s then (s, w)
      else (s\<lparr>gs_started := False\<rparr>, ga_GracefulStop G (the (gs_server s)) w))"

definition server_RegisterService :: "(nat \<Rightarrow> 'w \<Rightarrow> 'w) \<Rightarrow> 'w grpc_server \<Rightarrow> 'w grpc_server" where
  "server_RegisterService fn s = (if gs_started s then s else s\<lparr>gs_registrars := gs_registrars s @ [fn]\<rparr>)"

definition SetApplyFunc :: "(bytes \<Rightarrow> duration \<Rightarrow> 'w \<Rightarrow> (goerr + bytes) \<times> 'w) option \<Rightarrow> 'w grpc_server \<Rightarrow> 'w grpc_server" where
  "SetApplyFunc f s = s\<lparr>gs_applyFn := f\<rparr>"

definition SetLeaderCheck :: "('w \<Rightarrow> bool \<times> 'w) option \<Rightarrow> 'w grpc_server \<Rightarrow> 'w grpc_server" where
  "SetLeaderCheck f s = s\<lparr>gs_isLeaderFn := f\<rparr>"

definition SetLeaderAddrFunc :: "('w \<Rightarrow> string \<times> 'w) option \<Rightarrow> 'w grpc_server \<Rightarrow> 'w grpc_server" where
  "SetLeaderAddrFunc f s = s\<lparr>gs_leaderFn := f\<rparr>"

text \<open>The timeout of a request: milliseconds to a duration, which wraps, and a default for zero.\<close>

definition request_timeout :: "int \<Rightarrow> duration" where
  "request_timeout ms = (let timeout = int64 (ms * millisecond) in if timeout = 0 then 5 * second else timeout)"

definition leader_check :: "'w grpc_server \<Rightarrow> 'w \<Rightarrow> bool \<times> 'w" where
  "leader_check s w = (case gs_isLeaderFn s of None \<Rightarrow> (False, w) | Some f \<Rightarrow> f w)"

definition ForwardCommand :: "'w grpc_server \<Rightarrow> ForwardRequest \<Rightarrow> 'w \<Rightarrow> ForwardResponse \<times> 'w" where
  "ForwardCommand s req w =
     (case leader_check s w of
        (False, w1) \<Rightarrow>
          (case gs_leaderFn s of
             None \<Rightarrow> (empty_response, w1)
           | Some f \<Rightarrow> (case f w1 of (addr, w2) \<Rightarrow> (empty_response\<lparr>fp_LeaderAddr := addr\<rparr>, w2)))
      | (True, w1) \<Rightarrow>
          (case gs_applyFn s of
             None \<Rightarrow> (empty_response\<lparr>fp_Error := ''apply function not set''\<rparr>, w1)
           | Some f \<Rightarrow>
               (case f (fr_Command req) (request_timeout (fr_TimeoutMs req)) w1 of
                  (Inl err, w2) \<Rightarrow> (empty_response\<lparr>fp_Error := error_text err\<rparr>, w2)
                | (Inr result, w2) \<Rightarrow> (empty_response\<lparr>fp_Success := True, fp_Result := result\<rparr>, w2))))"

section \<open>How many calls\<close>

text \<open>A library that counts the remote calls.\<close>

definition counted :: "'w rpc \<Rightarrow> ('w \<times> nat) rpc" where
  "counted R = \<lparr>rp_dial = \<lambda>a (w, k). (case rp_dial R a w of (e, w1) \<Rightarrow> (e, w1, k)),
     rp_call = \<lambda>a t req (w, k). (case rp_call R a t req w of (r, w1) \<Rightarrow> (r, w1, Suc k)),
     rp_close = \<lambda>a (w, k). (rp_close R a w, k)\<rparr>"

lemma counted_simps [simp]:
  "rp_dial (counted R) a (w, k) = (case rp_dial R a w of (e, w1) \<Rightarrow> (e, w1, k))"
  "rp_call (counted R) a t req (w, k) = (case rp_call R a t req w of (r, w1) \<Rightarrow> (r, w1, Suc k))"
  "rp_close (counted R) a (w, k) = (rp_close R a w, k)"
  by (simp_all add: counted_def)

lemma forwardWithHops_calls:
  assumes "forwardWithHops (counted R) a cmd t hops (w, k) = (r, w', k')"
  shows "k' \<le> k + (maxRedirectHops - hops)"
  using assms
proof (induction "maxRedirectHops - hops" arbitrary: a hops w k r w' k')
  case 0
  then show ?case by (auto simp: forwardWithHops.simps)
next
  case (Suc d)
  have rec: "k2 \<le> Suc k + (maxRedirectHops - Suc hops)"
    if "forwardWithHops (counted R) b cmd t (Suc hops) (w1, Suc k) = (r1, w2, k2)" for b w1 r1 w2 k2
    using that Suc.hyps(2) by (intro Suc.hyps(1) [of "Suc hops" b w1 "Suc k" r1 w2 k2]) simp_all
  from Suc.prems Suc.hyps(2) show ?case
    by (subst (asm) forwardWithHops.simps)
      (fastforce split: if_splits prod.splits option.splits sum.splits dest: rec)
qed

text \<open>
  C29. Forwarding ends after at most two remote calls, whatever the servers answer, even when they
  redirect in a circle.
\<close>

theorem forward_at_most_two_calls:
  "snd (snd (Forward (counted R) leaderAddr cmd timeout (w, 0))) \<le> 2"
  using forwardWithHops_calls [of R leaderAddr cmd timeout 0 w 0]
  by (cases "Forward (counted R) leaderAddr cmd timeout (w, 0)") (auto simp: Forward_def maxRedirectHops_def)

section \<open>Client and server together\<close>

text \<open>The network in which a call to an address is answered by the server there.\<close>

definition network :: "(string \<Rightarrow> 'w grpc_server option) \<Rightarrow> 'w rpc" where
  "network servers = \<lparr>rp_dial = \<lambda>a w. (None, w),
     rp_call = \<lambda>a t req w. (case servers a of
       None \<Rightarrow> (Inl (Foreign ''unavailable''), w)
     | Some s \<Rightarrow> (case ForwardCommand s req w of (resp, w1) \<Rightarrow> (Inr resp, w1))),
     rp_close = \<lambda>a w. w\<rparr>"

lemma network_simps [simp]:
  "rp_dial (network servers) a w = (None, w)" "rp_close (network servers) a w = w"
  "rp_call (network servers) a t req w = (case servers a of
       None \<Rightarrow> (Inl (Foreign ''unavailable''), w)
     | Some s \<Rightarrow> (case ForwardCommand s req w of (resp, w1) \<Rightarrow> (Inr resp, w1)))"
  by (simp_all add: network_def)

definition is_leader_server :: "'w grpc_server \<Rightarrow> bool \<Rightarrow> bool" where
  "is_leader_server s v \<longleftrightarrow> (\<exists>f. gs_isLeaderFn s = Some f \<and> (\<forall>w. f w = (v, w)))"

lemma forward_to_leader:
  assumes "servers b = Some s" and "is_leader_server s True" and "gs_applyFn s = Some applyf" and "b \<noteq> []"
    and "hops < maxRedirectHops"
  shows "forwardWithHops (network servers) b cmd t hops w =
    (case applyf cmd (request_timeout (milliseconds t)) w of
       (Inl e, w1) \<Rightarrow> (Inl (if error_text e \<noteq> [] then Msg (error_text e) else grpc_ErrForwardFailed), w1)
     | (Inr res, w1) \<Rightarrow> (Inr res, w1))"
  using assms
  by (auto simp: forwardWithHops.simps [of _ b] is_leader_server_def ForwardCommand_def leader_check_def
      empty_response_def split: prod.splits sum.splits)

text \<open>
  C28. Over a network that loses nothing, a forwarded command has the effect and the result that it has at
  the leader: sent to the leader itself, or to a follower that knows the leader's address, it runs the leader's apply function once
  on the command and returns its result, or an error with its text.
\<close>

theorem forward_reaches_leader:
  assumes "servers b = Some s" and "is_leader_server s True" and "gs_applyFn s = Some applyf" and "b \<noteq> []"
    and "a = b \<or> a \<noteq> [] \<and> (\<exists>q. servers a = Some q \<and> is_leader_server q False \<and> gs_leaderFn q = Some (\<lambda>w. (b, w)))"
  shows "Forward (network servers) a cmd t w =
    (case applyf cmd (request_timeout (milliseconds t)) w of
       (Inl e, w1) \<Rightarrow> (Inl (if error_text e \<noteq> [] then Msg (error_text e) else grpc_ErrForwardFailed), w1)
     | (Inr res, w1) \<Rightarrow> (Inr res, w1))"
proof (cases "a = b")
  case True
  then show ?thesis unfolding Forward_def using forward_to_leader [where servers = servers, OF assms(1-4), of 0] by (simp add: maxRedirectHops_def)
next
  case False
  then obtain q where q: "a \<noteq> []" "servers a = Some q" "is_leader_server q False" "gs_leaderFn q = Some (\<lambda>w. (b, w))"
    using assms(5) by blast
  have "Forward (network servers) a cmd t w = forwardWithHops (network servers) b cmd t (Suc 0) w"
    using q assms(4) unfolding Forward_def
    by (auto simp: forwardWithHops.simps [of _ a] maxRedirectHops_def is_leader_server_def ForwardCommand_def
        leader_check_def empty_response_def split: prod.splits)
  also note forward_to_leader [where servers = servers, OF assms(1-4), of "Suc 0"]
  finally show ?thesis by (simp add: maxRedirectHops_def)
qed

section \<open>Timeouts on the wire\<close>


text \<open>A timeout under a millisecond is sent as zero, which the server reads as five seconds.\<close>

lemma tiny_timeout_becomes_five_seconds:
  assumes "0 \<le> t" and "t < millisecond"
  shows "request_timeout (milliseconds t) = 5 * second"
proof -
  have "\<bar>t\<bar> div millisecond = 0" using assms by (simp add: millisecond_def)
  then show ?thesis by (simp add: request_timeout_def milliseconds_def go_div_def int64_def Let_def millisecond_def)
qed

section \<open>Witnesses\<close>

definition sample_leader :: "bytes list grpc_server" where
  "sample_leader = NewServer\<lparr>gs_isLeaderFn := Some (\<lambda>w. (True, w)), gs_applyFn := Some (\<lambda>cmd t w. (Inr ''ok'', cmd # w))\<rparr>"

definition sample_follower :: "bytes list grpc_server" where
  "sample_follower = NewServer\<lparr>gs_isLeaderFn := Some (\<lambda>w. (False, w)), gs_leaderFn := Some (\<lambda>w. (''a:1'', w))\<rparr>"

theorem forward_reaches_leader_witness:
  "Forward (network [''a:1'' \<mapsto> sample_leader, ''b:1'' \<mapsto> sample_follower]) ''b:1'' ''set x'' second [] =
    (Inr ''ok'', [''set x''])"
  by (subst forward_reaches_leader [where b = "''a:1''" and s = sample_leader and applyf = "\<lambda>cmd t w. (Inr ''ok'', cmd # w)"])
    (simp_all add: is_leader_server_def sample_leader_def sample_follower_def)


end
