(* ===== verification/Logging.thy ===== *)
theory Logging
  imports GoStrings
begin

text \<open>
  Package \<open>internal/logging\<close>: the adapter that turns the lines that the HashiCorp libraries write into
  structured log records. The logger is a function of level, message and world.
\<close>

datatype slog_level = LevelDebug | LevelInfo | LevelWarn | LevelError

text \<open>
  \<open>strings.ToUpper\<close>, as far as a comparison with words of ASCII letters can tell: lower-case ASCII
  letters, and the one other letter whose upper case is an ASCII letter of those words, the dotless i
  (U+0131, the bytes C4 B1). Other bytes stay what they are, outside ASCII.
\<close>

fun to_upper :: "string \<Rightarrow> string" where
  "to_upper [] = []"
| "to_upper (c # cs) =
     (let n = of_char c in
      if 97 \<le> n \<and> n \<le> (122 :: nat) then byte (n - 32) # to_upper cs
      else if c = byte 196 \<and> cs \<noteq> [] \<and> hd cs = byte 177 then CHR ''I'' # to_upper (tl cs)
      else c # to_upper cs)"

definition level_of :: "string \<Rightarrow> slog_level" where
  "level_of s =
     (let u = to_upper s in
      if u = ''ERROR'' \<or> u = ''ERR'' then LevelError
      else if u = ''WARN'' \<or> u = ''WARNING'' then LevelWarn
      else if u = ''INFO'' then LevelInfo
      else LevelDebug)"

definition parseLine :: "string \<Rightarrow> slog_level \<times> string" where
  "parseLine line =
     (case index_of (CHR ''['') line of
        None \<Rightarrow> (LevelDebug, line)
      | Some levelStart \<Rightarrow>
          (case index_of (CHR '']'') (drop levelStart line) of
             None \<Rightarrow> (LevelDebug, line)
           | Some e \<Rightarrow>
               (let levelEnd = e + levelStart
                in (level_of (take (levelEnd - (levelStart + 1)) (drop (levelStart + 1) line)),
                    trimSpace (drop (levelEnd + 1) line)))))"

definition log_Write :: "(slog_level \<Rightarrow> string \<Rightarrow> 'w \<Rightarrow> 'w) \<Rightarrow> bytes \<Rightarrow> 'w \<Rightarrow> (int \<times> goerr option) \<times> 'w" where
  "log_Write logger p w =
     (let line = trimSpace p
      in if line = [] then ((int (length p), None), w)
         else case parseLine line of
                (level, msg) \<Rightarrow> ((int (length p), None), logger level msg w))"

lemma parseLine_tagged:
  assumes "CHR ''['' \<notin> set pre" and "CHR '']'' \<notin> set lvl"
  shows "parseLine (pre @ ''['' @ lvl @ '']'' @ rest) = (level_of lvl, trimSpace rest)"
proof -
  have "index_of (CHR ''['') (pre @ CHR ''['' # lvl @ CHR '']'' # rest) = Some (length pre)"
    using assms(1) by (rule index_of_append)
  moreover have "index_of (CHR '']'') (CHR ''['' # lvl @ CHR '']'' # rest) = Some (Suc (length lvl))"
    using index_of_append [of "CHR '']''" "CHR ''['' # lvl" rest] assms(2) by simp
  ultimately show ?thesis by (simp add: parseLine_def Let_def)
qed

text \<open>
  C40. A line that a library tags with a level is logged once, at that level, with the text after the
  tag, whatever without an opening bracket stands before the tag, and the writer is told that every byte was taken.
\<close>

theorem tagged_line_logged:
  assumes "trimSpace p = pre @ ''['' @ lvl @ '']'' @ rest" and "CHR ''['' \<notin> set pre" and "CHR '']'' \<notin> set lvl"
  shows "log_Write logger p w = ((int (length p), None), logger (level_of lvl) (trimSpace rest) w)"
  using parseLine_tagged [OF assms(2,3), of rest] assms(1) by (simp add: log_Write_def Let_def)

lemma sample_trim: "trimSpace ''2024 [WARN] raft: x'' = ''2024 [WARN] raft: x''" "trimSpace '' raft: x'' = ''raft: x''"
  by code_simp+

lemma level_words:
  "level_of ''ERROR'' = LevelError" "level_of ''err'' = LevelError" "level_of ''WARN'' = LevelWarn"
  "level_of ''Warning'' = LevelWarn" "level_of ''info'' = LevelInfo" "level_of ''TRACE'' = LevelDebug"
  by code_simp+

theorem tagged_line_logged_witness:
  "log_Write (\<lambda>l m w. (l, m) # w) ''2024 [WARN] raft: x'' [] = ((19, None), [(LevelWarn, ''raft: x'')])"
  using tagged_line_logged [of "''2024 [WARN] raft: x''" "''2024 ''" "''WARN''" "'' raft: x''" "\<lambda>l m w. (l, m) # w" "[]"]
  by (simp add: sample_trim level_words)

end
