(* ===== verification/NodeFacade.thy ===== *)
theory NodeFacade
  imports RaftNode ConsensusNode GrpcForward
begin

text \<open>
  Package \<open>internal/node\<close> (and the aliases of \<open>autoconsensus.go\<close>): the node that users create. It wires
  the Raft node, the consensus node, the gRPC server and the forwarder together.

  The Raft node reaches the gossip layer through a pointer, so that its world is the pair of the gossip
  layer and the world. A panic in a callback ends the process: the Raft side is then \<open>Inl\<close>.
\<close>

section \<open>Configuration\<close>

record ('f, 'w) node_config =
  nc_NodeID :: string
  nc_GossipPort :: int
  nc_SecretKey :: bytes
  nc_StorageFactory :: "'w storage_factory option"
  nc_FSM :: "'f option"
  nc_Discoverer :: "'w disc option"
  nc_AdvertiseAddr :: string

definition node_ErrMissingNodeID :: goerr where
  "node_ErrMissingNodeID = Sentinel ''node'' ''node ID is required''"
definition node_ErrMissingFactory :: goerr where
  "node_ErrMissingFactory = Sentinel ''node'' ''storage factory is required''"
definition node_ErrMissingFSM :: goerr where
  "node_ErrMissingFSM = Sentinel ''node'' ''FSM is required''"

definition node_validate :: "('f, 'w) node_config \<Rightarrow> goerr option" where
  "node_validate c =
     (if nc_NodeID c = '''' then Some node_ErrMissingNodeID
      else if nc_GossipPort c = 0 then Some (Msg ''gossip port is required'')
      else if nc_StorageFactory c = None then Some node_ErrMissingFactory
      else if nc_FSM c = None then Some node_ErrMissingFSM
      else None)"

definition gossipAddr :: "('f, 'w) node_config \<Rightarrow> string" where
  "gossipAddr c = ''0.0.0.0:'' @ sprintf_d (nc_GossipPort c)"

definition raftAddr :: "('f, 'w) node_config \<Rightarrow> string" where
  "raftAddr c = ''0.0.0.0:0''"

definition gossipAdvertiseAddr :: "('f, 'w) node_config \<Rightarrow> string" where
  "gossipAdvertiseAddr c =
     (if nc_AdvertiseAddr c \<noteq> '''' then nc_AdvertiseAddr c @ '':'' @ sprintf_d (nc_GossipPort c) else gossipAddr c)"

definition raftAdvertiseAddr :: "('f, 'w) node_config \<Rightarrow> string" where
  "raftAdvertiseAddr c = (if nc_AdvertiseAddr c \<noteq> '''' then nc_AdvertiseAddr c @ '':0'' else ''0.0.0.0:0'')"

definition grpcAddr :: "('f, 'w) node_config \<Rightarrow> string" where
  "grpcAddr c = ''0.0.0.0:0''"

definition grpcAdvertiseAddr :: "('f, 'w) node_config \<Rightarrow> string \<Rightarrow> string" where
  "grpcAdvertiseAddr c actualAddr =
     (if nc_AdvertiseAddr c \<noteq> '''' \<and> actualAddr \<noteq> ''''
      then nc_AdvertiseAddr c @ '':'' @ port_of actualAddr else actualAddr)"

section \<open>Adapters\<close>

type_synonym 'w gw = "'w gossip option \<times> 'w"
type_synonym 'w rstate = "panic + 'w gw raft_node"
type_synonym 'w fstate = "('w rstate, 'w) cb_state"

definition storageFactoryAdapter :: "'w storage_factory \<Rightarrow> 'w gw storage_factory" where
  "storageFactoryAdapter f =
     \<lparr>sf_Create = \<lambda>(g, w). (case sf_Create f w of (r, w1) \<Rightarrow> (r, g, w1)),
      sf_Reset = \<lambda>(g, w). (case sf_Reset f w of (r, w1) \<Rightarrow> (r, g, w1))\<rparr>"

text \<open>The adapter has the method \<open>Discover\<close> only, whatever the user's discoverer has.\<close>

fun disc_Discover :: "'w disc \<Rightarrow> 'w discover_fn" where
  "disc_Discover (PlainDisc f) = f"
| "disc_Discover (BootstrapDisc f _) = f"

definition discovererAdapter :: "'w disc \<Rightarrow> 'w disc" where
  "discovererAdapter d = PlainDisc (disc_Discover d)"

text \<open>The public constructors of discoverers; the resolver and the mDNS network are parameters.\<close>

definition NewMDNSDiscovery :: "'w mdns_net \<Rightarrow> MDNSConfig \<Rightarrow> 'w disc" where
  "NewMDNSDiscovery N cfg = BootstrapDisc (mdns_Discover N (NewMDNS cfg)) (DiscoverPeers N (NewMDNS cfg))"

definition NewDNSDiscovery :: "'w resolver \<Rightarrow> DNSConfig \<Rightarrow> 'w disc" where
  "NewDNSDiscovery r cfg = PlainDisc (dns_Discover (NewDNSWithResolver cfg r))"

definition NewStaticDiscovery :: "string list \<Rightarrow> 'w disc" where
  "NewStaticDiscovery peers = PlainDisc (static_Discover peers)"

definition NewCascade :: "'w disc list \<Rightarrow> 'w disc" where
  "NewCascade ds = PlainDisc (cascade_Discover (map disc_Discover ds))"

text \<open>
  So the node never asks an mDNS discoverer who is bootstrapped, although it could: the flags that
  an advertiser publishes are lost on the way through the adapter, in a cascade too.
\<close>

lemma adapter_hides_flags:
  "discovererAdapter (NewMDNSDiscovery N cfg) = PlainDisc (mdns_Discover N (NewMDNS cfg))"
  "discovererAdapter (NewCascade [NewMDNSDiscovery N cfg]) = PlainDisc (cascade_Discover [mdns_Discover N (NewMDNS cfg)])"
  by (simp_all add: discovererAdapter_def NewMDNSDiscovery_def NewCascade_def)

text \<open>The gossip layer as the Raft node sees it, through \<open>consensusNode.Gossip()\<close>.\<close>

definition gossip_object :: "'w ml_api \<Rightarrow> 'w gw gossip_obj" where
  "gossip_object M =
     \<lparr>go_Members = \<lambda>(g, w). (case g of None \<Rightarrow> ([], g, w)
        | Some h \<Rightarrow> (case gossip_Members M h w of (ms, w1) \<Rightarrow> (ms, g, w1))),
      go_SetRaftAddr = \<lambda>a (g, w). (case g of None \<Rightarrow> (g, w)
        | Some h \<Rightarrow> (case gossip_SetRaftAddr M a h w of (h1, w1) \<Rightarrow> (Some h1, w1)))\<rparr>"

definition gossipFn :: "'w ml_api \<Rightarrow> 'w gw \<Rightarrow> 'w gw gossip_obj option" where
  "gossipFn M = (\<lambda>(g, w). if g = None then None else Some (gossip_object M))"

text \<open>\<open>raftNode.Callbacks()\<close>: the Raft node as the callbacks of the consensus node.\<close>

definition raft_callbacks_of :: "'w gw raft_lib \<Rightarrow> 'w gw others \<Rightarrow> 'w fstate raft_callbacks" where
  "raft_callbacks_of L Ot =
     \<lparr>cb_OnBootstrap = \<lambda>self (r, gw). (case r of
        Inl p \<Rightarrow> (None, Inl p, gw)
      | Inr n \<Rightarrow> (case OnBootstrap L self n gw of (err, n1, gw1) \<Rightarrow> (err, Inr n1, gw1))),
      cb_OnJoin = \<lambda>self peers (r, gw). (case r of
        Inl p \<Rightarrow> (None, Inl p, gw)
      | Inr n \<Rightarrow> (case OnJoin L Ot self peers n gw of
                    Inl p \<Rightarrow> (None, Inl p, gw)
                  | Inr (err, n1, gw1) \<Rightarrow> (err, Inr n1, gw1))),
      cb_OnPeerJoin = \<lambda>peer (r, gw). (case r of
        Inl p \<Rightarrow> (Inl p, gw)
      | Inr n \<Rightarrow> (case handlePeerJoin L n peer gw of Inl p \<Rightarrow> (Inl p, gw) | Inr gw1 \<Rightarrow> (Inr n, gw1))),
      cb_OnPeerLeave = \<lambda>peer (r, gw). (case r of
        Inl p \<Rightarrow> (Inl p, gw)
      | Inr n \<Rightarrow> (Inr n, handlePeerLeave L n peer gw))\<rparr>"

section \<open>The node\<close>

text \<open>What a future of the Raft library answers: the FSM's response is nil, bytes or something else.\<close>

datatype 'a response = NilResponse | BytesResponse bytes | OtherResponse 'a

record ('a, 'v) future_api =
  fu_Error :: "nat \<Rightarrow> 'v \<Rightarrow> goerr option \<times> 'v"
  fu_Response :: "nat \<Rightarrow> 'v \<Rightarrow> 'a response \<times> 'v"
  fu_Marshal :: "'a \<Rightarrow> goerr + bytes"

text \<open>The function that the gRPC server applies commands with.\<close>

definition apply_command :: "'v raft_lib \<Rightarrow> ('a, 'v) future_api \<Rightarrow> 'v raft_node \<Rightarrow> bytes \<Rightarrow> duration \<Rightarrow> 'v
    \<Rightarrow> (goerr + bytes) \<times> 'v" where
  "apply_command L F n cmd timeout v =
     (case raft_Apply L cmd timeout n v of
        (Inl err, v1) \<Rightarrow> (Inl err, v1)
      | (Inr future, v1) \<Rightarrow>
          (case fu_Error F future v1 of
             (Some err, v2) \<Rightarrow> (Inl err, v2)
           | (None, v2) \<Rightarrow>
               (case fu_Response F future v2 of
                  (NilResponse, v3) \<Rightarrow> (Inr [], v3)
                | (BytesResponse b, v3) \<Rightarrow> (Inr b, v3)
                | (OtherResponse a, v3) \<Rightarrow> (fu_Marshal F a, v3))))"

record ('f, 'w) facade =
  nf_config :: "('f, 'w) node_config"
  nf_raft :: "'w rstate"
  nf_consensus :: "('w rstate, 'w) consensus_node"
  nf_grpc :: "'w fstate grpc_server"

text \<open>The address of the leader's gRPC server, from gossip.\<close>

definition leader_grpc_addr :: "'w gw raft_lib \<Rightarrow> 'w ml_api \<Rightarrow> 'w gw raft_node \<Rightarrow> 'w gw \<Rightarrow> panic + (string \<times> 'w gw)" where
  "leader_grpc_addr L M n gw =
     (case raft_Leader L n gw of
        ((leaderID, _), g, w) \<Rightarrow>
          if leaderID = '''' then Inr ('''', g, w)
          else case g of
                 None \<Rightarrow> Inl NilDereference
               | Some h \<Rightarrow>
                   (case gossip_Members M h w of
                      (ms, w1) \<Rightarrow>
                        Inr (case List.find (\<lambda>m. gi_ID m = leaderID) ms of None \<Rightarrow> '''' | Some m \<Rightarrow> gi_GRPCAddr m, g, w1)))"

text \<open>A function of the live Raft node, as a function of the state that the gRPC server acts on.\<close>

definition on_raft :: "'b \<Rightarrow> ('w gw raft_node \<Rightarrow> 'w gw \<Rightarrow> 'b \<times> 'w gw) \<Rightarrow> 'w fstate \<Rightarrow> 'b \<times> 'w fstate" where
  "on_raft dead f = (\<lambda>(r, gw). case r of Inl p \<Rightarrow> (dead, r, gw) | Inr n \<Rightarrow> (case f n gw of (x, gw1) \<Rightarrow> (x, r, gw1)))"

definition grpc_leader_addr :: "'w gw raft_lib \<Rightarrow> 'w ml_api \<Rightarrow> 'w fstate \<Rightarrow> string \<times> 'w fstate" where
  "grpc_leader_addr L M = (\<lambda>(r, gw). case r of
     Inl p \<Rightarrow> ('''', r, gw)
   | Inr n \<Rightarrow> (case leader_grpc_addr L M n gw of Inl p \<Rightarrow> ('''', Inl p, gw) | Inr (a, gw1) \<Rightarrow> (a, r, gw1)))"

definition wired_server :: "'w gw raft_lib \<Rightarrow> 'w ml_api \<Rightarrow> ('a, 'w gw) future_api \<Rightarrow> 'w fstate grpc_server" where
  "wired_server L M F =
     SetLeaderAddrFunc (Some (grpc_leader_addr L M))
       (SetApplyFunc (Some (\<lambda>cmd timeout. on_raft (Inl (Foreign ''dead'')) (\<lambda>n. apply_command L F n cmd timeout)))
         (SetLeaderCheck (Some (on_raft False (raft_IsLeader L))) NewServer))"

definition bootstrap_config :: "('f, 'w) node_config \<Rightarrow> 'w bs_config" where
  "bootstrap_config c =
     \<lparr>bc_NodeID = nc_NodeID c, bc_GossipAddr = gossipAddr c, bc_GossipAdvertiseAddr = gossipAdvertiseAddr c,
      bc_RaftAdvertiseAddr = raftAdvertiseAddr c, bc_SecretKey = nc_SecretKey c, bc_NetworkMode = LAN,
      bc_CanBootstrap = True, bc_DiscoveryTimeout = 3 * second, bc_MaxDiscoveryRetries = 0,
      bc_EventHandler = None, bc_MDNSService = [], bc_MDNSDomain = []\<rparr>"

definition facade_New :: "'w gw raft_lib \<Rightarrow> 'w ml_api \<Rightarrow> ('a, 'w gw) future_api \<Rightarrow> 'w gw others \<Rightarrow> 'w event_handler
    \<Rightarrow> ('f, 'w) node_config \<Rightarrow> 'w \<Rightarrow> (goerr + ('f, 'w) facade) \<times> 'w" where
  "facade_New L M F Ot self cfg w =
     (case node_validate cfg of
        Some err \<Rightarrow> (Inl err, w)
      | None \<Rightarrow>
          (case raft_New \<lparr>rc_NodeID = nc_NodeID cfg, rc_BindAddr = raftAddr cfg,
                   rc_AdvertiseAddr = raftAdvertiseAddr cfg, rc_ReconcileInterval = 0\<rparr>
                   (map_option storageFactoryAdapter (nc_StorageFactory cfg)) (nc_FSM cfg) (None, w) of
             (Inl err, gw) \<Rightarrow> (Inl err, snd gw)
           | (Inr rn, gw) \<Rightarrow>
               (case cs_New (bootstrap_config cfg) (Some (raft_callbacks_of L Ot)) self
                       (map_option discovererAdapter (nc_Discoverer cfg)) of
                  Inl err \<Rightarrow> (Inl err, snd gw)
                | Inr cn \<Rightarrow>
                    (Inr \<lparr>nf_config = cfg, nf_raft = Inr (SetGossipFunc (gossipFn M) rn), nf_consensus = cn,
                          nf_grpc = wired_server L M F\<rparr>, snd gw))))"

text \<open>The gossip layer belongs to the bootstrapper of the consensus node.\<close>

definition facade_gossip :: "('f, 'w) facade \<Rightarrow> 'w gossip option" where
  "facade_gossip n = b_gossip (cn_bootstrapper (nf_consensus n))"

definition facade_state :: "('f, 'w) facade \<Rightarrow> 'w \<Rightarrow> 'w fstate" where
  "facade_state n w = (nf_raft n, facade_gossip n, w)"

definition put_gossip :: "'w gossip option \<Rightarrow> ('f, 'w) facade \<Rightarrow> ('f, 'w) facade" where
  "put_gossip g n = n\<lparr>nf_consensus := (nf_consensus n)\<lparr>cn_bootstrapper := (cn_bootstrapper (nf_consensus n))\<lparr>b_gossip := g\<rparr>\<rparr>\<rparr>"

definition put_state :: "'w fstate \<Rightarrow> ('f, 'w) facade \<Rightarrow> ('f, 'w) facade \<times> 'w" where
  "put_state s n = (case s of (r, g, w) \<Rightarrow> ((put_gossip g n)\<lparr>nf_raft := r\<rparr>, w))"

definition facade_Start :: "'w fstate grpc_api \<Rightarrow> ('f, 'w) facade \<Rightarrow> 'w \<Rightarrow> goerr option \<times> ('f, 'w) facade \<times> 'w" where
  "facade_Start G n w =
     (case server_Start G (grpcAddr (nf_config n)) (nf_grpc n) (facade_state n w) of
        (Some err, s, st) \<Rightarrow> (case put_state st n of (n1, w1) \<Rightarrow> (Some err, n1\<lparr>nf_grpc := s\<rparr>, w1))
      | (None, s, st) \<Rightarrow>
          (case put_state st n of
             (n1, w1) \<Rightarrow>
               (case cs_Start (nf_consensus n1) of
                  (Some err, cn) \<Rightarrow>
                    (case server_Stop G s (facade_state (n1\<lparr>nf_consensus := cn\<rparr>) w1) of
                       (s1, st1) \<Rightarrow> (case put_state st1 (n1\<lparr>nf_consensus := cn\<rparr>) of
                                       (n2, w2) \<Rightarrow> (Some err, n2\<lparr>nf_grpc := s1\<rparr>, w2)))
                | (None, cn) \<Rightarrow> (None, n1\<lparr>nf_consensus := cn, nf_grpc := s\<rparr>, w1))))"

text \<open>
  The goroutine that announces the gRPC address: it looks for the gossip layer, and if there is none
  sleeps, while others act, and looks again. \<open>True\<close> says that it has returned.
\<close>

fun setGRPCAddrWhenReady :: "'w ml_api \<Rightarrow> string \<Rightarrow> ('w gw \<Rightarrow> 'w gw) list \<Rightarrow> 'w gw \<Rightarrow> bool \<times> 'w gw" where
  "setGRPCAddrWhenReady M addr fs (Some h, w) =
     (case gossip_SetGRPCAddr M addr h w of (h1, w1) \<Rightarrow> (True, Some h1, w1))"
| "setGRPCAddrWhenReady M addr [] (None, w) = (False, None, w)"
| "setGRPCAddrWhenReady M addr (f # fs) (None, w) = setGRPCAddrWhenReady M addr fs (f (None, w))"

definition facade_Stop :: "'w fstate grpc_api \<Rightarrow> 'w gw raft_lib \<Rightarrow> 'w bs_env \<Rightarrow> ('w bootstrapper \<times> 'w \<Rightarrow> 'w bootstrapper \<times> 'w)
    \<Rightarrow> ('f, 'w) facade \<Rightarrow> 'w \<Rightarrow> panic + (goerr option \<times> ('f, 'w) facade \<times> 'w)" where
  "facade_Stop G L E finish n w =
     (case server_Stop G (nf_grpc n) (facade_state n w) of
        (s, st) \<Rightarrow>
          (case put_state st (n\<lparr>nf_grpc := s\<rparr>) of
             (n1, w1) \<Rightarrow>
               (case nf_raft n1 of
                  Inl p \<Rightarrow> Inl p
                | Inr r \<Rightarrow>
                    (case raft_node_Shutdown L r (facade_gossip n1, w1) of
                       Inl p \<Rightarrow> Inl p
                     | Inr (_, r1, g, w2) \<Rightarrow>
                         (let n2 = (put_gossip g n1)\<lparr>nf_raft := Inr r1\<rparr>
                          in case cs_Stop E finish (nf_consensus n2) w2 of
                               Inl p \<Rightarrow> Inl p
                             | Inr (err, cn, w3) \<Rightarrow> Inr (err, n2\<lparr>nf_consensus := cn\<rparr>, w3))))))"

section \<open>Applying commands\<close>

datatype future = RaftFuture nat | Forwarded bytes

definition facade_Apply :: "'w gw raft_lib \<Rightarrow> 'w ml_api \<Rightarrow> 'w gw rpc \<Rightarrow> bytes \<Rightarrow> duration \<Rightarrow> 'w gw raft_node \<Rightarrow> 'w gw
    \<Rightarrow> panic + ((goerr + future) \<times> 'w gw)" where
  "facade_Apply L M R cmd timeout r gw =
     (case raft_IsLeader L r gw of
        (True, gw1) \<Rightarrow>
          Inr (case raft_Apply L cmd timeout r gw1 of
                 (Inl err, gw2) \<Rightarrow> (Inl err, gw2)
               | (Inr f, gw2) \<Rightarrow> (Inr (RaftFuture f), gw2))
      | (False, gw1) \<Rightarrow>
          (case leader_grpc_addr L M r gw1 of
             Inl p \<Rightarrow> Inl p
           | Inr (addr, gw2) \<Rightarrow>
               if addr = '''' then Inr (Inl grpc_ErrNoLeader, gw2)
               else Inr (case Forward R addr cmd timeout gw2 of
                           (Inl err, gw3) \<Rightarrow> (Inl err, gw3)
                         | (Inr result, gw3) \<Rightarrow> (Inr (Forwarded result), gw3))))"

section \<open>Members and readiness\<close>

datatype MemberState = MemberStateAlive | MemberStateSuspect | MemberStateDead | MemberStateLeft

record MemberInfo =
  mi_ID :: string
  mi_Address :: string
  mi_AppMeta :: bytes
  mi_State :: MemberState

fun member_state :: "NodeState \<Rightarrow> MemberState" where
  "member_state NodeStateAlive = MemberStateAlive"
| "member_state NodeStateSuspect = MemberStateSuspect"
| "member_state NodeStateDead = MemberStateDead"
| "member_state NodeStateLeft = MemberStateLeft"

definition memberInfoFromGossip :: "gossip_info \<Rightarrow> MemberInfo" where
  "memberInfoFromGossip i = \<lparr>mi_ID = gi_ID i, mi_Address = gi_Address i, mi_AppMeta = gi_AppMeta i,
     mi_State = member_state (gi_State i)\<rparr>"

definition facade_Members :: "'w ml_api \<Rightarrow> ('f, 'w) facade \<Rightarrow> 'w \<Rightarrow> MemberInfo list \<times> 'w" where
  "facade_Members M n w =
     (case facade_gossip n of
        None \<Rightarrow> ([], w)
      | Some g \<Rightarrow> (case gossip_Members M g w of (ms, w1) \<Rightarrow> (map memberInfoFromGossip ms, w1)))"

definition facade_SetAppMetadata :: "'w ml_api \<Rightarrow> bytes \<Rightarrow> ('f, 'w) facade \<Rightarrow> 'w \<Rightarrow> ('f, 'w) facade \<times> 'w" where
  "facade_SetAppMetadata M meta n w =
     (case facade_gossip n of
        None \<Rightarrow> (n, w)
      | Some g \<Rightarrow> (case gossip_SetAppMetadata M meta g w of (g1, w1) \<Rightarrow> (put_gossip (Some g1) n, w1)))"

definition facade_Broadcast :: "'w queue_api \<Rightarrow> bytes \<Rightarrow> ('f, 'w) facade \<Rightarrow> 'w \<Rightarrow> 'w" where
  "facade_Broadcast Q msg n w =
     (case facade_gossip n of None \<Rightarrow> w | Some g \<Rightarrow> gossip_Broadcast Q msg g w)"

definition facade_OnBroadcast :: "(string \<Rightarrow> bytes \<Rightarrow> 'w \<Rightarrow> 'w) option \<Rightarrow> ('f, 'w) facade \<Rightarrow> ('f, 'w) facade" where
  "facade_OnBroadcast f n =
     (case facade_gossip n of None \<Rightarrow> n | Some g \<Rightarrow> put_gossip (Some (gossip_OnAppMessage f g)) n)"

definition facade_OnMemberJoin :: "(MemberInfo \<Rightarrow> 'w \<Rightarrow> 'w) \<Rightarrow> ('f, 'w) facade \<Rightarrow> ('f, 'w) facade" where
  "facade_OnMemberJoin f n =
     n\<lparr>nf_consensus := SetAppOnJoin (Some (\<lambda>info. f (memberInfoFromGossip info))) (nf_consensus n)\<rparr>"

definition facade_OnMemberLeave :: "(string \<Rightarrow> 'w \<Rightarrow> 'w) \<Rightarrow> ('f, 'w) facade \<Rightarrow> ('f, 'w) facade" where
  "facade_OnMemberLeave f n =
     n\<lparr>nf_consensus := SetAppOnLeave (Some (\<lambda>info. f (gi_ID info))) (nf_consensus n)\<rparr>"

text \<open>
  \<open>WaitForReady\<close>: the state is read first, then, after others may have acted, the subscription is made.
  Afterwards each event is a change received or the end of the context; \<open>None\<close> says that it still waits.
\<close>

datatype ready_event = Change StateChange | CtxDone goerr

fun ready_loop :: "ready_event list \<Rightarrow> goerr option option" where
  "ready_loop [] = None"
| "ready_loop (CtxDone e # es) = Some (Some e)"
| "ready_loop (Change c # es) =
     (if sc_New c = StateRunning then Some None
      else if sc_New c = StateFailed then Some (Some (Msg ''node failed to start''))
      else ready_loop es)"

definition WaitForReady :: "'w bootstrapper \<Rightarrow> ready_event list \<Rightarrow> goerr option option" where
  "WaitForReady b events =
     (if b_state b = StateRunning then Some None
      else if b_state b = StateFailed then Some (Some (Msg ''node failed to start''))
      else ready_loop events)"

section \<open>Creating a node\<close>

lemma gossipAddr_splits: "splitHostPort (gossipAddr c) = Inr (''0.0.0.0'', sprintf_d (nc_GossipPort c))"
proof -
  have "gossipAddr c = joinHostPort ''0.0.0.0'' (sprintf_d (nc_GossipPort c))"
    by (simp add: gossipAddr_def joinHostPort_def)
  moreover have "valid_hostport (''0.0.0.0'', sprintf_d p)" for p
    by (auto simp: valid_hostport_def plain_part_def sprintf_d_def)
  ultimately show ?thesis by (simp add: split_joinHostPort)
qed

lemma bootstrap_config_valid:
  assumes "nc_NodeID c \<noteq> []"
  shows "bs_validate (bs_applyDefaults ((bootstrap_config c)\<lparr>bc_EventHandler := h\<rparr>)) = None"
  using assms gossipAddr_splits [of c]
  by (simp add: bs_validate_def bs_applyDefaults_def bootstrap_config_def Let_def second_def) (simp add: gossipAddr_def)

text \<open>
  C32. A configuration that passes validation is enough: \<open>New\<close> then fails only if the storage cannot be
  created, with that error; otherwise the node is idle and holds nothing but its storage, its Raft side
  can reach gossip, and it goes by the plain discovery of the user's discoverer.
\<close>

theorem New_succeeds:
  assumes "node_validate cfg = None" and "nc_StorageFactory cfg = Some factory"
  shows "case sf_Create factory w of
      (Inl err, w1) \<Rightarrow> facade_New L M F Ot self cfg w = (Inl (Wrap ''failed to create storages'' err), w1)
    | (Inr s, w1) \<Rightarrow> \<exists>n r. facade_New L M F Ot self cfg w = (Inr n, w1) \<and> nf_raft n = Inr r \<and> node_idle r \<and>
        rn_storages r = s \<and> rn_gossipFn r = Some (gossipFn M) \<and> rn_loops r = 0 \<and>
        b_state (cn_bootstrapper (nf_consensus n)) = StateInit \<and> \<not> cn_running (nf_consensus n) \<and>
        ci_ID (cn_localInfo (nf_consensus n)) = nc_NodeID cfg \<and>
        b_discoverer (cn_bootstrapper (nf_consensus n)) =
          map_option (\<lambda>d. PlainDisc (disc_Discover d)) (nc_Discoverer cfg)"
proof -
  obtain fsm where v: "nc_NodeID cfg \<noteq> []" "nc_FSM cfg = Some fsm"
    using assms(1) by (auto simp: node_validate_def split: if_splits)
  have cs: "\<exists>cn. cs_New (bootstrap_config cfg) cb self d = Inr cn \<and> b_state (cn_bootstrapper cn) = StateInit \<and>
      \<not> cn_running cn \<and> ci_ID (cn_localInfo cn) = nc_NodeID cfg \<and> b_discoverer (cn_bootstrapper cn) = d" for cb d
    using bootstrap_config_valid [OF v(1)]
    by (simp add: cs_New_def bs_New_def Let_def) (simp add: bs_applyDefaults_def bootstrap_config_def Let_def)
  obtain r w1 where c: "sf_Create factory w = (r, w1)" by fastforce
  have raft: "raft_validate \<lparr>rc_NodeID = nc_NodeID cfg, rc_BindAddr = raftAddr cfg,
      rc_AdvertiseAddr = raftAdvertiseAddr cfg, rc_ReconcileInterval = 0\<rparr> =
      Inr \<lparr>rc_NodeID = nc_NodeID cfg, rc_BindAddr = raftAddr cfg,
      rc_AdvertiseAddr = raftAdvertiseAddr cfg, rc_ReconcileInterval = defaultReconcileInterval\<rparr>"
    using v(1) by (simp add: raft_validate_def raftAddr_def raftAdvertiseAddr_def Let_def)
  obtain cn where cn: "cs_New (bootstrap_config cfg) (Some (raft_callbacks_of L Ot)) self
        (map_option discovererAdapter (nc_Discoverer cfg)) = Inr cn" "b_state (cn_bootstrapper cn) = StateInit"
      "\<not> cn_running cn" "ci_ID (cn_localInfo cn) = nc_NodeID cfg"
      "b_discoverer (cn_bootstrapper cn) = map_option discovererAdapter (nc_Discoverer cfg)"
    using cs by blast
  show ?thesis
    using assms v c cn
    by (cases r) (auto simp: facade_New_def raft_New_def raft storageFactoryAdapter_def SetGossipFunc_def
        node_idle_def is_closed_def discovererAdapter_def fun_eq_iff intro!: option.map_cong)
qed

section \<open>Applying at a distance\<close>

text \<open>
  C30. A command given to a follower has the leader's result: when Raft names a leader, gossip knows
  the gRPC address of the member with that name, the server there leads and the network loses nothing,
  then \<open>Apply\<close> runs the leader's apply function on this command, once and from the world after the two
  lookups, and if that succeeds returns its result.
\<close>

theorem Apply_at_follower:
  assumes "raft_IsLeader L r gw = (False, gw1)" and "raft_Leader L r gw1 = ((ld, x), Some h, w2)" and "ld \<noteq> []"
    and "gossip_Members M h w2 = (ms, w3)" and "List.find (\<lambda>m. gi_ID m = ld) ms = Some m" and "gi_GRPCAddr m \<noteq> []"
    and "servers (gi_GRPCAddr m) = Some s" and "is_leader_server s True" and "gs_applyFn s = Some applyf"
    and "applyf cmd (request_timeout (milliseconds timeout)) (Some h, w3) = (Inr result, gw4)"
  shows "facade_Apply L M (network servers) cmd timeout r gw = Inr (Inr (Forwarded result), gw4)"
proof -
  have "leader_grpc_addr L M r gw1 = Inr (gi_GRPCAddr m, Some h, w3)"
    using assms(2-5) by (simp add: leader_grpc_addr_def)
  moreover have "Forward (network servers) (gi_GRPCAddr m) cmd timeout (Some h, w3) = (Inr result, gw4)"
    unfolding Forward_def
    using forward_to_leader [where servers = servers, OF assms(7,8,9,6), of 0 cmd timeout "(Some h, w3)"] assms(10)
    by (simp add: maxRedirectHops_def)
  ultimately show ?thesis using assms(1,6) by (simp add: facade_Apply_def)
qed

section \<open>Stopping\<close>

text \<open>Letting the calls in progress finish changes the world, but not the node's own records.\<close>

definition graceful :: "'w fstate grpc_api \<Rightarrow> bool" where
  "graceful G \<longleftrightarrow> (\<forall>srv r g w. \<exists>w'. ga_GracefulStop G srv (r, g, w) = (r, g, w'))"

lemma server_Stop_graceful:
  assumes "graceful G"
  shows "\<exists>s' w'. server_Stop G s (r, g, w) = (s', r, g, w')"
  using assms by (auto simp: server_Stop_def graceful_def)


section \<open>Corners\<close>

text \<open>
  The advertised addresses are built with \<open>%s:%d\<close>; an IPv6 host makes an address that cannot be split,
  and nothing checks it.
\<close>

lemma ipv6_advertise_malformed:
  assumes "nc_AdvertiseAddr c = ''fe80::1''"
  shows "splitHostPort (gossipAdvertiseAddr c) = Inl TooManyColons"
proof -
  have "CHR '':'' \<notin> set (sprintf_d (nc_GossipPort c))" by (auto simp: sprintf_d_def)
  then have "cut_last CHR '':'' (''fe80::1'' @ CHR '':'' # sprintf_d (nc_GossipPort c))
      = Some (''fe80::1'', sprintf_d (nc_GossipPort c))"
    by (rule cut_last_append)
  then show ?thesis using assms by (simp add: gossipAdvertiseAddr_def splitHostPort_def hasPrefix_def)
qed

text \<open>
  \<open>WaitForReady\<close> reads the state before it subscribes. If the node starts running in between, the
  subscription is empty, no change will ever follow, and the call waits until its context ends.
\<close>

lemma ready_wakeup_lost:
  assumes "b_state b \<noteq> StateRunning" and "b_state b \<noteq> StateFailed"
  shows "WaitForReady b [] = None"
    and "last (b_subscribers (snd (Subscribe (transitionTo StateRunning b)))) = []"
  using assms by (simp_all add: WaitForReady_def Subscribe_def)

section \<open>Witnesses\<close>

definition gw_iface :: "mlnode gw raftInterface" where
  "gw_iface = \<lparr>ri_State = \<lambda>v. (Follower, v), ri_GetConfiguration = \<lambda>v. (([], None), v),
     ri_AddVoter = \<lambda>i a p t v. (None, v), ri_RemoveServer = \<lambda>i p t v. (None, v)\<rparr>"

definition gw_lib :: "mlnode gw raft_lib" where
  "gw_lib =
     \<lparr>rl_iface = \<lambda>_. gw_iface, rl_LeaderWithID = \<lambda>_ v. ((''a'', ''n1''), v), rl_Apply = \<lambda>_ _ _ v. (0, v),
      rl_Shutdown = \<lambda>_ v. (None, v), rl_BootstrapCluster = \<lambda>_ _ v. (None, v),
      rl_HasExistingState = \<lambda>_ v. ((False, None), v),
      rl_ResolveTCPAddr = \<lambda>a v. (Inr \<lparr>ta_IP = a, ta_Port = 7000\<rparr>, v), rl_ListenTCP = \<lambda>_ v. (Inr (0, 1), v),
      rl_CloseListener = \<lambda>_ v. v, rl_NewTCPTransport = \<lambda>_ _ v. (Inr 1, v), rl_LocalAddr = \<lambda>_. ''a:7000'',
      rl_CloseTransport = \<lambda>_ v. v, rl_NewRaft = \<lambda>_ _ _ v. (Inr 2, v), rl_ErrCantBootstrap = Foreign ''x''\<rparr>"

definition sample_future_api :: "(nat, mlnode gw) future_api" where
  "sample_future_api = \<lparr>fu_Error = \<lambda>_ v. (None, v), fu_Response = \<lambda>_ v. (NilResponse, v), fu_Marshal = \<lambda>_. Inr []\<rparr>"

definition sample_node_config :: "(unit, mlnode) node_config" where
  "sample_node_config = \<lparr>nc_NodeID = ''n1'', nc_GossipPort = 7946, nc_SecretKey = [],
     nc_StorageFactory = Some sample_factory, nc_FSM = Some (), nc_Discoverer = None, nc_AdvertiseAddr = []\<rparr>"

definition gw_others :: "mlnode gw others" where
  "gw_others = \<lparr>ot_accept_wait = \<lambda>_. (\<lambda>x. x, True), ot_ticks = \<lambda>_. [], ot_reset_wait = (\<lambda>x. x, True)\<rparr>"

theorem New_succeeds_witness:
  "\<exists>n r. facade_New gw_lib sample_ml sample_future_api gw_others NoopEventHandler sample_node_config no_node
      = (Inr n, no_node) \<and> nf_raft n = Inr r \<and> node_idle r"
  using New_succeeds [where cfg = sample_node_config and factory = sample_factory and w = no_node and L = gw_lib
      and M = sample_ml and F = sample_future_api and Ot = gw_others and self = NoopEventHandler]
  by (auto simp: sample_node_config_def node_validate_def sample_factory_def)

definition gw_node :: "mlnode gw raft_node" where
  "gw_node = \<lparr>rn_raft = Some 2,
      rn_config = \<lparr>rc_NodeID = ''n2'', rc_BindAddr = [], rc_AdvertiseAddr = [], rc_ReconcileInterval = 1\<rparr>,
      rn_storages = \<lparr>st_LogStore = 0, st_StableStore = 0, st_SnapshotStore = 0\<rparr>,
      rn_factory = storageFactoryAdapter sample_factory, rn_transport = Some 1, rn_gossipFn = Some (gossipFn sample_ml),
      rn_selfInfo = \<lparr>ci_ID = ''n2'', ci_RaftAddr = []\<rparr>, rn_running = True, rn_started = True,
      rn_chans = [False], rn_stopCh = 0, rn_loops = 1\<rparr>"

lemma gw_node_live: "node_live gw_node"
  by (simp add: gw_node_def node_live_def is_closed_def)

definition leader_node :: mlnode where
  "leader_node = \<lparr>ml_Name = ''n1'', ml_Meta = ''a:1|grpc=a:9'', ml_State = 0\<rparr>"

lemma leader_node_info: "gi_ID (nodeToInfo leader_node) = ''n1''" "gi_GRPCAddr (nodeToInfo leader_node) = ''a:9''"
  by (simp_all add: leader_node_def nodeToInfo_def meta_vars0_def Let_def)

definition done_server :: "mlnode gw grpc_server" where
  "done_server = \<lparr>gs_server = None, gs_listener = None, gs_addr = ''a:9'', gs_started = True,
     gs_applyFn = Some (\<lambda>cmd t v. (Inr ''done'', v)), gs_isLeaderFn = Some (\<lambda>v. (True, v)), gs_leaderFn = None,
     gs_registrars = []\<rparr>"

theorem Apply_at_follower_witness:
  "facade_Apply gw_lib sample_ml (network [''a:9'' \<mapsto> done_server]) ''set x'' second gw_node (Some sample_gossip, leader_node)
    = Inr (Inr (Forwarded ''done''), Some sample_gossip, leader_node)"
  by (rule Apply_at_follower [where h = sample_gossip and m = "nodeToInfo leader_node" and ld = "''n1''" and x = "''a''"
        and ms = "[nodeToInfo leader_node]" and s = done_server and applyf = "\<lambda>cmd t v. (Inr ''done'', v)"])
    (simp_all add: leader_node_info done_server_def gw_lib_def gw_iface_def gw_node_def raft_IsLeader_def raft_Leader_def
      gossip_Members_def sample_gossip_def sample_ml_def is_leader_server_def)

definition sample_facade :: "(unit, mlnode) facade" where
  "sample_facade = \<lparr>nf_config = sample_node_config, nf_raft = Inr gw_node,
     nf_consensus = \<lparr>cn_callbacks = raft_callbacks_of gw_lib gw_others,
       cn_bootstrapper = (sample_up None)\<lparr>b_state := StateRunning\<rparr>, cn_running = True,
       cn_localInfo = \<lparr>ci_ID = ''n2'', ci_RaftAddr = []\<rparr>, cn_chans = [False], cn_stopCh = Some 0,
       cn_appOnJoin = None, cn_appOnLeave = None\<rparr>,
     nf_grpc = wired_server gw_lib sample_ml sample_future_api\<rparr>"


end
