(* ===== verification/TestNode.thy ===== *)
theory TestNode
  imports NodeFacade
begin

text \<open>
  The program \<open>cmd/testnode\<close>: its environment variables, the choice of the discoverer, and the storage
  factory over BoltDB files (\<open>storage.go\<close>). The operating system and the stores are the record
  \<open>bolt_api\<close>; \<open>filepath.Join\<close>, which depends on the operating system, is part of it.
\<close>

section \<open>Environment\<close>

text \<open>\<open>os.Getenv\<close>: an unset variable reads as the empty string.\<close>

type_synonym environment = "string \<Rightarrow> string"

definition getEnv :: "environment \<Rightarrow> string \<Rightarrow> string \<Rightarrow> string" where
  "getEnv env key defaultVal = (if env key \<noteq> '''' then env key else defaultVal)"

definition getEnvInt :: "environment \<Rightarrow> string \<Rightarrow> int \<Rightarrow> int" where
  "getEnvInt env key defaultVal = (if env key \<noteq> '''' then sscanf_d (env key) else defaultVal)"

lemma sprintf_d_nonempty: "sprintf_d i \<noteq> []"
  by (simp add: sprintf_d_def)

text \<open>A number that was written in decimal is read back; text that is no number reads as port zero.\<close>

lemma getEnvInt_roundtrip: "env key = sprintf_d i \<Longrightarrow> in_int64 i \<Longrightarrow> getEnvInt env key d = i"
  by (simp add: getEnvInt_def sscanf_sprintf sprintf_d_nonempty)

section \<open>The choice of a discoverer\<close>

datatype choice = UseDNS DNSConfig | UseStatic "string list" | UseMDNS MDNSConfig

definition choose_discovery :: "environment \<Rightarrow> choice" where
  "choose_discovery env =
     (let dnsService = getEnv env ''DNS_SERVICE'' ''''; dnsDomain = getEnv env ''DNS_DOMAIN'' '''';
          staticPeers = getEnv env ''STATIC_PEERS'' ''''; secretKey = getEnv env ''SECRET_KEY'' ''test-cluster-key''
      in if dnsService \<noteq> '''' \<and> dnsDomain \<noteq> '''' then
           UseDNS \<lparr>dc_Service = dnsService, dc_Protocol = [], dc_Domain = dnsDomain\<rparr>
         else if staticPeers \<noteq> '''' then UseStatic (map trimSpace (split_on (CHR '','') staticPeers))
         else UseMDNS \<lparr>mc_Service = [], mc_Domain = [], mc_Timeout = 2 * second, mc_SecretKey = secretKey\<rparr>)"

section \<open>Storage\<close>

record 'w bolt_api =
  bo_Join :: "string \<Rightarrow> string \<Rightarrow> string"
  bo_NewBoltStore :: "string \<Rightarrow> 'w \<Rightarrow> (goerr + nat) \<times> 'w"
  bo_CloseStore :: "nat \<Rightarrow> 'w \<Rightarrow> 'w"
  bo_NewFileSnapshotStore :: "string \<Rightarrow> int \<Rightarrow> 'w \<Rightarrow> (goerr + nat) \<times> 'w"
  bo_RemoveAll :: "string \<Rightarrow> 'w \<Rightarrow> goerr option \<times> 'w"

record bolt_factory =
  bf_dataDir :: string
  bf_logStore :: "nat option"
  bf_stableStore :: "nat option"

definition NewBoltStorageFactory :: "string \<Rightarrow> bolt_factory" where
  "NewBoltStorageFactory dataDir = \<lparr>bf_dataDir = dataDir, bf_logStore = None, bf_stableStore = None\<rparr>"

definition bolt_Create :: "'w bolt_api \<Rightarrow> bolt_factory \<Rightarrow> 'w \<Rightarrow> (goerr + storages) \<times> bolt_factory \<times> 'w" where
  "bolt_Create B f w =
     (case bo_NewBoltStore B (bo_Join B (bf_dataDir f) ''raft-log.db'') w of
        (Inl err, w1) \<Rightarrow> (Inl (Wrap ''create log store'' err), f, w1)
      | (Inr logStore, w1) \<Rightarrow>
          (let f1 = f\<lparr>bf_logStore := Some logStore\<rparr>
           in case bo_NewBoltStore B (bo_Join B (bf_dataDir f) ''raft-stable.db'') w1 of
                (Inl err, w2) \<Rightarrow> (Inl (Wrap ''create stable store'' err), f1, bo_CloseStore B logStore w2)
              | (Inr stableStore, w2) \<Rightarrow>
                  (let f2 = f1\<lparr>bf_stableStore := Some stableStore\<rparr>
                   in case bo_NewFileSnapshotStore B (bf_dataDir f) 2 w2 of
                        (Inl err, w3) \<Rightarrow> (Inl (Wrap ''create snapshot store'' err), f2,
                           bo_CloseStore B stableStore (bo_CloseStore B logStore w3))
                      | (Inr snapshotStore, w3) \<Rightarrow>
                          (Inr \<lparr>st_LogStore = logStore, st_StableStore = stableStore, st_SnapshotStore = snapshotStore\<rparr>,
                           f2, w3))))"

definition close_if :: "'w bolt_api \<Rightarrow> nat option \<Rightarrow> 'w \<Rightarrow> 'w" where
  "close_if B h w = (case h of None \<Rightarrow> w | Some s \<Rightarrow> bo_CloseStore B s w)"

definition bolt_Reset :: "'w bolt_api \<Rightarrow> bolt_factory \<Rightarrow> 'w \<Rightarrow> goerr option \<times> bolt_factory \<times> 'w" where
  "bolt_Reset B f w =
     (let w1 = close_if B (bf_stableStore f) (close_if B (bf_logStore f) w);
          f1 = f\<lparr>bf_logStore := None, bf_stableStore := None\<rparr>
      in case bo_RemoveAll B (bo_Join B (bf_dataDir f) ''raft-log.db'') w1 of
           (Some err, w2) \<Rightarrow> (Some (Wrap ''failed to remove log store'' err), f1, w2)
         | (None, w2) \<Rightarrow>
             (case bo_RemoveAll B (bo_Join B (bf_dataDir f) ''raft-stable.db'') w2 of
                (Some err, w3) \<Rightarrow> (Some (Wrap ''failed to remove stable store'' err), f1, w3)
              | (None, w3) \<Rightarrow>
                  (case bo_RemoveAll B (bo_Join B (bf_dataDir f) ''snapshots'') w3 of
                     (Some err, w4) \<Rightarrow> (Some (Wrap ''failed to remove snapshots'' err), f1, w4)
                   | (None, w4) \<Rightarrow> (None, f1, w4))))"

text \<open>After a reset the factory holds no store, whether or not a file could be removed.\<close>

lemma bolt_Reset_releases:
  assumes "bolt_Reset B f w = (e, f1, w1)"
  shows "bf_logStore f1 = None \<and> bf_stableStore f1 = None \<and> bf_dataDir f1 = bf_dataDir f"
  using assms by (auto simp: bolt_Reset_def Let_def split: prod.splits option.splits)

text \<open>
  A failed \<open>Create\<close> leaves pointers to the stores that it has closed; the next \<open>Reset\<close> closes them
  a second time.
\<close>

lemma failed_Create_keeps_closed_store:
  assumes "bo_NewBoltStore B (bo_Join B (bf_dataDir f) ''raft-log.db'') w = (Inr s, w1)"
    and "bo_NewBoltStore B (bo_Join B (bf_dataDir f) ''raft-stable.db'') w1 = (Inl e, w2)"
  shows "bolt_Create B f w = (Inl (Wrap ''create stable store'' e), f\<lparr>bf_logStore := Some s\<rparr>, bo_CloseStore B s w2)"
  using assms by (simp add: bolt_Create_def Let_def)

end
