(* ===== verification/Spec2Isabelle.thy ===== *)
theory Spec2Isabelle
  imports GossipDelegate Discovery DiscoveryMdns HashDelay RaftMembership RaftNode Gossip Bootstrapper
    ConsensusNode GrpcForward Logging NodeFacade TestNode
begin

text \<open>
  A verification library for auto-consensus, a Go library in which nodes find each other, agree on
  who creates a cluster, and keep the configuration of a Raft cluster in step with what gossip
  knows of the membership.

  \<^bold>\<open>The program.\<close> A user creates a node (\<open>internal/node\<close>). The node holds a gossip layer over
  memberlist (\<open>internal/gossip\<close>), a bootstrapper (\<open>internal/bootstrap\<close>) that discovers peers
  (\<open>internal/discovery\<close>) and either joins their cluster or, after a wait derived from its name,
  creates one, a consensus node (\<open>internal/consensus\<close>) that waits for the bootstrapper and then
  calls \<open>OnBootstrap\<close> or \<open>OnJoin\<close> once, a Raft node (\<open>internal/raft\<close>) that implements these
  callbacks, adds and removes peers as gossip events arrive and repairs the Raft configuration
  every few seconds, and a gRPC server with a forwarder (\<open>internal/grpc\<close>) that carries commands
  from followers to the leader. Each node announces its Raft and gRPC addresses, its bootstrapped
  flag and the application's metadata in its gossip metadata; this announcement is the only
  thing by which the layers of different nodes learn of each other.

  \<^bold>\<open>The theories and the code.\<close>
  \<^item> \<open>Prelude\<close>: Go strings, errors, panics, durations, 64-bit wrap-around, and the interface of an
    encoder with its decoder (locales \<open>codec\<close> and \<open>lossless_codec\<close>).
  \<^item> \<open>GoStrings\<close>, \<open>GoBase64\<close>, \<open>GoCrypto\<close>, \<open>GoNet\<close>: what the code uses of the Go standard library
    (\<open>strings\<close>, \<open>strconv\<close>, \<open>net\<close>, \<open>encoding/base64\<close>, \<open>crypto/sha256\<close>, \<open>encoding/hex\<close>).
  \<^item> \<open>GossipDelegate\<close>: \<open>gossip/delegate.go\<close>, \<open>events.go\<close>, \<open>config.go\<close>. \<open>Gossip\<close>:
    \<open>gossip/gossip.go\<close>.
  \<^item> \<open>Discovery\<close>: \<open>discovery/static.go\<close>, \<open>cascade.go\<close>, \<open>dns.go\<close>. \<open>DiscoveryMdns\<close>:
    \<open>discovery/mdns.go\<close>, \<open>discovery.go\<close> and \<open>bootstrap/mdns_advertiser.go\<close>.
  \<^item> \<open>HashDelay\<close>: \<open>hashBasedJitter\<close> of \<open>raft/callbacks.go\<close> and the part that it shares with
    \<open>hashBasedDelay\<close> of \<open>bootstrap/bootstrapper.go\<close>.
  \<^item> \<open>RaftMembership\<close>: the peer callbacks of \<open>raft/callbacks.go\<close> and the pass of
    \<open>raft/reconcile.go\<close>. \<open>RaftNode\<close>: \<open>raft/node.go\<close>, \<open>acceptance.go\<close>, \<open>config.go\<close>, the
    lifecycle callbacks and the reconciliation loop.
  \<^item> \<open>Bootstrapper\<close>: \<open>bootstrap/state.go\<close>, \<open>config.go\<close>, \<open>bootstrapper.go\<close>. \<open>ConsensusNode\<close>:
    \<open>consensus/node.go\<close>, \<open>callbacks.go\<close>. \<open>GrpcForward\<close>: \<open>grpc/forward.go\<close>, \<open>server.go\<close>.
    \<open>Logging\<close>: \<open>logging/adapter.go\<close>.
  \<^item> \<open>NodeFacade\<close>: \<open>internal/node\<close>, which wires the parts together. \<open>TestNode\<close>: the environment,
    the choice of a discoverer and the storage of \<open>cmd/testnode\<close>.
  \<^item> This theory: properties across the components.

  \<^bold>\<open>Conventions.\<close> Structs are records whose fields have the Go names behind a prefix; a method
  is a function of the record that returns it changed. Everything outside the repository
  (memberlist, hashicorp/raft, the mDNS library, the resolver, gRPC, the storage, the clock,
  random numbers) is a record of functions on a world \<open>'w\<close>, which stands for all state that is
  not the node's own. Nothing is assumed of these functions unless a theorem names it:
  \<open>raft_laws\<close> (what AddVoter, RemoveServer and reads do to the configuration), \<open>raft_serves\<close> (the
  membership calls of the scenario succeed), \<open>boot_laws\<close> (what BootstrapCluster does to the
  stored configuration), \<open>stable_cluster\<close> (a leader and a configuration that do not change),
  \<open>poll_log\<close> (a world that records which polls the library answered, and how). Each theorem with
  such a hypothesis has a witness that runs it on a concrete library.

  An error is a value of \<open>goerr\<close>, nil is \<open>None\<close>, and a method that may panic returns a sum whose
  left side is the panic; a stop channel is a flag for open or closed, so that closing it twice is a
  panic. Methods that hold a mutex throughout are atomic. Where a method lets the mutex go or
  blocks, what other goroutines do meanwhile is an argument: one step for every point at which
  they may run. A \<open>select\<close> with several ready cases takes any of them in Go; the choice is a
  boolean that comes with the step (or, in the bootstrapper, from its environment), so the
  theorems hold for every choice. Log calls change nothing and are left out.

  \<^bold>\<open>Interfaces.\<close> \<open>codec\<close> says that decoding inverts encoding on well-formed data up to a view of
  it, and \<open>lossless_codec\<close> that nothing is lost; they are interpreted by base64, host:port
  addresses, gossip announcements, application broadcasts and mDNS TXT records. \<open>discoverer\<close> says
  that an error comes with no peers, and \<open>cancellable_discoverer\<close> that a cancelled context is
  reported; they are interpreted by the static, cascade, DNS and mDNS discoverers (a cascade
  reports cancellation only if it has a member, a case that the interpretations keep apart).

  \<^bold>\<open>What is shown.\<close>
  \<^item> Raft membership: a reconciliation pass makes the configuration the one that gossip calls
    for, a second pass asks for nothing; in every case, failing calls included, it asks only for
    justified changes and disturbs no peer in good standing. A join or a leave event
    changes exactly the peer that it is about.
  \<^item> Raft lifecycle: \<open>OnBootstrap\<close> and \<open>OnJoin\<close> either leave Raft running with one loop or leave
    nothing behind; a restarted node keeps its storage exactly when the cluster still has it;
    acceptance rests on polls of the call itself; Shutdown releases everything and a loop
    that is left over does no more work.
  \<^item> Announcements, broadcasts, mDNS records: they are read back as they were written, an
    announcement cut to the limit keeps its routing data, and an update event carries an
    announced address through all layers into the Raft configuration.
  \<^item> Discovery: the answer of a cascade for any discoverers and contexts; the summary of an
    mDNS query.
  \<^item> Bootstrapper: every state change is an edge of the diagram; a cluster is created only
    after the discoveries and the wait of the same pass found nobody; a run with a bound on its
    retries ends; a node joins a cluster that it finds and creates one if it is alone; bounds
    on the delays.
  \<^item> Consensus node and facade: one lifecycle callback in a run, in the turn that found the
    bootstrapper running; events about peers only; New, Stop and Apply.
  \<^item> Forwarding: at most two remote calls, the leader's answer when the network loses nothing,
    the timeout that the leader uses.
  Lemmas whose names say that something panics, is lost or is misattributed record behaviour of
  the code in cases that the main theorems exclude by a condition.

  \<^bold>\<open>Loops and fuel.\<close> Loops over lists are structural recursions. The polling loops of the Raft
  node and the consensus node recur over the list of steps of other goroutines, one
  for each iteration. For an acceptance check the list has the ticks before its deadline, so its
  end is the timeout of the code, and the attempts are the three of the code; for the
  reconciliation loop and \<open>waitForBootstrap\<close> the end of the list is where the observation stops,
  and the result says whether the loop has returned. The loop of the bootstrapper has a number of passes
  as fuel; with a positive \<open>MaxDiscoveryRetries\<close> that many passes are proved to be enough, and
  with zero, which means no bound in the code, the statements are about every number of passes.
  Forwarding counts its hops up to a constant, as the code does.

  \<^bold>\<open>What is not modelled.\<close> The generated protobuf code and the aliases of \<open>autoconsensus.go\<close>; in
  the facade the goroutine of \<open>Subscribe\<close> that copies state changes, the adapter of
  \<open>RegisterService\<close> and one-line getters; in \<open>cmd/testnode\<close> the HTTP handlers, signals and
  the FSM that does nothing; the text of log messages; deployment files. Raft's own
  consensus and memberlist's protocol are code outside of the repository.
\<close>

section \<open>From a peer's announcement to the Raft configuration\<close>

lemma member_bootstrapped_distinct:
  "m \<in> set ms \<Longrightarrow> distinct (map gi_ID ms) \<Longrightarrow> member_bootstrapped (gi_ID m) ms = gi_Bootstrapped m"
  by (induction ms) force+

lemma gi_ID_nodeToInfo [simp]: "gi_ID (nodeToInfo n) = ml_Name n"
  by (simp add: nodeToInfo_def Let_def)

text \<open>A running gossip layer as the Raft node calls it.\<close>

lemma gossip_object_Members:
  assumes "g_started h" and "g_list h = Some l"
  shows "fst (go_Members (gossip_object M) (Some h, w)) = map nodeToInfo (fst (ml_Members M l w))"
  using assms by (simp add: gossip_object_def gossip_Members_def split_beta)

lemma handlePeerJoin_live:
  assumes "rn_raft r = Some ra" and "rn_gossipFn r = Some (gossipFn M)" and "ci_ID (rn_selfInfo r) \<noteq> ci_ID peer"
  shows "handlePeerJoin L r peer (Some h, w) =
    handlePeerJoinWithRaft (rl_iface L ra) peer (Live (go_Members (gossip_object M))) (Some h, w)"
  using assms by (auto simp: handlePeerJoin_def provider_of_def gossipFn_def)

text \<open>
  C21. The layers fit together. A peer that is bootstrapped announces its Raft address through its
  gossip delegate; memberlist hands the announcement to the other nodes. On the leader, whose
  Raft calls succeed and whose gossip lists its members under distinct names, the event runs through the consensus node, its callbacks and the Raft node, and afterwards the Raft
  configuration holds exactly the previous servers and the peer under the address that it
  announced, if an old address was on record then in place of it.
\<close>

theorem announcement_reaches_raft:
  assumes raft: "raft_laws (rl_iface L ra) conf" "raft_serves (rl_iface L ra)"
    and quiet: "quiet_members (go_Members (gossip_object M)) conf"
    and role: "ri_State (rl_iface L ra) (Some h, w) = (Leader, Some h, w1)"
    and node: "rn_raft r = Some ra" "rn_gossipFn r = Some (gossipFn M)" "ci_ID (rn_selfInfo r) \<noteq> name"
    and consensus: "cn_callbacks cn = raft_callbacks_of L Ot" "ci_ID (cn_localInfo cn) \<noteq> name"
    and announced: "no_bar d" "int (length (full_meta d)) \<le> limit" "NodeMeta d limit = Inr m"
      "d_bootstrapped d" "d_raftAddr d \<noteq> ''''"
    and listed: "g_started h" "g_list h = Some l"
      "\<lparr>ml_Name = name, ml_Meta = m, ml_State = st\<rparr> \<in> set (fst (ml_Members M l w1))"
      "distinct (map ml_Name (fst (ml_Members M l w1)))"
  shows "\<exists>gw. cs_OnUpdate cn (nodeToInfo \<lparr>ml_Name = name, ml_Meta = m, ml_State = st\<rparr>) (Inr r, Some h, w) = (Inr r, gw) \<and>
    conf gw = (conf (Some h, w))(name \<mapsto> d_raftAddr d)"
proof -
  let ?n = "\<lparr>ml_Name = name, ml_Meta = m, ml_State = st\<rparr>"
  let ?ms = "map nodeToInfo (fst (ml_Members M l w1))"
  let ?peer = "\<lparr>ci_ID = name, ci_RaftAddr = d_raftAddr d\<rparr>"
  have "m = full_meta d" using announced(2,3) by (simp add: NodeMeta_def Let_def)
  then have info: "nodeToInfo ?n = announced_info name st d" using nodeToInfo_full_meta [OF announced(1)] by simp
  have "nodeToInfo ?n \<in> set ?ms" using listed(3) by force
  moreover have "distinct (map gi_ID ?ms)" using listed(4) by (simp add: comp_def)
  ultimately have "member_bootstrapped name ?ms"
    using member_bootstrapped_distinct [of "nodeToInfo ?n" ?ms] announced(4) info
    by (simp add: announced_info_def)
  then obtain gw where gw: "handlePeerJoinWithRaft (rl_iface L ra) ?peer (Live (go_Members (gossip_object M))) (Some h, w) = Inr gw"
    "conf gw = (conf (Some h, w))(name \<mapsto> d_raftAddr d)"
    using peer_join_applies [OF raft quiet, of ?peer "(Some h, w)"] role announced(5)
      gossip_object_Members [OF listed(1,2)] by auto
  have "cs_OnUpdate cn (nodeToInfo ?n) (Inr r, Some h, w) = (Inr r, gw)"
    using gw(1) consensus node info handlePeerJoin_live [OF node(1,2), of ?peer L h w]
    by (simp add: cs_OnUpdate_def raft_callbacks_of_def peer_of_def announced_info_def)
  then show ?thesis using gw(2) by blast
qed

text \<open>A world that is the Raft configuration itself, with one peer in the gossip membership.\<close>

definition on_gw :: "('w \<Rightarrow> 'a \<times> 'w) \<Rightarrow> 'w gw \<Rightarrow> 'a \<times> 'w gw" where
  "on_gw f = (\<lambda>(g, w). (fst (f w), g, snd (f w)))"

definition lifted :: "'w raftInterface \<Rightarrow> 'w gw raftInterface" where
  "lifted ra = \<lparr>ri_State = on_gw (ri_State ra), ri_GetConfiguration = on_gw (ri_GetConfiguration ra),
     ri_AddVoter = \<lambda>i a p t. on_gw (ri_AddVoter ra i a p t), ri_RemoveServer = \<lambda>i p t. on_gw (ri_RemoveServer ra i p t)\<rparr>"

lemma lifted_laws: "raft_laws ra conf \<Longrightarrow> raft_laws (lifted ra) (\<lambda>gw. conf (snd gw))"
  unfolding raft_laws_def lifted_def by (auto simp: on_gw_def split_beta) (metis prod.collapse)+

lemma lifted_serves: "raft_serves ra \<Longrightarrow> raft_serves (lifted ra)"
  by (auto simp: raft_serves_def lifted_def on_gw_def split_beta)


text \<open>The peer announces \<open>sample_delegate\<close>, whose Raft address is new to the configuration.\<close>

definition announcing_peer :: mlnode where
  "announcing_peer = \<lparr>ml_Name = ''n2'', ml_Meta = full_meta sample_delegate, ml_State = 0\<rparr>"

definition conf_ml :: "(string \<times> string) list ml_api" where
  "conf_ml =
     \<lparr>ml_DefaultLANConfig = ml_DefaultLANConfig sample_ml, ml_NewKeyring = \<lambda>k. Inr 0,
      ml_LookupIP = \<lambda>h w. (Inr [], w), ml_Create = \<lambda>c d e w. (Inr 1, w), ml_NewQueue = \<lambda>l r w. (2, w),
      ml_Leave = \<lambda>l t w. (None, w), ml_Shutdown = \<lambda>l w. (None, w), ml_Join = \<lambda>l ps w. ((0, None), w),
      ml_Members = \<lambda>l w. ([announcing_peer], w), ml_LocalNode = \<lambda>l w. (announcing_peer, w),
      ml_NumMembers = \<lambda>l w. (1, w), ml_UpdateNode = \<lambda>l d t w. (None, w)\<rparr>"

definition conf_lib :: "(string \<times> string) list gw raft_lib" where
  "conf_lib =
     \<lparr>rl_iface = \<lambda>_. lifted mem_raft, rl_LeaderWithID = \<lambda>_ v. ((''a'', ''n1''), v), rl_Apply = \<lambda>_ _ _ v. (0, v),
      rl_Shutdown = \<lambda>_ v. (None, v), rl_BootstrapCluster = \<lambda>_ _ v. (None, v),
      rl_HasExistingState = \<lambda>_ v. ((False, None), v),
      rl_ResolveTCPAddr = \<lambda>a v. (Inr \<lparr>ta_IP = a, ta_Port = 7000\<rparr>, v), rl_ListenTCP = \<lambda>_ v. (Inr (0, 1), v),
      rl_CloseListener = \<lambda>_ v. v, rl_NewTCPTransport = \<lambda>_ _ v. (Inr 1, v), rl_LocalAddr = \<lambda>_. ''a:7000'',
      rl_CloseTransport = \<lambda>_ v. v, rl_NewRaft = \<lambda>_ _ _ v. (Inr 2, v), rl_ErrCantBootstrap = Foreign ''x''\<rparr>"

definition conf_gossip :: "(string \<times> string) list gossip" where
  "conf_gossip = \<lparr>g_config = sample_gossip_config, g_list = Some 1, g_delegate = newDelegate [] [],
     g_events = NoopEventHandler, g_started = True\<rparr>"

definition conf_node :: "(string \<times> string) list gw raft_node" where
  "conf_node = \<lparr>rn_raft = Some 2,
      rn_config = \<lparr>rc_NodeID = ''n1'', rc_BindAddr = [], rc_AdvertiseAddr = [], rc_ReconcileInterval = 1\<rparr>,
      rn_storages = \<lparr>st_LogStore = 0, st_StableStore = 0, st_SnapshotStore = 0\<rparr>,
      rn_factory = \<lparr>sf_Create = \<lambda>v. (Inr \<lparr>st_LogStore = 0, st_StableStore = 0, st_SnapshotStore = 0\<rparr>, v), sf_Reset = \<lambda>v. (None, v)\<rparr>,
      rn_transport = Some 1, rn_gossipFn = Some (gossipFn conf_ml),
      rn_selfInfo = \<lparr>ci_ID = ''n1'', ci_RaftAddr = []\<rparr>, rn_running = True, rn_started = True,
      rn_chans = [False], rn_stopCh = 0, rn_loops = 1\<rparr>"

definition conf_others :: "(string \<times> string) list gw others" where
  "conf_others = \<lparr>ot_accept_wait = \<lambda>_. (\<lambda>x. x, True), ot_ticks = \<lambda>_. [], ot_reset_wait = (\<lambda>x. x, True)\<rparr>"

definition conf_bootstrapper :: "(string \<times> string) list bootstrapper" where
  "conf_bootstrapper =
     \<lparr>b_config = \<lparr>bc_NodeID = ''n1'', bc_GossipAddr = [], bc_GossipAdvertiseAddr = [], bc_RaftAdvertiseAddr = [],
        bc_SecretKey = [], bc_NetworkMode = LAN, bc_CanBootstrap = True, bc_DiscoveryTimeout = 0,
        bc_MaxDiscoveryRetries = 0, bc_EventHandler = None, bc_MDNSService = [], bc_MDNSDomain = []\<rparr>,
      b_state = StateRunning, b_mdnsAdvertiser = None, b_gossip = Some conf_gossip, b_discoverer = None,
      b_didBootstrap = True, b_stopCh = Some False, b_subscribers = []\<rparr>"

definition conf_cn :: "((string \<times> string) list rstate, (string \<times> string) list) consensus_node" where
  "conf_cn =
     \<lparr>cn_callbacks = raft_callbacks_of conf_lib conf_others, cn_bootstrapper = conf_bootstrapper,
      cn_running = True, cn_localInfo = \<lparr>ci_ID = ''n1'', ci_RaftAddr = []\<rparr>, cn_chans = [False], cn_stopCh = Some 0,
      cn_appOnJoin = None, cn_appOnLeave = None\<rparr>"

lemma conf_ml_quiet: "quiet_members (go_Members (gossip_object conf_ml)) (\<lambda>gw. map_of (snd gw))"
  by (auto simp: quiet_members_def gossip_object_def gossip_Members_def conf_ml_def split: option.splits)

lemma conf_lib_iface: "rl_iface conf_lib ra = lifted mem_raft"
  by (simp add: conf_lib_def)

lemma announcing_peer_fits: "no_bar sample_delegate" "int (length (full_meta sample_delegate)) \<le> 512"
  by (simp_all add: sample_delegate_def no_bar_def full_meta_def)

theorem announcement_reaches_raft_witness:
  "\<exists>gw. cs_OnUpdate conf_cn (nodeToInfo \<lparr>ml_Name = ''n2'', ml_Meta = full_meta sample_delegate, ml_State = 0\<rparr>)
      (Inr conf_node, Some conf_gossip, sample_cluster) = (Inr conf_node, gw) \<and>
    map_of (snd gw) = (map_of (snd (Some conf_gossip, sample_cluster)))(''n2'' \<mapsto> d_raftAddr sample_delegate)"
proof (rule announcement_reaches_raft [where conf = "\<lambda>gw. map_of (snd gw)" and L = conf_lib and ra = 2 and M = conf_ml
        and Ot = conf_others and limit = 512 and l = 1 and ?w1.0 = sample_cluster, unfolded conf_lib_iface])
  show "raft_laws (lifted mem_raft) (\<lambda>gw. map_of (snd gw))" by (rule lifted_laws [OF mem_raft_laws])
  show "raft_serves (lifted mem_raft)" by (rule lifted_serves [OF mem_raft_serves])
  show "quiet_members (go_Members (gossip_object conf_ml)) (\<lambda>gw. map_of (snd gw))" by (rule conf_ml_quiet)
  show "no_bar sample_delegate" "int (length (full_meta sample_delegate)) \<le> 512" by (fact announcing_peer_fits)+
  show "NodeMeta sample_delegate 512 = Inr (full_meta sample_delegate)"
    using announcing_peer_fits by (simp add: NodeMeta_def)
qed (simp_all add: conf_cn_def conf_node_def conf_gossip_def announcing_peer_def
    sample_delegate_def lifted_def on_gw_def mem_raft_def conf_ml_def)

end
